(* ===== verification/Accel_Prelude.thy ===== *)
theory Accel_Prelude
  imports Main "HOL-Library.Word" "HOL-Library.Monad_Syntax"
begin

section \<open>Prelude: C values, C failures, shared lemmas\<close>

text \<open>
  What every component of the vmaccel model shares: the names of the machine types, the
  ways in which the C and C++ code can fail to return, and the generic lemmas on words,
  lists and results that the component proofs use.

  A C function that can abort is modelled as a function into \<open>'a cres\<close>, a sum whose left
  side names the failure: \<^verbatim>\<open>FALSE\<close> returned by an XDR procedure, a failed \<^verbatim>\<open>assert\<close>, an access
  outside an array, a use of a NULL pointer or of freed memory, a
  loop or a lock that waits for ever, or a call of \<^verbatim>\<open>exit\<close>.  Failures a function reports to its caller (a
  status code, a false result) are ordinary values.
\<close>

unbundle bit_operations_syntax

type_synonym byte = "8 word"
type_synonym u32 = "32 word"
type_synonym u64 = "64 word"

named_theorems cres_simps \<open>rewriting of results of C functions\<close>

subsection \<open>Results of C functions\<close>

datatype c_error = ReturnsFalse | AssertFailed | OutOfBounds | NullPointer | Spins | Exits | Dangling

type_synonym 'a cres = "c_error + 'a"

definition cbind :: "'a cres \<Rightarrow> ('a \<Rightarrow> 'b cres) \<Rightarrow> 'b cres" where
  "cbind m f = (case m of Inl e \<Rightarrow> Inl e | Inr x \<Rightarrow> f x)"

lemma cbind_Inl [simp, cres_simps]: "cbind (Inl e) f = Inl e"
  and cbind_Inr [simp, cres_simps]: "cbind (Inr x) f = f x"
  by (simp_all add: cbind_def)

lemma cbind_eq_Inr [cres_simps]:
  "cbind m f = Inr y \<longleftrightarrow> (\<exists>x. m = Inr x \<and> f x = Inr y)"
  by (cases m) simp_all

lemma cbind_eq_InrE [elim]:
  assumes "cbind m f = Inr y"
  obtains x where "m = Inr x" and "f x = Inr y"
  using assms by (auto simp: cbind_eq_Inr)

lemma cbind_eq_Inl:
  "cbind m f = Inl e \<longleftrightarrow> m = Inl e \<or> (\<exists>x. m = Inr x \<and> f x = Inl e)"
  by (cases m) simp_all

lemma cbind_assoc: "cbind (cbind m f) g = cbind m (\<lambda>x. cbind (f x) g)"
  by (cases m) simp_all

lemma cbind_id [simp]: "cbind m Inr = m" "cbind m (\<lambda>(x, y). Inr (x, y)) = m"
  by (cases m; auto)+

lemma cbind_cong [fundef_cong]:
  assumes "m = m'" and "\<And>x. m' = Inr x \<Longrightarrow> f x = g x"
  shows "cbind m f = cbind m' g"
  using assms by (cases m') simp_all

text \<open>Array reads and writes, with the bound the C code does not check.\<close>

definition cread :: "'a list \<Rightarrow> nat \<Rightarrow> 'a cres" where
  "cread xs i = (if i < length xs then Inr (xs ! i) else Inl OutOfBounds)"

definition cwrite :: "'a list \<Rightarrow> nat \<Rightarrow> 'a \<Rightarrow> 'a list cres" where
  "cwrite xs i v = (if i < length xs then Inr (xs[i := v]) else Inl OutOfBounds)"

definition cassert :: "bool \<Rightarrow> unit cres" where
  "cassert b = (if b then Inr () else Inl AssertFailed)"

lemma cread_Inr [simp]: "i < length xs \<Longrightarrow> cread xs i = Inr (xs ! i)"
  and cread_Inl [simp]: "length xs \<le> i \<Longrightarrow> cread xs i = Inl OutOfBounds"
  and cread_eq_Inr [cres_simps]: "cread xs i = Inr v \<longleftrightarrow> i < length xs \<and> xs ! i = v"
  by (auto simp: cread_def)

lemma cwrite_Inr [simp]: "i < length xs \<Longrightarrow> cwrite xs i v = Inr (xs[i := v])"
  and cwrite_Inl [simp]: "length xs \<le> i \<Longrightarrow> cwrite xs i v = Inl OutOfBounds"
  and cwrite_eq_Inr [cres_simps]:
    "cwrite xs i v = Inr ys \<longleftrightarrow> i < length xs \<and> ys = xs[i := v]"
  by (auto simp: cwrite_def)

lemma cassert_simps [simp]: "cassert True = Inr ()" "cassert False = Inl AssertFailed"
  by (simp_all add: cassert_def)

lemma cassert_eq_Inr [cres_simps]: "cassert b = Inr u \<longleftrightarrow> b"
  by (simp add: cassert_def)

subsection \<open>Words\<close>

lemma bit_and_mask: "bit (w AND mask n) i \<longleftrightarrow> bit w i \<and> i < n" for w :: "'a::len word"
  by (auto simp: bit_simps dest: bit_imp_le_length)

lemma and_mask_eq_mask_iff:
  fixes w :: "'a::len word"
  assumes "n \<le> LENGTH('a)"
  shows "w AND mask n = mask n \<longleftrightarrow> (\<forall>i<n. bit w i)"
  unfolding bit_eq_iff bit_and_mask using assms
  by (auto simp: bit_mask_iff dest: bit_imp_le_length order.strict_trans2)

lemma and_mask_eq_0_iff:
  fixes w :: "'a::len word"
  shows "w AND mask n = 0 \<longleftrightarrow> (\<forall>i<n. \<not> bit w i)"
  unfolding bit_eq_iff bit_and_mask by (auto dest: bit_imp_le_length)

lemma word_all_ones_iff: "w = - 1 \<longleftrightarrow> (\<forall>i<LENGTH('a). bit w i)" for w :: "'a::len word"
  by (auto simp: bit_eq_iff bit_simps)

lemma word_zero_iff: "w = 0 \<longleftrightarrow> (\<forall>i<LENGTH('a). \<not> bit w i)" for w :: "'a::len word"
  by (auto simp: bit_eq_iff bit_simps dest: bit_imp_le_length)

lemma unat_div32 [simp]: "unat (w div 32 :: u32) = unat w div 32"
  by (simp add: unat_div)

lemma unat_mod32 [simp]: "unat (w mod 32 :: u32) = unat w mod 32"
  by (simp add: unat_mod)

lemma unat_less_iff: "unat a < unat b \<longleftrightarrow> a < b" for a b :: "'a::len word"
  by (simp add: word_less_nat_alt)

lemma unat_le_iff: "unat a \<le> unat b \<longleftrightarrow> a \<le> b" for a b :: "'a::len word"
  by (simp add: word_le_nat_alt)

text \<open>Two fallible computations related step by step: the same failure, or related results.\<close>

lemma rel_sum_cbind:
  assumes "rel_sum (=) R a b" and "\<And>x y. R x y \<Longrightarrow> rel_sum (=) S (f x) (g y)"
  shows "rel_sum (=) S (cbind a f) (cbind b g)"
  using assms by (cases a; cases b) auto

end
