(* ===== verification/Std_Multiset.thy ===== *)
theory Std_Multiset
  imports Accel_Prelude "HOL-Library.Tree" "HOL-Library.Multiset"
begin

section \<open>The ordered container of the allocator\<close>

text \<open>
  The allocator keeps its free objects in a \<^verbatim>\<open>std::multiset\<close> with a comparator of the object
  type.  The comparators of vmaccel are not strict weak orderings once objects of two
  parents are in the set, so the order alone does not determine what a search finds; what
  the search tree of the C++ library does is modelled instead: a binary tree whose nodes
  carry a colour, searched and extended from the root as \<^verbatim>\<open>std::multiset\<close> does.  How the tree is
  rebalanced after an insertion and after an erasure is a parameter (\<open>rb\<close>), about which only
  \<open>rb_ok\<close> is assumed: rebalancing keeps the sequence of elements, and erasing removes the
  element of the iterator and keeps the others in order.
\<close>

type_synonym 'a pool = "('a \<times> bool) tree"

record 'a rb =
  rb_rebalance :: "'a pool \<Rightarrow> 'a pool"
  rb_erase :: "nat \<Rightarrow> 'a pool \<Rightarrow> 'a pool"

definition elems :: "'a pool \<Rightarrow> 'a list" where
  "elems t = map fst (inorder t)"

definition remove_at :: "nat \<Rightarrow> 'a list \<Rightarrow> 'a list" where
  "remove_at i xs = take i xs @ drop (Suc i) xs"

definition rb_ok :: "'a rb \<Rightarrow> bool" where
  "rb_ok rb \<longleftrightarrow> (\<forall>t. elems (rb_rebalance rb t) = elems t) \<and>
     (\<forall>i t. i < length (elems t) \<longrightarrow> elems (rb_erase rb i t) = remove_at i (elems t))"

text \<open>\<^verbatim>\<open>lower_bound\<close> and \<^verbatim>\<open>upper_bound\<close>: the position of the element found, \<open>None\<close> for \<^verbatim>\<open>end()\<close>.\<close>

fun lower_bound :: "('a \<Rightarrow> 'a \<Rightarrow> bool) \<Rightarrow> 'a pool \<Rightarrow> 'a \<Rightarrow> nat option" where
  "lower_bound cmp Leaf k = None"
| "lower_bound cmp (Node l xc r) k =
     (if \<not> cmp (fst xc) k
      then (case lower_bound cmp l k of None \<Rightarrow> Some (size l) | Some i \<Rightarrow> Some i)
      else map_option (\<lambda>i. Suc (size l) + i) (lower_bound cmp r k))"

fun upper_bound :: "('a \<Rightarrow> 'a \<Rightarrow> bool) \<Rightarrow> 'a pool \<Rightarrow> 'a \<Rightarrow> nat option" where
  "upper_bound cmp Leaf k = None"
| "upper_bound cmp (Node l xc r) k =
     (if cmp k (fst xc)
      then (case upper_bound cmp l k of None \<Rightarrow> Some (size l) | Some i \<Rightarrow> Some i)
      else map_option (\<lambda>i. Suc (size l) + i) (upper_bound cmp r k))"

fun insert_leaf :: "('a \<Rightarrow> 'a \<Rightarrow> bool) \<Rightarrow> 'a \<Rightarrow> 'a pool \<Rightarrow> 'a pool" where
  "insert_leaf cmp y Leaf = Node Leaf (y, True) Leaf"
| "insert_leaf cmp y (Node l xc r) =
     (if cmp y (fst xc) then Node (insert_leaf cmp y l) xc r else Node l xc (insert_leaf cmp y r))"

definition pool_insert :: "'a rb \<Rightarrow> ('a \<Rightarrow> 'a \<Rightarrow> bool) \<Rightarrow> 'a \<Rightarrow> 'a pool \<Rightarrow> 'a pool" where
  "pool_insert rb cmp y t = rb_rebalance rb (insert_leaf cmp y t)"

text \<open>The first position with a property, as the loops from \<^verbatim>\<open>begin()\<close> find it.\<close>

fun find_pos :: "('a \<Rightarrow> bool) \<Rightarrow> 'a list \<Rightarrow> nat option" where
  "find_pos P [] = None"
| "find_pos P (x # xs) = (if P x then Some 0 else map_option Suc (find_pos P xs))"

subsection \<open>Facts\<close>

lemma length_elems [simp]: "length (elems t) = size t"
  by (simp add: elems_def)

lemma elems_simps [simp]: "elems Leaf = []" "elems (Node l xc r) = elems l @ fst xc # elems r"
  by (simp_all add: elems_def)

lemma mset_insert_leaf: "mset (elems (insert_leaf cmp y t)) = add_mset y (mset (elems t))"
  by (induction t) auto

lemma mset_pool_insert: "rb_ok rb \<Longrightarrow> mset (elems (pool_insert rb cmp y t)) = add_mset y (mset (elems t))"
  by (simp add: pool_insert_def rb_ok_def mset_insert_leaf)

lemma mset_remove_at:
  assumes "i < length xs" shows "add_mset (xs ! i) (mset (remove_at i xs)) = mset xs"
proof -
  have "mset xs = mset (take i xs @ xs ! i # drop (Suc i) xs)" using id_take_nth_drop [OF assms] by simp
  then show ?thesis by (simp add: remove_at_def)
qed

lemma mset_erase:
  assumes "rb_ok rb" and "i < size t"
  shows "add_mset (elems t ! i) (mset (elems (rb_erase rb i t))) = mset (elems t)"
  using assms mset_remove_at [of i "elems t"] by (simp add: rb_ok_def)

text \<open>Whatever the shape of the tree, what a search returns is an element that is not
  before the key.\<close>

lemma lower_bound_sound:
  "lower_bound cmp t k = Some i \<Longrightarrow> i < size t \<and> \<not> cmp (elems t ! i) k"
proof (induction t arbitrary: i)
  case (Node l xc r)
  show ?case
  proof (cases "cmp (fst xc) k")
    case True
    with Node.prems obtain j where "lower_bound cmp r k = Some j" "i = Suc (size l) + j" by auto
    with Node.IH(2) [of j] show ?thesis by (simp add: nth_append)
  next
    case False
    show ?thesis
    proof (cases "lower_bound cmp l k")
      case None
      with False Node.prems show ?thesis by (auto simp: nth_append)
    next
      case (Some j)
      with False Node.prems Node.IH(1) [of j] show ?thesis by (auto simp: nth_append)
    qed
  qed
qed simp

lemma lower_bound_singleton: "lower_bound cmp (Node Leaf xc Leaf) k = (if cmp (fst xc) k then None else Some 0)"
  by simp

lemma find_pos_Some: "find_pos P xs = Some i \<Longrightarrow> i < length xs \<and> P (xs ! i)"
  by (induction xs arbitrary: i) (auto split: if_splits)

lemma find_pos_None: "find_pos P xs = None \<longleftrightarrow> (\<forall>x\<in>set xs. \<not> P x)"
  by (induction xs) auto

end
