(* ===== verification/Xdr_Runtime.thy ===== *)
theory Xdr_Runtime
  imports Accel_Prelude
begin

section \<open>XDR streams and primitives\<close>

text \<open>
  The XDR procedures of \<^verbatim>\<open>src/accelerators/*/src/*_rpc_xdr.c\<close> are written over the
  \<^verbatim>\<open>xdr(3)\<close> part of the C library: a stream with an operation (encode, decode, free) and
  the primitives \<^verbatim>\<open>xdr_u_int\<close>, \<^verbatim>\<open>xdr_bytes\<close>, \<^verbatim>\<open>xdr_array\<close>, \<^verbatim>\<open>xdr_pointer\<close> and
  \<^verbatim>\<open>XDR_INLINE\<close>.  This theory models those as documented by \<^verbatim>\<open>xdr(3)\<close> and RFC 4506.

  A stream holds the bytes written so far and the room left for more, the bytes not read
  yet, and for each coming \<^verbatim>\<open>XDR_INLINE\<close> request whether the transport would lend its
  buffer.  A procedure takes a stream and the object behind \<^verbatim>\<open>objp\<close> and returns both
  updated; \<^verbatim>\<open>FALSE\<close> is \<open>Inl ReturnsFalse\<close>.
\<close>

datatype xdr_op = XDR_ENCODE | XDR_DECODE | XDR_FREE

record XDR =
  x_op :: xdr_op
  x_out :: "byte list"
  x_room :: nat
  x_in :: "byte list"
  x_handy :: "bool list"

type_synonym 'a xdrproc = "XDR \<Rightarrow> 'a \<Rightarrow> (XDR \<times> 'a) cres"

text \<open>A counted C array, \<^verbatim>\<open>struct { u_int f_len; T *f_val; } f\<close>: the length field and the block
  the pointer refers to (\<open>None\<close> for a null pointer).\<close>

datatype 'a c_vec = Vec (vec_len: u32) (vec_val: "'a list option")

definition be32 :: "u32 \<Rightarrow> byte list" where
  "be32 w = [ucast (drop_bit 24 w), ucast (drop_bit 16 w), ucast (drop_bit 8 w), ucast w]"

fun from_be32 :: "byte list \<Rightarrow> u32" where
  "from_be32 [a, b, c, d] =
     push_bit 24 (ucast a) OR push_bit 16 (ucast b) OR push_bit 8 (ucast c) OR ucast d"
| "from_be32 _ = 0"

definition putbytes :: "XDR \<Rightarrow> byte list \<Rightarrow> XDR cres" where
  "putbytes x bs = (if length bs \<le> x_room x
     then Inr (x\<lparr>x_out := x_out x @ bs, x_room := x_room x - length bs\<rparr>) else Inl ReturnsFalse)"

definition getbytes :: "XDR \<Rightarrow> nat \<Rightarrow> (byte list \<times> XDR) cres" where
  "getbytes x n = (if n \<le> length (x_in x)
     then Inr (take n (x_in x), x\<lparr>x_in := drop n (x_in x)\<rparr>) else Inl ReturnsFalse)"

definition xdr_u_int :: "u32 xdrproc" where
  "xdr_u_int x v = (case x_op x of
       XDR_ENCODE \<Rightarrow> cbind (putbytes x (be32 v)) (\<lambda>x. Inr (x, v))
     | XDR_DECODE \<Rightarrow> cbind (getbytes x 4) (\<lambda>(bs, x). Inr (x, from_be32 bs))
     | XDR_FREE \<Rightarrow> Inr (x, v))"

text \<open>A C \<^verbatim>\<open>int\<close>, an enumeration and a \<^verbatim>\<open>float\<close> are their 32-bit patterns, a \<^verbatim>\<open>double\<close> its
  64-bit pattern, sent high half first.\<close>

definition xdr_int :: "u32 xdrproc" where
  "xdr_int = xdr_u_int"

definition xdr_enum :: "u32 xdrproc" where
  "xdr_enum = xdr_u_int"

definition xdr_float :: "u32 xdrproc" where
  "xdr_float = xdr_u_int"

definition xdr_double :: "u64 xdrproc" where
  "xdr_double x v = cbind (xdr_u_int x (ucast (drop_bit 32 v))) (\<lambda>(x, hi).
     cbind (xdr_u_int x (ucast v)) (\<lambda>(x, lo). Inr (x, push_bit 32 (ucast hi) OR ucast lo)))"

definition xdr_bool :: "bool xdrproc" where
  "xdr_bool x v = (case x_op x of
       XDR_ENCODE \<Rightarrow> cbind (putbytes x (be32 (if v then 1 else 0))) (\<lambda>x. Inr (x, v))
     | XDR_DECODE \<Rightarrow> cbind (getbytes x 4) (\<lambda>(bs, x). Inr (x, from_be32 bs \<noteq> 0))
     | XDR_FREE \<Rightarrow> Inr (x, v))"

definition pad :: "nat \<Rightarrow> nat" where
  "pad n = (4 - n mod 4) mod 4"

definition xdr_opaque_put :: "XDR \<Rightarrow> byte list \<Rightarrow> XDR cres" where
  "xdr_opaque_put x bs = (if bs = [] then Inr x
     else cbind (putbytes x bs) (\<lambda>x.
       if pad (length bs) = 0 then Inr x else putbytes x (replicate (pad (length bs)) 0)))"

definition xdr_opaque_get :: "XDR \<Rightarrow> nat \<Rightarrow> (byte list \<times> XDR) cres" where
  "xdr_opaque_get x n = (if n = 0 then Inr ([], x)
     else cbind (getbytes x n) (\<lambda>(bs, x).
       if pad n = 0 then Inr (bs, x) else cbind (getbytes x (pad n)) (\<lambda>(_, x). Inr (bs, x))))"

text \<open>\<^verbatim>\<open>xdr_bytes\<close>: the length, then the opaque bytes.  A decode allocates the block when the
  pointer is null and otherwise writes into the block there.\<close>

definition xdr_bytes :: "u32 \<Rightarrow> byte c_vec xdrproc" where
  "xdr_bytes maxsize x v = cbind (xdr_u_int x (vec_len v)) (\<lambda>(x, n).
     if maxsize < n \<and> x_op x \<noteq> XDR_FREE then Inl ReturnsFalse
     else case x_op x of
       XDR_DECODE \<Rightarrow>
         if n = 0 then Inr (x, Vec n (vec_val v))
         else (case vec_val v of
             None \<Rightarrow> cbind (xdr_opaque_get x (unat n)) (\<lambda>(bs, x). Inr (x, Vec n (Some bs)))
           | Some old \<Rightarrow>
               if length old < unat n then Inl OutOfBounds
               else cbind (xdr_opaque_get x (unat n)) (\<lambda>(bs, x).
                 Inr (x, Vec n (Some (bs @ drop (unat n) old)))))
     | XDR_ENCODE \<Rightarrow> (case vec_val v of
           None \<Rightarrow> if n = 0 then Inr (x, v) else Inl NullPointer
         | Some bs \<Rightarrow>
             if length bs < unat n then Inl OutOfBounds
             else cbind (xdr_opaque_put x (take (unat n) bs)) (\<lambda>x. Inr (x, v)))
     | XDR_FREE \<Rightarrow> Inr (x, Vec n None))"

fun xdr_elems :: "'a xdrproc \<Rightarrow> 'a list xdrproc" where
  "xdr_elems elproc x [] = Inr (x, [])"
| "xdr_elems elproc x (e # es) = cbind (elproc x e) (\<lambda>(x, e).
     cbind (xdr_elems elproc x es) (\<lambda>(x, es). Inr (x, e # es)))"

text \<open>\<^verbatim>\<open>xdr_array\<close>: \<open>elzero\<close> is an element of zero bytes, what \<^verbatim>\<open>mem_alloc\<close> and \<^verbatim>\<open>memset\<close> leave.\<close>

definition xdr_array :: "u32 \<Rightarrow> u32 \<Rightarrow> 'a \<Rightarrow> 'a xdrproc \<Rightarrow> 'a c_vec xdrproc" where
  "xdr_array maxsize elsize elzero elproc x v = cbind (xdr_u_int x (vec_len v)) (\<lambda>(x, c).
     if (maxsize < c \<or> 0xffffffff div elsize < c) \<and> x_op x \<noteq> XDR_FREE then Inl ReturnsFalse
     else case vec_val v of
       None \<Rightarrow> (case x_op x of
           XDR_DECODE \<Rightarrow>
             if c = 0 then Inr (x, Vec c None)
             else cbind (xdr_elems elproc x (replicate (unat c) elzero)) (\<lambda>(x, es). Inr (x, Vec c (Some es)))
         | XDR_ENCODE \<Rightarrow> if c = 0 then Inr (x, v) else Inl NullPointer
         | XDR_FREE \<Rightarrow> Inr (x, Vec c None))
     | Some es \<Rightarrow>
         if length es < unat c then Inl OutOfBounds
         else cbind (xdr_elems elproc x (take (unat c) es)) (\<lambda>(x, es').
           Inr (x, Vec c (if x_op x = XDR_FREE then None else Some (es' @ drop (unat c) es)))))"

definition xdr_reference :: "'a \<Rightarrow> 'a xdrproc \<Rightarrow> 'a option xdrproc" where
  "xdr_reference zero proc x p = (case p of
       None \<Rightarrow> (case x_op x of
           XDR_FREE \<Rightarrow> Inr (x, None)
         | XDR_DECODE \<Rightarrow> cbind (proc x zero) (\<lambda>(x, v). Inr (x, Some v))
         | XDR_ENCODE \<Rightarrow> Inl NullPointer)
     | Some v \<Rightarrow> cbind (proc x v) (\<lambda>(x, v). Inr (x, if x_op x = XDR_FREE then None else Some v)))"

definition xdr_pointer :: "'a \<Rightarrow> 'a xdrproc \<Rightarrow> 'a option xdrproc" where
  "xdr_pointer zero proc x p = cbind (xdr_bool x (p \<noteq> None)) (\<lambda>(x, more_data).
     if \<not> more_data then Inr (x, None) else xdr_reference zero proc x p)"

text \<open>\<^verbatim>\<open>XDR_INLINE\<close>: a null pointer, or \<open>n\<close> bytes of the stream's buffer, which moves past
  them.\<close>

definition XDR_INLINE :: "XDR \<Rightarrow> nat \<Rightarrow> byte list option \<times> XDR" where
  "XDR_INLINE x n =
     (let lend = (case x_handy x of [] \<Rightarrow> False | b # _ \<Rightarrow> b); x = x\<lparr>x_handy := tl (x_handy x)\<rparr>
      in case x_op x of
        XDR_DECODE \<Rightarrow> if lend \<and> n \<le> length (x_in x)
          then (Some (take n (x_in x)), x\<lparr>x_in := drop n (x_in x)\<rparr>) else (None, x)
      | _ \<Rightarrow> if lend \<and> n \<le> x_room x then (Some [], x\<lparr>x_room := x_room x - n\<rparr>) else (None, x))"

text \<open>The generated code asks for \<^verbatim>\<open>n\<close> words inline and fills or reads them with
  \<^verbatim>\<open>IXDR_PUT_U_LONG\<close> and \<^verbatim>\<open>IXDR_GET_U_LONG\<close>, or runs the procedures field by field when
  there is no buffer.  Filling more words than asked overruns the buffer and filling fewer
  leaves bytes of it undefined.\<close>

definition inline_put :: "nat \<Rightarrow> ('r \<Rightarrow> u32) list \<Rightarrow> 'r xdrproc \<Rightarrow> 'r xdrproc" where
  "inline_put n gets slow x obj = (case XDR_INLINE x (n * 4) of
       (None, x) \<Rightarrow> slow x obj
     | (Some _, x) \<Rightarrow> if length gets = n
         then Inr (x\<lparr>x_out := x_out x @ concat (map (\<lambda>g. be32 (g obj)) gets)\<rparr>, obj)
         else Inl OutOfBounds)"

fun get_words :: "byte list \<Rightarrow> ((u32 \<Rightarrow> u32) \<Rightarrow> 'r \<Rightarrow> 'r) list \<Rightarrow> 'r \<Rightarrow> 'r cres" where
  "get_words buf [] obj = Inr obj"
| "get_words buf (upd # upds) obj =
     (if length buf < 4 then Inl OutOfBounds
      else get_words (drop 4 buf) upds (upd (\<lambda>_. from_be32 (take 4 buf)) obj))"

definition inline_get :: "nat \<Rightarrow> ((u32 \<Rightarrow> u32) \<Rightarrow> 'r \<Rightarrow> 'r) list \<Rightarrow> 'r xdrproc \<Rightarrow> 'r xdrproc" where
  "inline_get n upds slow x obj = (case XDR_INLINE x (n * 4) of
       (None, x) \<Rightarrow> slow x obj
     | (Some buf, x) \<Rightarrow> cbind (get_words buf upds obj) (\<lambda>obj. Inr (x, obj)))"

text \<open>\<^verbatim>\<open>if (!xdr_T(xdrs, &objp->f)) return FALSE;\<close> and a sequence of such steps.\<close>

definition xdr_field :: "'a xdrproc \<Rightarrow> ('r \<Rightarrow> 'a) \<Rightarrow> (('a \<Rightarrow> 'a) \<Rightarrow> 'r \<Rightarrow> 'r) \<Rightarrow> 'r xdrproc" where
  "xdr_field proc get upd x obj = cbind (proc x (get obj)) (\<lambda>(x, v). Inr (x, upd (\<lambda>_. v) obj))"

fun xdr_struct :: "'r xdrproc list \<Rightarrow> 'r xdrproc" where
  "xdr_struct [] x obj = Inr (x, obj)"
| "xdr_struct (p # ps) x obj = cbind (p x obj) (\<lambda>(x, obj). xdr_struct ps x obj)"

text \<open>The return-status unions: \<^verbatim>\<open>errno\<close>, then the pointer in the arm of \<^verbatim>\<open>case 0\<close>.\<close>

definition xdr_union :: "('r \<Rightarrow> u32) \<Rightarrow> ((u32 \<Rightarrow> u32) \<Rightarrow> 'r \<Rightarrow> 'r) \<Rightarrow> 'r xdrproc \<Rightarrow> 'r xdrproc" where
  "xdr_union get upd arm x obj = cbind (xdr_field xdr_int get upd x obj) (\<lambda>(x, obj).
     if get obj = 0 then arm x obj else Inr (x, obj))"

text \<open>A procedure with one branch per operation.\<close>

definition xdr_by_op :: "'r xdrproc \<Rightarrow> 'r xdrproc \<Rightarrow> 'r xdrproc \<Rightarrow> 'r xdrproc" where
  "xdr_by_op p q r x obj = (case x_op x of XDR_ENCODE \<Rightarrow> p x obj | XDR_DECODE \<Rightarrow> q x obj | XDR_FREE \<Rightarrow> r x obj)"

end
