(* ===== verification/Rpc_Types.thy ===== *)
theory Rpc_Types
  imports Xdr_Runtime
begin

section \<open>RPC types of the accelerator protocol: src/common/inc/vmaccel_rpc.h\<close>

text \<open>
  One record per struct of the header, with its fields in order under the struct's name; a
  counted array is a \<^typ>\<open>'a c_vec\<close>, the pointer of a return-status union an option, and a
  \<^verbatim>\<open>float\<close> or \<^verbatim>\<open>double\<close> its bit pattern.
\<close>

definition VMACCEL_MAX_NONCE_SIZE :: u32 where
  "VMACCEL_MAX_NONCE_SIZE = 4"

definition VMACCEL_MAX_LOCATION_SIZE :: u32 where
  "VMACCEL_MAX_LOCATION_SIZE = 4"

type_synonym VMAccelStatusCode = u32
type_synonym VMAccelResourceType = u32
type_synonym VMAccelArchitectureType = u32
type_synonym VMAccelSelectionMask = u32
type_synonym VMAccelId = u32
type_synonym VMAccelCaps = u32
type_synonym VMAccelSurfacePool = u32
type_synonym VMAccelSurfaceType = u32
type_synonym VMAccelSurfaceUsage = u32
type_synonym VMAccelSurfaceMapFlags = u32
type_synonym VMAccelSurfaceReadConsistency = u32
type_synonym VMAccelSurfaceWriteConsistency = u32
type_synonym VMAccelFormatCaps = u32
type_synonym VMAccelSurfaceBindFlags = u32
type_synonym VMAccelSurfaceFormat = u32
type_synonym VMAccelSurfaceFormatCaps = u32

record VMAccelStatus =
  Status_nonce :: "byte c_vec"
  Status_status :: VMAccelStatusCode

record VMAccelAddress =
  Address_addr :: "byte c_vec"
  Address_port :: u32
  Address_resourceType :: VMAccelResourceType
  Address_subDevice :: u32

record VMAccelCallback =
  Callback_addr :: VMAccelAddress
  Callback_payload :: "byte c_vec"

record VMAccelFormatDesc =
  FormatDesc_format :: u32
  FormatDesc_caps :: VMAccelFormatCaps

record VMAccelWorkloadDesc =
  WorkloadDesc_megaFlops :: u32
  WorkloadDesc_megaOps :: u32
  WorkloadDesc_llcSizeKB :: u32
  WorkloadDesc_llcBandwidthMBSec :: u32
  WorkloadDesc_localMemSizeKB :: u32
  WorkloadDesc_localMemBandwidthMBSec :: u32
  WorkloadDesc_nonLocalMemSizeKB :: u32
  WorkloadDesc_nonLocalMemBandwidthMBSec :: u32
  WorkloadDesc_interconnectBandwidthMBSec :: u32

record VMAccelDesc =
  Desc_parentId :: VMAccelId
  Desc_parentAddr :: VMAccelAddress
  Desc_typeMask :: VMAccelResourceType
  Desc_architecture :: VMAccelArchitectureType
  Desc_caps :: VMAccelCaps
  Desc_formatCaps :: "VMAccelFormatDesc c_vec"
  Desc_capacity :: VMAccelWorkloadDesc
  Desc_maxContexts :: u32
  Desc_maxQueues :: u32
  Desc_maxEvents :: u32
  Desc_maxFences :: u32
  Desc_maxSurfaces :: u32
  Desc_maxMappings :: u32

record VMAccelResourceDesc =
  ResourceDesc_parentId :: VMAccelId
  ResourceDesc_parentAddr :: VMAccelAddress
  ResourceDesc_typeMask :: VMAccelResourceType
  ResourceDesc_selectionMask :: VMAccelSelectionMask
  ResourceDesc_caps :: VMAccelCaps
  ResourceDesc_num :: u32
  ResourceDesc_size :: u32

record VMAccelAllocateStatus =
  AllocateStatus_status :: VMAccelStatusCode
  AllocateStatus_id :: VMAccelId
  AllocateStatus_desc :: VMAccelDesc

record VMAccelRegisterDesc =
  RegisterDesc_desc :: VMAccelDesc
  RegisterDesc_typeMask :: VMAccelResourceType

record VMAccelResourceAllocateStatus =
  ResourceAllocateStatus_status :: VMAccelStatusCode
  ResourceAllocateStatus_id :: VMAccelId

record VMAccelRegisterAllocationDesc =
  RegisterAllocationDesc_parentAddr :: VMAccelAddress
  RegisterAllocationDesc_typeMask :: VMAccelResourceType
  RegisterAllocationDesc_num :: u32
  RegisterAllocationDesc_size :: u32

record VMAccelRegisterStatus =
  RegisterStatus_status :: VMAccelStatusCode
  RegisterStatus_id :: VMAccelId

record VMAccelElementDouble4D =
  ElementDouble4D_x :: u64
  ElementDouble4D_y :: u64
  ElementDouble4D_z :: u64
  ElementDouble4D_w :: u64

record VMAccelElementFloat4D =
  ElementFloat4D_x :: u32
  ElementFloat4D_y :: u32
  ElementFloat4D_z :: u32
  ElementFloat4D_w :: u32

record VMAccelElementUINT4D =
  ElementUINT4D_r :: u32
  ElementUINT4D_g :: u32
  ElementUINT4D_b :: u32
  ElementUINT4D_a :: u32

record VMAccelCoordinate2DUINT =
  Coordinate2DUINT_x :: u32
  Coordinate2DUINT_y :: u32

record VMAccelCoordinate3DUINT =
  Coordinate3DUINT_x :: u32
  Coordinate3DUINT_y :: u32
  Coordinate3DUINT_z :: u32

record VMAccelCoordinate4DUINT =
  Coordinate4DUINT_x :: u32
  Coordinate4DUINT_y :: u32
  Coordinate4DUINT_z :: u32
  Coordinate4DUINT_w :: u32

record VMAccelSurfaceDesc =
  SurfaceDesc_parentId :: VMAccelId
  SurfaceDesc_type :: VMAccelSurfaceType
  SurfaceDesc_width :: u32
  SurfaceDesc_height :: u32
  SurfaceDesc_depth :: u32
  SurfaceDesc_mipLevels :: u32
  SurfaceDesc_arraySize :: u32
  SurfaceDesc_samples :: u32
  SurfaceDesc_format :: VMAccelSurfaceFormat
  SurfaceDesc_formatCaps :: VMAccelSurfaceFormatCaps
  SurfaceDesc_pool :: VMAccelSurfacePool
  SurfaceDesc_usage :: VMAccelSurfaceUsage
  SurfaceDesc_bindFlags :: VMAccelSurfaceBindFlags
  SurfaceDesc_slicePitch :: u32
  SurfaceDesc_rowPitch :: u32
type_synonym VMAccelHandleType = u32

record VMAccelSurfaceId =
  SurfaceId_type :: VMAccelSurfaceType
  SurfaceId_handleType :: VMAccelHandleType
  SurfaceId_id :: VMAccelId
  SurfaceId_instance :: u32
  SurfaceId_offset :: u32
  SurfaceId_generation :: u32

record VMAccelSurfaceAllocateStatus =
  SurfaceAllocateStatus_status :: VMAccelStatusCode
  SurfaceAllocateStatus_surfaceDesc :: VMAccelSurfaceDesc
type_synonym VMAccelQueueFlags = u32

record VMAccelQueueDesc =
  QueueDesc_flags :: VMAccelQueueFlags
  QueueDesc_size :: u32

record VMAccelQueueStatus =
  QueueStatus_status :: VMAccelStatusCode

record VMAccelSurfaceRegion =
  SurfaceRegion_mipLevel :: u32
  SurfaceRegion_coord :: VMAccelCoordinate3DUINT
  SurfaceRegion_size :: VMAccelCoordinate3DUINT

record VMAccelSurfaceCopyOp =
  SurfaceCopyOp_dstRegion :: VMAccelSurfaceRegion
  SurfaceCopyOp_srcRegion :: VMAccelSurfaceRegion

record VMAccelImageFillOp =
  ImageFillOp_dstRegion :: VMAccelSurfaceRegion
  ImageFillOp_d :: VMAccelElementDouble4D
  ImageFillOp_f :: VMAccelElementFloat4D
  ImageFillOp_u :: VMAccelElementUINT4D

record VMAccelImageTransferOp =
  ImageTransferOp_imgRegion :: VMAccelSurfaceRegion
  ImageTransferOp_ptr :: "byte c_vec"
  ImageTransferOp_callbacks :: "VMAccelCallback c_vec"

record VMAccelDownloadStatus =
  DownloadStatus_status :: VMAccelStatusCode
  DownloadStatus_fence :: VMAccelId
  DownloadStatus_ptr :: "byte c_vec"

record VMAccelSurfaceMapOp =
  SurfaceMapOp_surf :: VMAccelSurfaceId
  SurfaceMapOp_coord :: VMAccelCoordinate3DUINT
  SurfaceMapOp_size :: VMAccelCoordinate2DUINT
  SurfaceMapOp_mapFlags :: VMAccelSurfaceMapFlags

record VMAccelSurfaceUnmapOp =
  SurfaceUnmapOp_surf :: VMAccelSurfaceId
  SurfaceUnmapOp_mapFlags :: VMAccelSurfaceMapFlags
  SurfaceUnmapOp_ptr :: "byte c_vec"

record VMAccelSurfaceMapStatus =
  SurfaceMapStatus_status :: VMAccelStatusCode
  SurfaceMapStatus_ptr :: "byte c_vec"

record VMAccelComputeArgDesc =
  ComputeArgDesc_index :: u32
  ComputeArgDesc_usage :: VMAccelSurfaceUsage
  ComputeArgDesc_surf :: VMAccelSurfaceId
  ComputeArgDesc_data :: "byte c_vec"

record VMAccelComputeOp =
  ComputeOp_kernelType :: u32
  ComputeOp_kernelSource :: "byte c_vec"
  ComputeOp_kernelBinary32 :: "byte c_vec"
  ComputeOp_kernelBinary64 :: "byte c_vec"
  ComputeOp_kernelName :: "byte c_vec"
  ComputeOp_dimension :: u32
  ComputeOp_globalWorkOffset :: "u32 c_vec"
  ComputeOp_globalWorkSize :: "u32 c_vec"
  ComputeOp_localWorkSize :: "u32 c_vec"
  ComputeOp_args :: "VMAccelComputeArgDesc c_vec"

record VMAccelComputeStatus =
  ComputeStatus_status :: VMAccelStatusCode
  ComputeStatus_outputs :: "VMAccelComputeArgDesc c_vec"

record VMAccelReturnStatus =
  ReturnStatus_errno :: u32
  ReturnStatus_ret :: "VMAccelStatus option"

record VMAccelAllocateReturnStatus =
  AllocateReturnStatus_errno :: u32
  AllocateReturnStatus_ret :: "VMAccelAllocateStatus option"

record VMAccelResourceAllocateReturnStatus =
  ResourceAllocateReturnStatus_errno :: u32
  ResourceAllocateReturnStatus_ret :: "VMAccelResourceAllocateStatus option"

record VMAccelRegisterReturnStatus =
  RegisterReturnStatus_errno :: u32
  RegisterReturnStatus_ret :: "VMAccelRegisterStatus option"

record VMAccelQueueReturnStatus =
  QueueReturnStatus_errno :: u32
  QueueReturnStatus_ret :: "VMAccelQueueStatus option"

record VMAccelSurfaceAllocateReturnStatus =
  SurfaceAllocateReturnStatus_errno :: u32
  SurfaceAllocateReturnStatus_ret :: "VMAccelSurfaceAllocateStatus option"

record VMAccelDownloadReturnStatus =
  DownloadReturnStatus_errno :: u32
  DownloadReturnStatus_ret :: "VMAccelDownloadStatus option"

record VMAccelSurfaceMapReturnStatus =
  SurfaceMapReturnStatus_errno :: u32
  SurfaceMapReturnStatus_ret :: "VMAccelSurfaceMapStatus option"

record VMAccelComputeReturnStatus =
  ComputeReturnStatus_errno :: u32
  ComputeReturnStatus_ret :: "VMAccelComputeStatus option"

subsection \<open>Zeroed objects\<close>

text \<open>What \<^verbatim>\<open>memset(p, 0, sizeof(*p))\<close> leaves in an object of the type.\<close>

definition zero_VMAccelStatus :: VMAccelStatus where
  "zero_VMAccelStatus = \<lparr>Status_nonce = Vec 0 None, Status_status = 0\<rparr>"

definition zero_VMAccelAddress :: VMAccelAddress where
  "zero_VMAccelAddress = \<lparr>Address_addr = Vec 0 None, Address_port = 0, Address_resourceType = 0, Address_subDevice = 0\<rparr>"

definition zero_VMAccelCallback :: VMAccelCallback where
  "zero_VMAccelCallback = \<lparr>Callback_addr = zero_VMAccelAddress, Callback_payload = Vec 0 None\<rparr>"

definition zero_VMAccelFormatDesc :: VMAccelFormatDesc where
  "zero_VMAccelFormatDesc = \<lparr>FormatDesc_format = 0, FormatDesc_caps = 0\<rparr>"

definition zero_VMAccelWorkloadDesc :: VMAccelWorkloadDesc where
  "zero_VMAccelWorkloadDesc = \<lparr>WorkloadDesc_megaFlops = 0, WorkloadDesc_megaOps = 0, WorkloadDesc_llcSizeKB = 0,
     WorkloadDesc_llcBandwidthMBSec = 0, WorkloadDesc_localMemSizeKB = 0,
     WorkloadDesc_localMemBandwidthMBSec = 0, WorkloadDesc_nonLocalMemSizeKB = 0,
     WorkloadDesc_nonLocalMemBandwidthMBSec = 0, WorkloadDesc_interconnectBandwidthMBSec = 0\<rparr>"

definition zero_VMAccelDesc :: VMAccelDesc where
  "zero_VMAccelDesc = \<lparr>Desc_parentId = 0, Desc_parentAddr = zero_VMAccelAddress, Desc_typeMask = 0,
     Desc_architecture = 0, Desc_caps = 0, Desc_formatCaps = Vec 0 None,
     Desc_capacity = zero_VMAccelWorkloadDesc, Desc_maxContexts = 0, Desc_maxQueues = 0,
     Desc_maxEvents = 0, Desc_maxFences = 0, Desc_maxSurfaces = 0, Desc_maxMappings = 0\<rparr>"

definition zero_VMAccelAllocateStatus :: VMAccelAllocateStatus where
  "zero_VMAccelAllocateStatus = \<lparr>AllocateStatus_status = 0, AllocateStatus_id = 0, AllocateStatus_desc = zero_VMAccelDesc\<rparr>"

definition zero_VMAccelResourceAllocateStatus :: VMAccelResourceAllocateStatus where
  "zero_VMAccelResourceAllocateStatus = \<lparr>ResourceAllocateStatus_status = 0, ResourceAllocateStatus_id = 0\<rparr>"

definition zero_VMAccelRegisterStatus :: VMAccelRegisterStatus where
  "zero_VMAccelRegisterStatus = \<lparr>RegisterStatus_status = 0, RegisterStatus_id = 0\<rparr>"

definition zero_VMAccelSurfaceDesc :: VMAccelSurfaceDesc where
  "zero_VMAccelSurfaceDesc = \<lparr>SurfaceDesc_parentId = 0, SurfaceDesc_type = 0, SurfaceDesc_width = 0,
     SurfaceDesc_height = 0, SurfaceDesc_depth = 0, SurfaceDesc_mipLevels = 0,
     SurfaceDesc_arraySize = 0, SurfaceDesc_samples = 0, SurfaceDesc_format = 0,
     SurfaceDesc_formatCaps = 0, SurfaceDesc_pool = 0, SurfaceDesc_usage = 0,
     SurfaceDesc_bindFlags = 0, SurfaceDesc_slicePitch = 0, SurfaceDesc_rowPitch = 0\<rparr>"

definition zero_VMAccelSurfaceId :: VMAccelSurfaceId where
  "zero_VMAccelSurfaceId = \<lparr>SurfaceId_type = 0, SurfaceId_handleType = 0, SurfaceId_id = 0, SurfaceId_instance = 0,
     SurfaceId_offset = 0, SurfaceId_generation = 0\<rparr>"

definition zero_VMAccelSurfaceAllocateStatus :: VMAccelSurfaceAllocateStatus where
  "zero_VMAccelSurfaceAllocateStatus = \<lparr>SurfaceAllocateStatus_status = 0, SurfaceAllocateStatus_surfaceDesc = zero_VMAccelSurfaceDesc\<rparr>"

definition zero_VMAccelQueueStatus :: VMAccelQueueStatus where
  "zero_VMAccelQueueStatus = \<lparr>QueueStatus_status = 0\<rparr>"

definition zero_VMAccelDownloadStatus :: VMAccelDownloadStatus where
  "zero_VMAccelDownloadStatus = \<lparr>DownloadStatus_status = 0, DownloadStatus_fence = 0, DownloadStatus_ptr = Vec 0 None\<rparr>"

definition zero_VMAccelSurfaceMapStatus :: VMAccelSurfaceMapStatus where
  "zero_VMAccelSurfaceMapStatus = \<lparr>SurfaceMapStatus_status = 0, SurfaceMapStatus_ptr = Vec 0 None\<rparr>"

definition zero_VMAccelComputeArgDesc :: VMAccelComputeArgDesc where
  "zero_VMAccelComputeArgDesc = \<lparr>ComputeArgDesc_index = 0, ComputeArgDesc_usage = 0,
     ComputeArgDesc_surf = zero_VMAccelSurfaceId, ComputeArgDesc_data = Vec 0 None\<rparr>"

definition zero_VMAccelComputeStatus :: VMAccelComputeStatus where
  "zero_VMAccelComputeStatus = \<lparr>ComputeStatus_status = 0, ComputeStatus_outputs = Vec 0 None\<rparr>"

end
