(* ===== verification/Alloc_Types.thy ===== *)
theory Alloc_Types
  imports Std_Multiset Rpc_Types
begin

section \<open>Objects of the allocator: src/common/inc/vmaccel\_allocator.hpp, vmaccel\_types\_*.hpp\<close>

text \<open>
  \<^verbatim>\<open>VMAccelObject<T>\<close> and the three types the allocator is instantiated with.  The functions
  the templates find by overloading (constructors, copies, comparisons, \<^verbatim>\<open>IsEmpty\<close>, \<^verbatim>\<open>Reserve\<close>,
  \<^verbatim>\<open>FreeObj\<close>) are the fields of a record, one record value per type.

  A C++ object starts as uninitialised memory, and some of the constructors and copies do
  not write every field; \<open>op_uninit\<close> is that memory.  Heap blocks behind pointers are values
  (allocation succeeds, sharing between copies is not modelled).
\<close>

abbreviation (input) VMACCEL_SUCCESS :: u32 where "VMACCEL_SUCCESS \<equiv> 0"
abbreviation (input) VMACCEL_FAIL :: u32 where "VMACCEL_FAIL \<equiv> 1"
abbreviation (input) VMACCEL_SEMANTIC_ERROR :: u32 where "VMACCEL_SEMANTIC_ERROR \<equiv> 2"
abbreviation (input) VMACCEL_RESOURCE_UNAVAILABLE :: u32 where "VMACCEL_RESOURCE_UNAVAILABLE \<equiv> 4"
abbreviation (input) VMACCEL_INVALID_ID :: u32 where "VMACCEL_INVALID_ID \<equiv> 0xffffffff"

record 't vobj =
  ob_parentId :: VMAccelId
  ob_fenceId :: VMAccelId
  ob_obj :: 't

record 't obj_ops =
  op_uninit :: 't
  op_Constructor :: "'t \<Rightarrow> 't"
  op_DeepCopy :: "'t \<Rightarrow> 't \<Rightarrow> 't"
  op_Move :: "'t \<Rightarrow> 't \<Rightarrow> 't"

record 't alloc_ops = "'t obj_ops" +
  op_le :: "'t \<Rightarrow> 't \<Rightarrow> bool"
  op_add_assign :: "'t \<Rightarrow> 't \<Rightarrow> 't"
  op_sub_assign :: "'t \<Rightarrow> 't \<Rightarrow> 't"
  op_IsEmpty :: "'t \<Rightarrow> bool"
  op_Reserve :: "'t \<Rightarrow> 't \<Rightarrow> ('t \<times> 't) option"
  op_cmp :: "'t vobj \<Rightarrow> 't vobj \<Rightarrow> bool"
  op_FreeObj :: "'t vobj rb \<Rightarrow> 't vobj pool \<Rightarrow> 't vobj \<Rightarrow> bool \<times> 't vobj pool"

definition VMAccelObject_default :: "('t, 'z) obj_ops_scheme \<Rightarrow> 't vobj" where
  "VMAccelObject_default ops = \<lparr>ob_parentId = VMACCEL_INVALID_ID, ob_fenceId = VMACCEL_INVALID_ID,
     ob_obj = op_Constructor ops (op_uninit ops)\<rparr>"

definition VMAccelObject_new :: "('t, 'z) obj_ops_scheme \<Rightarrow> VMAccelId \<Rightarrow> 't \<Rightarrow> 't vobj" where
  "VMAccelObject_new ops ident v = \<lparr>ob_parentId = ident, ob_fenceId = VMACCEL_INVALID_ID,
     ob_obj = op_DeepCopy ops (op_Constructor ops (op_uninit ops)) v\<rparr>"

definition VMAccelObject_copy :: "('t, 'z) obj_ops_scheme \<Rightarrow> 't vobj \<Rightarrow> 't vobj" where
  "VMAccelObject_copy ops v = \<lparr>ob_parentId = ob_parentId v, ob_fenceId = ob_fenceId v,
     ob_obj = op_DeepCopy ops (op_Constructor ops (op_uninit ops)) (ob_obj v)\<rparr>"

definition VMAccelObject_move :: "('t, 'z) obj_ops_scheme \<Rightarrow> 't vobj \<Rightarrow> 't vobj" where
  "VMAccelObject_move ops v = \<lparr>ob_parentId = ob_parentId v, ob_fenceId = ob_fenceId v,
     ob_obj = op_Move ops (op_uninit ops) (ob_obj v)\<rparr>"

definition VMAccelObject_assign :: "('t, 'z) obj_ops_scheme \<Rightarrow> 't vobj \<Rightarrow> 't vobj \<Rightarrow> 't vobj" where
  "VMAccelObject_assign ops lhs v = \<lparr>ob_parentId = ob_parentId v, ob_fenceId = ob_fenceId v,
     ob_obj = op_DeepCopy ops (ob_obj lhs) (ob_obj v)\<rparr>"

definition VMAccelObject_move_assign :: "('t, 'z) obj_ops_scheme \<Rightarrow> 't vobj \<Rightarrow> 't vobj \<Rightarrow> 't vobj" where
  "VMAccelObject_move_assign ops lhs v = \<lparr>ob_parentId = ob_parentId v, ob_fenceId = ob_fenceId v,
     ob_obj = op_Move ops (ob_obj lhs) (ob_obj v)\<rparr>"

subsection \<open>Int\<close>

text \<open>\<^verbatim>\<open>int\<close> values are 32-bit words compared as signed.  The compound assignments take their
  left side by value, so they leave it as it was.\<close>

record IntVal =
  Int_x :: u32

definition Int_less :: "IntVal \<Rightarrow> IntVal \<Rightarrow> bool" where
  "Int_less lhs rhs \<longleftrightarrow> sint (Int_x lhs) < sint (Int_x rhs)"

definition Int_le :: "IntVal \<Rightarrow> IntVal \<Rightarrow> bool" where
  "Int_le lhs rhs \<longleftrightarrow> sint (Int_x lhs) \<le> sint (Int_x rhs)"

definition Int_add_assign :: "IntVal \<Rightarrow> IntVal \<Rightarrow> IntVal" where
  "Int_add_assign lhs rhs = lhs"

definition Int_sub_assign :: "IntVal \<Rightarrow> IntVal \<Rightarrow> IntVal" where
  "Int_sub_assign lhs rhs = lhs"

definition Int_add :: "IntVal \<Rightarrow> IntVal \<Rightarrow> IntVal" where
  "Int_add lhs rhs = \<lparr>Int_x = Int_x lhs + Int_x rhs\<rparr>"

definition Int_sub :: "IntVal \<Rightarrow> IntVal \<Rightarrow> IntVal" where
  "Int_sub lhs rhs = \<lparr>Int_x = Int_x lhs - Int_x rhs\<rparr>"

definition IntCmp :: "IntVal vobj \<Rightarrow> IntVal vobj \<Rightarrow> bool" where
  "IntCmp lhs rhs \<longleftrightarrow> ob_parentId lhs \<noteq> ob_parentId rhs \<or> sint (Int_x (ob_obj lhs)) < sint (Int_x (ob_obj rhs))"

definition Int_Constructor :: "IntVal \<Rightarrow> IntVal" where
  "Int_Constructor obj = obj\<lparr>Int_x := 0\<rparr>"

definition Int_DeepCopy :: "IntVal \<Rightarrow> IntVal \<Rightarrow> IntVal" where
  "Int_DeepCopy lhs rhs = lhs\<lparr>Int_x := Int_x rhs\<rparr>"

definition Int_Move :: "IntVal \<Rightarrow> IntVal \<Rightarrow> IntVal" where
  "Int_Move lhs rhs = lhs\<lparr>Int_x := Int_x rhs\<rparr>"

definition Int_IsEmpty :: "IntVal \<Rightarrow> bool" where
  "Int_IsEmpty val \<longleftrightarrow> Int_x val = 0"

definition Int_Reserve :: "IntVal \<Rightarrow> IntVal \<Rightarrow> (IntVal \<times> IntVal) option" where
  "Int_Reserve inp req =
     (if sint (Int_x inp) < sint (Int_x req) then None
      else Some (\<lparr>Int_x = Int_x req\<rparr>, \<lparr>Int_x = Int_x inp - Int_x req\<rparr>))"

definition Int_obj_ops :: "IntVal \<Rightarrow> IntVal obj_ops" where
  "Int_obj_ops uninit = \<lparr>op_uninit = uninit, op_Constructor = Int_Constructor,
     op_DeepCopy = Int_DeepCopy, op_Move = Int_Move\<rparr>"

definition Int_FreeObj :: "IntVal \<Rightarrow> IntVal vobj rb \<Rightarrow> IntVal vobj pool \<Rightarrow> IntVal vobj \<Rightarrow> bool \<times> IntVal vobj pool" where
  "Int_FreeObj uninit rb pool obj =
     (let ops = Int_obj_ops uninit in
      case find_pos (\<lambda>e. ob_parentId e = ob_parentId obj) (elems pool) of
        None \<Rightarrow> (True, pool_insert rb IntCmp (VMAccelObject_copy ops obj) pool)
      | Some it \<Rightarrow>
          let val = ob_obj (elems pool ! it);
              pool = rb_erase rb it pool;
              val = val\<lparr>Int_x := Int_x val + Int_x (ob_obj obj)\<rparr>
          in (True, pool_insert rb IntCmp
                 (VMAccelObject_move ops (VMAccelObject_new ops (ob_parentId obj) val)) pool))"

definition Int_ops :: "IntVal \<Rightarrow> IntVal alloc_ops" where
  "Int_ops uninit = \<lparr>op_uninit = uninit, op_Constructor = Int_Constructor, op_DeepCopy = Int_DeepCopy,
     op_Move = Int_Move, op_le = Int_le, op_add_assign = Int_add_assign, op_sub_assign = Int_sub_assign,
     op_IsEmpty = Int_IsEmpty, op_Reserve = Int_Reserve, op_cmp = IntCmp, op_FreeObj = Int_FreeObj uninit\<rparr>"

subsection \<open>VMAccelDesc\<close>

text \<open>Comparison looks at three of the nine dimensions of a workload.\<close>

definition WorkloadDesc_less :: "VMAccelWorkloadDesc \<Rightarrow> VMAccelWorkloadDesc \<Rightarrow> bool" where
  "WorkloadDesc_less lhs rhs \<longleftrightarrow>
     WorkloadDesc_localMemSizeKB lhs < WorkloadDesc_localMemSizeKB rhs \<or>
     WorkloadDesc_megaFlops lhs < WorkloadDesc_megaFlops rhs \<or>
     WorkloadDesc_megaOps lhs < WorkloadDesc_megaOps rhs"

definition WorkloadDesc_le :: "VMAccelWorkloadDesc \<Rightarrow> VMAccelWorkloadDesc \<Rightarrow> bool" where
  "WorkloadDesc_le lhs rhs \<longleftrightarrow>
     WorkloadDesc_localMemSizeKB lhs \<le> WorkloadDesc_localMemSizeKB rhs \<and>
     WorkloadDesc_megaFlops lhs \<le> WorkloadDesc_megaFlops rhs \<and>
     WorkloadDesc_megaOps lhs \<le> WorkloadDesc_megaOps rhs"

definition WorkloadDesc_add_assign :: "VMAccelWorkloadDesc \<Rightarrow> VMAccelWorkloadDesc \<Rightarrow> VMAccelWorkloadDesc" where
  "WorkloadDesc_add_assign lhs rhs =
     \<lparr>WorkloadDesc_megaFlops = WorkloadDesc_megaFlops lhs + WorkloadDesc_megaFlops rhs,
      WorkloadDesc_megaOps = WorkloadDesc_megaOps lhs + WorkloadDesc_megaOps rhs,
      WorkloadDesc_llcSizeKB = WorkloadDesc_llcSizeKB lhs + WorkloadDesc_llcSizeKB rhs,
      WorkloadDesc_llcBandwidthMBSec = WorkloadDesc_llcBandwidthMBSec lhs + WorkloadDesc_llcBandwidthMBSec rhs,
      WorkloadDesc_localMemSizeKB = WorkloadDesc_localMemSizeKB lhs + WorkloadDesc_localMemSizeKB rhs,
      WorkloadDesc_localMemBandwidthMBSec =
        WorkloadDesc_localMemBandwidthMBSec lhs + WorkloadDesc_localMemBandwidthMBSec rhs,
      WorkloadDesc_nonLocalMemSizeKB = WorkloadDesc_nonLocalMemSizeKB lhs + WorkloadDesc_nonLocalMemSizeKB rhs,
      WorkloadDesc_nonLocalMemBandwidthMBSec =
        WorkloadDesc_nonLocalMemBandwidthMBSec lhs + WorkloadDesc_nonLocalMemBandwidthMBSec rhs,
      WorkloadDesc_interconnectBandwidthMBSec =
        WorkloadDesc_interconnectBandwidthMBSec lhs + WorkloadDesc_interconnectBandwidthMBSec rhs\<rparr>"

definition WorkloadDesc_sub_assign :: "VMAccelWorkloadDesc \<Rightarrow> VMAccelWorkloadDesc \<Rightarrow> VMAccelWorkloadDesc" where
  "WorkloadDesc_sub_assign lhs rhs =
     \<lparr>WorkloadDesc_megaFlops = WorkloadDesc_megaFlops lhs - WorkloadDesc_megaFlops rhs,
      WorkloadDesc_megaOps = WorkloadDesc_megaOps lhs - WorkloadDesc_megaOps rhs,
      WorkloadDesc_llcSizeKB = WorkloadDesc_llcSizeKB lhs - WorkloadDesc_llcSizeKB rhs,
      WorkloadDesc_llcBandwidthMBSec = WorkloadDesc_llcBandwidthMBSec lhs - WorkloadDesc_llcBandwidthMBSec rhs,
      WorkloadDesc_localMemSizeKB = WorkloadDesc_localMemSizeKB lhs - WorkloadDesc_localMemSizeKB rhs,
      WorkloadDesc_localMemBandwidthMBSec =
        WorkloadDesc_localMemBandwidthMBSec lhs - WorkloadDesc_localMemBandwidthMBSec rhs,
      WorkloadDesc_nonLocalMemSizeKB = WorkloadDesc_nonLocalMemSizeKB lhs - WorkloadDesc_nonLocalMemSizeKB rhs,
      WorkloadDesc_nonLocalMemBandwidthMBSec =
        WorkloadDesc_nonLocalMemBandwidthMBSec lhs - WorkloadDesc_nonLocalMemBandwidthMBSec rhs,
      WorkloadDesc_interconnectBandwidthMBSec =
        WorkloadDesc_interconnectBandwidthMBSec lhs - WorkloadDesc_interconnectBandwidthMBSec rhs\<rparr>"

definition WorkloadDesc_add :: "VMAccelWorkloadDesc \<Rightarrow> VMAccelWorkloadDesc \<Rightarrow> VMAccelWorkloadDesc" where
  "WorkloadDesc_add lhs rhs = WorkloadDesc_add_assign lhs rhs"

definition WorkloadDesc_sub :: "VMAccelWorkloadDesc \<Rightarrow> VMAccelWorkloadDesc \<Rightarrow> VMAccelWorkloadDesc" where
  "WorkloadDesc_sub lhs rhs = WorkloadDesc_sub_assign lhs rhs"

definition WorkloadDesc_Constructor :: "VMAccelWorkloadDesc \<Rightarrow> VMAccelWorkloadDesc" where
  "WorkloadDesc_Constructor obj = obj\<lparr>WorkloadDesc_megaFlops := 0, WorkloadDesc_megaOps := 0,
     WorkloadDesc_llcSizeKB := 0, WorkloadDesc_llcBandwidthMBSec := 0, WorkloadDesc_localMemSizeKB := 0,
     WorkloadDesc_localMemBandwidthMBSec := 0, WorkloadDesc_nonLocalMemSizeKB := 0,
     WorkloadDesc_nonLocalMemBandwidthMBSec := 0, WorkloadDesc_interconnectBandwidthMBSec := 0\<rparr>"

definition Desc_less :: "VMAccelDesc \<Rightarrow> VMAccelDesc \<Rightarrow> bool" where
  "Desc_less lhs rhs \<longleftrightarrow> WorkloadDesc_less (Desc_capacity lhs) (Desc_capacity rhs)"

definition Desc_le :: "VMAccelDesc \<Rightarrow> VMAccelDesc \<Rightarrow> bool" where
  "Desc_le lhs rhs \<longleftrightarrow> WorkloadDesc_le (Desc_capacity lhs) (Desc_capacity rhs)"

definition Desc_add_assign :: "VMAccelDesc \<Rightarrow> VMAccelDesc \<Rightarrow> VMAccelDesc" where
  "Desc_add_assign lhs rhs = lhs\<lparr>Desc_capacity := WorkloadDesc_add_assign (Desc_capacity lhs) (Desc_capacity rhs)\<rparr>"

definition Desc_sub_assign :: "VMAccelDesc \<Rightarrow> VMAccelDesc \<Rightarrow> VMAccelDesc" where
  "Desc_sub_assign lhs rhs = lhs\<lparr>Desc_capacity := WorkloadDesc_sub_assign (Desc_capacity lhs) (Desc_capacity rhs)\<rparr>"

definition Desc_add :: "VMAccelDesc \<Rightarrow> VMAccelDesc \<Rightarrow> VMAccelDesc" where
  "Desc_add lhs rhs = lhs\<lparr>Desc_capacity := WorkloadDesc_add_assign (Desc_capacity lhs) (Desc_capacity rhs)\<rparr>"

definition Desc_sub :: "VMAccelDesc \<Rightarrow> VMAccelDesc \<Rightarrow> VMAccelDesc" where
  "Desc_sub lhs rhs = lhs\<lparr>Desc_capacity := WorkloadDesc_sub_assign (Desc_capacity lhs) (Desc_capacity rhs)\<rparr>"

definition VMAccelDescCmp :: "VMAccelDesc vobj \<Rightarrow> VMAccelDesc vobj \<Rightarrow> bool" where
  "VMAccelDescCmp lhs rhs \<longleftrightarrow> ob_parentId lhs \<noteq> ob_parentId rhs \<or>
     WorkloadDesc_less (Desc_capacity (ob_obj lhs)) (Desc_capacity (ob_obj rhs))"

text \<open>The address of the parent: neither the constructor nor the copies write \<^verbatim>\<open>subDevice\<close>.\<close>

definition copy_block :: "'a c_vec \<Rightarrow> 'a c_vec" where
  "copy_block v = Vec (vec_len v) (if vec_len v = 0 then None else map_option (take (unat (vec_len v))) (vec_val v))"

definition Address_Constructor :: "VMAccelAddress \<Rightarrow> VMAccelAddress" where
  "Address_Constructor obj = obj\<lparr>Address_addr := Vec 0 None, Address_port := 0, Address_resourceType := 0\<rparr>"

definition Address_DeepCopy :: "VMAccelAddress \<Rightarrow> VMAccelAddress \<Rightarrow> VMAccelAddress" where
  "Address_DeepCopy lhs rhs = lhs\<lparr>Address_addr := copy_block (Address_addr rhs),
     Address_port := Address_port rhs, Address_resourceType := Address_resourceType rhs\<rparr>"

definition Address_Move :: "VMAccelAddress \<Rightarrow> VMAccelAddress \<Rightarrow> VMAccelAddress" where
  "Address_Move lhs rhs = lhs\<lparr>Address_addr := Address_addr rhs,
     Address_port := Address_port rhs, Address_resourceType := Address_resourceType rhs\<rparr>"

definition Desc_Constructor :: "VMAccelDesc \<Rightarrow> VMAccelDesc" where
  "Desc_Constructor obj = obj\<lparr>Desc_parentId := VMACCEL_INVALID_ID,
     Desc_parentAddr := Address_Constructor (Desc_parentAddr obj), Desc_typeMask := 0, Desc_architecture := 0,
     Desc_caps := 0, Desc_formatCaps := Vec 0 None,
     Desc_capacity := WorkloadDesc_Constructor (Desc_capacity obj), Desc_maxContexts := 0, Desc_maxQueues := 0,
     Desc_maxEvents := 0, Desc_maxFences := 0, Desc_maxSurfaces := 0, Desc_maxMappings := 0\<rparr>"

definition Desc_DeepCopy :: "VMAccelDesc \<Rightarrow> VMAccelDesc \<Rightarrow> VMAccelDesc" where
  "Desc_DeepCopy lhs rhs = lhs\<lparr>Desc_parentId := Desc_parentId rhs,
     Desc_parentAddr := Address_DeepCopy (Desc_parentAddr lhs) (Desc_parentAddr rhs),
     Desc_typeMask := Desc_typeMask rhs, Desc_architecture := Desc_architecture rhs, Desc_caps := Desc_caps rhs,
     Desc_formatCaps := copy_block (Desc_formatCaps rhs), Desc_capacity := Desc_capacity rhs,
     Desc_maxContexts := Desc_maxContexts rhs, Desc_maxQueues := Desc_maxQueues rhs,
     Desc_maxEvents := Desc_maxEvents rhs, Desc_maxFences := Desc_maxFences rhs,
     Desc_maxSurfaces := Desc_maxSurfaces rhs, Desc_maxMappings := Desc_maxMappings rhs\<rparr>"

definition Desc_Move :: "VMAccelDesc \<Rightarrow> VMAccelDesc \<Rightarrow> VMAccelDesc" where
  "Desc_Move lhs rhs = lhs\<lparr>Desc_parentId := Desc_parentId rhs,
     Desc_parentAddr := Address_Move (Desc_parentAddr lhs) (Desc_parentAddr rhs),
     Desc_typeMask := Desc_typeMask rhs, Desc_architecture := Desc_architecture rhs, Desc_caps := Desc_caps rhs,
     Desc_formatCaps := Desc_formatCaps rhs, Desc_capacity := Desc_capacity rhs,
     Desc_maxContexts := Desc_maxContexts rhs, Desc_maxQueues := Desc_maxQueues rhs,
     Desc_maxEvents := Desc_maxEvents rhs, Desc_maxFences := Desc_maxFences rhs,
     Desc_maxSurfaces := Desc_maxSurfaces rhs, Desc_maxMappings := Desc_maxMappings rhs\<rparr>"

definition Desc_IsEmpty :: "VMAccelDesc \<Rightarrow> bool" where
  "Desc_IsEmpty val \<longleftrightarrow> (let c = Desc_capacity val in
     WorkloadDesc_megaFlops c + WorkloadDesc_megaOps c + WorkloadDesc_llcSizeKB c +
     WorkloadDesc_llcBandwidthMBSec c + WorkloadDesc_localMemSizeKB c + WorkloadDesc_localMemBandwidthMBSec c +
     WorkloadDesc_nonLocalMemSizeKB c + WorkloadDesc_nonLocalMemBandwidthMBSec c +
     WorkloadDesc_interconnectBandwidthMBSec c = 0)"

definition Desc_Reserve :: "VMAccelDesc \<Rightarrow> VMAccelDesc \<Rightarrow> (VMAccelDesc \<times> VMAccelDesc) option" where
  "Desc_Reserve a req =
     (if WorkloadDesc_less (Desc_capacity a) (Desc_capacity req) then None
      else let d = Desc_DeepCopy zero_VMAccelDesc a; r = Desc_DeepCopy zero_VMAccelDesc a;
               d = d\<lparr>Desc_capacity := Desc_capacity req\<rparr>;
               r = r\<lparr>Desc_capacity := WorkloadDesc_sub (Desc_capacity a) (Desc_capacity d)\<rparr>
           in if WorkloadDesc_less (Desc_capacity r) (Desc_capacity a) then Some (d, r) else None)"

definition Desc_obj_ops :: "VMAccelDesc \<Rightarrow> VMAccelDesc obj_ops" where
  "Desc_obj_ops uninit = \<lparr>op_uninit = uninit, op_Constructor = Desc_Constructor,
     op_DeepCopy = Desc_DeepCopy, op_Move = Desc_Move\<rparr>"

definition Desc_FreeObj ::
    "VMAccelDesc \<Rightarrow> VMAccelDesc vobj rb \<Rightarrow> VMAccelDesc vobj pool \<Rightarrow> VMAccelDesc vobj \<Rightarrow> bool \<times> VMAccelDesc vobj pool" where
  "Desc_FreeObj uninit rb pool obj =
     (let ops = Desc_obj_ops uninit; obj = VMAccelObject_copy ops obj in
      case find_pos (\<lambda>e. ob_parentId e = ob_parentId obj) (elems pool) of
        None \<Rightarrow> (True, pool_insert rb VMAccelDescCmp (VMAccelObject_copy ops obj) pool)
      | Some it \<Rightarrow>
          let desc = Desc_DeepCopy zero_VMAccelDesc (ob_obj (elems pool ! it));
              pool = rb_erase rb it pool;
              desc = desc\<lparr>Desc_capacity := WorkloadDesc_add_assign (Desc_capacity desc) (Desc_capacity (ob_obj obj))\<rparr>
          in (True, pool_insert rb VMAccelDescCmp
                 (VMAccelObject_move ops (VMAccelObject_new ops (ob_parentId obj) desc)) pool))"

definition Desc_ops :: "VMAccelDesc \<Rightarrow> VMAccelDesc alloc_ops" where
  "Desc_ops uninit = \<lparr>op_uninit = uninit, op_Constructor = Desc_Constructor, op_DeepCopy = Desc_DeepCopy,
     op_Move = Desc_Move, op_le = Desc_le, op_add_assign = Desc_add_assign, op_sub_assign = Desc_sub_assign,
     op_IsEmpty = Desc_IsEmpty, op_Reserve = Desc_Reserve, op_cmp = VMAccelDescCmp,
     op_FreeObj = Desc_FreeObj uninit\<rparr>"

subsection \<open>AllocRange\<close>

record AllocRange =
  ar_cmpRange :: bool
  ar_size :: u64
  ar_begin :: u64
  ar_end :: u64

definition AllocRange_less :: "AllocRange \<Rightarrow> AllocRange \<Rightarrow> bool" where
  "AllocRange_less lhs rhs \<longleftrightarrow>
     (if ar_cmpRange lhs \<or> ar_cmpRange rhs then ar_begin lhs < ar_begin rhs \<or> ar_end lhs < ar_end rhs
      else ar_size lhs < ar_size rhs)"

definition AllocRange_le :: "AllocRange \<Rightarrow> AllocRange \<Rightarrow> bool" where
  "AllocRange_le lhs rhs \<longleftrightarrow>
     (if ar_cmpRange lhs \<or> ar_cmpRange rhs then ar_begin lhs \<le> ar_begin rhs \<and> ar_end lhs \<le> ar_end rhs
      else ar_size lhs \<le> ar_size rhs)"

definition AllocRange_add_assign :: "AllocRange \<Rightarrow> AllocRange \<Rightarrow> AllocRange" where
  "AllocRange_add_assign lhs rhs = lhs\<lparr>ar_size := ar_size lhs + ar_size rhs\<rparr>"

definition AllocRange_sub_assign :: "AllocRange \<Rightarrow> AllocRange \<Rightarrow> AllocRange" where
  "AllocRange_sub_assign lhs rhs = lhs\<lparr>ar_size := ar_size lhs - ar_size rhs\<rparr>"

definition AllocRangeCmp :: "AllocRange vobj \<Rightarrow> AllocRange vobj \<Rightarrow> bool" where
  "AllocRangeCmp lhs rhs \<longleftrightarrow> ob_parentId lhs \<noteq> ob_parentId rhs \<or> AllocRange_less (ob_obj lhs) (ob_obj rhs)"

definition AllocRange_Constructor :: "AllocRange \<Rightarrow> AllocRange" where
  "AllocRange_Constructor obj = obj\<lparr>ar_cmpRange := False, ar_size := 0, ar_begin := 0, ar_end := 0\<rparr>"

definition AllocRange_DeepCopy :: "AllocRange \<Rightarrow> AllocRange \<Rightarrow> AllocRange" where
  "AllocRange_DeepCopy lhs rhs = rhs"

definition AllocRange_Move :: "AllocRange \<Rightarrow> AllocRange \<Rightarrow> AllocRange" where
  "AllocRange_Move lhs rhs = rhs"

definition AllocRange_IsEmpty :: "AllocRange \<Rightarrow> bool" where
  "AllocRange_IsEmpty val \<longleftrightarrow> ar_size val = 0"

definition AllocRange_Reserve :: "AllocRange \<Rightarrow> AllocRange \<Rightarrow> (AllocRange \<times> AllocRange) option" where
  "AllocRange_Reserve a req =
     (if AllocRange_less a req then None
      else let d = a\<lparr>ar_size := ar_size req, ar_begin := ar_begin a, ar_end := ar_begin a + ar_size req - 1\<rparr>;
               r = a\<lparr>ar_size := ar_size a - ar_size d, ar_end := ar_end a, ar_begin := ar_end d + 1\<rparr>
           in if AllocRange_less r a then Some (d, r) else None)"

definition AllocRange_obj_ops :: "AllocRange \<Rightarrow> AllocRange obj_ops" where
  "AllocRange_obj_ops uninit = \<lparr>op_uninit = uninit, op_Constructor = AllocRange_Constructor,
     op_DeepCopy = AllocRange_DeepCopy, op_Move = AllocRange_Move\<rparr>"

text \<open>The two attempts of \<^verbatim>\<open>FreeObj\<close> to merge the range with a neighbour in the pool (at the
  position a search returned) are the same code.\<close>

definition AllocRange_merge :: "AllocRange \<Rightarrow> AllocRange vobj rb \<Rightarrow> AllocRange vobj pool \<Rightarrow> VMAccelId \<Rightarrow>
    AllocRange \<Rightarrow> nat option \<Rightarrow> AllocRange vobj pool option" where
  "AllocRange_merge uninit rb pool parent r it = (case it of
       None \<Rightarrow> None
     | Some i \<Rightarrow>
         let ops = AllocRange_obj_ops uninit; range = ob_obj (elems pool ! i); len = ar_end r - ar_begin r + 1 in
         if ar_begin range = ar_end r + 1 then
           Some (pool_insert rb AllocRangeCmp (VMAccelObject_move ops (VMAccelObject_new ops parent
             (range\<lparr>ar_begin := ar_begin r, ar_size := ar_size range + len\<rparr>))) (rb_erase rb i pool))
         else if ar_end range + 1 = ar_begin r then
           Some (pool_insert rb AllocRangeCmp (VMAccelObject_move ops (VMAccelObject_new ops parent
             (range\<lparr>ar_end := ar_begin r, ar_size := ar_size range + len\<rparr>))) (rb_erase rb i pool))
         else None)"

definition AllocRange_FreeObj ::
    "AllocRange \<Rightarrow> AllocRange vobj rb \<Rightarrow> AllocRange vobj pool \<Rightarrow> AllocRange vobj \<Rightarrow> bool \<times> AllocRange vobj pool" where
  "AllocRange_FreeObj uninit rb pool obj =
     (let ops = AllocRange_obj_ops uninit; obj = VMAccelObject_copy ops obj; parent = ob_parentId obj;
          r = (ob_obj obj)\<lparr>ar_cmpRange := True\<rparr>; key = VMAccelObject_new ops parent r in
      case AllocRange_merge uninit rb pool parent r (lower_bound AllocRangeCmp pool key) of
        Some pool \<Rightarrow> (True, pool)
      | None \<Rightarrow> (case AllocRange_merge uninit rb pool parent r (upper_bound AllocRangeCmp pool key) of
          Some pool \<Rightarrow> (True, pool)
        | None \<Rightarrow> (True, pool_insert rb AllocRangeCmp (VMAccelObject_copy ops obj) pool)))"

definition AllocRange_ops :: "AllocRange \<Rightarrow> AllocRange alloc_ops" where
  "AllocRange_ops uninit = \<lparr>op_uninit = uninit, op_Constructor = AllocRange_Constructor,
     op_DeepCopy = AllocRange_DeepCopy, op_Move = AllocRange_Move, op_le = AllocRange_le,
     op_add_assign = AllocRange_add_assign, op_sub_assign = AllocRange_sub_assign,
     op_IsEmpty = AllocRange_IsEmpty, op_Reserve = AllocRange_Reserve, op_cmp = AllocRangeCmp,
     op_FreeObj = AllocRange_FreeObj uninit\<rparr>"

end
