(* ===== verification/Bit_Mask.thy ===== *)
theory Bit_Mask
  imports Accel_Prelude
begin

section \<open>Bit masks: src/common/src/vmaccel_utils.c\<close>

text \<open>
  \<^verbatim>\<open>BitMask_FindFirstZero\<close> and \<^verbatim>\<open>BitMask_FindFirstOne\<close> locate the lowest clear (set) bit of
  a 32-bit mask by halving: skip 16, 8 and 4 bits when they are all ones (all zeros), then
  look at four bits one by one.  Each returns -1 when there is no such bit.  The lemmas
  show that the halving search is exactly the least index, on every mask.
\<close>

definition BitMask_FindFirstZero :: "u32 \<Rightarrow> int" where
  "BitMask_FindFirstZero bitMask =
     (if bitMask \<noteq> 0xffffffff then
        let idx = 0;
            (bitMask, idx) = (if bitMask AND 0xffff = 0xffff
                              then (drop_bit 16 bitMask, idx + 16) else (bitMask, idx));
            (bitMask, idx) = (if bitMask AND 0xff = 0xff
                              then (drop_bit 8 bitMask, idx + 8) else (bitMask, idx));
            (bitMask, idx) = (if bitMask AND 0xf = 0xf
                              then (drop_bit 4 bitMask, idx + 4) else (bitMask, idx))
        in if bitMask AND 0x1 = 0 then idx
           else if bitMask AND 0x2 = 0 then idx + 1
           else if bitMask AND 0x4 = 0 then idx + 2
           else if bitMask AND 0x8 = 0 then idx + 3
           else -1
      else -1)"

definition BitMask_FindFirstOne :: "u32 \<Rightarrow> int" where
  "BitMask_FindFirstOne bitMask =
     (if bitMask \<noteq> 0x00000000 then
        let idx = 0;
            (bitMask, idx) = (if bitMask AND 0xffff = 0x0000
                              then (drop_bit 16 bitMask, idx + 16) else (bitMask, idx));
            (bitMask, idx) = (if bitMask AND 0xff = 0x00
                              then (drop_bit 8 bitMask, idx + 8) else (bitMask, idx));
            (bitMask, idx) = (if bitMask AND 0xf = 0x0
                              then (drop_bit 4 bitMask, idx + 4) else (bitMask, idx))
        in if bitMask AND 0x1 \<noteq> 0 then idx
           else if bitMask AND 0x2 \<noteq> 0 then idx + 1
           else if bitMask AND 0x4 \<noteq> 0 then idx + 2
           else if bitMask AND 0x8 \<noteq> 0 then idx + 3
           else -1
      else -1)"

subsection \<open>The masks of the search, as statements about bits\<close>

lemma mask_numerals: "(0xffff::u32) = mask 16" "(0xff::u32) = mask 8" "(0xf::u32) = mask 4"
  by (simp_all add: mask_eq_exp_minus_1)

lemma ones_numerals: "w AND 0xffff = 0xffff \<longleftrightarrow> (\<forall>i<16. bit w i)"
  "w AND 0xff = 0xff \<longleftrightarrow> (\<forall>i<8. bit w i)" "w AND 0xf = 0xf \<longleftrightarrow> (\<forall>i<4. bit w i)" for w :: u32
  by (simp_all only: mask_numerals, simp_all add: and_mask_eq_mask_iff)

lemma zeros_numerals: "w AND 0xffff = 0 \<longleftrightarrow> (\<forall>i<16. \<not> bit w i)"
  "w AND 0xff = 0 \<longleftrightarrow> (\<forall>i<8. \<not> bit w i)" "w AND 0xf = 0 \<longleftrightarrow> (\<forall>i<4. \<not> bit w i)" for w :: u32
  by (simp_all only: mask_numerals, simp_all add: and_mask_eq_0_iff)

lemma and_push_bit_eq_0_iff: "w AND push_bit n 1 = 0 \<longleftrightarrow> \<not> bit w n" for w :: u32
proof
  assume "w AND push_bit n 1 = 0"
  then have "bit (w AND push_bit n 1) n = bit (0::u32) n" by simp
  then show "\<not> bit w n"
    using bit_imp_le_length [of w n] by (auto simp: bit_and_iff bit_push_bit_iff bit_exp_iff)
next
  assume "\<not> bit w n"
  then show "w AND push_bit n 1 = 0"
    by (intro bit_eqI) (auto simp: bit_and_iff bit_push_bit_iff bit_exp_iff)
qed

lemma and_exp_eq_0_iff [simp]: "w AND 2 ^ n = 0 \<longleftrightarrow> \<not> bit w n" for w :: u32
  using and_push_bit_eq_0_iff [of w n] by (simp add: push_bit_eq_mult)

lemma single_bit_numerals: "w AND 1 = 0 \<longleftrightarrow> \<not> bit w 0" "w AND 2 = 0 \<longleftrightarrow> \<not> bit w 1"
  "w AND 4 = 0 \<longleftrightarrow> \<not> bit w 2" "w AND 8 = 0 \<longleftrightarrow> \<not> bit w 3" for w :: u32
  using and_push_bit_eq_0_iff [of w 0] and_push_bit_eq_0_iff [of w 1]
    and_push_bit_eq_0_iff [of w 2] and_push_bit_eq_0_iff [of w 3]
  by (simp_all add: push_bit_eq_mult)


subsection \<open>The halving search\<close>

text \<open>
  Both searches keep the same invariant: the first \<open>b\<close> bits of the mask have the wanted
  value, the mask in hand is the original one shifted by \<open>b\<close>, and one of the next \<open>k\<close>
  bits is the one looked for.  A skip over \<open>n\<close> bits halves the window.
\<close>

definition search_inv :: "(nat \<Rightarrow> bool) \<Rightarrow> u32 \<Rightarrow> nat \<Rightarrow> u32 \<times> int \<Rightarrow> bool" where
  "search_inv Q m k s \<longleftrightarrow>
     (\<exists>b. s = (drop_bit b m, int b) \<and> (\<forall>j<b. Q j) \<and> (\<exists>j<b + k. \<not> Q j))"

lemma all_less_add:
  assumes "\<forall>l<k. Q (b + l)" and "\<forall>j<b. Q j"
  shows "\<forall>j<b + k. Q (j::nat)"
proof (intro allI impI)
  fix j assume "j < b + k"
  then show "Q j" using assms by (cases "j < b") (auto simp: not_less le_iff_add)
qed

lemma search_skip:
  assumes inv: "search_inv Q m (n + n) (w, i)"
    and c: "\<And>b. w = drop_bit b m \<Longrightarrow> c \<longleftrightarrow> (\<forall>i<n. Q (b + i))"
  shows "search_inv Q m n (if c then (drop_bit n w, i + int n) else (w, i))"
proof -
  from inv obtain b where b: "w = drop_bit b m" "i = int b" "\<forall>j<b. Q j" "\<exists>j<b + (n + n). \<not> Q j"
    by (auto simp: search_inv_def)
  show ?thesis
  proof (cases c)
    case True
    then have "\<forall>l<n. Q (b + l)" using c [OF b(1)] by blast
    then have "\<forall>j<b + n. Q j" using b(3) by (rule all_less_add)
    moreover have "(drop_bit n w, i + int n) = (drop_bit (b + n) m, int (b + n))"
      by (simp add: b(1,2) add.commute)
    moreover have "\<exists>j<(b + n) + n. \<not> Q j" using b(4) by (simp only: add.assoc)
    ultimately show ?thesis
      unfolding search_inv_def if_P [OF True] by blast
  next
    case False
    then obtain k where "k < n" "\<not> Q (b + k)" using c [OF b(1)] by blast
    then have "\<exists>j<b + n. \<not> Q j" by (meson add_less_cancel_left)
    with b(1-3) show ?thesis
      unfolding search_inv_def if_not_P [OF False] by blast
  qed
qed

definition least_index :: "(nat \<Rightarrow> bool) \<Rightarrow> int \<Rightarrow> bool" where
  "least_index P r \<longleftrightarrow> 0 \<le> r \<and> P (nat r) \<and> (\<forall>j<nat r. \<not> P j)"

lemma search_finish:
  assumes "search_inv Q m 4 (w, i)"
    and "\<And>b k. w = drop_bit b m \<Longrightarrow> c k \<longleftrightarrow> \<not> Q (b + k)"
  shows "least_index (\<lambda>j. \<not> Q j)
    (if c 0 then i else if c 1 then i + 1 else if c 2 then i + 2 else if c 3 then i + 3 else - 1)"
proof -
  from assms(1) obtain b j where b: "w = drop_bit b m" "i = int b" "\<forall>j<b. Q j" "j < b + 4" "\<not> Q j"
    by (auto simp: search_inv_def)
  note c = assms(2) [OF b(1)]
  have "b \<le> j"
  proof (rule ccontr)
    assume "\<not> b \<le> j"
    with b(3,5) show False by simp
  qed
  with b(4) have "j \<in> {b, b + 1, b + 2, b + 3}" by auto
  then have ex: "c 0 \<or> c 1 \<or> c 2 \<or> c 3"
    using b(5) unfolding c by auto
  have all: "\<forall>j<b + k. Q j" if "\<forall>l<k. Q (b + l)" for k
    using that b(3) by (rule all_less_add)
  have least: "least_index (\<lambda>j. \<not> Q j) (i + int k)" if "c k" "\<forall>l<k. \<not> c l" for k
    using that all [of k] c b(2) by (simp add: least_index_def nat_int_add)
  have lt: "(\<forall>l<1. \<not> c l) \<longleftrightarrow> \<not> c 0" "(\<forall>l<2. \<not> c l) \<longleftrightarrow> \<not> c 0 \<and> \<not> c 1"
    "(\<forall>l<3. \<not> c l) \<longleftrightarrow> \<not> c 0 \<and> \<not> c 1 \<and> \<not> c 2"
    by (auto simp: less_Suc_eq numeral_2_eq_2 numeral_3_eq_3)
  show ?thesis
    using ex least [of 0] least [of 1] least [of 2] least [of 3] unfolding lt by auto
qed

text \<open>The two searches, as instances: skips and last step in terms of the mask in hand.\<close>

lemma skip_bits:
  assumes "search_inv (\<lambda>j. bit m j = v) m (n + n) (w, i)"
  shows "search_inv (\<lambda>j. bit m j = v) m n
           (if \<forall>i<n. bit w i = v then (drop_bit n w, i + int n) else (w, i))"
  using assms by (rule search_skip) (simp add: bit_drop_bit_eq)

lemma finish_bits:
  assumes "search_inv (\<lambda>j. bit m j = v) m 4 (w, i)"
  shows "least_index (\<lambda>j. bit m j \<noteq> v)
    (if bit w 0 \<noteq> v then i else if bit w 1 \<noteq> v then i + 1 else if bit w 2 \<noteq> v then i + 2
     else if bit w 3 \<noteq> v then i + 3 else - 1)"
  using assms by (rule search_finish) (simp add: bit_drop_bit_eq)

definition halving :: "bool \<Rightarrow> u32 \<Rightarrow> int" where
  "halving v m =
    (let (m1, i1) = (if \<forall>i<16. bit m i = v then (drop_bit 16 m, 0 + int 16) else (m, 0));
         (m2, i2) = (if \<forall>i<8. bit m1 i = v then (drop_bit 8 m1, i1 + int 8) else (m1, i1));
         (m3, i3) = (if \<forall>i<4. bit m2 i = v then (drop_bit 4 m2, i2 + int 4) else (m2, i2))
     in (if bit m3 0 \<noteq> v then i3 else if bit m3 1 \<noteq> v then i3 + 1 else if bit m3 2 \<noteq> v then i3 + 2
         else if bit m3 3 \<noteq> v then i3 + 3 else - 1))"

lemma halving_least:
  assumes "i < 32" and "bit m i \<noteq> v"
  shows "least_index (\<lambda>j. bit m j \<noteq> v) (halving v m)"
proof -
  obtain m1 i1 where 1: "(if \<forall>i<16. bit m i = v then (drop_bit 16 m, 0 + int 16) else (m, 0)) = (m1, i1)"
    by (rule prod.exhaust)
  obtain m2 i2 where 2: "(if \<forall>i<8. bit m1 i = v then (drop_bit 8 m1, i1 + int 8) else (m1, i1)) = (m2, i2)"
    by (rule prod.exhaust)
  obtain m3 i3 where 3: "(if \<forall>i<4. bit m2 i = v then (drop_bit 4 m2, i2 + int 4) else (m2, i2)) = (m3, i3)"
    by (rule prod.exhaust)
  have w: "(32::nat) = 16 + 16" "(16::nat) = 8 + 8" "(8::nat) = 4 + 4" by simp_all
  have "search_inv (\<lambda>j. bit m j = v) m 32 (m, 0)"
    using assms by (force simp: search_inv_def)
  then have "search_inv (\<lambda>j. bit m j = v) m 16 (m1, i1)"
    unfolding w(1) 1 [symmetric] by (rule skip_bits)
  then have "search_inv (\<lambda>j. bit m j = v) m 8 (m2, i2)"
    unfolding w(2) 2 [symmetric] by (rule skip_bits)
  then have "search_inv (\<lambda>j. bit m j = v) m 4 (m3, i3)"
    unfolding w(3) 3 [symmetric] by (rule skip_bits)
  from finish_bits [OF this] show ?thesis
    by (simp only: halving_def 1 2 3 Let_def prod.case)
qed

lemma all_ones_numeral: "(0xffffffff::u32) = - 1"
  by simp

lemma FindFirstZero_halving: "BitMask_FindFirstZero m = (if m = - 1 then - 1 else halving True m)"
  unfolding BitMask_FindFirstZero_def halving_def all_ones_numeral
  by (cases "m = - 1"; simp only: ones_numerals single_bit_numerals of_nat_numeral eq_True
      Let_def [of "0::int"] simp_thms if_True if_False)

lemma FindFirstOne_halving: "BitMask_FindFirstOne m = (if m = 0 then - 1 else halving False m)"
  unfolding BitMask_FindFirstOne_def halving_def
  by (cases "m = 0"; simp only: zeros_numerals single_bit_numerals of_nat_numeral eq_False
      Let_def [of "0::int"] simp_thms if_True if_False)

lemma least_index_Least:
  assumes "least_index P r" shows "r = int (LEAST j. P j)"
proof -
  have "(LEAST j. P j) = nat r"
    using assms unfolding least_index_def by (intro Least_equality) (auto intro: leI)
  with assms show ?thesis by (simp add: least_index_def)
qed

lemma FindFirstZero_least:
  assumes "m \<noteq> - 1"
  shows "least_index (\<lambda>j. \<not> bit m j) (BitMask_FindFirstZero m)"
proof -
  from assms obtain i where "i < 32" "bit m i \<noteq> True" unfolding word_all_ones_iff by auto
  from halving_least [OF this] assms show ?thesis by (simp add: FindFirstZero_halving)
qed

lemma FindFirstOne_least:
  assumes "m \<noteq> 0"
  shows "least_index (\<lambda>j. bit m j) (BitMask_FindFirstOne m)"
proof -
  from assms obtain i where "i < 32" "bit m i \<noteq> False" unfolding word_zero_iff by auto
  from halving_least [OF this] assms show ?thesis by (simp add: FindFirstOne_halving)
qed

lemma FindFirstZero_none: "BitMask_FindFirstZero m = - 1 \<longleftrightarrow> m = - 1"
proof (cases "m = - 1")
  case True
  then show ?thesis by (simp add: FindFirstZero_halving)
next
  case False
  from FindFirstZero_least [OF False] have "0 \<le> BitMask_FindFirstZero m"
    by (simp only: least_index_def)
  with False show ?thesis by linarith
qed

lemma FindFirstZero_some:
  assumes "m \<noteq> - 1"
  obtains i where "i < 32" and "BitMask_FindFirstZero m = int i" and "\<not> bit m i" and "\<forall>j<i. bit m j"
proof -
  from assms obtain k where k: "k < 32" "\<not> bit m k" unfolding word_all_ones_iff by auto
  from FindFirstZero_least [OF assms] have
    r: "0 \<le> BitMask_FindFirstZero m" "\<not> bit m (nat (BitMask_FindFirstZero m))"
      "\<forall>j<nat (BitMask_FindFirstZero m). bit m j"
    by (auto simp: least_index_def)
  with k have "nat (BitMask_FindFirstZero m) < 32"
    by (metis order.strict_trans1 not_le)
  with r show thesis by (intro that) auto
qed

text \<open>C27: the halving searches compute the least index.  \<^verbatim>\<open>BitMask_FindFirstZero\<close> is -1
  exactly on the all-ones mask and otherwise the index of the lowest clear bit;
  \<^verbatim>\<open>BitMask_FindFirstOne\<close> is -1 exactly on zero and otherwise the index of the lowest set
  bit.\<close>

theorem BitMask_search_least:
  "BitMask_FindFirstZero m = (if m = 0xffffffff then - 1 else int (LEAST i. \<not> bit m i)) \<and>
   BitMask_FindFirstOne m = (if m = 0 then - 1 else int (LEAST i. bit m i))"
  unfolding all_ones_numeral
  using least_index_Least [OF FindFirstZero_least [of m]] least_index_Least [OF FindFirstOne_least [of m]]
  by (cases "m = - 1"; cases "m = 0") (simp_all only: FindFirstZero_halving FindFirstOne_halving simp_thms if_True if_False)

end
