(* ===== verification/Identifier_DB.thy ===== *)
theory Identifier_DB
  imports Bit_Mask
begin

section \<open>Identifier database: src/common/src/vmaccel_utils.c\<close>

text \<open>
  \<^verbatim>\<open>IdentifierDB\<close> is a bitmap of identifiers in use with a counter of free ones.  The
  record has the fields of the C struct; each operation returns the updated record, or
  the failure (an access outside \<^verbatim>\<open>bits\<close>, a failed assertion) in a \<^typ>\<open>'a cres\<close>.
  The abstraction \<open>ids\<close> is the set of identifiers in use.

  Two disciplines use the database.  The allocator only calls \<^verbatim>\<open>AllocId\<close> and
  \<^verbatim>\<open>ReleaseId\<close>, which keep the counter exact (invariant \<open>counted\<close>).  The OpenCL backend
  and the streams call \<^verbatim>\<open>AcquireId\<close>, which sets a bit without touching the counter
  (invariant \<open>bounded_db\<close> only).
\<close>

named_theorems db_simps \<open>effect of database operations on a well-formed database\<close>

record IdentifierDB =
  db_size :: u32
  db_numWords :: u32
  db_free :: u32
  db_bits :: "u32 list"

text \<open>\<open>calloc_ok n\<close> says whether the C library's \<^verbatim>\<open>calloc\<close> finds \<open>n\<close> bytes; the bits array
  that was not found is the empty list, so that every access to it is out of bounds.\<close>

definition IdentifierDB_Alloc :: "(nat \<Rightarrow> bool) \<Rightarrow> u32 \<Rightarrow> IdentifierDB option" where
  "IdentifierDB_Alloc calloc_ok sz =
     (if calloc_ok 24 then
        let numWords = (sz + 31) div 32 in
        Some \<lparr>db_size = sz, db_numWords = numWords, db_free = sz,
              db_bits = (if calloc_ok (unat numWords * 4) then replicate (unat numWords) 0 else [])\<rparr>
      else None)"

definition IdentifierDB_Count :: "IdentifierDB \<Rightarrow> u32" where
  "IdentifierDB_Count db = db_size db - db_free db"

definition IdentifierDB_Size :: "IdentifierDB \<Rightarrow> u32" where
  "IdentifierDB_Size db = db_size db"

definition id_bit :: "u32 \<Rightarrow> u32" where
  "id_bit ident = push_bit (unat (ident mod 32)) 1"

definition ActiveId :: "IdentifierDB \<Rightarrow> u32 \<Rightarrow> bool cres" where
  "ActiveId db ident =
     (if ident \<ge> db_size db then Inr False
      else cbind (cread (db_bits db) (unat (ident div 32))) (\<lambda>w. Inr (w AND id_bit ident \<noteq> 0)))"

definition IdentifierDB_AcquireId :: "IdentifierDB \<Rightarrow> u32 \<Rightarrow> (bool \<times> IdentifierDB) cres" where
  "IdentifierDB_AcquireId db ident =
     (if ident \<ge> db_size db then Inr (False, db)
      else cbind (ActiveId db ident) (\<lambda>a.
        if a then Inr (False, db)
        else cbind (cread (db_bits db) (unat (ident div 32))) (\<lambda>w.
             cbind (cwrite (db_bits db) (unat (ident div 32)) (w OR id_bit ident)) (\<lambda>bits.
             Inr (True, db\<lparr>db_bits := bits\<rparr>)))))"

text \<open>The mask one iteration of the range loops uses: \<^verbatim>\<open>numBits\<close> ones shifted to the
  position of \<^verbatim>\<open>start\<close> in its word, or all ones when \<^verbatim>\<open>numBits\<close> is 32.\<close>

definition range_mask :: "u32 \<Rightarrow> u32 \<Rightarrow> u32" where
  "range_mask start end' =
     (let numBits = (if 32 < end' - start + 1 then 32 else end' - start + 1)
      in if numBits = 32 then 0xffffffff
         else push_bit (unat (start mod 32)) (push_bit (unat numBits) 1 - 1))"

function AcquireIdRange_loop ::
    "IdentifierDB \<Rightarrow> nat \<Rightarrow> u32 \<Rightarrow> u32 \<Rightarrow> (bool \<times> IdentifierDB) cres" where
  "AcquireIdRange_loop db i start end' =
     (if i \<le> unat (end' div 32) then
        cbind (cread (db_bits db) i) (\<lambda>w.
          let mask = range_mask start end' in
          if w AND mask \<noteq> 0 then Inr (False, db)
          else cbind (cwrite (db_bits db) i (w OR mask)) (\<lambda>bits.
            AcquireIdRange_loop (db\<lparr>db_bits := bits\<rparr>) (Suc i) (start + (32 - start mod 32)) end'))
      else Inr (True, db))"
  by pat_completeness auto
termination
  by (relation "measure (\<lambda>(db, i, start, end'). Suc (unat (end' div 32)) - i)") auto

definition IdentifierDB_AcquireIdRange ::
    "IdentifierDB \<Rightarrow> u32 \<Rightarrow> u32 \<Rightarrow> (bool \<times> IdentifierDB) cres" where
  "IdentifierDB_AcquireIdRange db start end' =
     (if start \<ge> db_size db \<or> end' \<ge> db_size db then Inr (False, db)
      else AcquireIdRange_loop db (unat (start div 32)) start end')"

definition IdentifierDB_ActiveId :: "IdentifierDB \<Rightarrow> u32 \<Rightarrow> bool cres" where
  "IdentifierDB_ActiveId db ident = ActiveId db ident"

function AllocId_loop :: "IdentifierDB \<Rightarrow> nat \<Rightarrow> (u32 option \<times> IdentifierDB) cres" where
  "AllocId_loop db i =
     (if i < unat (db_numWords db) then
        cbind (cread (db_bits db) i) (\<lambda>w.
          let ret = BitMask_FindFirstZero w in
          if ret \<noteq> - 1 then
            cbind (cwrite (db_bits db) i (w OR push_bit (nat ret) 1)) (\<lambda>bits.
              Inr (Some (of_nat i * 32 + of_int ret),
                   db\<lparr>db_free := db_free db - 1, db_bits := bits\<rparr>))
          else AllocId_loop db (Suc i))
      else Inl AssertFailed)"
  by pat_completeness auto
termination
  by (relation "measure (\<lambda>(db, i). unat (db_numWords db) - i)") auto

definition IdentifierDB_AllocId :: "IdentifierDB \<Rightarrow> (u32 option \<times> IdentifierDB) cres" where
  "IdentifierDB_AllocId db = (if db_free db = 0 then Inr (None, db) else AllocId_loop db 0)"

definition IdentifierDB_ReleaseId :: "IdentifierDB \<Rightarrow> u32 \<Rightarrow> IdentifierDB cres" where
  "IdentifierDB_ReleaseId db ident =
     (if ident \<ge> db_size db then Inr db
      else cbind (cread (db_bits db) (unat (ident div 32))) (\<lambda>w.
        if w AND id_bit ident \<noteq> 0 then
          cbind (cwrite (db_bits db) (unat (ident div 32)) (w AND NOT (id_bit ident))) (\<lambda>bits.
            Inr (db\<lparr>db_bits := bits, db_free := db_free db + 1\<rparr>))
        else Inl AssertFailed))"

function ReleaseIdRange_loop ::
    "IdentifierDB \<Rightarrow> nat \<Rightarrow> u32 \<Rightarrow> u32 \<Rightarrow> IdentifierDB cres" where
  "ReleaseIdRange_loop db i start end' =
     (if i \<le> unat (end' div 32) then
        cbind (cread (db_bits db) i) (\<lambda>w.
        cbind (cwrite (db_bits db) i (w AND NOT (range_mask start end'))) (\<lambda>bits.
          ReleaseIdRange_loop (db\<lparr>db_bits := bits\<rparr>) (Suc i) (start + (32 - start mod 32)) end'))
      else Inr db)"
  by pat_completeness auto
termination
  by (relation "measure (\<lambda>(db, i, start, end'). Suc (unat (end' div 32)) - i)") auto

definition IdentifierDB_ReleaseIdRange ::
    "IdentifierDB \<Rightarrow> u32 \<Rightarrow> u32 \<Rightarrow> (bool \<times> IdentifierDB) cres" where
  "IdentifierDB_ReleaseIdRange db start end' =
     (if start \<ge> db_size db \<or> end' \<ge> db_size db then Inr (False, db)
      else cbind (ReleaseIdRange_loop db (unat (start div 32)) start end') (\<lambda>db. Inr (True, db)))"

declare AcquireIdRange_loop.simps [simp del] AllocId_loop.simps [simp del]
  ReleaseIdRange_loop.simps [simp del]


subsection \<open>The set of identifiers in use\<close>

definition word_ids :: "u32 list \<Rightarrow> nat set" where
  "word_ids ws = {i. i < 32 * length ws \<and> bit (ws ! (i div 32)) (i mod 32)}"

definition ids :: "IdentifierDB \<Rightarrow> nat set" where
  "ids db = word_ids (db_bits db)"

definition wf_db :: "IdentifierDB \<Rightarrow> bool" where
  "wf_db db \<longleftrightarrow> length (db_bits db) = unat (db_numWords db) \<and>
     unat (db_numWords db) = (unat (db_size db) + 31) div 32"

definition bounded_db :: "IdentifierDB \<Rightarrow> bool" where
  "bounded_db db \<longleftrightarrow> wf_db db \<and> ids db \<subseteq> {..<unat (db_size db)}"

definition counted :: "IdentifierDB \<Rightarrow> bool" where
  "counted db \<longleftrightarrow> bounded_db db \<and> unat (db_free db) + card (ids db) = unat (db_size db)"

lemma finite_word_ids [simp]: "finite (word_ids ws)"
  by (simp add: word_ids_def)

lemma finite_ids [simp]: "finite (ids db)"
  by (simp add: ids_def)

lemma word_idsI: "k < length ws \<Longrightarrow> j < 32 \<Longrightarrow> bit (ws ! k) j \<Longrightarrow> k * 32 + j \<in> word_ids ws"
  by (simp add: word_ids_def)

lemma word_ids_replicate_0 [simp]: "word_ids (replicate n 0) = {}"
  by (auto simp: word_ids_def)

lemma word_ids_update:
  assumes k: "k < length ws"
  shows "word_ids (ws[k := v]) =
    (word_ids ws - {k * 32..<k * 32 + 32}) \<union> {i. k * 32 \<le> i \<and> i < k * 32 + 32 \<and> bit v (i - k * 32)}"
proof (rule set_eqI)
  fix i
  show "i \<in> word_ids (ws[k := v]) \<longleftrightarrow> i \<in> (word_ids ws - {k * 32..<k * 32 + 32}) \<union>
    {i. k * 32 \<le> i \<and> i < k * 32 + 32 \<and> bit v (i - k * 32)}"
  proof (cases "i div 32 = k")
    case True
    then have "i mod 32 = i - k * 32" "k * 32 \<le> i" "i < k * 32 + 32" by (auto simp: minus_div_mult_eq_mod [symmetric])
    with True k show ?thesis by (auto simp: word_ids_def)
  next
    case False
    then have "\<not> (k * 32 \<le> i \<and> i < k * 32 + 32)" by auto
    with False show ?thesis by (auto simp: word_ids_def)
  qed
qed

lemma in_word_ids: "k * 32 \<le> i \<Longrightarrow> i < k * 32 + 32 \<Longrightarrow> k < length ws \<Longrightarrow>
    i \<in> word_ids ws \<longleftrightarrow> bit (ws ! k) (i - k * 32)"
proof -
  assume a: "k * 32 \<le> i" "i < k * 32 + 32" "k < length ws"
  then obtain j where "i = k * 32 + j" "j < 32" by (metis add_less_cancel_left le_iff_add)
  with a show ?thesis by (simp add: word_ids_def)
qed

lemma word_ids_elem: "k < length ws \<Longrightarrow> j < 32 \<Longrightarrow> k * 32 + j \<in> word_ids ws \<longleftrightarrow> bit (ws ! k) j"
  by (simp add: word_ids_def)

lemma word_ids_set_bit:
  assumes k: "k < length ws" and j: "j < 32"
  shows "word_ids (ws[k := (ws ! k) OR push_bit j 1]) = insert (k * 32 + j) (word_ids ws)"
proof (rule set_eqI)
  fix i
  show "i \<in> word_ids (ws[k := (ws ! k) OR push_bit j 1]) \<longleftrightarrow> i \<in> insert (k * 32 + j) (word_ids ws)"
  proof (cases "k * 32 \<le> i \<and> i < k * 32 + 32")
    case True
    then have "bit ((ws ! k) OR push_bit j 1) (i - k * 32) \<longleftrightarrow> bit (ws ! k) (i - k * 32) \<or> i = k * 32 + j"
      using j by (auto simp: bit_or_iff bit_push_bit_iff bit_exp_iff)
    with True show ?thesis by (auto simp: word_ids_update [OF k] in_word_ids [OF _ _ k])
  next
    case False
    with j show ?thesis by (auto simp: word_ids_update [OF k])
  qed
qed

lemma word_ids_clear_bit:
  assumes k: "k < length ws" and j: "j < 32"
  shows "word_ids (ws[k := (ws ! k) AND NOT (push_bit j 1)]) = word_ids ws - {k * 32 + j}"
proof (rule set_eqI)
  fix i
  show "i \<in> word_ids (ws[k := (ws ! k) AND NOT (push_bit j 1)]) \<longleftrightarrow> i \<in> word_ids ws - {k * 32 + j}"
  proof (cases "k * 32 \<le> i \<and> i < k * 32 + 32")
    case True
    then have "bit ((ws ! k) AND NOT (push_bit j 1)) (i - k * 32) \<longleftrightarrow>
        bit (ws ! k) (i - k * 32) \<and> i \<noteq> k * 32 + j"
      using j by (auto simp: bit_and_iff bit_not_iff bit_push_bit_iff bit_exp_iff dest: bit_imp_le_length)
    with True show ?thesis by (auto simp: word_ids_update [OF k] in_word_ids [OF _ _ k])
  next
    case False
    with j show ?thesis by (auto simp: word_ids_update [OF k])
  qed
qed

lemma id_bit_active:
  assumes "unat ident div 32 < length ws"
  shows "(ws ! (unat ident div 32)) AND id_bit ident \<noteq> 0 \<longleftrightarrow> unat ident \<in> word_ids ws"
  using assms by (auto simp: id_bit_def word_ids_def)

lemma wf_db_index [intro]: "wf_db db \<Longrightarrow> ident < db_size db \<Longrightarrow> unat ident div 32 < length (db_bits db)"
  by (simp add: wf_db_def word_less_nat_alt)

lemma wf_db_update [simp]:
  "wf_db (db\<lparr>db_free := f\<rparr>) = wf_db db"
  "wf_db (db\<lparr>db_bits := (db_bits db)[k := v]\<rparr>) = wf_db db"
  "wf_db (db\<lparr>db_bits := (db_bits db)[k := v], db_free := f\<rparr>) = wf_db db"
  "wf_db (db\<lparr>db_free := f, db_bits := (db_bits db)[k := v]\<rparr>) = wf_db db"
  by (simp_all add: wf_db_def)

lemma ids_update_free [simp]: "ids (db\<lparr>db_free := f\<rparr>) = ids db"
  by (simp add: ids_def)

lemma unat_split32: "(unat n div 32) * 32 + unat n mod 32 = unat n" for n :: u32
  by simp

subsection \<open>What the operations do\<close>

lemma Alloc_props:
  assumes "IdentifierDB_Alloc ok sz = Some db" and "\<And>n. ok n" and "unat sz \<le> 2 ^ 32 - 32"
  shows "counted db" and "ids db = {}" and "db_size db = sz" and "db_free db = sz"
proof -
  have u: "unat (sz + 31) = unat sz + 31"
    using assms(3) by (subst unat_add_lem [THEN iffD1]) (auto simp: unat_of_nat)
  then have n: "unat ((sz + 31) div 32) = (unat sz + 31) div 32" by simp
  from assms(1,2) have db: "db = \<lparr>db_size = sz, db_numWords = (sz + 31) div 32, db_free = sz,
      db_bits = replicate (unat ((sz + 31) div 32)) 0\<rparr>"
    by (simp add: IdentifierDB_Alloc_def Let_def)
  show "ids db = {}" "db_size db = sz" "db_free db = sz" by (simp_all add: db ids_def)
  then show "counted db" by (simp add: counted_def bounded_db_def wf_db_def db u)
qed

lemma ActiveId_eq [db_simps]:
  assumes "wf_db db"
  shows "ActiveId db i = Inr (i < db_size db \<and> unat i \<in> ids db)"
proof (cases "i < db_size db")
  case True
  with assms have "unat i div 32 < length (db_bits db)" by blast
  with True show ?thesis by (simp add: ActiveId_def ids_def id_bit_active not_le [symmetric])
next
  case False
  then have "db_size db \<le> i" by simp
  with False show ?thesis by (simp add: ActiveId_def)
qed

lemma AcquireId_fresh:
  assumes wf: "wf_db db" and i: "i < db_size db" and "unat i \<notin> ids db"
  shows "\<exists>db'. IdentifierDB_AcquireId db i = Inr (True, db') \<and> wf_db db' \<and>
    ids db' = insert (unat i) (ids db) \<and> db_size db' = db_size db \<and> db_free db' = db_free db"
proof -
  let ?k = "unat i div 32"
  from wf i have k: "?k < length (db_bits db)" by blast
  let ?db = "db\<lparr>db_bits := (db_bits db)[?k := (db_bits db ! ?k) OR id_bit i]\<rparr>"
  have "IdentifierDB_AcquireId db i = Inr (True, ?db)"
    using assms k by (simp add: IdentifierDB_AcquireId_def ActiveId_eq not_le [symmetric])
  moreover have "ids ?db = insert (unat i) (ids db)"
    using word_ids_set_bit [OF k, of "unat i mod 32"] by (simp add: ids_def id_bit_def)
  ultimately show ?thesis using wf by simp
qed

lemma AcquireId_refused:
  assumes "wf_db db" and "db_size db \<le> i \<or> unat i \<in> ids db"
  shows "IdentifierDB_AcquireId db i = Inr (False, db)"
  using assms by (auto simp: IdentifierDB_AcquireId_def ActiveId_eq)

lemma ReleaseId_active:
  assumes wf: "wf_db db" and i: "i < db_size db" and "unat i \<in> ids db"
  shows "\<exists>db'. IdentifierDB_ReleaseId db i = Inr db' \<and> wf_db db' \<and> ids db' = ids db - {unat i} \<and>
    db_size db' = db_size db \<and> db_free db' = db_free db + 1"
proof -
  let ?k = "unat i div 32"
  from wf i have k: "?k < length (db_bits db)" by blast
  let ?db = "db\<lparr>db_bits := (db_bits db)[?k := (db_bits db ! ?k) AND NOT (id_bit i)], db_free := db_free db + 1\<rparr>"
  have "IdentifierDB_ReleaseId db i = Inr ?db"
    using assms k by (simp add: IdentifierDB_ReleaseId_def id_bit_active ids_def not_le [symmetric])
  moreover have "ids ?db = ids db - {unat i}"
    using word_ids_clear_bit [OF k, of "unat i mod 32"] by (simp add: ids_def id_bit_def)
  ultimately show ?thesis using wf by simp
qed

lemma ReleaseId_out_of_range: "db_size db \<le> i \<Longrightarrow> IdentifierDB_ReleaseId db i = Inr db"
  by (simp add: IdentifierDB_ReleaseId_def)

lemma ReleaseId_inactive:
  assumes wf: "wf_db db" and i: "i < db_size db" and "unat i \<notin> ids db"
  shows "IdentifierDB_ReleaseId db i = Inl AssertFailed"
proof -
  from wf i have "unat i div 32 < length (db_bits db)" by blast
  with assms show ?thesis
    by (simp add: IdentifierDB_ReleaseId_def id_bit_active [symmetric] ids_def not_le [symmetric])
qed

lemma full_word:
  assumes "k < length ws"
  shows "{k * 32..<k * 32 + 32} \<subseteq> word_ids ws \<longleftrightarrow> ws ! k = - 1"
proof
  assume sub: "{k * 32..<k * 32 + 32} \<subseteq> word_ids ws"
  have "bit (ws ! k) j" if "j < 32" for j
  proof -
    from sub that have "k * 32 + j \<in> word_ids ws" by auto
    with that assms show ?thesis by (simp add: word_ids_elem)
  qed
  then show "ws ! k = - 1" unfolding word_all_ones_iff by simp
next
  assume "ws ! k = - 1"
  with assms show "{k * 32..<k * 32 + 32} \<subseteq> word_ids ws" by (auto simp: in_word_ids [of k])
qed

lemma lessThan_word: "{..<Suc i * 32} = {..<i * 32} \<union> {i * 32..<i * 32 + (32::nat)}"
  by auto

text \<open>The search loop skips full words; at the first word with a clear bit it takes the
  least identifier not in use.\<close>

lemma AllocId_loop_least:
  assumes wf: "wf_db db" and "{..<i * 32} \<subseteq> ids db" and "n \<notin> ids db" and "\<forall>m<n. m \<in> ids db"
    and "n < unat (db_size db)"
  shows "\<exists>db'. AllocId_loop db i = Inr (Some (of_nat n), db') \<and> wf_db db' \<and> ids db' = insert n (ids db) \<and>
    db_size db' = db_size db \<and> db_free db' = db_free db - 1"
  using assms(2)
proof (induction "length (db_bits db) - i" arbitrary: i rule: less_induct)
  case less
  from wf have len: "length (db_bits db) = unat (db_numWords db)"
    "unat (db_numWords db) = (unat (db_size db) + 31) div 32" by (simp_all add: wf_db_def)
  have "i * 32 \<le> n" using less.prems \<open>n \<notin> ids db\<close> by (auto simp: not_le [symmetric])
  with assms(5) have i: "i < length (db_bits db)" unfolding len by linarith
  have step: "AllocId_loop db i = (let ret = BitMask_FindFirstZero (db_bits db ! i) in
      if ret \<noteq> - 1 then Inr (Some (of_nat i * 32 + of_int ret), db\<lparr>db_free := db_free db - 1,
        db_bits := (db_bits db)[i := (db_bits db ! i) OR push_bit (nat ret) 1]\<rparr>)
      else AllocId_loop db (Suc i))"
    using i len by (simp add: AllocId_loop.simps [of db i] Let_def)
  show ?case
  proof (cases "db_bits db ! i = - 1")
    case True
    with i less.prems have "{..<Suc i * 32} \<subseteq> ids db"
      unfolding lessThan_word ids_def using full_word [OF i] by blast
    from less.hyps [OF _ \<open>{..<Suc i * 32} \<subseteq> ids db\<close>] i True step show ?thesis
      by (simp add: FindFirstZero_none)
  next
    case False
    then obtain j where j: "j < 32" "BitMask_FindFirstZero (db_bits db ! i) = int j"
      "\<not> bit (db_bits db ! i) j" "\<forall>l<j. bit (db_bits db ! i) l" by (rule FindFirstZero_some)
    have "i * 32 + j \<notin> ids db" using j i by (simp add: ids_def word_ids_elem)
    moreover have "m \<in> ids db" if "m < i * 32 + j" for m
    proof (cases "m < i * 32")
      case True
      with less.prems show ?thesis by auto
    next
      case False
      with that j i show ?thesis by (simp add: ids_def in_word_ids [of i])
    qed
    ultimately have n: "n = i * 32 + j" using assms(3,4) by (metis nat_neq_iff)
    let ?db = "db\<lparr>db_free := db_free db - 1, db_bits := (db_bits db)[i := (db_bits db ! i) OR push_bit j 1]\<rparr>"
    have "AllocId_loop db i = Inr (Some (of_nat n), ?db)"
      using j n by (simp add: step)
    moreover have "ids ?db = insert n (ids db)"
      using word_ids_set_bit [OF i j(1)] by (simp add: ids_def n)
    ultimately show ?thesis using wf by simp
  qed
qed

lemma AllocId_loop_full:
  assumes wf: "wf_db db" and "{..<length (db_bits db) * 32} \<subseteq> ids db"
  shows "AllocId_loop db i = Inl AssertFailed"
proof (induction "length (db_bits db) - i" arbitrary: i rule: less_induct)
  case less
  show ?case
  proof (cases "i < length (db_bits db)")
    case True
    then have "{i * 32..<i * 32 + 32} \<subseteq> {..<length (db_bits db) * 32}" by auto
    with assms(2) True have "db_bits db ! i = - 1" using full_word [OF True] unfolding ids_def by blast
    with True less.hyps [of "Suc i"] wf show ?thesis
      by (simp add: AllocId_loop.simps [of db i] wf_db_def FindFirstZero_none)
  next
    case False
    with wf show ?thesis by (simp add: AllocId_loop.simps [of db i] wf_db_def)
  qed
qed

lemma bounded_ids_full_iff:
  assumes "bounded_db db"
  shows "card (ids db) = unat (db_size db) \<longleftrightarrow> ids db = {..<unat (db_size db)}"
  using assms by (metis bounded_db_def card_lessThan card_subset_eq finite_lessThan)

lemma least_free_id:
  assumes "bounded_db db" and "ids db \<noteq> {..<unat (db_size db)}"
  defines "n \<equiv> LEAST m. m \<notin> ids db"
  shows "n \<notin> ids db" and "\<forall>m<n. m \<in> ids db" and "n < unat (db_size db)"
proof -
  from assms obtain k where k: "k < unat (db_size db)" "k \<notin> ids db" by (auto simp: bounded_db_def)
  from LeastI [of "\<lambda>m. m \<notin> ids db", OF k(2)] show "n \<notin> ids db" by (simp add: n_def)
  show "\<forall>m<n. m \<in> ids db" unfolding n_def using not_less_Least by blast
  from Least_le [of "\<lambda>m. m \<notin> ids db", OF k(2)] k(1) show "n < unat (db_size db)" by (simp add: n_def)
qed

lemma AllocId_exhausted:
  assumes "counted db" and "ids db = {..<unat (db_size db)}"
  shows "IdentifierDB_AllocId db = Inr (None, db)"
proof -
  from assms have "unat (db_free db) = 0" by (simp add: counted_def)
  then show ?thesis by (simp add: IdentifierDB_AllocId_def unat_eq_0)
qed

lemma AllocId_least:
  assumes c: "counted db" and "ids db \<noteq> {..<unat (db_size db)}"
  shows "\<exists>db'. IdentifierDB_AllocId db = Inr (Some (of_nat (LEAST n. n \<notin> ids db)), db') \<and> counted db' \<and>
    ids db' = insert (LEAST n. n \<notin> ids db) (ids db) \<and> db_size db' = db_size db"
proof -
  from c have b: "bounded_db db" and wf: "wf_db db" by (simp_all add: counted_def bounded_db_def)
  note least = least_free_id [OF b assms(2)]
  from assms bounded_ids_full_iff [OF b] have "unat (db_free db) \<noteq> 0" by (auto simp: counted_def)
  then have f: "db_free db \<noteq> 0" "unat (db_free db - 1) = unat (db_free db) - 1"
    by (simp_all add: unat_eq_0 unat_minus_one)
  define n where "n = (LEAST n. n \<notin> ids db)"
  note least [folded n_def]
  have "{..<0 * 32} \<subseteq> ids db" by simp
  from AllocId_loop_least [OF wf this \<open>n \<notin> ids db\<close> \<open>\<forall>m<n. m \<in> ids db\<close> \<open>n < unat (db_size db)\<close>]
  obtain db' where db': "AllocId_loop db 0 = Inr (Some (of_nat n), db')" "wf_db db'"
    "ids db' = insert n (ids db)" "db_size db' = db_size db" "db_free db' = db_free db - 1" by blast
  have "card (ids db') = card (ids db) + 1" using \<open>n \<notin> ids db\<close> by (simp add: db')
  with c f \<open>unat (db_free db) \<noteq> 0\<close> \<open>n < unat (db_size db)\<close> have "counted db'"
    by (simp add: counted_def bounded_db_def db')
  with db' f show ?thesis unfolding n_def [symmetric] by (simp add: IdentifierDB_AllocId_def)
qed

lemma ReleaseId_bounded:
  assumes b: "bounded_db db" and i: "unat i \<in> ids db"
  shows "\<exists>db'. IdentifierDB_ReleaseId db i = Inr db' \<and> bounded_db db' \<and> ids db' = ids db - {unat i} \<and>
    db_size db' = db_size db \<and> db_free db' = db_free db + 1"
proof -
  from b i have "i < db_size db" "wf_db db" by (auto simp: bounded_db_def word_less_nat_alt)
  from ReleaseId_active [OF this(2,1) i] b show ?thesis by (auto simp: bounded_db_def)
qed

lemma ReleaseId_counted:
  assumes c: "counted db" and i: "unat i \<in> ids db"
  shows "\<exists>db'. IdentifierDB_ReleaseId db i = Inr db' \<and> counted db' \<and> ids db' = ids db - {unat i} \<and>
    db_size db' = db_size db"
proof -
  from c have b: "bounded_db db" by (simp add: counted_def)
  from ReleaseId_bounded [OF b i] obtain db' where db': "IdentifierDB_ReleaseId db i = Inr db'"
    "bounded_db db'" "ids db' = ids db - {unat i}" "db_size db' = db_size db" "db_free db' = db_free db + 1"
    by auto
  from i have pos: "0 < card (ids db)" by (auto simp: card_gt_0_iff)
  with c have "unat (db_free db) < unat (db_size db)" by (simp add: counted_def)
  then have "unat (db_free db + 1) = unat (db_free db) + 1"
    using unsigned_less [of "db_size db", where 'a = nat] by (subst unat_add_lem [THEN iffD1]) auto
  with c db' i pos have "counted db'" by (simp add: counted_def)
  with db' show ?thesis by auto
qed

subsection \<open>The interface: a bounded set of identifiers\<close>

text \<open>What the clients of the database rely on.  \<open>id_set\<close> is the part both disciplines
  share, \<open>id_alloc\<close> adds allocation of the least free identifier, \<open>id_acquire\<close> the
  acquisition of an identifier the caller chose.\<close>

locale id_set =
  fixes invar :: "'db \<Rightarrow> bool" and elems :: "'db \<Rightarrow> nat set" and cap :: "'db \<Rightarrow> nat"
    and active :: "'db \<Rightarrow> u32 \<Rightarrow> bool cres" and release :: "'db \<Rightarrow> u32 \<Rightarrow> 'db cres"
  assumes cap_word: "cap db < 2 ^ 32"
    and elems_bound: "invar db \<Longrightarrow> elems db \<subseteq> {..<cap db}"
    and active_elems: "invar db \<Longrightarrow> active db i = Inr (unat i \<in> elems db)"
    and release_elem: "invar db \<Longrightarrow> unat i \<in> elems db \<Longrightarrow>
      \<exists>db'. release db i = Inr db' \<and> invar db' \<and> elems db' = elems db - {unat i} \<and> cap db' = cap db"
    and release_outside: "cap db \<le> unat i \<Longrightarrow> release db i = Inr db"
    and release_unused: "invar db \<Longrightarrow> unat i < cap db \<Longrightarrow> unat i \<notin> elems db \<Longrightarrow>
      release db i = Inl AssertFailed"

locale id_alloc = id_set +
  fixes alloc :: "'a \<Rightarrow> (u32 option \<times> 'a) cres"
  assumes alloc_full: "invar db \<Longrightarrow> elems db = {..<cap db} \<Longrightarrow> alloc db = Inr (None, db)"
    and alloc_least: "invar db \<Longrightarrow> elems db \<noteq> {..<cap db} \<Longrightarrow>
      \<exists>db'. alloc db = Inr (Some (of_nat (LEAST n. n \<notin> elems db)), db') \<and> invar db' \<and>
        elems db' = insert (LEAST n. n \<notin> elems db) (elems db) \<and> cap db' = cap db"

locale id_acquire = id_set +
  fixes acquire :: "'a \<Rightarrow> u32 \<Rightarrow> (bool \<times> 'a) cres"
  assumes acquire_fresh: "invar db \<Longrightarrow> unat i < cap db \<Longrightarrow> unat i \<notin> elems db \<Longrightarrow>
      \<exists>db'. acquire db i = Inr (True, db') \<and> invar db' \<and> elems db' = insert (unat i) (elems db) \<and>
        cap db' = cap db"
    and acquire_refused: "invar db \<Longrightarrow> cap db \<le> unat i \<or> unat i \<in> elems db \<Longrightarrow>
      acquire db i = Inr (False, db)"

text \<open>A client's sequence of requests, its run on a database, and its run on the set it
  stands for.\<close>

datatype id_op = Alloc_id | Release_id u32

fun run_ids :: "('db \<Rightarrow> (u32 option \<times> 'db) cres) \<Rightarrow> ('db \<Rightarrow> u32 \<Rightarrow> 'db cres) \<Rightarrow> 'db \<Rightarrow> id_op list \<Rightarrow>
    (u32 option list \<times> 'db) cres" where
  "run_ids al re db [] = Inr ([], db)"
| "run_ids al re db (Alloc_id # ops) =
     cbind (al db) (\<lambda>(r, db). cbind (run_ids al re db ops) (\<lambda>(rs, db). Inr (r # rs, db)))"
| "run_ids al re db (Release_id i # ops) = cbind (re db i) (\<lambda>db. run_ids al re db ops)"

fun run_set :: "nat \<Rightarrow> nat set \<Rightarrow> id_op list \<Rightarrow> (u32 option list \<times> nat set) cres" where
  "run_set n S [] = Inr ([], S)"
| "run_set n S (Alloc_id # ops) =
     (if S = {..<n} then cbind (run_set n S ops) (\<lambda>(rs, S). Inr (None # rs, S))
      else let m = (LEAST m. m \<notin> S) in
        cbind (run_set n (insert m S) ops) (\<lambda>(rs, S). Inr (Some (of_nat m) # rs, S)))"
| "run_set n S (Release_id i # ops) =
     (if n \<le> unat i then run_set n S ops
      else if unat i \<in> S then run_set n (S - {unat i}) ops
      else Inl AssertFailed)"

context id_alloc
begin

lemma run_refines:
  "invar db \<Longrightarrow> rel_sum (=) (\<lambda>(rs, db') (rs', S). rs = rs' \<and> S = elems db' \<and> invar db' \<and> cap db' = cap db)
     (run_ids alloc release db ops) (run_set (cap db) (elems db) ops)"
proof (induction ops arbitrary: db)
  case Nil
  then show ?case by simp
next
  case (Cons op ops)
  show ?case
  proof (cases op)
    case Alloc_id
    show ?thesis
    proof (cases "elems db = {..<cap db}")
      case True
      with alloc_full [OF Cons.prems] have "alloc db = Inr (None, db)" by simp
      then have run: "run_ids alloc release db (op # ops) =
          cbind (run_ids alloc release db ops) (\<lambda>(rs, db). Inr (None # rs, db))" by (simp add: Alloc_id)
      have set: "run_set (cap db) (elems db) (op # ops) =
          cbind (run_set (cap db) (elems db) ops) (\<lambda>(rs, S). Inr (None # rs, S))"
        unfolding Alloc_id run_set.simps if_P [OF True] by (rule refl)
      show ?thesis unfolding run set by (rule rel_sum_cbind [OF Cons.IH [OF Cons.prems]]) auto
    next
      case False
      from alloc_least [OF Cons.prems this] obtain db' where
        db': "alloc db = Inr (Some (of_nat (LEAST n. n \<notin> elems db)), db')" "invar db'"
        "elems db' = insert (LEAST n. n \<notin> elems db) (elems db)" "cap db' = cap db" by blast
      then have run: "run_ids alloc release db (op # ops) = cbind (run_ids alloc release db' ops)
          (\<lambda>(rs, d). Inr (Some (of_nat (LEAST n. n \<notin> elems db)) # rs, d))" by (simp add: Alloc_id)
      have set: "run_set (cap db) (elems db) (op # ops) = cbind (run_set (cap db') (elems db') ops)
          (\<lambda>(rs, S). Inr (Some (of_nat (LEAST n. n \<notin> elems db)) # rs, S))"
        unfolding Alloc_id run_set.simps if_not_P [OF False] Let_def db'(3,4) by (rule refl)
      show ?thesis unfolding run set by (rule rel_sum_cbind [OF Cons.IH [OF db'(2)]]) (auto simp: db'(4))
    qed
  next
    case (Release_id i)
    consider "cap db \<le> unat i" | "unat i \<in> elems db" | "unat i < cap db" "unat i \<notin> elems db"
      by fastforce
    then show ?thesis
    proof cases
      case 1
      with Release_id Cons.IH [OF Cons.prems] release_outside [of db i] show ?thesis by simp
    next
      case 2
      with elems_bound [OF Cons.prems] have "unat i < cap db" by auto
      moreover obtain db' where "release db i = Inr db'" "invar db'" "elems db' = elems db - {unat i}"
        "cap db' = cap db" using release_elem [OF Cons.prems 2] by blast
      ultimately show ?thesis using 2 Cons.IH [of db'] by (simp add: Release_id)
    next
      case 3
      with Release_id release_unused [OF Cons.prems] show ?thesis by simp
    qed
  qed
qed

end

interpretation counted_ids: id_alloc counted ids "\<lambda>db. unat (db_size db)" IdentifierDB_ActiveId
  IdentifierDB_ReleaseId IdentifierDB_AllocId
proof
  fix db :: IdentifierDB and i :: u32
  show "unat (db_size db) < 2 ^ 32" using unsigned_less [of "db_size db", where 'a = nat] by simp
  show "unat (db_size db) \<le> unat i \<Longrightarrow> IdentifierDB_ReleaseId db i = Inr db"
    by (simp add: ReleaseId_out_of_range unat_le_iff)
  assume c: "counted db"
  then have b: "bounded_db db" and wf: "wf_db db" by (simp_all add: counted_def bounded_db_def)
  show sub: "ids db \<subseteq> {..<unat (db_size db)}" using b by (simp add: bounded_db_def)
  show "IdentifierDB_ActiveId db i = Inr (unat i \<in> ids db)"
    using sub by (auto simp: IdentifierDB_ActiveId_def ActiveId_eq [OF wf] word_less_nat_alt)
  show "unat i \<in> ids db \<Longrightarrow> \<exists>db'. IdentifierDB_ReleaseId db i = Inr db' \<and> counted db' \<and>
      ids db' = ids db - {unat i} \<and> unat (db_size db') = unat (db_size db)"
    using ReleaseId_counted [OF c, of i] by auto
  show "unat i < unat (db_size db) \<Longrightarrow> unat i \<notin> ids db \<Longrightarrow> IdentifierDB_ReleaseId db i = Inl AssertFailed"
    by (rule ReleaseId_inactive [OF wf]) (simp_all add: word_less_nat_alt)
  show "ids db = {..<unat (db_size db)} \<Longrightarrow> IdentifierDB_AllocId db = Inr (None, db)"
    by (rule AllocId_exhausted [OF c])
  show "ids db \<noteq> {..<unat (db_size db)} \<Longrightarrow> \<exists>db'. IdentifierDB_AllocId db =
      Inr (Some (of_nat (LEAST n. n \<notin> ids db)), db') \<and> counted db' \<and>
      ids db' = insert (LEAST n. n \<notin> ids db) (ids db) \<and> unat (db_size db') = unat (db_size db)"
    by (drule AllocId_least [OF c]) (elim exE conjE, simp)
qed

interpretation bounded_ids: id_acquire bounded_db ids "\<lambda>db. unat (db_size db)" IdentifierDB_ActiveId
  IdentifierDB_ReleaseId IdentifierDB_AcquireId
proof
  fix db :: IdentifierDB and i :: u32
  show "unat (db_size db) < 2 ^ 32" by (rule counted_ids.cap_word)
  show "unat (db_size db) \<le> unat i \<Longrightarrow> IdentifierDB_ReleaseId db i = Inr db"
    by (rule counted_ids.release_outside)
  assume b: "bounded_db db"
  then have wf: "wf_db db" by (simp add: bounded_db_def)
  show sub: "ids db \<subseteq> {..<unat (db_size db)}" using b by (simp add: bounded_db_def)
  show "IdentifierDB_ActiveId db i = Inr (unat i \<in> ids db)"
    using sub by (auto simp: IdentifierDB_ActiveId_def ActiveId_eq [OF wf] word_less_nat_alt)
  show "unat i \<in> ids db \<Longrightarrow> \<exists>db'. IdentifierDB_ReleaseId db i = Inr db' \<and> bounded_db db' \<and>
      ids db' = ids db - {unat i} \<and> unat (db_size db') = unat (db_size db)"
    using ReleaseId_bounded [OF b, of i] by auto
  show "unat i < unat (db_size db) \<Longrightarrow> unat i \<notin> ids db \<Longrightarrow> IdentifierDB_ReleaseId db i = Inl AssertFailed"
    by (rule ReleaseId_inactive [OF wf]) (simp_all add: word_less_nat_alt)
  show "unat i < unat (db_size db) \<Longrightarrow> unat i \<notin> ids db \<Longrightarrow> \<exists>db'. IdentifierDB_AcquireId db i = Inr (True, db') \<and>
      bounded_db db' \<and> ids db' = insert (unat i) (ids db) \<and> unat (db_size db') = unat (db_size db)"
    using AcquireId_fresh [OF wf, of i] sub by (auto simp: bounded_db_def word_less_nat_alt)
  show "unat (db_size db) \<le> unat i \<or> unat i \<in> ids db \<Longrightarrow> IdentifierDB_AcquireId db i = Inr (False, db)"
    by (rule AcquireId_refused [OF wf]) (simp add: unat_le_iff)
qed

subsection \<open>Ranges of identifiers\<close>

text \<open>The mask of one iteration is right when the range starts on a word or is shorter than
  32: then it covers exactly the identifiers of the range in the word of \<open>start\<close>.\<close>

definition mask_ok :: "u32 \<Rightarrow> u32 \<Rightarrow> bool" where
  "mask_ok s e \<longleftrightarrow> s \<le> e \<and> (unat s mod 32 = 0 \<or> unat e - unat s < 31)"

lemma bit_all_ones [simp]: "bit (0xffffffff :: u32) j \<longleftrightarrow> j < 32"
proof -
  have "bit (- 1 :: u32) j \<longleftrightarrow> j < 32" by (simp only: bit_minus_1_iff possible_bit_word) simp
  then show ?thesis by (simp only: all_ones_numeral)
qed

lemma range_length:
  assumes "s \<le> (e :: u32)" and "unat e - unat s < 31"
  shows "unat (e - s + 1) = unat e - unat s + 1"
proof -
  have "unat (e - s) = unat e - unat s" using assms(1) by (simp add: unat_sub_if' word_le_nat_alt)
  with assms(2) show ?thesis by (subst unat_add_lem [THEN iffD1]) auto
qed

lemma bit_range_mask:
  assumes ok: "mask_ok s e" and lt: "e < n" and j: "j < 32"
  shows "bit (range_mask s e) j \<longleftrightarrow> unat s \<le> unat s div 32 * 32 + j \<and> unat s div 32 * 32 + j \<le> unat e"
proof (cases "unat e - unat s < 31")
  case True
  from ok have se: "s \<le> e" by (simp add: mask_ok_def)
  note len = range_length [OF se True]
  have small: "\<not> 32 < e - s + 1" "e - s + 1 \<noteq> 32"
    using True len by (auto simp: word_less_nat_alt)
  have "bit (range_mask s e) j \<longleftrightarrow> unat s mod 32 \<le> j \<and> j - unat s mod 32 < unat e - unat s + 1"
    using small j unfolding range_mask_def Let_def push_bit_of_1 mask_eq_exp_minus_1 [symmetric]
    by (auto simp: len bit_push_bit_iff bit_mask_iff)
  also have "\<dots> \<longleftrightarrow> unat s \<le> unat s div 32 * 32 + j \<and> unat s div 32 * 32 + j \<le> unat e"
  proof -
    define q r where "q = unat s div 32 * 32" and "r = unat s mod 32"
    have "unat s = q + r" by (simp add: q_def r_def)
    with se show ?thesis unfolding word_le_nat_alt q_def [symmetric] r_def [symmetric] by auto
  qed
  finally show ?thesis .
next
  case False
  from ok False have se: "unat s \<le> unat e" "unat s mod 32 = 0" by (auto simp: mask_ok_def word_le_nat_alt)
  have sub: "unat (e - s) = unat e - unat s" using se by (simp add: unat_sub_if')
  have "unat n < 2 ^ 32" using unsigned_less [of n, where 'a = nat] by simp
  with lt have "unat (e - s) + 1 < 2 ^ 32" unfolding sub word_less_nat_alt by linarith
  then have len: "unat (e - s + 1) = unat e - unat s + 1"
    using sub by (subst unat_add_lem [THEN iffD1]) auto
  with False have "32 < e - s + 1 \<or> e - s + 1 = 32"
    by (auto simp: word_less_nat_alt word_unat_eq_iff)
  then have "range_mask s e = 0xffffffff" by (auto simp: range_mask_def)
  moreover have "unat s div 32 * 32 = unat s" using se(2) by auto
  ultimately show ?thesis using j False by (simp only: bit_all_ones) auto
qed

text \<open>Setting or clearing that mask in the word of \<open>start\<close>.\<close>

lemma word_ids_update_eqI:
  assumes k: "k < length ws"
    and "\<And>j. j < 32 \<Longrightarrow> bit v j \<longleftrightarrow> k * 32 + j \<in> T"
    and "\<And>i. \<not> (k * 32 \<le> i \<and> i < k * 32 + 32) \<Longrightarrow> i \<in> T \<longleftrightarrow> i \<in> word_ids ws"
  shows "word_ids (ws[k := v]) = T"
proof (rule set_eqI)
  fix i
  show "i \<in> word_ids (ws[k := v]) \<longleftrightarrow> i \<in> T"
  proof (cases "k * 32 \<le> i \<and> i < k * 32 + 32")
    case True
    then have j: "i - k * 32 < 32" "k * 32 + (i - k * 32) = i" by linarith+
    from assms(2) [OF j(1)] True show ?thesis unfolding word_ids_update [OF k] j(2) by simp
  next
    case False
    with assms(3) [OF False] show ?thesis unfolding word_ids_update [OF k] by auto
  qed
qed

lemma mask_range_split:
  "i \<in> {unat s..unat e} \<inter> {..<unat s div 32 * 32 + 32} \<Longrightarrow> unat s div 32 * 32 \<le> i \<and> i < unat s div 32 * 32 + 32"
  by (meson IntE atLeastAtMost_iff div_times_less_eq_dividend le_trans lessThan_iff)

lemma word_ids_or_mask:
  assumes "mask_ok s e" and "e < n" and k: "unat s div 32 < length ws"
  shows "word_ids (ws[unat s div 32 := (ws ! (unat s div 32)) OR range_mask s e]) =
    word_ids ws \<union> ({unat s..unat e} \<inter> {..<unat s div 32 * 32 + 32})"
proof (rule word_ids_update_eqI [OF k])
  fix j :: nat assume "j < 32"
  then show "bit ((ws ! (unat s div 32)) OR range_mask s e) j \<longleftrightarrow>
      unat s div 32 * 32 + j \<in> word_ids ws \<union> ({unat s..unat e} \<inter> {..<unat s div 32 * 32 + 32})"
    by (simp add: bit_or_iff bit_range_mask [OF assms(1,2)] word_ids_elem [OF k])
qed (use mask_range_split in blast)

lemma word_ids_and_not_mask:
  assumes "mask_ok s e" and "e < n" and k: "unat s div 32 < length ws"
  shows "word_ids (ws[unat s div 32 := (ws ! (unat s div 32)) AND NOT (range_mask s e)]) =
    word_ids ws - ({unat s..unat e} \<inter> {..<unat s div 32 * 32 + 32})"
proof (rule word_ids_update_eqI [OF k])
  fix j :: nat assume "j < 32"
  then show "bit ((ws ! (unat s div 32)) AND NOT (range_mask s e)) j \<longleftrightarrow>
      unat s div 32 * 32 + j \<in> word_ids ws - ({unat s..unat e} \<inter> {..<unat s div 32 * 32 + 32})"
    by (simp add: bit_and_iff bit_not_iff bit_range_mask [OF assms(1,2)] word_ids_elem [OF k])
qed (use mask_range_split in blast)

lemma word_ids_mask_disjoint:
  assumes "mask_ok s e" and "e < n" and k: "unat s div 32 < length ws"
  shows "(ws ! (unat s div 32)) AND range_mask s e = 0 \<longleftrightarrow>
    word_ids ws \<inter> ({unat s..unat e} \<inter> {..<(unat s div 32) * 32 + 32}) = {}"
proof -
  let ?k = "unat s div 32"
  have "(ws ! ?k) AND range_mask s e = 0 \<longleftrightarrow> (\<forall>j<32. \<not> (bit (ws ! ?k) j \<and> bit (range_mask s e) j))"
    unfolding word_zero_iff by (simp add: bit_and_iff)
  also have "\<dots> \<longleftrightarrow> (\<forall>j<32. \<not> (?k * 32 + j \<in> word_ids ws \<and> unat s \<le> ?k * 32 + j \<and> ?k * 32 + j \<le> unat e))"
    by (simp add: word_ids_elem [OF k] bit_range_mask [OF assms(1,2)])
  also have "\<dots> \<longleftrightarrow> (\<forall>i. ?k * 32 \<le> i \<and> i < ?k * 32 + 32 \<longrightarrow> \<not> (i \<in> word_ids ws \<and> unat s \<le> i \<and> i \<le> unat e))"
    (is "?L \<longleftrightarrow> ?R")
  proof
    assume L: ?L
    show ?R
    proof (intro allI impI)
      fix i assume i: "?k * 32 \<le> i \<and> i < ?k * 32 + 32"
      then have j: "i - ?k * 32 < 32" "?k * 32 + (i - ?k * 32) = i" by linarith+
      from L [rule_format, OF j(1)] show "\<not> (i \<in> word_ids ws \<and> unat s \<le> i \<and> i \<le> unat e)"
        unfolding j(2) .
    qed
  qed simp
  also have "\<dots> \<longleftrightarrow> word_ids ws \<inter> ({unat s..unat e} \<inter> {..<?k * 32 + 32}) = {}"
    (is "_ \<longleftrightarrow> ?E")
  proof
    assume R: ?R
    have "i \<notin> word_ids ws" if i: "i \<in> {unat s..unat e} \<inter> {..<?k * 32 + 32}" for i
      using R [rule_format, OF mask_range_split [OF i]] i by simp
    then show ?E by blast
  next
    assume ?E
    then show ?R by (metis IntI atLeastAtMost_iff emptyE lessThan_iff)
  qed
  finally show ?thesis .
qed

text \<open>The next iteration starts on the following word, where the mask is right again.\<close>

lemma next_start:
  assumes "unat s div 32 < unat e div 32"
  shows "unat (s + (32 - s mod 32)) = Suc (unat s div 32) * 32" and "mask_ok (s + (32 - s mod 32)) (e :: u32)"
proof -
  define q r where "q = unat s div 32" and "r = unat s mod 32"
  have qr: "unat s = q * 32 + r" "r < 32" by (simp_all add: q_def r_def)
  have "Suc q * 32 \<le> unat e" using assms by (simp add: q_def)
  moreover have "unat e < 2 ^ 32" using unsigned_less [of e, where 'a = nat] by simp
  ultimately have "Suc q * 32 < 2 ^ 32" by linarith
  have "s mod 32 \<le> 32" by (simp add: word_le_nat_alt unat_mod32)
  then have "unat (32 - s mod 32) = 32 - r" by (simp add: unat_sub_if' r_def word_le_nat_alt)
  with qr \<open>Suc q * 32 < 2 ^ 32\<close> have "unat (s + (32 - s mod 32)) = Suc q * 32"
    by (subst unat_add_lem [THEN iffD1]) auto
  then show n: "unat (s + (32 - s mod 32)) = Suc (unat s div 32) * 32" by (simp only: q_def)
  show "mask_ok (s + (32 - s mod 32)) e"
    unfolding mask_ok_def word_le_nat_alt n using \<open>Suc q * 32 \<le> unat e\<close> by (simp add: q_def)
qed

lemma range_split:
  assumes "unat s div 32 < unat e div 32"
  shows "{unat s..unat e} = {unat s..unat e} \<inter> {..<unat s div 32 * 32 + 32} \<union> {Suc (unat s div 32) * 32..unat e}"
  using assms by auto

lemma range_last:
  assumes "\<not> unat s div 32 < unat e div 32"
  shows "{unat s..unat e} \<inter> {..<unat s div 32 * 32 + 32} = {unat s..unat e}"
proof -
  have "unat e = unat e div 32 * 32 + unat e mod 32" "unat e mod 32 < 32" by simp_all
  with assms have "unat e < unat s div 32 * 32 + 32" by linarith
  then show ?thesis by auto
qed

definition in_word :: "u32 \<Rightarrow> u32 \<Rightarrow> nat set" where
  "in_word s e = {unat s..unat e} \<inter> {..<unat s div 32 * 32 + 32}"

definition after_word :: "u32 \<Rightarrow> u32 \<Rightarrow> nat set" where
  "after_word s e = {Suc (unat s div 32) * 32..unat e}"

lemma range_words: "unat s div 32 < unat e div 32 \<Longrightarrow> {unat s..unat e} = in_word s e \<union> after_word s e"
  unfolding in_word_def after_word_def by (rule range_split)

lemma word_after: "in_word s e \<inter> after_word s e = {}"
  by (auto simp: in_word_def after_word_def)

lemma range_index:
  assumes "mask_ok s e" and "e < db_size db" and "wf_db db"
  shows "unat s div 32 \<le> unat e div 32" and "unat s div 32 < length (db_bits db)"
proof -
  have "s \<le> e" using assms(1) by (simp add: mask_ok_def)
  then show le: "unat s div 32 \<le> unat e div 32" by (simp add: word_le_nat_alt div_le_mono)
  have "unat e div 32 < length (db_bits db)" using assms(2,3) by blast
  with le show "unat s div 32 < length (db_bits db)" by simp
qed

text \<open>One iteration of each loop, on the sets.\<close>

lemma AcquireIdRange_step:
  assumes "mask_ok s e" and "e < db_size db" and "wf_db db"
  obtains db' where "wf_db db'" and "ids db' = ids db \<union> in_word s e" and "db_size db' = db_size db"
    and "db_free db' = db_free db"
    and "AcquireIdRange_loop db (unat s div 32) s e = (if ids db \<inter> in_word s e = {}
      then AcquireIdRange_loop db' (Suc (unat s div 32)) (s + (32 - s mod 32)) e else Inr (False, db))"
proof
  note k = range_index [OF assms]
  let ?k = "unat s div 32"
  let ?db = "db\<lparr>db_bits := (db_bits db)[?k := (db_bits db ! ?k) OR range_mask s e]\<rparr>"
  show "wf_db ?db" "db_size ?db = db_size db" "db_free ?db = db_free db" using assms(3) by simp_all
  show "ids ?db = ids db \<union> in_word s e"
    using word_ids_or_mask [OF assms(1,2) k(2)] by (simp add: ids_def in_word_def)
  have "(db_bits db ! ?k) AND range_mask s e = 0 \<longleftrightarrow> ids db \<inter> in_word s e = {}"
    unfolding ids_def in_word_def by (rule word_ids_mask_disjoint [OF assms(1,2) k(2)])
  then show "AcquireIdRange_loop db ?k s e = (if ids db \<inter> in_word s e = {}
      then AcquireIdRange_loop ?db (Suc ?k) (s + (32 - s mod 32)) e else Inr (False, db))"
    using k by (subst AcquireIdRange_loop.simps) (simp add: Let_def)
qed

lemma ReleaseIdRange_step:
  assumes "mask_ok s e" and "e < db_size db" and "wf_db db"
  obtains db' where "wf_db db'" and "ids db' = ids db - in_word s e" and "db_size db' = db_size db"
    and "db_free db' = db_free db"
    and "ReleaseIdRange_loop db (unat s div 32) s e =
      ReleaseIdRange_loop db' (Suc (unat s div 32)) (s + (32 - s mod 32)) e"
proof
  note k = range_index [OF assms]
  let ?k = "unat s div 32"
  let ?db = "db\<lparr>db_bits := (db_bits db)[?k := (db_bits db ! ?k) AND NOT (range_mask s e)]\<rparr>"
  show "wf_db ?db" "db_size ?db = db_size db" "db_free ?db = db_free db" using assms(3) by simp_all
  show "ids ?db = ids db - in_word s e"
    using word_ids_and_not_mask [OF assms(1,2) k(2)] by (simp add: ids_def in_word_def)
  show "ReleaseIdRange_loop db ?k s e = ReleaseIdRange_loop ?db (Suc ?k) (s + (32 - s mod 32)) e"
    using k by (subst ReleaseIdRange_loop.simps) simp
qed

lemma range_loops_end:
  assumes "\<not> unat s div 32 < unat e div 32"
  shows "AcquireIdRange_loop db (Suc (unat s div 32)) t e = Inr (True, db)"
    and "ReleaseIdRange_loop db (Suc (unat s div 32)) t e = Inr db"
    and "in_word s e = {unat s..unat e}"
  using assms range_last [OF assms] by (simp_all add: AcquireIdRange_loop.simps ReleaseIdRange_loop.simps in_word_def)

lemma AcquireIdRange_loop_eq:
  assumes "mask_ok s e" and "e < db_size db" and "wf_db db"
  shows "\<exists>db'. AcquireIdRange_loop db (unat s div 32) s e = Inr (ids db \<inter> {unat s..unat e} = {}, db') \<and>
    wf_db db' \<and> db_size db' = db_size db \<and> db_free db' = db_free db \<and> ids db \<subseteq> ids db' \<and>
    ids db' \<subseteq> ids db \<union> {unat s..unat e} \<and> (ids db \<inter> {unat s..unat e} = {} \<longrightarrow> {unat s..unat e} \<subseteq> ids db')"
  using assms
proof (induction "unat e div 32 - unat s div 32" arbitrary: s db)
  case 0
  then have end': "\<not> unat s div 32 < unat e div 32" by simp
  obtain db' where "wf_db db'" "ids db' = ids db \<union> in_word s e" "db_size db' = db_size db" "db_free db' = db_free db"
    "AcquireIdRange_loop db (unat s div 32) s e = (if ids db \<inter> in_word s e = {}
      then AcquireIdRange_loop db' (Suc (unat s div 32)) (s + (32 - s mod 32)) e else Inr (False, db))"
    using AcquireIdRange_step [OF 0(2-4)] by blast
  with 0(4) show ?case unfolding range_loops_end [OF end'] by (cases "ids db \<inter> {unat s..unat e} = {}") auto
next
  case (Suc n)
  then have lt: "unat s div 32 < unat e div 32" by simp
  obtain db' where db': "wf_db db'" "ids db' = ids db \<union> in_word s e" "db_size db' = db_size db" "db_free db' = db_free db"
    "AcquireIdRange_loop db (unat s div 32) s e = (if ids db \<inter> in_word s e = {}
      then AcquireIdRange_loop db' (Suc (unat s div 32)) (s + (32 - s mod 32)) e else Inr (False, db))"
    using AcquireIdRange_step [OF Suc(3-5)] by blast
  let ?s = "s + (32 - s mod 32)"
  have s': "unat ?s div 32 = Suc (unat s div 32)" "{unat ?s..unat e} = after_word s e"
    unfolding next_start [OF lt] after_word_def by simp_all
  have "n = unat e div 32 - unat ?s div 32" using Suc(2) unfolding s' by simp
  from Suc(1) [OF this next_start(2) [OF lt] _ db'(1)] Suc(4) db'(2,3,4)
  obtain db'' where IH: "AcquireIdRange_loop db' (Suc (unat s div 32)) ?s e = Inr (ids db' \<inter> after_word s e = {}, db'')"
    "wf_db db''" "db_size db'' = db_size db" "db_free db'' = db_free db" "ids db' \<subseteq> ids db''"
    "ids db'' \<subseteq> ids db' \<union> after_word s e" "ids db' \<inter> after_word s e = {} \<longrightarrow> after_word s e \<subseteq> ids db''"
    unfolding s' by auto
  show ?case
  proof (cases "ids db \<inter> in_word s e = {}")
    case True
    have "ids db' \<inter> after_word s e = {} \<longleftrightarrow> ids db \<inter> (in_word s e \<union> after_word s e) = {}"
      using True word_after [of s e] unfolding db'(2) by blast
    with True IH db'(2,5) show ?thesis unfolding range_words [OF lt] by auto
  next
    case False
    then have "ids db \<inter> (in_word s e \<union> after_word s e) \<noteq> {}" by blast
    with False db'(5) Suc(5) show ?thesis unfolding range_words [OF lt] by auto
  qed
qed

lemma ReleaseIdRange_loop_eq:
  assumes "mask_ok s e" and "e < db_size db" and "wf_db db"
  shows "\<exists>db'. ReleaseIdRange_loop db (unat s div 32) s e = Inr db' \<and> wf_db db' \<and>
    db_size db' = db_size db \<and> db_free db' = db_free db \<and> ids db' = ids db - {unat s..unat e}"
  using assms
proof (induction "unat e div 32 - unat s div 32" arbitrary: s db)
  case 0
  then have end': "\<not> unat s div 32 < unat e div 32" by simp
  from ReleaseIdRange_step [OF 0(2-4)] show ?case unfolding range_loops_end [OF end'] by metis
next
  case (Suc n)
  then have lt: "unat s div 32 < unat e div 32" by simp
  obtain db' where db': "wf_db db'" "ids db' = ids db - in_word s e" "db_size db' = db_size db" "db_free db' = db_free db"
    "ReleaseIdRange_loop db (unat s div 32) s e =
      ReleaseIdRange_loop db' (Suc (unat s div 32)) (s + (32 - s mod 32)) e"
    using ReleaseIdRange_step [OF Suc(3-5)] by blast
  let ?s = "s + (32 - s mod 32)"
  have s': "unat ?s div 32 = Suc (unat s div 32)" "{unat ?s..unat e} = after_word s e"
    unfolding next_start [OF lt] after_word_def by simp_all
  have "n = unat e div 32 - unat ?s div 32" using Suc(2) unfolding s' by simp
  moreover have "e < db_size db'" using Suc(4) db'(3) by simp
  ultimately obtain db'' where "ReleaseIdRange_loop db' (Suc (unat s div 32)) ?s e = Inr db''" "wf_db db''"
    "db_size db'' = db_size db'" "db_free db'' = db_free db'" "ids db'' = ids db' - after_word s e"
    using Suc(1) [OF _ next_start(2) [OF lt] _ db'(1)] unfolding s' by blast
  with db' show ?case unfolding range_words [OF lt] by (auto simp: Diff_Un)
qed

subsection \<open>Correctness\<close>

text \<open>C3: a fresh database of at most 2^32 - 32 identifiers answers every sequence of
  \<^verbatim>\<open>AllocId\<close> and \<^verbatim>\<open>ReleaseId\<close> calls as a set of at most \<open>sz\<close> identifiers does: the same
  identifiers are handed out (the least one not in use, none when all are in use), the
  same calls fail an assertion (the release of an identifier that is not in use), and the
  bitmap ends up holding exactly the identifiers in use.\<close>

theorem IdentifierDB_refines_set:
  assumes "IdentifierDB_Alloc calloc_ok sz = Some db" and "\<And>n. calloc_ok n" and "unat sz \<le> 2 ^ 32 - 32"
  shows "rel_sum (=) (\<lambda>(rs, db') (rs', S). rs = rs' \<and> ids db' = S \<and> unat (IdentifierDB_Count db') = card S)
     (run_ids IdentifierDB_AllocId IdentifierDB_ReleaseId db ops) (run_set (unat sz) {} ops)"
proof -
  note fresh = Alloc_props [OF assms]
  have count: "unat (IdentifierDB_Count db') = card (ids db')" if "counted db'" for db' :: IdentifierDB
    using that by (auto simp: IdentifierDB_Count_def counted_def unat_sub_if')
  from counted_ids.run_refines [OF fresh(1), of ops] show ?thesis
    unfolding fresh(2,3) by (rule sum.rel_mono_strong) (auto simp: count)
qed

theorem IdentifierDB_refines_set_witness:
  "\<exists>db. IdentifierDB_Alloc (\<lambda>_. True) 40 = Some db \<and>
    rel_sum (=) (\<lambda>(rs, db') (rs', S). rs = rs' \<and> ids db' = S \<and> unat (IdentifierDB_Count db') = card S)
     (run_ids IdentifierDB_AllocId IdentifierDB_ReleaseId db [Alloc_id, Alloc_id, Release_id 0, Alloc_id])
     (run_set 40 {} [Alloc_id, Alloc_id, Release_id 0, Alloc_id])"
  using IdentifierDB_refines_set [of "\<lambda>_. True" 40 _ "[Alloc_id, Alloc_id, Release_id 0, Alloc_id]"]
  by (simp add: IdentifierDB_Alloc_def)

lemma word_ids_example: "word_ids [1, 0, 0] = {0}"
  using word_ids_set_bit [of 0 "[0, 0, 0]" 0] word_ids_replicate_0 [of 3] by (simp add: numeral_3_eq_3)

lemma range_ok:
  assumes "end' < db_size db" and "start \<le> end'" and "start mod 32 = 0 \<or> end' - start < 31"
  shows "mask_ok start end'" and "start < db_size db" and "{unat start..unat end'} \<subseteq> {..<unat (db_size db)}"
proof -
  have "unat (end' - start) = unat end' - unat start" using assms(2) by (simp add: unat_sub_if' word_le_nat_alt)
  moreover have "unat start mod 32 = 0" if "start mod 32 = 0"
    using arg_cong [OF that, of unat] unfolding unat_mod32 by simp
  ultimately show "mask_ok start end'" using assms(2,3) unfolding mask_ok_def word_less_nat_alt by fastforce
  show "start < db_size db" using assms(1,2) by (rule le_less_trans [rotated])
  show "{unat start..unat end'} \<subseteq> {..<unat (db_size db)}" using assms(1) by (auto simp: word_less_nat_alt)
qed

text \<open>C25: \<^verbatim>\<open>IdentifierDB_AcquireIdRange\<close> on a range that starts on a word boundary or has
  fewer than 32 identifiers returns true exactly when none of them is in use, then it has
  taken all of them and nothing else; when it returns false it has released nothing and
  taken nothing outside the range.\<close>

theorem AcquireIdRange_correct:
  assumes "bounded_db db" and "end' < db_size db" and "start \<le> end'"
    and "start mod 32 = 0 \<or> end' - start < 31"
  shows "\<exists>db'. IdentifierDB_AcquireIdRange db start end' = Inr (ids db \<inter> {unat start..unat end'} = {}, db') \<and>
    bounded_db db' \<and> ids db \<subseteq> ids db' \<and> ids db' \<subseteq> ids db \<union> {unat start..unat end'} \<and>
    (ids db \<inter> {unat start..unat end'} = {} \<longrightarrow> {unat start..unat end'} \<subseteq> ids db')"
proof -
  have wf: "wf_db db" using assms(1) by (simp add: bounded_db_def)
  note r = range_ok [OF assms(2-4)]
  obtain db' where db': "AcquireIdRange_loop db (unat start div 32) start end' =
      Inr (ids db \<inter> {unat start..unat end'} = {}, db')" "wf_db db'" "db_size db' = db_size db"
    "ids db \<subseteq> ids db'" "ids db' \<subseteq> ids db \<union> {unat start..unat end'}"
    "ids db \<inter> {unat start..unat end'} = {} \<longrightarrow> {unat start..unat end'} \<subseteq> ids db'"
    using AcquireIdRange_loop_eq [OF r(1) assms(2) wf] by blast
  have "bounded_db db'" using assms(1) r(3) db'(2,3,5) unfolding bounded_db_def by auto
  with db' r(2) assms(2) show ?thesis by (simp add: IdentifierDB_AcquireIdRange_def not_le [symmetric])
qed

theorem AcquireIdRange_correct_witness:
  "\<exists>db'. IdentifierDB_AcquireIdRange \<lparr>db_size = 70, db_numWords = 3, db_free = 70, db_bits = [1, 0, 0]\<rparr> 30 36 =
    Inr (True, db') \<and> {30..36} \<subseteq> ids db'"
proof -
  let ?db = "\<lparr>db_size = 70, db_numWords = 3, db_free = 70, db_bits = [1, 0, 0]\<rparr>"
  have i: "ids ?db = {0}" by (simp add: ids_def word_ids_example)
  then have "bounded_db ?db" by (simp add: bounded_db_def wf_db_def)
  from AcquireIdRange_correct [OF this, of 36 30] show ?thesis by (auto simp: i)
qed

text \<open>C26: \<^verbatim>\<open>IdentifierDB_ReleaseIdRange\<close> on such a range returns true and the identifiers in
  use are the ones before without the range; the counter of free identifiers is not
  touched.\<close>

theorem ReleaseIdRange_correct:
  assumes "bounded_db db" and "end' < db_size db" and "start \<le> end'"
    and "start mod 32 = 0 \<or> end' - start < 31"
  shows "\<exists>db'. IdentifierDB_ReleaseIdRange db start end' = Inr (True, db') \<and> bounded_db db' \<and>
    ids db' = ids db - {unat start..unat end'} \<and> db_free db' = db_free db"
proof -
  have wf: "wf_db db" using assms(1) by (simp add: bounded_db_def)
  note r = range_ok [OF assms(2-4)]
  obtain db' where "ReleaseIdRange_loop db (unat start div 32) start end' = Inr db'" "wf_db db'"
    "db_size db' = db_size db" "db_free db' = db_free db" "ids db' = ids db - {unat start..unat end'}"
    using ReleaseIdRange_loop_eq [OF r(1) assms(2) wf] by blast
  moreover from this assms(1) have "bounded_db db'" unfolding bounded_db_def by auto
  ultimately show ?thesis
    using r(2) assms(2) by (simp add: IdentifierDB_ReleaseIdRange_def not_le [symmetric])
qed

theorem ReleaseIdRange_correct_witness:
  "\<exists>db'. IdentifierDB_ReleaseIdRange \<lparr>db_size = 70, db_numWords = 3, db_free = 70, db_bits = [1, 0, 0]\<rparr> 0 36 =
    Inr (True, db') \<and> ids db' = {}"
proof -
  let ?db = "\<lparr>db_size = 70, db_numWords = 3, db_free = 70, db_bits = [1, 0, 0]\<rparr>"
  have i: "ids ?db = {0}" by (simp add: ids_def word_ids_example)
  then have "bounded_db ?db" by (simp add: bounded_db_def wf_db_def)
  from ReleaseIdRange_correct [OF this, of 36 0] show ?thesis by (auto simp: i)
qed

text \<open>C28: \<^verbatim>\<open>IdentifierDB_AcquireId\<close> does not decrement the counter of free identifiers and
  \<^verbatim>\<open>IdentifierDB_ReleaseId\<close> increments it.  Acquiring and releasing one identifier of an empty
  database leaves the bitmap empty and \<^verbatim>\<open>IdentifierDB_Count\<close> at 2^32 - 1.\<close>

theorem AcquireId_ReleaseId_count:
  assumes "IdentifierDB_Alloc calloc_ok sz = Some db" and "\<And>n. calloc_ok n" and "unat sz \<le> 2 ^ 32 - 32"
    and "i < sz"
  shows "\<exists>db1 db2. IdentifierDB_AcquireId db i = Inr (True, db1) \<and> IdentifierDB_ReleaseId db1 i = Inr db2 \<and>
    ids db2 = {} \<and> IdentifierDB_Count db2 = 0xffffffff"
proof -
  note fresh = Alloc_props [OF assms(1-3)]
  have wf: "wf_db db" using fresh(1) by (simp add: counted_def bounded_db_def)
  obtain db1 where 1: "IdentifierDB_AcquireId db i = Inr (True, db1)" "wf_db db1" "ids db1 = {unat i}"
    "db_size db1 = sz" "db_free db1 = sz"
    using AcquireId_fresh [OF wf, of i] assms(4) fresh by auto
  then obtain db2 where "IdentifierDB_ReleaseId db1 i = Inr db2" "ids db2 = {}" "db_size db2 = sz"
    "db_free db2 = sz + 1" using ReleaseId_active [OF 1(2), of i] assms(4) by auto
  with 1(1) show ?thesis by (simp add: IdentifierDB_Count_def)
qed

theorem AcquireId_ReleaseId_count_witness:
  "\<exists>db db1 db2. IdentifierDB_Alloc (\<lambda>_. True) 40 = Some db \<and> IdentifierDB_AcquireId db 7 = Inr (True, db1) \<and>
    IdentifierDB_ReleaseId db1 7 = Inr db2 \<and> ids db2 = {} \<and> IdentifierDB_Count db2 = 0xffffffff"
  using AcquireId_ReleaseId_count [of "\<lambda>_. True" 40 _ 7] by (simp add: IdentifierDB_Alloc_def)

end
