(* ===== verification/Allocator.thy ===== *)
theory Allocator
  imports Alloc_Types Identifier_DB
begin

section \<open>The allocator: src/common/inc/vmaccel\_allocator.hpp\<close>

text \<open>
  \<^verbatim>\<open>VMAccelAllocator<T, C>\<close>: resources are registered under an identifier, requests carve an
  object out of a registered resource and get an external identifier, and freed objects
  go back to the pool of their parent.  The record has the members of the class; the
  functions of the object type and the container's rebalancing are the parameters \<open>ops\<close>
  and \<open>rb\<close>.  \<open>defer\<close> is the preprocessor constant \<^verbatim>\<open>DEFER_FREE\<close>, which no build file defines
  (so it is 0).  The static \<^verbatim>\<open>result\<close> of \<^verbatim>\<open>Alloc\<close> is not cleared between calls and is part of
  the state.
\<close>

record 't allocator =
  al_registered :: "'t list"
  al_capacity :: "'t list"
  al_load :: "'t list"
  al_refCount :: "u32 list"
  al_free :: "'t vobj pool"
  al_freed :: "'t vobj list"
  al_allocated :: "'t vobj list"
  al_registeredIds :: IdentifierDB
  al_externalIds :: IdentifierDB
  al_result :: VMAccelAllocateStatus

text \<open>\<open>zero\<close> is a value-initialised \<^verbatim>\<open>T\<close>.  \<open>None\<close>: one of the databases could not be allocated, and
  the first operation fails the assertion on it.\<close>

definition VMAccelAllocator :: "(nat \<Rightarrow> bool) \<Rightarrow> 't alloc_ops \<Rightarrow> 't \<Rightarrow> u32 \<Rightarrow> 't allocator option" where
  "VMAccelAllocator calloc_ok ops zero num =
     (case (IdentifierDB_Alloc calloc_ok num, IdentifierDB_Alloc calloc_ok num) of
        (Some rids, Some eids) \<Rightarrow> Some \<lparr>al_registered = replicate (unat num) zero,
          al_capacity = replicate (unat num) zero, al_load = replicate (unat num) zero,
          al_refCount = replicate (unat num) 0, al_free = Leaf, al_freed = [],
          al_allocated = replicate (unat num) (VMAccelObject_default ops),
          al_registeredIds = rids, al_externalIds = eids, al_result = zero_VMAccelAllocateStatus\<rparr>
      | _ \<Rightarrow> None)"

definition vmaccel_manager_wait_for_fence :: "VMAccelId \<Rightarrow> bool" where
  "vmaccel_manager_wait_for_fence ident = True"

fun CoalesceFreed_loop :: "'t alloc_ops \<Rightarrow> 't vobj rb \<Rightarrow> 't vobj \<Rightarrow> 't vobj pool \<Rightarrow> 't vobj list \<Rightarrow>
    't vobj pool cres" where
  "CoalesceFreed_loop ops rb a pool [] = Inr pool"
| "CoalesceFreed_loop ops rb a pool (f # fs) =
     (let a = VMAccelObject_move_assign ops a (VMAccelObject_copy ops f) in
      if \<not> vmaccel_manager_wait_for_fence (ob_fenceId a) then Inl Spins
      else CoalesceFreed_loop ops rb a (snd (op_FreeObj ops rb pool a)) fs)"

definition CoalesceFreed :: "'t alloc_ops \<Rightarrow> 't vobj rb \<Rightarrow> 't allocator \<Rightarrow> 't allocator cres" where
  "CoalesceFreed ops rb A =
     cbind (CoalesceFreed_loop ops rb (VMAccelObject_default ops) (al_free A) (al_freed A)) (\<lambda>pool.
       Inr (A\<lparr>al_free := pool, al_freed := []\<rparr>))"

text \<open>What \<^verbatim>\<open>Alloc\<close> and \<^verbatim>\<open>FindFreed\<close> do with a reservation: the object goes to \<open>d\<close>, a remainder
  that is not empty back to the pool.\<close>

definition split_object :: "'t alloc_ops \<Rightarrow> 't vobj rb \<Rightarrow> 't vobj \<Rightarrow> 't vobj \<Rightarrow> 't vobj pool \<Rightarrow> 't \<Rightarrow> 't \<Rightarrow>
    't vobj \<times> 't vobj pool" where
  "split_object ops rb req d pool div' r =
     (VMAccelObject_move_assign ops d (VMAccelObject_new ops (ob_parentId req) div'),
      if op_IsEmpty ops r then pool
      else snd (op_FreeObj ops rb pool (VMAccelObject_new ops (ob_parentId req) r)))"

fun FindFreed_loop :: "'t alloc_ops \<Rightarrow> 't vobj rb \<Rightarrow> 't vobj \<Rightarrow> 't vobj \<Rightarrow> 't vobj \<Rightarrow> 't vobj pool \<Rightarrow> 't vobj list \<Rightarrow>
    ('t vobj option \<times> 't vobj pool \<times> 't vobj list) cres" where
  "FindFreed_loop ops rb req d a pool [] = Inr (None, pool, [])"
| "FindFreed_loop ops rb req d a pool (f # fs) =
     (let a = VMAccelObject_assign ops a f in
      if \<not> vmaccel_manager_wait_for_fence (ob_fenceId a) then Inl Spins
      else if ob_parentId a \<noteq> ob_parentId req then FindFreed_loop ops rb req d a pool fs
      else if op_le ops (ob_obj req) (ob_obj a) then
        (case op_Reserve ops (ob_obj a) (ob_obj req) of
           Some (div', r) \<Rightarrow> let (d, pool) = split_object ops rb req d pool div' r in Inr (Some d, pool, fs)
         | None \<Rightarrow> Inr (None, pool, fs))
      else (case op_FreeObj ops rb pool a of
          (True, pool) \<Rightarrow> (case lower_bound (op_cmp ops) pool req of
              Some it \<Rightarrow> (case op_Reserve ops (ob_obj (elems pool ! it)) (ob_obj req) of
                  Some (div', r) \<Rightarrow>
                    let (d, pool) = split_object ops rb req d (rb_erase rb it pool) div' r in Inr (Some d, pool, fs)
                | None \<Rightarrow> FindFreed_loop ops rb req d a pool fs)
            | None \<Rightarrow> FindFreed_loop ops rb req d a pool fs)
        | (False, pool) \<Rightarrow> FindFreed_loop ops rb req d a pool fs))"

definition FindFreed :: "'t alloc_ops \<Rightarrow> 't vobj rb \<Rightarrow> 't allocator \<Rightarrow> 't vobj \<Rightarrow> 't vobj \<Rightarrow>
    ('t vobj option \<times> 't allocator) cres" where
  "FindFreed ops rb A req d =
     cbind (FindFreed_loop ops rb req d (VMAccelObject_default ops) (al_free A) (al_freed A))
       (\<lambda>(found, pool, freed). Inr (found, A\<lparr>al_free := pool, al_freed := freed\<rparr>))"

definition Register :: "'t alloc_ops \<Rightarrow> 't vobj rb \<Rightarrow> 't allocator \<Rightarrow> 't \<Rightarrow>
    (VMAccelAllocateStatus \<times> 't allocator) cres" where
  "Register ops rb A a =
     cbind (IdentifierDB_AllocId (al_registeredIds A)) (\<lambda>(ident, rids). case ident of
       None \<Rightarrow> Inr (zero_VMAccelAllocateStatus\<lparr>AllocateStatus_status := VMACCEL_FAIL\<rparr>, A\<lparr>al_registeredIds := rids\<rparr>)
     | Some ident \<Rightarrow>
         cbind (cread (al_capacity A) (unat ident)) (\<lambda>c.
         cbind (cwrite (al_capacity A) (unat ident) (op_add_assign ops c a)) (\<lambda>capacity.
         cbind (cwrite (al_registered A) (unat ident) a) (\<lambda>registered.
         cbind (cwrite (al_refCount A) (unat ident) 0) (\<lambda>refCount.
           let (ok, pool) = op_FreeObj ops rb (al_free A) (VMAccelObject_new ops ident a);
               A = A\<lparr>al_registeredIds := rids, al_capacity := capacity, al_registered := registered,
                 al_refCount := refCount, al_free := pool\<rparr>;
               result = zero_VMAccelAllocateStatus\<lparr>AllocateStatus_id := ident\<rparr>
           in if \<not> ok then cbind (IdentifierDB_ReleaseId rids ident) (\<lambda>rids.
                Inr (result\<lparr>AllocateStatus_status := VMACCEL_FAIL\<rparr>, A\<lparr>al_registeredIds := rids\<rparr>))
              else Inr (result\<lparr>AllocateStatus_status := VMACCEL_SUCCESS\<rparr>, A))))))"

text \<open>The loop of \<^verbatim>\<open>Unregister\<close> over the pool: each of its \<open>n\<close> iterations erases the element at the
  iterator or steps over it, so as many iterations as there are elements reach the end.\<close>

fun erase_parent :: "'t vobj rb \<Rightarrow> VMAccelId \<Rightarrow> nat \<Rightarrow> nat \<Rightarrow> 't vobj pool \<Rightarrow> 't vobj pool" where
  "erase_parent rb ident 0 it pool = pool"
| "erase_parent rb ident (Suc n) it pool =
     (if ob_parentId (elems pool ! it) = ident then erase_parent rb ident n it (rb_erase rb it pool)
      else erase_parent rb ident n (Suc it) pool)"

definition Unregister :: "'t alloc_ops \<Rightarrow> 't vobj rb \<Rightarrow> 't allocator \<Rightarrow> VMAccelId \<Rightarrow>
    (VMAccelStatus \<times> 't allocator) cres" where
  "Unregister ops rb A ident =
     cbind (cread (al_refCount A) (unat ident)) (\<lambda>rc.
       if rc \<noteq> 0 then Inr (zero_VMAccelStatus\<lparr>Status_status := VMACCEL_FAIL\<rparr>, A)
       else cbind (CoalesceFreed ops rb A) (\<lambda>A.
         cbind (cread (al_refCount A) (unat ident)) (\<lambda>rc.
         cbind (cassert (rc = 0)) (\<lambda>_.
         cbind (IdentifierDB_ReleaseId (al_registeredIds A) ident) (\<lambda>rids.
           Inr (zero_VMAccelStatus\<lparr>Status_status := VMACCEL_SUCCESS\<rparr>,
             A\<lparr>al_registeredIds := rids,
               al_free := erase_parent rb ident (size (al_free A)) 0 (al_free A)\<rparr>))))))"

definition Alloc :: "'t alloc_ops \<Rightarrow> 't vobj rb \<Rightarrow> 't allocator \<Rightarrow> VMAccelId \<Rightarrow> 't \<Rightarrow>
    (VMAccelAllocateStatus \<times> 't option \<times> 't allocator) cres" where
  "Alloc ops rb A parentId a =
     (let req = VMAccelObject_new ops parentId a; obj = VMAccelObject_default ops in
      cbind (IdentifierDB_AllocId (al_externalIds A)) (\<lambda>(externalId, eids). case externalId of
        None \<Rightarrow>
          let result = (al_result A)\<lparr>AllocateStatus_status := VMACCEL_FAIL\<rparr>
          in Inr (result, None, A\<lparr>al_externalIds := eids, al_result := result\<rparr>)
      | Some externalId \<Rightarrow>
          let A = A\<lparr>al_externalIds := eids\<rparr> in
          cbind (case lower_bound (op_cmp ops) (al_free A) req of
              Some it \<Rightarrow> (case op_Reserve ops (ob_obj (elems (al_free A) ! it)) (ob_obj req) of
                  Some (div', r) \<Rightarrow>
                    let (obj, pool) = split_object ops rb req obj (rb_erase rb it (al_free A)) div' r
                    in Inr (Some obj, A\<lparr>al_free := pool\<rparr>)
                | None \<Rightarrow> Inr (None, A))
            | None \<Rightarrow> FindFreed ops rb A req obj) (\<lambda>(found, A). case found of
            None \<Rightarrow> cbind (IdentifierDB_ReleaseId (al_externalIds A) externalId) (\<lambda>eids.
              let result = (al_result A)\<lparr>AllocateStatus_status := VMACCEL_RESOURCE_UNAVAILABLE\<rparr>
              in Inr (result, None, A\<lparr>al_externalIds := eids, al_result := result\<rparr>))
          | Some obj \<Rightarrow>
              let registeredId = unat (ob_parentId obj) in
              cbind (cread (al_allocated A) (unat externalId)) (\<lambda>old.
              let entry' = VMAccelObject_assign ops old obj; d = ob_obj entry' in
              cbind (cwrite (al_allocated A) (unat externalId) entry') (\<lambda>allocated.
              cbind (cread (al_capacity A) registeredId) (\<lambda>c.
              cbind (cwrite (al_capacity A) registeredId (op_sub_assign ops c d)) (\<lambda>capacity.
              cbind (cread (al_load A) registeredId) (\<lambda>l.
              cbind (cwrite (al_load A) registeredId (op_add_assign ops l d)) (\<lambda>load.
              cbind (cread (al_refCount A) registeredId) (\<lambda>rc.
              cbind (cwrite (al_refCount A) registeredId (rc + 1)) (\<lambda>refCount.
                let result = (al_result A)\<lparr>AllocateStatus_id := externalId, AllocateStatus_status := VMACCEL_SUCCESS\<rparr>
                in Inr (result, Some d, A\<lparr>al_allocated := allocated, al_capacity := capacity, al_load := load,
                     al_refCount := refCount, al_result := result\<rparr>)))))))))))) "

definition Free :: "'t alloc_ops \<Rightarrow> 't vobj rb \<Rightarrow> bool \<Rightarrow> 't allocator \<Rightarrow> VMAccelId \<Rightarrow>
    (VMAccelStatus \<times> 't allocator) cres" where
  "Free ops rb defer A ident =
     cbind (IdentifierDB_ActiveId (al_externalIds A) ident) (\<lambda>act.
     cbind (cassert act) (\<lambda>_.
     cbind (cread (al_allocated A) (unat ident)) (\<lambda>obj.
     let registeredId = unat (ob_parentId obj);
         A = A\<lparr>al_freed := al_freed A @ [VMAccelObject_copy ops obj]\<rparr> in
     cbind (if defer then Inr A else CoalesceFreed ops rb A) (\<lambda>A.
     cbind (cread (al_capacity A) registeredId) (\<lambda>c.
     cbind (cwrite (al_capacity A) registeredId (op_add_assign ops c (ob_obj obj))) (\<lambda>capacity.
     cbind (cread (al_load A) registeredId) (\<lambda>l.
     cbind (cwrite (al_load A) registeredId (op_sub_assign ops l (ob_obj obj))) (\<lambda>load.
     cbind (cread (al_refCount A) registeredId) (\<lambda>rc.
     cbind (cwrite (al_refCount A) registeredId (rc - 1)) (\<lambda>refCount.
     cbind (cwrite (al_allocated A) (unat ident)
         (VMAccelObject_move_assign ops obj (VMAccelObject_default ops))) (\<lambda>allocated.
     cbind (IdentifierDB_ReleaseId (al_externalIds A) ident) (\<lambda>eids.
       Inr (zero_VMAccelStatus\<lparr>Status_status := VMACCEL_SUCCESS\<rparr>,
         A\<lparr>al_capacity := capacity, al_load := load, al_refCount := refCount,
           al_allocated := allocated, al_externalIds := eids\<rparr>)))))))))))))"

end
