(* ===== verification/Allocator_Inv.thy ===== *)
theory Allocator_Inv
  imports Allocator
begin

section \<open>Correctness of the allocator\<close>

text \<open>
  The accounts of the allocator (what its pool holds, what it has lent), the contract of an
  object type (locale \<open>alloc_type\<close>), and, inside that locale, that every operation keeps the
  accounts balanced and what it does on each branch.  \<open>alloc_single\<close> extends the contract for
  the types that keep one object per parent in the pool: there a request that fits is granted.
\<close>

subsection \<open>What the allocator holds and what it has lent\<close>

definition amount :: "('t \<Rightarrow> nat) \<Rightarrow> VMAccelId \<Rightarrow> 't vobj \<Rightarrow> nat" where
  "amount \<mu> p e = (if ob_parentId e = p then \<mu> (ob_obj e) else 0)"

definition held :: "('t \<Rightarrow> nat) \<Rightarrow> VMAccelId \<Rightarrow> 't vobj pool \<Rightarrow> nat" where
  "held \<mu> p pool = sum_mset (image_mset (amount \<mu> p) (mset (elems pool)))"

definition lent :: "('t \<Rightarrow> nat) \<Rightarrow> VMAccelId \<Rightarrow> 't vobj list \<Rightarrow> nat set \<Rightarrow> nat" where
  "lent \<mu> p objs I = (\<Sum>i\<in>I. amount \<mu> p (objs ! i))"

definition pool_ok :: "('t \<Rightarrow> bool) \<Rightarrow> nat set \<Rightarrow> 't vobj pool \<Rightarrow> bool" where
  "pool_ok valid S pool \<longleftrightarrow> (\<forall>e\<in>set (elems pool). valid (ob_obj e) \<and> unat (ob_parentId e) \<in> S)"

text \<open>The invariant: the databases count right, the vectors have the size of the databases,
  nothing waits in the queue of freed objects, reference counts are the number of objects
  lent, and for each measure of a registered resource what the pool holds and what is lent
  add up to what was registered.\<close>

definition vectors_ok :: "'t allocator \<Rightarrow> bool" where
  "vectors_ok A \<longleftrightarrow> (let n = unat (db_size (al_registeredIds A)) in
     counted (al_registeredIds A) \<and> counted (al_externalIds A) \<and>
     db_size (al_externalIds A) = db_size (al_registeredIds A) \<and> length (al_registered A) = n \<and>
     length (al_capacity A) = n \<and> length (al_load A) = n \<and> length (al_refCount A) = n \<and>
     length (al_allocated A) = n \<and> al_freed A = [])"

definition alloc_inv :: "('t \<Rightarrow> bool) \<Rightarrow> ('t \<Rightarrow> nat) set \<Rightarrow> 't allocator \<Rightarrow> bool" where
  "alloc_inv valid dims A \<longleftrightarrow>
     vectors_ok A \<and> pool_ok valid (ids (al_registeredIds A)) (al_free A) \<and>
     (\<forall>i\<in>ids (al_externalIds A). valid (ob_obj (al_allocated A ! i)) \<and>
        unat (ob_parentId (al_allocated A ! i)) \<in> ids (al_registeredIds A)) \<and>
     (\<forall>p. unat p < unat (db_size (al_registeredIds A)) \<longrightarrow>
        unat (al_refCount A ! unat p) = lent (\<lambda>_. 1) p (al_allocated A) (ids (al_externalIds A))) \<and>
     (\<forall>p. unat p \<in> ids (al_registeredIds A) \<longrightarrow> valid (al_registered A ! unat p) \<and>
        (\<forall>\<mu>\<in>dims. held \<mu> p (al_free A) + lent \<mu> p (al_allocated A) (ids (al_externalIds A)) =
           \<mu> (al_registered A ! unat p)))"

lemma vectors_okD:
  assumes "vectors_ok A"
  shows "counted (al_registeredIds A)" and "counted (al_externalIds A)"
    and "bounded_db (al_registeredIds A)" and "bounded_db (al_externalIds A)"
    and "db_size (al_externalIds A) = db_size (al_registeredIds A)"
    and "length (al_registered A) = unat (db_size (al_registeredIds A))"
    and "length (al_capacity A) = unat (db_size (al_registeredIds A))"
    and "length (al_load A) = unat (db_size (al_registeredIds A))"
    and "length (al_refCount A) = unat (db_size (al_registeredIds A))"
    and "length (al_allocated A) = unat (db_size (al_registeredIds A))"
    and "al_freed A = []"
  using assms by (simp_all add: vectors_ok_def Let_def counted_def)

lemma alloc_invD:
  fixes p :: VMAccelId
  assumes "alloc_inv valid dims A"
  shows "vectors_ok A" and "pool_ok valid (ids (al_registeredIds A)) (al_free A)"
    and "i \<in> ids (al_externalIds A) \<Longrightarrow> valid (ob_obj (al_allocated A ! i))"
    and "i \<in> ids (al_externalIds A) \<Longrightarrow> unat (ob_parentId (al_allocated A ! i)) \<in> ids (al_registeredIds A)"
    and "unat p < unat (db_size (al_registeredIds A)) \<Longrightarrow>
      unat (al_refCount A ! unat p) = lent (\<lambda>_. 1) p (al_allocated A) (ids (al_externalIds A))"
    and "unat p \<in> ids (al_registeredIds A) \<Longrightarrow> valid (al_registered A ! unat p)"
    and "unat p \<in> ids (al_registeredIds A) \<Longrightarrow> \<mu> \<in> dims \<Longrightarrow>
      held \<mu> p (al_free A) + lent \<mu> p (al_allocated A) (ids (al_externalIds A)) = \<mu> (al_registered A ! unat p)"
  using assms unfolding alloc_inv_def by blast+

lemma alloc_invI:
  assumes "vectors_ok A" and "pool_ok valid (ids (al_registeredIds A)) (al_free A)"
    and "\<And>i. i \<in> ids (al_externalIds A) \<Longrightarrow> valid (ob_obj (al_allocated A ! i))"
    and "\<And>i. i \<in> ids (al_externalIds A) \<Longrightarrow> unat (ob_parentId (al_allocated A ! i)) \<in> ids (al_registeredIds A)"
    and "\<And>p. unat p < unat (db_size (al_registeredIds A)) \<Longrightarrow>
      unat (al_refCount A ! unat p) = lent (\<lambda>_. 1) p (al_allocated A) (ids (al_externalIds A))"
    and "\<And>p :: VMAccelId. unat p \<in> ids (al_registeredIds A) \<Longrightarrow> valid (al_registered A ! unat p)"
    and "\<And>p \<mu>. unat p \<in> ids (al_registeredIds A) \<Longrightarrow> \<mu> \<in> dims \<Longrightarrow>
      held \<mu> p (al_free A) + lent \<mu> p (al_allocated A) (ids (al_externalIds A)) = \<mu> (al_registered A ! unat p)"
  shows "alloc_inv valid dims A"
  unfolding alloc_inv_def by (intro conjI ballI allI impI assms)

lemma alloc_inv_same_ids:
  assumes "alloc_inv valid dims A" and "counted E" and "ids E = ids (al_externalIds A)"
    and "db_size E = db_size (al_externalIds A)"
  shows "alloc_inv valid dims (A\<lparr>al_externalIds := E, al_result := r\<rparr>)"
  using assms by (simp add: alloc_inv_def vectors_ok_def Let_def)

lemma FindFreed_empty: "al_freed A = [] \<Longrightarrow> FindFreed ops rb A req d = Inr (None, A)"
  by (cases A) (simp add: FindFreed_def)

lemma CoalesceFreed_empty: "al_freed A = [] \<Longrightarrow> CoalesceFreed ops rb A = Inr A"
  by (cases A) (simp add: CoalesceFreed_def)

lemma lent_insert:
  assumes "finite I" and "n \<notin> I" and "n < length objs"
  shows "lent \<mu> p (objs[n := e]) (insert n I) = amount \<mu> p e + lent \<mu> p objs I"
proof -
  have "(\<Sum>i\<in>I. amount \<mu> p (objs[n := e] ! i)) = (\<Sum>i\<in>I. amount \<mu> p (objs ! i))"
    using assms by (intro sum.cong) (auto simp: nth_list_update)
  with assms show ?thesis by (simp add: lent_def)
qed

lemma lent_remove:
  assumes "finite I" and "n \<in> I"
  shows "lent \<mu> p (objs[n := e]) (I - {n}) + amount \<mu> p (objs ! n) = lent \<mu> p objs I"
proof -
  have "(\<Sum>i\<in>I - {n}. amount \<mu> p (objs[n := e] ! i)) = (\<Sum>i\<in>I - {n}. amount \<mu> p (objs ! i))"
    by (intro sum.cong) (auto simp: nth_list_update)
  with assms show ?thesis by (simp add: lent_def sum.remove [of I n])
qed

lemma lent_bound: "lent (\<lambda>_. 1) p objs I \<le> card I"
  using sum_bounded_above [of I "\<lambda>i. amount (\<lambda>_. 1) p (objs ! i)" 1] by (simp add: lent_def amount_def)

lemma lent_zero: "(\<And>i. i \<in> I \<Longrightarrow> ob_parentId (objs ! i) \<noteq> p) \<Longrightarrow> lent \<mu> p objs I = 0"
  by (simp add: lent_def amount_def)

lemma held_Leaf [simp]: "held \<mu> p Leaf = 0"
  by (simp add: held_def)

lemma held_insert: "rb_ok rb \<Longrightarrow> held \<mu> p (pool_insert rb cmp y t) = amount \<mu> p y + held \<mu> p t"
  by (simp add: held_def mset_pool_insert)

lemma held_erase:
  assumes "rb_ok rb" and "i < size t"
  shows "amount \<mu> p (elems t ! i) + held \<mu> p (rb_erase rb i t) = held \<mu> p t"
  unfolding held_def mset_erase [OF assms, symmetric] by simp

lemma held_zero:
  assumes "\<And>e. e \<in> set (elems t) \<Longrightarrow> ob_parentId e \<noteq> p" shows "held \<mu> p t = 0"
proof -
  have "\<forall>e\<in>#mset (elems t). amount \<mu> p e = 0" using assms by (simp add: amount_def)
  then show ?thesis by (simp add: held_def)
qed

lemma set_pool_insert: "rb_ok rb \<Longrightarrow> set (elems (pool_insert rb cmp y t)) = insert y (set (elems t))"
  by (metis mset_pool_insert set_mset_add_mset_insert set_mset_mset)

lemma set_erase: "rb_ok rb \<Longrightarrow> i < size t \<Longrightarrow> set (elems (rb_erase rb i t)) \<subseteq> set (elems t)"
  by (metis mset_erase set_mset_add_mset_insert set_mset_mset subset_insertI)

lemma pool_ok_erase: "rb_ok rb \<Longrightarrow> i < size t \<Longrightarrow> pool_ok valid S t \<Longrightarrow> pool_ok valid S (rb_erase rb i t)"
  using set_erase [of rb i t] by (auto simp: pool_ok_def)

lemma pool_ok_insert:
  "rb_ok rb \<Longrightarrow> pool_ok valid S (pool_insert rb cmp y t) \<longleftrightarrow>
     valid (ob_obj y) \<and> unat (ob_parentId y) \<in> S \<and> pool_ok valid S t"
  by (auto simp: pool_ok_def set_pool_insert)

lemma elems_erase_parent:
  assumes rb: "rb_ok rb"
  shows "size pool = it + n \<Longrightarrow> elems (erase_parent rb p n it pool) =
    take it (elems pool) @ filter (\<lambda>e. ob_parentId e \<noteq> p) (drop it (elems pool))"
proof (induction n arbitrary: it pool)
  case (Suc n)
  then have it: "it < length (elems pool)" by simp
  have d: "drop it (elems pool) = elems pool ! it # drop (Suc it) (elems pool)" using it by (rule Cons_nth_drop_Suc [symmetric])
  show ?case
  proof (cases "ob_parentId (elems pool ! it) = p")
    case True
    let ?pool = "rb_erase rb it pool"
    from rb it have e: "elems ?pool = remove_at it (elems pool)" by (simp add: rb_ok_def)
    have "length (elems ?pool) = it + n" unfolding e using it Suc.prems by (simp add: remove_at_def)
    then have "size ?pool = it + n" by simp
    from Suc.IH [OF this] True it show ?thesis by (simp add: d e remove_at_def min_def)
  next
    case False
    with Suc.IH [of pool "Suc it"] Suc.prems it show ?thesis by (simp add: d take_Suc_conv_app_nth)
  qed
qed simp

lemma held_filter:
  assumes "elems pool' = filter (\<lambda>e. ob_parentId e \<noteq> p) (elems pool)" and "x \<noteq> p"
  shows "held \<mu> x pool' = held \<mu> x pool"
proof -
  have "sum_list (map (amount \<mu> x) (filter (\<lambda>e. ob_parentId e \<noteq> p) es)) = sum_list (map (amount \<mu> x) es)" for es
    using assms(2) by (induction es) (auto simp: amount_def)
  then show ?thesis unfolding held_def assms(1) mset_map [symmetric] sum_mset_sum_list by this
qed

subsection \<open>Reachable states\<close>

text \<open>The states an allocator of \<open>num\<close> identifiers can be in: after construction, and after
  each operation that returned.  Values passed in satisfy \<open>valid\<close>; identifiers are arbitrary.\<close>

inductive reachable :: "'t alloc_ops \<Rightarrow> 't vobj rb \<Rightarrow> ('t \<Rightarrow> bool) \<Rightarrow> 't \<Rightarrow> u32 \<Rightarrow> 't allocator \<Rightarrow> bool"
  for ops :: "'t alloc_ops" and rb :: "'t vobj rb" and valid :: "'t \<Rightarrow> bool" and zero :: 't and num :: u32 where
  start: "VMAccelAllocator (\<lambda>_. True) ops zero num = Some A \<Longrightarrow> reachable ops rb valid zero num A"
| register: "reachable ops rb valid zero num A \<Longrightarrow> valid x \<Longrightarrow> Register ops rb A x = Inr (st, A') \<Longrightarrow>
    reachable ops rb valid zero num A'"
| unregister: "reachable ops rb valid zero num A \<Longrightarrow> Unregister ops rb A p = Inr (st', A') \<Longrightarrow>
    reachable ops rb valid zero num A'"
| alloc: "reachable ops rb valid zero num A \<Longrightarrow> valid q \<Longrightarrow> Alloc ops rb A p q = Inr (st, d, A') \<Longrightarrow>
    reachable ops rb valid zero num A'"
| free: "reachable ops rb valid zero num A \<Longrightarrow> Free ops rb False A i = Inr (st', A') \<Longrightarrow>
    reachable ops rb valid zero num A'"

subsection \<open>The contract of an object type\<close>

text \<open>What the allocator needs of the type it is instantiated with.  The measures \<open>dims\<close> are the
  quantities an object has (an amount of memory, of operations per second); \<open>tot\<close> is one of
  them that bounds arithmetic on the others by \<open>lim\<close>.\<close>

locale alloc_type =
  fixes ops :: "'t alloc_ops" and valid :: "'t \<Rightarrow> bool" and dims :: "('t \<Rightarrow> nat) set"
    and tot :: "'t \<Rightarrow> nat" and lim :: nat
  assumes tot_measure: "tot \<in> dims"
    and tot_lim: "valid x \<Longrightarrow> tot x < lim"
    and cmp_parent: "\<not> op_cmp ops e k \<Longrightarrow> ob_parentId e = ob_parentId k"
    and copy_valid: "valid x \<Longrightarrow> valid (op_DeepCopy ops l x)"
    and copy_measure: "\<mu> \<in> dims \<Longrightarrow> \<mu> (op_DeepCopy ops l x) = \<mu> x"
    and move_valid: "valid x \<Longrightarrow> valid (op_Move ops l x)"
    and move_measure: "\<mu> \<in> dims \<Longrightarrow> \<mu> (op_Move ops l x) = \<mu> x"
    and reserve_valid: "valid x \<Longrightarrow> valid q \<Longrightarrow> op_Reserve ops x q = Some (d, r) \<Longrightarrow> valid d \<and> valid r"
    and reserve_measure: "valid x \<Longrightarrow> valid q \<Longrightarrow> op_Reserve ops x q = Some (d, r) \<Longrightarrow> \<mu> \<in> dims \<Longrightarrow>
      \<mu> d = \<mu> q \<and> \<mu> x = \<mu> d + \<mu> r"
    and empty_measure: "valid r \<Longrightarrow> op_IsEmpty ops r \<Longrightarrow> \<mu> \<in> dims \<Longrightarrow> \<mu> r = 0"
    and free_obj: "rb_ok rb \<Longrightarrow> pool_ok valid S pool \<Longrightarrow> valid (ob_obj e) \<Longrightarrow> unat (ob_parentId e) \<in> S \<Longrightarrow>
      tot (ob_obj e) + held tot (ob_parentId e) pool < lim \<Longrightarrow>
      \<exists>pool'. op_FreeObj ops rb pool e = (True, pool') \<and> pool_ok valid S pool' \<and>
        (\<forall>\<mu>\<in>dims. \<forall>p. held \<mu> p pool' = amount \<mu> p e + held \<mu> p pool)"

context alloc_type
begin

lemmas value_laws = copy_valid copy_measure move_valid move_measure

text \<open>A reservation moves the amount of the request out of the pool.\<close>

lemma split_conserves:
  assumes rb: "rb_ok rb" and ok: "pool_ok valid S pool" and it: "lower_bound (op_cmp ops) pool req = Some it"
    and q: "valid (ob_obj req)" and R: "op_Reserve ops (ob_obj (elems pool ! it)) (ob_obj req) = Some (dv, r)"
    and lim: "held tot (ob_parentId req) pool < lim"
    and res: "split_object ops rb req d (rb_erase rb it pool) dv r = (d', pool')"
  shows "ob_parentId d' = ob_parentId req" and "valid (ob_obj d')" and "unat (ob_parentId req) \<in> S"
    and "\<mu> \<in> dims \<Longrightarrow> \<mu> (ob_obj d') = \<mu> (ob_obj req)" and "pool_ok valid S pool'"
    and "\<mu> \<in> dims \<Longrightarrow> held \<mu> p pool' + amount \<mu> p d' = held \<mu> p pool"
proof -
  let ?e = "elems pool ! it" and ?pool = "rb_erase rb it pool"
  let ?r = "VMAccelObject_new ops (ob_parentId req) r"
  from lower_bound_sound [OF it] have i: "it < size pool" and c: "\<not> op_cmp ops ?e req" by auto
  from cmp_parent [OF c] have par: "ob_parentId ?e = ob_parentId req" .
  from ok i have e: "valid (ob_obj ?e)" "unat (ob_parentId ?e) \<in> S" by (simp_all add: pool_ok_def)
  note rv = reserve_valid [OF e(1) q R]
  note rm = reserve_measure [OF e(1) q R]
  from res have d': "d' = VMAccelObject_move_assign ops d (VMAccelObject_new ops (ob_parentId req) dv)"
    and pool': "pool' = (if op_IsEmpty ops r then ?pool else snd (op_FreeObj ops rb ?pool ?r))"
    by (simp_all add: split_object_def)
  show "ob_parentId d' = ob_parentId req" "valid (ob_obj d')" "unat (ob_parentId req) \<in> S"
    using rv e par by (simp_all add: d' VMAccelObject_move_assign_def VMAccelObject_new_def value_laws)
  show md: "\<mu> (ob_obj d') = \<mu> (ob_obj req)" if "\<mu> \<in> dims" for \<mu>
    using rm [OF that] that by (simp add: d' VMAccelObject_move_assign_def VMAccelObject_new_def value_laws)
  have er: "amount \<mu> p ?e + held \<mu> p ?pool = held \<mu> p pool" for \<mu> p by (rule held_erase [OF rb i])
  have ok': "pool_ok valid S ?pool" by (rule pool_ok_erase [OF rb i ok])
  have r: "ob_parentId ?r = ob_parentId req" "valid (ob_obj ?r)" "\<And>\<mu>. \<mu> \<in> dims \<Longrightarrow> \<mu> (ob_obj ?r) = \<mu> r"
    using rv by (simp_all add: VMAccelObject_new_def value_laws)
  have "tot (ob_obj ?r) + held tot (ob_parentId ?r) ?pool < lim"
    using er [of tot "ob_parentId req"] rm [OF tot_measure] lim par r(1) r(3) [OF tot_measure] by (simp add: amount_def)
  with free_obj [OF rb ok' r(2)] r e par obtain pr where
    pr: "op_FreeObj ops rb ?pool ?r = (True, pr)" "pool_ok valid S pr"
      "\<forall>\<mu>\<in>dims. \<forall>p. held \<mu> p pr = amount \<mu> p ?r + held \<mu> p ?pool" by auto
  show "pool_ok valid S pool'" using ok' pr by (simp add: pool')
  show "held \<mu> p pool' + amount \<mu> p d' = held \<mu> p pool" if m: "\<mu> \<in> dims" for \<mu> p
  proof -
    have "held \<mu> p pool' = amount \<mu> p ?r + held \<mu> p ?pool"
      using pr m r(3) [OF m] empty_measure [of r \<mu>] rv by (simp add: pool' amount_def)
    moreover have "amount \<mu> p ?e = amount \<mu> p ?r + amount \<mu> p d'"
      using rm [OF m] md [OF m] r(3) [OF m] par r(1) \<open>ob_parentId d' = ob_parentId req\<close> by (auto simp: amount_def)
    ultimately show ?thesis using er [of \<mu> p] by simp
  qed
qed

text \<open>What one operation keeps of the invariant, on each of its branches.\<close>

lemma Register_full:
  assumes "alloc_inv valid dims A" and "ids (al_registeredIds A) = {..<unat (db_size (al_registeredIds A))}"
  shows "Register ops rb A x = Inr (zero_VMAccelAllocateStatus\<lparr>AllocateStatus_status := VMACCEL_FAIL\<rparr>, A)"
  using AllocId_exhausted [OF vectors_okD(1) [OF alloc_invD(1) [OF assms(1)]] assms(2)]
  by (simp add: Register_def)

lemma Register_conserves:
  assumes rb: "rb_ok rb" and inv: "alloc_inv valid dims A" and x: "valid x"
    and room: "ids (al_registeredIds A) \<noteq> {..<unat (db_size (al_registeredIds A))}"
  defines "n \<equiv> LEAST n. n \<notin> ids (al_registeredIds A)"
  shows "\<exists>A'. Register ops rb A x = Inr (zero_VMAccelAllocateStatus\<lparr>AllocateStatus_id := of_nat n,
      AllocateStatus_status := VMACCEL_SUCCESS\<rparr>, A') \<and> alloc_inv valid dims A' \<and>
    ids (al_registeredIds A') = insert n (ids (al_registeredIds A)) \<and>
    db_size (al_registeredIds A') = db_size (al_registeredIds A) \<and>
    al_registered A' = (al_registered A)[n := x] \<and>
    al_externalIds A' = al_externalIds A \<and> al_allocated A' = al_allocated A \<and>
    (\<exists>e. al_free A' = snd (op_FreeObj ops rb (al_free A) e))"
proof -
  let ?R = "al_registeredIds A" and ?S = "insert n (ids (al_registeredIds A))"
  note D = alloc_invD [OF inv] and V = vectors_okD [OF alloc_invD(1) [OF inv]]
  note n = least_free_id(1,3) [OF V(3) room, folded n_def]
  from n have un: "unat (of_nat n :: u32) = n"
    using unsigned_less [of "db_size ?R", where 'a = nat] by (simp add: unat_of_nat)
  from AllocId_least [OF V(1) room, folded n_def] obtain R' where
    R': "IdentifierDB_AllocId ?R = Inr (Some (of_nat n), R')" "counted R'" "ids R' = ?S" "db_size R' = db_size ?R"
    by blast
  let ?x = "VMAccelObject_new ops (of_nat n) x"
  have x': "ob_parentId ?x = of_nat n" "valid (ob_obj ?x)" "\<And>\<mu>. \<mu> \<in> dims \<Longrightarrow> \<mu> (ob_obj ?x) = \<mu> x"
    using x by (simp_all add: VMAccelObject_new_def value_laws)
  have none: "ob_parentId e \<noteq> of_nat n" if "unat (ob_parentId e) \<in> ids ?R" for e :: "'a vobj"
    using that n un by auto
  have h0: "held \<mu> (of_nat n) (al_free A) = 0" for \<mu>
    by (rule held_zero, rule none) (use D(2) in \<open>simp add: pool_ok_def\<close>)
  have l0: "lent \<mu> (of_nat n) (al_allocated A) (ids (al_externalIds A)) = 0" for \<mu>
    by (rule lent_zero, rule none, rule D(4))
  have ok: "pool_ok valid ?S (al_free A)" using D(2) by (simp add: pool_ok_def)
  have "tot (ob_obj ?x) + held tot (ob_parentId ?x) (al_free A) < lim"
    using tot_lim [OF x] x'(3) [OF tot_measure] h0 by (simp add: x'(1))
  with free_obj [OF rb ok x'(2)] x'(1) un obtain pool' where
    pool': "op_FreeObj ops rb (al_free A) ?x = (True, pool')" "pool_ok valid ?S pool'"
      "\<forall>\<mu>\<in>dims. \<forall>p. held \<mu> p pool' = amount \<mu> p ?x + held \<mu> p (al_free A)" by auto
  let ?A = "A\<lparr>al_registeredIds := R', al_capacity := (al_capacity A)[n := op_add_assign ops (al_capacity A ! n) x],
    al_registered := (al_registered A)[n := x], al_refCount := (al_refCount A)[n := 0], al_free := pool'\<rparr>"
  have run: "Register ops rb A x = Inr (zero_VMAccelAllocateStatus\<lparr>AllocateStatus_id := of_nat n,
      AllocateStatus_status := VMACCEL_SUCCESS\<rparr>, ?A)"
    using R' n V by (simp add: Register_def un pool' Let_def)
  have "alloc_inv valid dims ?A"
  proof (rule alloc_invI)
    show "vectors_ok ?A" using V R' by (simp add: vectors_ok_def)
    show "pool_ok valid (ids (al_registeredIds ?A)) (al_free ?A)" using pool' R' by simp
    show "valid (ob_obj (al_allocated ?A ! i))" if "i \<in> ids (al_externalIds ?A)" for i using D(3) that by simp
    show "unat (ob_parentId (al_allocated ?A ! i)) \<in> ids (al_registeredIds ?A)" if "i \<in> ids (al_externalIds ?A)" for i
      using D(4) that R' by simp
    show "unat (al_refCount ?A ! unat p) = lent (\<lambda>_. 1) p (al_allocated ?A) (ids (al_externalIds ?A))"
      if "unat p < unat (db_size (al_registeredIds ?A))" for p :: VMAccelId
      using D(5) [of p] that l0 [of "\<lambda>_. 1"] n R' V(9) by (cases "p = of_nat n") (auto simp: un nth_list_update)
    show "valid (al_registered ?A ! unat p)" if "unat p \<in> ids (al_registeredIds ?A)" for p :: VMAccelId
      using D(6) [of p] that x n R' V(6) by (cases "unat p = n") auto
    show "held \<mu> p (al_free ?A) + lent \<mu> p (al_allocated ?A) (ids (al_externalIds ?A)) = \<mu> (al_registered ?A ! unat p)"
      if p: "unat p \<in> ids (al_registeredIds ?A)" and m: "\<mu> \<in> dims" for p :: VMAccelId and \<mu>
    proof (cases "p = of_nat n")
      case True
      with n pool'(3) m x'(3) [OF m] h0 l0 V(6) show ?thesis by (simp add: x'(1) amount_def un)
    next
      case False
      then have "unat p \<noteq> n" by auto
      with D(7) [OF _ m, of p] p R' pool'(3) m False show ?thesis by (simp add: x'(1) amount_def)
    qed
  qed
  moreover have "\<exists>e. pool' = snd (op_FreeObj ops rb (al_free A) e)" using pool'(1) by (intro exI [of _ ?x]) simp
  ultimately show ?thesis using run R' by (intro exI [of _ ?A]) simp
qed

lemma Alloc_full:
  assumes "alloc_inv valid dims A" and "ids (al_externalIds A) = {..<unat (db_size (al_externalIds A))}"
  shows "\<exists>A'. Alloc ops rb A p q =
      Inr ((al_result A)\<lparr>AllocateStatus_status := VMACCEL_FAIL\<rparr>, None, A') \<and> alloc_inv valid dims A' \<and>
    ids (al_externalIds A') = ids (al_externalIds A) \<and> al_allocated A' = al_allocated A \<and>
    al_registered A' = al_registered A \<and> al_registeredIds A' = al_registeredIds A \<and> al_free A' = al_free A"
proof -
  let ?r = "(al_result A)\<lparr>AllocateStatus_status := VMACCEL_FAIL\<rparr>"
  note c = vectors_okD(2) [OF alloc_invD(1) [OF assms(1)]]
  have "Alloc ops rb A p q = Inr (?r, None, A\<lparr>al_externalIds := al_externalIds A, al_result := ?r\<rparr>)"
    using AllocId_exhausted [OF c assms(2)] by (simp add: Alloc_def Let_def)
  with alloc_inv_same_ids [OF assms(1) c] show ?thesis by fastforce
qed

text \<open>A request finds an object when the search of the pool does and the object has enough.\<close>

lemma Alloc_unavailable:
  assumes inv: "alloc_inv valid dims A" and room: "ids (al_externalIds A) \<noteq> {..<unat (db_size (al_externalIds A))}"
    and miss: "\<And>it. lower_bound (op_cmp ops) (al_free A) (VMAccelObject_new ops p q) = Some it \<Longrightarrow>
      op_Reserve ops (ob_obj (elems (al_free A) ! it)) (ob_obj (VMAccelObject_new ops p q)) = None"
  shows "\<exists>A'. Alloc ops rb A p q =
      Inr ((al_result A)\<lparr>AllocateStatus_status := VMACCEL_RESOURCE_UNAVAILABLE\<rparr>, None, A') \<and> alloc_inv valid dims A' \<and>
    ids (al_externalIds A') = ids (al_externalIds A) \<and> al_allocated A' = al_allocated A \<and>
    al_registered A' = al_registered A \<and> al_registeredIds A' = al_registeredIds A \<and> al_free A' = al_free A"
proof -
  let ?E = "al_externalIds A" and ?n = "LEAST n. n \<notin> ids (al_externalIds A)"
  let ?r = "(al_result A)\<lparr>AllocateStatus_status := VMACCEL_RESOURCE_UNAVAILABLE\<rparr>"
  note V = vectors_okD [OF alloc_invD(1) [OF inv]]
  note n = least_free_id(1,3) [OF V(4) room]
  have un: "unat (of_nat ?n :: u32) = ?n"
    using n unsigned_less [of "db_size ?E", where 'a = nat] by (simp only: unat_of_nat) simp
  obtain E where E: "IdentifierDB_AllocId ?E = Inr (Some (of_nat ?n), E)" "counted E"
    "ids E = insert ?n (ids ?E)" "db_size E = db_size ?E" using AllocId_least [OF V(2) room] by blast
  have "unat (of_nat ?n :: u32) \<in> ids E" unfolding un E(3) by blast
  from ReleaseId_counted [OF E(2) this] obtain E' where E': "IdentifierDB_ReleaseId E (of_nat ?n) = Inr E'"
    "counted E'" "ids E' = ids E - {unat (of_nat ?n :: u32)}" "db_size E' = db_size E" by blast
  have same: "ids E' = ids ?E" unfolding E'(3) E(3) un using n by blast
  have "Alloc ops rb A p q = Inr (?r, None, A\<lparr>al_externalIds := E', al_result := ?r\<rparr>)"
    unfolding Alloc_def Let_def E(1) using miss V(11) E'(1)
    by (auto split: option.split simp: FindFreed_empty)
  moreover have "alloc_inv valid dims (A\<lparr>al_externalIds := E', al_result := ?r\<rparr>)"
    by (rule alloc_inv_same_ids [OF inv E'(2) same]) (simp add: E' E)
  ultimately show ?thesis using same by fastforce
qed

lemma Alloc_conserves:
  assumes rb: "rb_ok rb" and inv: "alloc_inv valid dims A" and q: "valid q"
    and room: "ids (al_externalIds A) \<noteq> {..<unat (db_size (al_externalIds A))}"
    and it: "lower_bound (op_cmp ops) (al_free A) (VMAccelObject_new ops p q) = Some it"
    and R: "op_Reserve ops (ob_obj (elems (al_free A) ! it)) (ob_obj (VMAccelObject_new ops p q)) = Some (dv, r)"
  defines "n \<equiv> LEAST n. n \<notin> ids (al_externalIds A)"
  shows "\<exists>A' e. Alloc ops rb A p q =
      Inr ((al_result A)\<lparr>AllocateStatus_id := of_nat n, AllocateStatus_status := VMACCEL_SUCCESS\<rparr>, Some (ob_obj e), A') \<and>
    alloc_inv valid dims A' \<and> valid (ob_obj e) \<and> (\<forall>\<mu>\<in>dims. \<mu> (ob_obj e) = \<mu> q) \<and> ob_parentId e = p \<and>
    unat p \<in> ids (al_registeredIds A) \<and> ids (al_externalIds A') = insert n (ids (al_externalIds A)) \<and>
    al_allocated A' = (al_allocated A)[n := e] \<and>
    al_registered A' = al_registered A \<and> al_registeredIds A' = al_registeredIds A \<and>
    al_free A' = snd (split_object ops rb (VMAccelObject_new ops p q) (VMAccelObject_default ops)
      (rb_erase rb it (al_free A)) dv r)"
proof -
  let ?E = "al_externalIds A" and ?req = "VMAccelObject_new ops p q" and ?P = "unat p"
  note D = alloc_invD [OF inv] and V = vectors_okD [OF alloc_invD(1) [OF inv]]
  note n = least_free_id(1,3) [OF V(4) room, folded n_def]
  from n have un: "unat (of_nat n :: u32) = n"
    using unsigned_less [of "db_size ?E", where 'a = nat] by (simp add: unat_of_nat)
  from AllocId_least [OF V(2) room, folded n_def] obtain E where
    E: "IdentifierDB_AllocId ?E = Inr (Some (of_nat n), E)" "counted E" "ids E = insert n (ids ?E)"
      "db_size E = db_size ?E" by blast
  have req: "ob_parentId ?req = p" "valid (ob_obj ?req)" "\<And>\<mu>. \<mu> \<in> dims \<Longrightarrow> \<mu> (ob_obj ?req) = \<mu> q"
    using q by (simp_all add: VMAccelObject_new_def value_laws)
  obtain d pool' where sp: "split_object ops rb ?req (VMAccelObject_default ops) (rb_erase rb it (al_free A)) dv r = (d, pool')"
    by (rule prod.exhaust)
  have pm: "?P \<in> ids (al_registeredIds A)"
  proof -
    from lower_bound_sound [OF it] have i: "it < size (al_free A)" "\<not> op_cmp ops (elems (al_free A) ! it) ?req" by auto
    from D(2) i(1) have "unat (ob_parentId (elems (al_free A) ! it)) \<in> ids (al_registeredIds A)" by (simp add: pool_ok_def)
    with cmp_parent [OF i(2)] show ?thesis by (simp add: req(1))
  qed
  have "held tot p (al_free A) < lim" using D(7) [OF pm tot_measure] tot_lim [OF D(6) [OF pm]] by simp
  then have lim: "held tot (ob_parentId ?req) (al_free A) < lim" by (simp add: req(1))
  note S = split_conserves [OF rb D(2) it req(2) R lim sp]
  let ?e = "VMAccelObject_assign ops (al_allocated A ! n) d"
  have e: "ob_parentId ?e = p" "valid (ob_obj ?e)" "\<And>\<mu> x. \<mu> \<in> dims \<Longrightarrow> amount \<mu> x ?e = amount \<mu> x d"
    using S(1,2) req by (simp_all add: VMAccelObject_assign_def amount_def value_laws)
  have em: "\<mu> (ob_obj ?e) = \<mu> q" if m: "\<mu> \<in> dims" for \<mu>
    using S(4) [OF m] req(3) [OF m] m by (simp add: VMAccelObject_assign_def value_laws)
  have P: "?P < unat (db_size (al_registeredIds A))" using pm V(3) by (auto simp: bounded_db_def)
  let ?r = "(al_result A)\<lparr>AllocateStatus_id := of_nat n, AllocateStatus_status := VMACCEL_SUCCESS\<rparr>"
  let ?A = "A\<lparr>al_externalIds := E, al_free := pool', al_allocated := (al_allocated A)[n := ?e],
    al_capacity := (al_capacity A)[?P := op_sub_assign ops (al_capacity A ! ?P) (ob_obj ?e)],
    al_load := (al_load A)[?P := op_add_assign ops (al_load A ! ?P) (ob_obj ?e)],
    al_refCount := (al_refCount A)[?P := al_refCount A ! ?P + 1], al_result := ?r\<rparr>"
  have run: "Alloc ops rb A p q = Inr (?r, Some (ob_obj ?e), ?A)"
    using E(1) it R sp S(1) req(1) n P V by (simp add: Alloc_def Let_def un)
  have count: "unat (al_refCount A ! ?P + 1) = unat (al_refCount A ! ?P) + 1"
  proof -
    have "card (ids E) \<le> unat (db_size E)" using E(2) by (simp add: counted_def)
    moreover have "card (ids E) = Suc (card (ids ?E))" using n by (simp add: E(3))
    moreover note lent_bound [of p "al_allocated A" "ids ?E"]
    ultimately have "unat (al_refCount A ! ?P) + 1 \<le> unat (db_size E)" using D(5) [OF P] by simp
    then show ?thesis using unsigned_less [of "db_size E", where 'a = nat] by (subst unat_add_lem [THEN iffD1]) auto
  qed
  have L: "lent \<mu> x ((al_allocated A)[n := ?e]) (insert n (ids ?E)) = amount \<mu> x ?e + lent \<mu> x (al_allocated A) (ids ?E)" for \<mu> x
    by (rule lent_insert) (use n V in simp_all)
  have "alloc_inv valid dims ?A"
  proof (rule alloc_invI)
    show "vectors_ok ?A" using V E by (simp add: vectors_ok_def)
    show "pool_ok valid (ids (al_registeredIds ?A)) (al_free ?A)" using S(5) by simp
    show "valid (ob_obj (al_allocated ?A ! i))" if "i \<in> ids (al_externalIds ?A)" for i
      using D(3) [of i] that e n V(5,10) by (cases "i = n") (simp_all add: E(3))
    show "unat (ob_parentId (al_allocated ?A ! i)) \<in> ids (al_registeredIds ?A)" if "i \<in> ids (al_externalIds ?A)" for i
      using D(4) [of i] that e n V(5,10) pm by (cases "i = n") (simp_all add: E(3))
    show "unat (al_refCount ?A ! unat x) = lent (\<lambda>_. 1) x (al_allocated ?A) (ids (al_externalIds ?A))"
      if "unat x < unat (db_size (al_registeredIds ?A))" for x :: VMAccelId
    proof (cases "x = p")
      case True
      with D(5) [of x] e(1) V(9) P count show ?thesis by (simp add: E(3) L amount_def)
    next
      case False
      then have "unat p \<noteq> unat x" using word_unat_eq_iff [of p x] by auto
      with False D(5) [of x] that e(1) show ?thesis by (simp add: E(3) L amount_def)
    qed
    show "valid (al_registered ?A ! unat x)" if "unat x \<in> ids (al_registeredIds ?A)" for x :: VMAccelId
      using D(6) that by simp
    show "held \<mu> x (al_free ?A) + lent \<mu> x (al_allocated ?A) (ids (al_externalIds ?A)) = \<mu> (al_registered ?A ! unat x)"
      if x: "unat x \<in> ids (al_registeredIds ?A)" and m: "\<mu> \<in> dims" for x :: VMAccelId and \<mu>
      using D(7) [OF _ m, of x] x S(6) [OF m, of x] e(3) [OF m, of x] by (simp add: E(3) L)
  qed
  with run e(1,2) em pm sp show ?thesis by (intro exI [of _ ?A] exI [of _ ?e]) (simp add: E)
qed

lemma Free_conserves:
  assumes rb: "rb_ok rb" and inv: "alloc_inv valid dims A" and i: "unat i \<in> ids (al_externalIds A)"
  shows "\<exists>A' e. Free ops rb False A i = Inr (zero_VMAccelStatus\<lparr>Status_status := VMACCEL_SUCCESS\<rparr>, A') \<and>
    alloc_inv valid dims A' \<and> ids (al_externalIds A') = ids (al_externalIds A) - {unat i} \<and>
    al_allocated A' = (al_allocated A)[unat i := e] \<and>
    al_registered A' = al_registered A \<and> al_registeredIds A' = al_registeredIds A \<and>
    (\<exists>e. al_free A' = snd (op_FreeObj ops rb (al_free A) e))"
proof -
  let ?E = "al_externalIds A" and ?o = "al_allocated A ! unat i"
  let ?p = "ob_parentId (al_allocated A ! unat i)" and ?P = "unat (ob_parentId (al_allocated A ! unat i))"
  note D = alloc_invD [OF inv] and V = vectors_okD [OF alloc_invD(1) [OF inv]]
  have I: "unat i < unat (db_size (al_registeredIds A))" using i V(4,5) by (auto simp: bounded_db_def)
  have pm: "?P \<in> ids (al_registeredIds A)" by (rule D(4) [OF i])
  then have P: "?P < unat (db_size (al_registeredIds A))" using V(3) by (auto simp: bounded_db_def)
  from ReleaseId_counted [OF V(2) i] obtain E where E: "IdentifierDB_ReleaseId ?E i = Inr E" "counted E"
    "ids E = ids ?E - {unat i}" "db_size E = db_size ?E" by blast
  let ?a = "VMAccelObject_move_assign ops (VMAccelObject_default ops) (VMAccelObject_copy ops (VMAccelObject_copy ops ?o))"
  have a: "ob_parentId ?a = ?p" "valid (ob_obj ?a)" "\<And>\<mu> x. \<mu> \<in> dims \<Longrightarrow> amount \<mu> x ?a = amount \<mu> x ?o"
    using D(3) [OF i] by (simp_all add: VMAccelObject_move_assign_def VMAccelObject_copy_def amount_def value_laws)
  have L: "lent \<mu> x ((al_allocated A)[unat i := e]) (ids ?E - {unat i}) + amount \<mu> x ?o = lent \<mu> x (al_allocated A) (ids ?E)"
    for \<mu> x e by (rule lent_remove) (simp_all add: i)
  have "tot (ob_obj ?a) + held tot (ob_parentId ?a) (al_free A) < lim"
    using tot_lim [OF D(6) [OF pm]] D(7) [OF pm tot_measure] L [of tot ?p undefined] a(1) a(3) [OF tot_measure, of ?p]
    by (simp add: amount_def)
  with free_obj [OF rb D(2) a(2)] a(1) pm obtain pool' where
    pool': "op_FreeObj ops rb (al_free A) ?a = (True, pool')" "pool_ok valid (ids (al_registeredIds A)) pool'"
      "\<forall>\<mu>\<in>dims. \<forall>x. held \<mu> x pool' = amount \<mu> x ?a + held \<mu> x (al_free A)" by auto
  have co: "CoalesceFreed ops rb (A\<lparr>al_freed := al_freed A @ [VMAccelObject_copy ops ?o]\<rparr>) = Inr (A\<lparr>al_free := pool'\<rparr>)"
    using V(11) pool'(1) by (cases A) (simp add: CoalesceFreed_def Let_def vmaccel_manager_wait_for_fence_def)
  let ?e = "VMAccelObject_move_assign ops ?o (VMAccelObject_default ops)"
  let ?A = "A\<lparr>al_free := pool', al_capacity := (al_capacity A)[?P := op_add_assign ops (al_capacity A ! ?P) (ob_obj ?o)],
    al_load := (al_load A)[?P := op_sub_assign ops (al_load A ! ?P) (ob_obj ?o)],
    al_refCount := (al_refCount A)[?P := al_refCount A ! ?P - 1],
    al_allocated := (al_allocated A)[unat i := ?e], al_externalIds := E\<rparr>"
  have act: "IdentifierDB_ActiveId ?E i = Inr True" using counted_ids.active_elems [OF V(2), of i] i by simp
  have run: "Free ops rb False A i = Inr (zero_VMAccelStatus\<lparr>Status_status := VMACCEL_SUCCESS\<rparr>, ?A)"
    using I P V(1-10) E(1) by (simp add: Free_def act Let_def co)
  have one: "unat (al_refCount A ! ?P) = lent (\<lambda>_. 1) ?p ((al_allocated A)[unat i := e]) (ids ?E - {unat i}) + 1" for e
    using D(5) [OF P] L [of "\<lambda>_. 1" ?p e] by (simp add: amount_def)
  have count: "unat (al_refCount A ! ?P - 1) = unat (al_refCount A ! ?P) - 1"
    using one [of undefined] by (intro unat_minus_one) auto
  have "alloc_inv valid dims ?A"
  proof (rule alloc_invI)
    show "vectors_ok ?A" using V E by (simp add: vectors_ok_def)
    show "pool_ok valid (ids (al_registeredIds ?A)) (al_free ?A)" using pool'(2) by simp
    show "valid (ob_obj (al_allocated ?A ! j))" if "j \<in> ids (al_externalIds ?A)" for j
      using D(3) [of j] that by (simp add: E(3))
    show "unat (ob_parentId (al_allocated ?A ! j)) \<in> ids (al_registeredIds ?A)" if "j \<in> ids (al_externalIds ?A)" for j
      using D(4) [of j] that by (simp add: E(3))
    show "unat (al_refCount ?A ! unat x) = lent (\<lambda>_. 1) x (al_allocated ?A) (ids (al_externalIds ?A))"
      if "unat x < unat (db_size (al_registeredIds ?A))" for x :: VMAccelId
    proof (cases "x = ?p")
      case True
      with one [of ?e] count V(9) P show ?thesis by (simp add: E(3))
    next
      case False
      then have "unat ?p \<noteq> unat x" using word_unat_eq_iff [of ?p x] by auto
      with False D(5) [of x] L [of "\<lambda>_. 1" x ?e] that show ?thesis by (simp add: E(3) amount_def)
    qed
    show "valid (al_registered ?A ! unat x)" if "unat x \<in> ids (al_registeredIds ?A)" for x :: VMAccelId
      using D(6) that by simp
    show "held \<mu> x (al_free ?A) + lent \<mu> x (al_allocated ?A) (ids (al_externalIds ?A)) = \<mu> (al_registered ?A ! unat x)"
      if x: "unat x \<in> ids (al_registeredIds ?A)" and m: "\<mu> \<in> dims" for x :: VMAccelId and \<mu>
      using D(7) [OF _ m, of x] x L [of \<mu> x ?e] pool'(3) m a(3) [OF m, of x] by (simp add: E(3))
  qed
  moreover have "\<exists>e. pool' = snd (op_FreeObj ops rb (al_free A) e)" using pool'(1) by (intro exI [of _ ?a]) simp
  ultimately show ?thesis using run by (intro exI [of _ ?A] exI [of _ ?e]) (simp add: E)
qed

lemma Free_inactive:
  assumes "alloc_inv valid dims A" and "unat i \<notin> ids (al_externalIds A)"
  shows "Free ops rb defer A i = Inl AssertFailed"
  using counted_ids.active_elems [OF vectors_okD(2) [OF alloc_invD(1) [OF assms(1)]], of i] assms(2)
  by (simp add: Free_def)

lemma Unregister_conserves:
  assumes rb: "rb_ok rb" and inv: "alloc_inv valid dims A" and p: "unat p \<in> ids (al_registeredIds A)"
    and idle: "lent (\<lambda>_. 1) p (al_allocated A) (ids (al_externalIds A)) = 0"
  shows "\<exists>A'. Unregister ops rb A p = Inr (zero_VMAccelStatus\<lparr>Status_status := VMACCEL_SUCCESS\<rparr>, A') \<and>
    alloc_inv valid dims A' \<and> ids (al_registeredIds A') = ids (al_registeredIds A) - {unat p} \<and>
    al_registered A' = al_registered A \<and> al_externalIds A' = al_externalIds A \<and> al_allocated A' = al_allocated A \<and>
    al_free A' = erase_parent rb p (size (al_free A)) 0 (al_free A)"
proof -
  note D = alloc_invD [OF inv] and V = vectors_okD [OF alloc_invD(1) [OF inv]]
  have P: "unat p < unat (db_size (al_registeredIds A))" using p V(3) by (auto simp: bounded_db_def)
  from ReleaseId_counted [OF V(1) p] obtain R where R: "IdentifierDB_ReleaseId (al_registeredIds A) p = Inr R" "counted R"
    "ids R = ids (al_registeredIds A) - {unat p}" "db_size R = db_size (al_registeredIds A)" by blast
  from D(5) [OF P] idle have rc: "al_refCount A ! unat p = 0" by (simp add: unat_eq_0)
  let ?pool = "erase_parent rb p (size (al_free A)) 0 (al_free A)"
  have pool: "elems ?pool = filter (\<lambda>e. ob_parentId e \<noteq> p) (elems (al_free A))"
    using elems_erase_parent [OF rb, of "al_free A" 0 "size (al_free A)" p] by simp
  let ?A = "A\<lparr>al_registeredIds := R, al_free := ?pool\<rparr>"
  have run: "Unregister ops rb A p = Inr (zero_VMAccelStatus\<lparr>Status_status := VMACCEL_SUCCESS\<rparr>, ?A)"
    using P V R(1) rc by (simp add: Unregister_def CoalesceFreed_empty)
  have other: "unat x \<noteq> unat p" if "x \<noteq> p" for x using that word_unat_eq_iff [of x p] by auto
  have "alloc_inv valid dims ?A"
  proof (rule alloc_invI)
    show "vectors_ok ?A" using V R by (simp add: vectors_ok_def)
    show "pool_ok valid (ids (al_registeredIds ?A)) (al_free ?A)" using D(2) other by (simp add: pool_ok_def pool R(3))
    show "valid (ob_obj (al_allocated ?A ! j))" if "j \<in> ids (al_externalIds ?A)" for j
      using D(3) [of j] that by simp
    show "unat (ob_parentId (al_allocated ?A ! j)) \<in> ids (al_registeredIds ?A)" if "j \<in> ids (al_externalIds ?A)" for j
    proof -
      from that idle have "amount (\<lambda>_. 1) p (al_allocated A ! j) = 0" by (simp add: lent_def)
      then have "ob_parentId (al_allocated A ! j) \<noteq> p" by (simp add: amount_def split: if_splits)
      with D(4) [of j] that other show ?thesis by (simp add: R(3))
    qed
    show "unat (al_refCount ?A ! unat x) = lent (\<lambda>_. 1) x (al_allocated ?A) (ids (al_externalIds ?A))"
      if "unat x < unat (db_size (al_registeredIds ?A))" for x :: VMAccelId
      using D(5) [of x] that by (simp add: R(4))
    show "valid (al_registered ?A ! unat x)" if "unat x \<in> ids (al_registeredIds ?A)" for x :: VMAccelId
      using D(6) [of x] that by (simp add: R(3))
    show "held \<mu> x (al_free ?A) + lent \<mu> x (al_allocated ?A) (ids (al_externalIds ?A)) = \<mu> (al_registered ?A ! unat x)"
      if x: "unat x \<in> ids (al_registeredIds ?A)" and m: "\<mu> \<in> dims" for x :: VMAccelId and \<mu>
    proof -
      from x have "x \<noteq> p" by (auto simp: R(3))
      from held_filter [OF pool this, of \<mu>] D(7) [OF _ m, of x] x show ?thesis by (simp add: R(3))
    qed
  qed
  with run R show ?thesis by (intro exI [of _ ?A]) simp
qed

lemma Unregister_busy:
  assumes inv: "alloc_inv valid dims A" and p: "unat p < unat (db_size (al_registeredIds A))"
    and busy: "0 < lent (\<lambda>_. 1) p (al_allocated A) (ids (al_externalIds A))"
  shows "Unregister ops rb A p = Inr (zero_VMAccelStatus\<lparr>Status_status := VMACCEL_FAIL\<rparr>, A)"
proof -
  note V = vectors_okD [OF alloc_invD(1) [OF inv]]
  from alloc_invD(5) [OF inv p] busy have "al_refCount A ! unat p \<noteq> 0" by auto
  with p V(9) show ?thesis by (simp add: Unregister_def)
qed

lemma Unregister_unknown:
  assumes inv: "alloc_inv valid dims A" and p: "unat p \<notin> ids (al_registeredIds A)"
  shows "Unregister ops rb A p = Inl (if unat p < unat (db_size (al_registeredIds A)) then AssertFailed else OutOfBounds)"
proof -
  note D = alloc_invD [OF inv] and V = vectors_okD [OF alloc_invD(1) [OF inv]]
  have "lent (\<lambda>_. 1) p (al_allocated A) (ids (al_externalIds A)) = 0" by (rule lent_zero) (use D(4) p in auto)
  with D(5) [of p] have rc: "al_refCount A ! unat p = 0" if "unat p < unat (db_size (al_registeredIds A))"
    using that by (simp add: unat_eq_0)
  with V p counted_ids.release_unused [OF V(1), of p] show ?thesis by (simp add: Unregister_def CoalesceFreed_empty)
qed

text \<open>Every operation that returns keeps the invariant, so it holds in every reachable state; and
  what it does to the pool is one of a few things.\<close>

lemma Register_step:
  assumes "rb_ok rb" and "alloc_inv valid dims A" and "valid x" and run: "Register ops rb A x = Inr (st, A')"
  shows "alloc_inv valid dims A'" and "A' = A \<or> (\<exists>e. al_free A' = snd (op_FreeObj ops rb (al_free A) e))"
proof -
  have "alloc_inv valid dims A' \<and> (A' = A \<or> (\<exists>e. al_free A' = snd (op_FreeObj ops rb (al_free A) e)))"
  proof (cases "ids (al_registeredIds A) = {..<unat (db_size (al_registeredIds A))}")
    case True
    from Register_full [OF assms(2) True, of rb x] run assms(2) show ?thesis by simp
  next
    case False
    from Register_conserves [OF assms(1-3) False] run show ?thesis by auto
  qed
  then show "alloc_inv valid dims A'" and "A' = A \<or> (\<exists>e. al_free A' = snd (op_FreeObj ops rb (al_free A) e))" by simp_all
qed

lemma Alloc_cases:
  assumes "rb_ok rb" and "alloc_inv valid dims A" and "valid q"
  obtains (full) A' where "ids (al_externalIds A) = {..<unat (db_size (al_externalIds A))}"
      "Alloc ops rb A p q = Inr ((al_result A)\<lparr>AllocateStatus_status := VMACCEL_FAIL\<rparr>, None, A')"
      "alloc_inv valid dims A'" "al_free A' = al_free A"
      "ids (al_externalIds A') = ids (al_externalIds A)" "al_allocated A' = al_allocated A"
      "al_registered A' = al_registered A" "al_registeredIds A' = al_registeredIds A"
  | (unavailable) A' where "ids (al_externalIds A) \<noteq> {..<unat (db_size (al_externalIds A))}"
      "Alloc ops rb A p q = Inr ((al_result A)\<lparr>AllocateStatus_status := VMACCEL_RESOURCE_UNAVAILABLE\<rparr>, None, A')"
      "alloc_inv valid dims A'" "al_free A' = al_free A"
      "ids (al_externalIds A') = ids (al_externalIds A)" "al_allocated A' = al_allocated A"
      "al_registered A' = al_registered A" "al_registeredIds A' = al_registeredIds A"
  | (granted) it dv r where "ids (al_externalIds A) \<noteq> {..<unat (db_size (al_externalIds A))}"
      "lower_bound (op_cmp ops) (al_free A) (VMAccelObject_new ops p q) = Some it"
      "op_Reserve ops (ob_obj (elems (al_free A) ! it)) (ob_obj (VMAccelObject_new ops p q)) = Some (dv, r)"
proof (cases "ids (al_externalIds A) = {..<unat (db_size (al_externalIds A))}")
  case True
  from Alloc_full [OF assms(2) True, of rb p q] full [OF True] show ?thesis by auto
next
  case False
  let ?q = "VMAccelObject_new ops p q"
  show ?thesis
  proof (cases "\<exists>it dv r. lower_bound (op_cmp ops) (al_free A) ?q = Some it \<and>
      op_Reserve ops (ob_obj (elems (al_free A) ! it)) (ob_obj ?q) = Some (dv, r)")
    case True
    with granted [OF False] show ?thesis by auto
  next
    case miss: False
    have "op_Reserve ops (ob_obj (elems (al_free A) ! it)) (ob_obj ?q) = None"
      if "lower_bound (op_cmp ops) (al_free A) ?q = Some it" for it
      using miss that by (cases "op_Reserve ops (ob_obj (elems (al_free A) ! it)) (ob_obj ?q)") auto
    from Alloc_unavailable [OF assms(2) False this, of rb] unavailable [OF False] show ?thesis by auto
  qed
qed

text \<open>A granted request takes what it asked for out of the pool of its parent.\<close>

lemma Alloc_takes:
  assumes rb: "rb_ok rb" and inv: "alloc_inv valid dims A" and q: "valid q"
    and room: "ids (al_externalIds A) \<noteq> {..<unat (db_size (al_externalIds A))}"
    and it: "lower_bound (op_cmp ops) (al_free A) (VMAccelObject_new ops p q) = Some it"
    and R: "op_Reserve ops (ob_obj (elems (al_free A) ! it)) (ob_obj (VMAccelObject_new ops p q)) = Some (dv, r)"
  defines "n \<equiv> LEAST n. n \<notin> ids (al_externalIds A)"
  obtains A' e where "Alloc ops rb A p q = Inr ((al_result A)\<lparr>AllocateStatus_id := of_nat n,
      AllocateStatus_status := VMACCEL_SUCCESS\<rparr>, Some (ob_obj e), A')"
    and "alloc_inv valid dims A'" and "ob_parentId e = p" and "unat p \<in> ids (al_registeredIds A)"
    and "unat (of_nat n :: u32) = n" and "n \<notin> ids (al_externalIds A)" and "n < length (al_allocated A)"
    and "ids (al_externalIds A') = insert n (ids (al_externalIds A))" and "al_allocated A' = (al_allocated A)[n := e]"
    and "al_registered A' = al_registered A" and "al_registeredIds A' = al_registeredIds A"
    and "\<And>\<mu>. \<mu> \<in> dims \<Longrightarrow> \<mu> (ob_obj e) = \<mu> q"
    and "\<And>\<mu>. \<mu> \<in> dims \<Longrightarrow> held \<mu> p (al_free A') + \<mu> q = held \<mu> p (al_free A)"
proof -
  note V = vectors_okD [OF alloc_invD(1) [OF inv]]
  note n = least_free_id(1,3) [OF V(4) room, folded n_def]
  from n have un: "unat (of_nat n :: u32) = n"
    using unsigned_less [of "db_size (al_externalIds A)", where 'a = nat] by (simp add: unat_of_nat)
  from Alloc_conserves [OF rb inv q room it R, folded n_def] obtain A' e where
    run: "Alloc ops rb A p q = Inr ((al_result A)\<lparr>AllocateStatus_id := of_nat n,
        AllocateStatus_status := VMACCEL_SUCCESS\<rparr>, Some (ob_obj e), A')" and inv': "alloc_inv valid dims A'"
    and e: "\<forall>\<mu>\<in>dims. \<mu> (ob_obj e) = \<mu> q" "ob_parentId e = p" and p: "unat p \<in> ids (al_registeredIds A)"
    and E: "ids (al_externalIds A') = insert n (ids (al_externalIds A))" "al_allocated A' = (al_allocated A)[n := e]"
    and R: "al_registered A' = al_registered A" "al_registeredIds A' = al_registeredIds A" by blast
  have len: "n < length (al_allocated A)" using n V(5,10) by simp
  have "held \<mu> p (al_free A') + \<mu> q = held \<mu> p (al_free A)" if m: "\<mu> \<in> dims" for \<mu>
  proof -
    have "lent \<mu> p (al_allocated A') (ids (al_externalIds A')) = amount \<mu> p e + lent \<mu> p (al_allocated A) (ids (al_externalIds A))"
      unfolding E using n len by (intro lent_insert) simp_all
    moreover have "amount \<mu> p e = \<mu> q" using e m by (simp add: amount_def)
    ultimately show ?thesis using alloc_invD(7) [OF inv p m] alloc_invD(7) [OF inv' _ m, of p] p R by simp
  qed
  with that [OF run inv' e(2) p un n(1) len E R] e(1) show ?thesis by blast
qed

lemma Alloc_step:
  assumes "rb_ok rb" and "alloc_inv valid dims A" and "valid q" and run: "Alloc ops rb A p q = Inr (st, d, A')"
  shows "alloc_inv valid dims A'" and "al_free A' = al_free A \<or> (\<exists>it dv r. it < size (al_free A) \<and>
    al_free A' = snd (split_object ops rb (VMAccelObject_new ops p q) (VMAccelObject_default ops) (rb_erase rb it (al_free A)) dv r))"
proof -
  have "alloc_inv valid dims A' \<and> (al_free A' = al_free A \<or> (\<exists>it dv r. it < size (al_free A) \<and>
    al_free A' = snd (split_object ops rb (VMAccelObject_new ops p q) (VMAccelObject_default ops) (rb_erase rb it (al_free A)) dv r)))"
    using assms(1-3)
  proof (cases rule: Alloc_cases [where p = p])
    case (granted it dv r)
    from Alloc_conserves [OF assms(1-3) granted] run have "alloc_inv valid dims A' \<and> al_free A' = snd (split_object ops rb
        (VMAccelObject_new ops p q) (VMAccelObject_default ops) (rb_erase rb it (al_free A)) dv r)" by fastforce
    with lower_bound_sound [OF granted(2)] show ?thesis by blast
  qed (use run in auto)
  then show "alloc_inv valid dims A'" and "al_free A' = al_free A \<or> (\<exists>it dv r. it < size (al_free A) \<and>
    al_free A' = snd (split_object ops rb (VMAccelObject_new ops p q) (VMAccelObject_default ops) (rb_erase rb it (al_free A)) dv r))"
    by simp_all
qed

lemma Free_step:
  assumes "rb_ok rb" and "alloc_inv valid dims A" and run: "Free ops rb False A i = Inr (st, A')"
  shows "alloc_inv valid dims A'" and "\<exists>e. al_free A' = snd (op_FreeObj ops rb (al_free A) e)"
proof -
  have i: "unat i \<in> ids (al_externalIds A)" using Free_inactive [OF assms(2), of i rb False] run by auto
  from Free_conserves [OF assms(1,2) i] run
  show "alloc_inv valid dims A'" "\<exists>e. al_free A' = snd (op_FreeObj ops rb (al_free A) e)" by auto
qed

lemma Unregister_step:
  assumes "rb_ok rb" and inv: "alloc_inv valid dims A" and run: "Unregister ops rb A p = Inr (st, A')"
  shows "alloc_inv valid dims A'" and "A' = A \<or> al_free A' = erase_parent rb p (size (al_free A)) 0 (al_free A)"
proof -
  have p: "unat p \<in> ids (al_registeredIds A)" using Unregister_unknown [OF inv, of p rb] run by auto
  then have lt: "unat p < unat (db_size (al_registeredIds A))"
    using vectors_okD(3) [OF alloc_invD(1) [OF inv]] by (auto simp: bounded_db_def)
  have "alloc_inv valid dims A' \<and> (A' = A \<or> al_free A' = erase_parent rb p (size (al_free A)) 0 (al_free A))"
    using Unregister_busy [OF inv lt, of rb] Unregister_conserves [OF assms(1,2) p] inv run
    by (cases "lent (\<lambda>_. 1) p (al_allocated A) (ids (al_externalIds A)) = 0") auto
  then show "alloc_inv valid dims A'" and "A' = A \<or> al_free A' = erase_parent rb p (size (al_free A)) 0 (al_free A)" by auto
qed

text \<open>Freeing what was just allocated gives everything back.\<close>

lemma Alloc_Free:
  assumes rb: "rb_ok rb" and inv: "alloc_inv valid dims A" and q: "valid q" and run: "Alloc ops rb A p q = Inr (st, Some v, A1)"
  shows "\<exists>A2. Free ops rb False A1 (AllocateStatus_id st) = Inr (zero_VMAccelStatus\<lparr>Status_status := VMACCEL_SUCCESS\<rparr>, A2) \<and>
    ids (al_externalIds A2) = ids (al_externalIds A) \<and> al_registeredIds A2 = al_registeredIds A \<and>
    (\<forall>x. unat x \<in> ids (al_registeredIds A) \<longrightarrow> (\<forall>\<mu>\<in>dims. held \<mu> x (al_free A2) = held \<mu> x (al_free A)))"
  using rb inv q
proof (cases rule: Alloc_cases [where p = p])
  case (granted it dv r)
  let ?n = "LEAST n. n \<notin> ids (al_externalIds A)"
  show ?thesis
  proof (rule Alloc_takes [OF rb inv q granted])
    fix A' e
    assume run': "Alloc ops rb A p q = Inr ((al_result A)\<lparr>AllocateStatus_id := of_nat ?n,
        AllocateStatus_status := VMACCEL_SUCCESS\<rparr>, Some (ob_obj e), A')"
      and inv': "alloc_inv valid dims A'" and un: "unat (of_nat ?n :: u32) = ?n" and n: "?n \<notin> ids (al_externalIds A)"
      and E: "ids (al_externalIds A') = insert ?n (ids (al_externalIds A))" "al_allocated A' = (al_allocated A)[?n := e]"
      and R: "al_registered A' = al_registered A" "al_registeredIds A' = al_registeredIds A"
    from run run' have A1: "A1 = A'" "AllocateStatus_id st = of_nat ?n" by auto
    have "unat (of_nat ?n :: u32) \<in> ids (al_externalIds A')" unfolding un E(1) by blast
    from Free_conserves [OF rb inv' this] obtain A2 e' where
      F: "Free ops rb False A' (of_nat ?n) = Inr (zero_VMAccelStatus\<lparr>Status_status := VMACCEL_SUCCESS\<rparr>, A2)"
        "alloc_inv valid dims A2" "ids (al_externalIds A2) = ids (al_externalIds A') - {unat (of_nat ?n :: u32)}"
        "al_allocated A2 = (al_allocated A')[unat (of_nat ?n :: u32) := e']"
        "al_registered A2 = al_registered A'" "al_registeredIds A2 = al_registeredIds A'" by blast
    have I: "ids (al_externalIds A2) = ids (al_externalIds A)" unfolding F(3) E(1) un using n by blast
    have L: "lent \<mu> x (al_allocated A2) (ids (al_externalIds A)) = lent \<mu> x (al_allocated A) (ids (al_externalIds A))" for \<mu> x
      unfolding lent_def F(4) E(2) un by (rule sum.cong [OF refl]) (use n in \<open>metis nth_list_update_neq\<close>)
    have "held \<mu> x (al_free A2) = held \<mu> x (al_free A)" if x: "unat x \<in> ids (al_registeredIds A)" and m: "\<mu> \<in> dims" for x \<mu>
      using alloc_invD(7) [OF inv x m] alloc_invD(7) [OF F(2) _ m, of x] x R F(5,6) L [of \<mu> x] I by simp
    with F(1,6) R(2) I A1 show ?thesis by auto
  qed
qed (use run in simp_all)

lemma start_inv:
  assumes "VMAccelAllocator (\<lambda>_. True) ops zero num = Some A" and num: "unat num \<le> 2 ^ 32 - 32"
  shows "alloc_inv valid dims A"
proof -
  obtain db where db: "IdentifierDB_Alloc (\<lambda>_. True) num = Some db" by (simp add: IdentifierDB_Alloc_def Let_def)
  note P = Alloc_props [OF db TrueI num]
  from assms(1) have A: "al_registeredIds A = db" "al_externalIds A = db" "al_free A = Leaf"
    "length (al_registered A) = unat num" "length (al_capacity A) = unat num" "length (al_load A) = unat num"
    "al_refCount A = replicate (unat num) 0" "length (al_allocated A) = unat num" "al_freed A = []"
    by (auto simp: VMAccelAllocator_def db)
  then show ?thesis by (simp add: alloc_inv_def vectors_ok_def P pool_ok_def lent_def)
qed

lemma reachable_inv:
  assumes "rb_ok rb" and "unat num \<le> 2 ^ 32 - 32" and "reachable ops rb valid zero num A"
  shows "alloc_inv valid dims A"
  using assms(3)
proof induction
  case start
  then show ?case by (rule start_inv) (rule assms(2))
qed (use assms(1) in \<open>blast intro: Register_step(1) Unregister_step(1) Alloc_step(1) Free_step(1)\<close>)+

end

subsection \<open>One object per parent\<close>

definition one_each :: "'t vobj pool \<Rightarrow> bool" where
  "one_each pool \<longleftrightarrow> (\<forall>p. held (\<lambda>_. 1) p pool \<le> 1)"

lemma one_each_Leaf: "one_each Leaf"
  by (simp add: one_each_def)

lemma one_each_erase:
  assumes "rb_ok rb" and "i < size t" and "one_each t" shows "one_each (rb_erase rb i t)"
  unfolding one_each_def
proof
  fix p
  from assms(3) have "held (\<lambda>_. 1) p t \<le> 1" unfolding one_each_def by blast
  with held_erase [OF assms(1,2), of "\<lambda>_. 1" p] show "held (\<lambda>_. 1) p (rb_erase rb i t) \<le> 1" by linarith
qed

lemma one_each_add:
  assumes rb: "rb_ok rb" and "one_each t" and "find_pos (\<lambda>e. ob_parentId e = ob_parentId y) (elems t) = None"
  shows "one_each (pool_insert rb cmp y t)"
  unfolding one_each_def
proof
  fix p
  have "held (\<lambda>_. 1) (ob_parentId y) t = 0" using assms(3) by (intro held_zero) (auto simp: find_pos_None)
  with assms(2) show "held (\<lambda>_. 1) p (pool_insert rb cmp y t) \<le> 1"
    by (auto simp: held_insert [OF rb] amount_def one_each_def)
qed

lemma one_each_replace:
  assumes rb: "rb_ok rb" and "one_each t" and "i < size t" and "ob_parentId y = ob_parentId (elems t ! i)"
  shows "one_each (pool_insert rb cmp y (rb_erase rb i t))"
  unfolding one_each_def
proof
  fix p
  from assms(2) have "held (\<lambda>_. 1) p t \<le> 1" by (simp add: one_each_def)
  with held_erase [OF rb assms(3), of "\<lambda>_. 1" p] assms(4)
  show "held (\<lambda>_. 1) p (pool_insert rb cmp y (rb_erase rb i t)) \<le> 1"
    by (simp add: held_insert [OF rb] amount_def)
qed

lemma one_each_filter:
  assumes "elems pool' = filter P (elems pool)" and "one_each pool" shows "one_each pool'"
  unfolding one_each_def
proof
  fix p
  have "sum_list (map (amount (\<lambda>_. 1) p) (filter P es)) \<le> sum_list (map (amount (\<lambda>_. 1) p) es)" for es
    by (induction es) auto
  then have "held (\<lambda>_. 1) p pool' \<le> held (\<lambda>_. 1) p pool"
    unfolding held_def assms(1) mset_map [symmetric] sum_mset_sum_list by this
  with assms(2) show "held (\<lambda>_. 1) p pool' \<le> 1" unfolding one_each_def by (meson le_trans)
qed

text \<open>If the pool of a single parent is not empty, it is one object.\<close>

lemma single_pool:
  assumes "one_each pool" and "\<And>e. e \<in> set (elems pool) \<Longrightarrow> ob_parentId e = p" and "pool \<noteq> Leaf"
  obtains xc where "pool = Node Leaf xc Leaf"
proof -
  have "sum_list (map (amount (\<lambda>_. 1) p) es) = length es" if "\<And>e. e \<in> set es \<Longrightarrow> ob_parentId e = p" for es :: "'a vobj list"
    using that by (induction es) (auto simp: amount_def)
  from this [of "elems pool"] assms(2) have "held (\<lambda>_. 1) p pool = size pool"
    unfolding held_def mset_map [symmetric] sum_mset_sum_list by simp
  with assms(1) have "size pool \<le> 1" by (metis one_each_def)
  with assms(3) that show ?thesis by (cases pool) auto
qed

locale alloc_single = alloc_type +
  assumes free_single: "rb_ok rb \<Longrightarrow> one_each pool \<Longrightarrow> one_each (snd (op_FreeObj ops rb pool e))"
    and fits: "valid (ob_obj e) \<Longrightarrow> valid (ob_obj k) \<Longrightarrow> ob_parentId e = ob_parentId k \<Longrightarrow> 0 < tot (ob_obj k) \<Longrightarrow>
      (\<forall>\<mu>\<in>dims. \<mu> (ob_obj k) \<le> \<mu> (ob_obj e)) \<Longrightarrow> \<not> op_cmp ops e k \<and> op_Reserve ops (ob_obj e) (ob_obj k) \<noteq> None"

context alloc_single
begin

lemma split_single:
  assumes "rb_ok rb" and "one_each pool"
  shows "one_each (snd (split_object ops rb req d pool dv r))"
  using assms free_single by (simp add: split_object_def)

lemma erase_parent_single:
  assumes "rb_ok rb" and "one_each pool" shows "one_each (erase_parent rb p (size pool) 0 pool)"
proof (rule one_each_filter [OF _ assms(2)])
  show "elems (erase_parent rb p (size pool) 0 pool) = filter (\<lambda>e. ob_parentId e \<noteq> p) (elems pool)"
    using elems_erase_parent [OF assms(1), of pool 0 "size pool" p] by simp
qed

lemma reachable_single:
  assumes rb: "rb_ok rb" and num: "unat num \<le> 2 ^ 32 - 32" and "reachable ops rb valid zero num A"
  shows "one_each (al_free A)"
  using assms(3)
proof induction
  case (start A)
  then show ?case by (auto simp: VMAccelAllocator_def one_each_Leaf split: option.splits)
next
  case (register A x st A')
  from Register_step(2) [OF rb reachable_inv [OF rb num register(1)] register(2,3)] register.IH free_single [OF rb]
  show ?case by auto
next
  case (unregister A p st A')
  from Unregister_step(2) [OF rb reachable_inv [OF rb num unregister(1)] unregister(2)] unregister.IH
    erase_parent_single [OF rb] show ?case by auto
next
  case (alloc A q p st d A')
  from Alloc_step(2) [OF rb reachable_inv [OF rb num alloc(1)] alloc(2,3)] alloc.IH
  show ?case using split_single [OF rb one_each_erase [OF rb]] by auto
next
  case (free A i st A')
  from Free_step(2) [OF rb reachable_inv [OF rb num free(1)] free(2)] free.IH free_single [OF rb]
  show ?case by auto
qed

text \<open>With a single registered resource a request for something is granted when what is left
  covers it.\<close>

lemma Alloc_granted:
  assumes rb: "rb_ok rb" and inv: "alloc_inv valid dims A" and one: "one_each (al_free A)" and q: "valid q"
    and only: "ids (al_registeredIds A) = {unat p}"
    and room: "ids (al_externalIds A) \<noteq> {..<unat (db_size (al_externalIds A))}"
    and need: "0 < tot q" and enough: "\<And>\<mu>. \<mu> \<in> dims \<Longrightarrow> \<mu> q \<le> held \<mu> p (al_free A)"
  obtains it dv r where "lower_bound (op_cmp ops) (al_free A) (VMAccelObject_new ops p q) = Some it"
    and "op_Reserve ops (ob_obj (elems (al_free A) ! it)) (ob_obj (VMAccelObject_new ops p q)) = Some (dv, r)"
proof -
  let ?q = "VMAccelObject_new ops p q"
  have par: "ob_parentId e = p" if "e \<in> set (elems (al_free A))" for e
    using alloc_invD(2) [OF inv] that only word_unat_eq_iff [of "ob_parentId e" p] by (auto simp: pool_ok_def)
  have "al_free A \<noteq> Leaf" using enough [OF tot_measure] need by auto
  with single_pool [OF one par] obtain xc where pool: "al_free A = Node Leaf xc Leaf" by blast
  let ?e = "fst xc"
  have e: "ob_parentId ?e = p" "valid (ob_obj ?e)" using par alloc_invD(2) [OF inv] by (simp_all add: pool pool_ok_def)
  have h: "held \<mu> p (al_free A) = \<mu> (ob_obj ?e)" for \<mu> using e(1) by (simp add: pool held_def amount_def)
  have Q: "ob_parentId ?q = p" "valid (ob_obj ?q)" using q by (simp_all add: VMAccelObject_new_def value_laws)
  have mq: "\<mu> (ob_obj ?q) = \<mu> q" if "\<mu> \<in> dims" for \<mu> using that by (simp add: VMAccelObject_new_def value_laws)
  have "\<not> op_cmp ops ?e ?q \<and> op_Reserve ops (ob_obj ?e) (ob_obj ?q) \<noteq> None"
  proof (rule fits [OF e(2) Q(2)])
    show "ob_parentId ?e = ob_parentId ?q" using e(1) Q(1) by simp
    show "0 < tot (ob_obj ?q)" using need mq [OF tot_measure] by simp
    show "\<forall>\<mu>\<in>dims. \<mu> (ob_obj ?q) \<le> \<mu> (ob_obj ?e)"
    proof
      fix \<mu> assume m: "\<mu> \<in> dims"
      show "\<mu> (ob_obj ?q) \<le> \<mu> (ob_obj ?e)" using enough [OF m] unfolding mq [OF m] h .
    qed
  qed
  with that [of 0] show ?thesis by (auto simp: pool)
qed

end

end
