(* ===== verification/Alloc_Instances.thy ===== *)
theory Alloc_Instances
  imports Allocator_Inv
begin

section \<open>The allocator on the program's object types\<close>

text \<open>
  The two object types the manager uses are instances of the contract \<open>alloc_type\<close>: amounts of
  memory (\<^verbatim>\<open>Int\<close>, non-negative) and accelerator descriptions (\<^verbatim>\<open>VMAccelDesc\<close>).  For the latter the
  contract holds when the six dimensions of the workload that \<^verbatim>\<open>Reserve\<close> does not compare are
  zero and the sum of the other three fits in 32 bits.
\<close>

subsection \<open>Amounts\<close>

definition Int_valid :: "IntVal \<Rightarrow> bool" where
  "Int_valid x \<longleftrightarrow> unat (Int_x x) < 2 ^ 31"

definition Int_amount :: "IntVal \<Rightarrow> nat" where
  "Int_amount x = unat (Int_x x)"

lemma sint_small: "unat w < 2 ^ 31 \<Longrightarrow> sint w = int (unat w)" for w :: u32
proof -
  assume "unat w < 2 ^ 31"
  then have "int (unat w) < int (2 ^ 31)" by (simp only: of_nat_less_iff)
  then have "uint w < 2 ^ 31" by simp
  then have t: "take_bit 31 (uint w) = uint w" by (simp add: take_bit_int_eq_self)
  then have "\<not> bit (uint w) 31" by (metis bit_take_bit_iff less_irrefl)
  then have "sint w = take_bit 31 (uint w)" by (simp add: sint_uint signed_take_bit_eq_if_positive)
  with t show ?thesis by simp
qed

lemma unat_diff: "b \<le> a \<Longrightarrow> unat (a - b) = unat a - unat b" for a b :: "'a::len word"
  by (simp add: unat_sub)

lemma unat_sum: "unat a + unat b < 2 ^ 32 \<Longrightarrow> unat (a + b) = unat a + unat b" for a b :: u32
  by (subst unat_add_lem [THEN iffD1]) auto

text \<open>\<^verbatim>\<open>FreeObj\<close> of both types: the object joins the one of its parent, or is added.\<close>

lemma merge_conserves:
  assumes rb: "rb_ok rb" and ok: "pool_ok valid S pool" and it: "find_pos (\<lambda>e. ob_parentId e = ob_parentId e') (elems pool) = Some it"
    and new: "ob_parentId new = ob_parentId e'" "valid (ob_obj new)" "unat (ob_parentId e') \<in> S"
    and sum: "\<And>\<mu>. \<mu> \<in> dims \<Longrightarrow> \<mu> (ob_obj new) = \<mu> (ob_obj (elems pool ! it)) + \<mu> (ob_obj e')"
  shows "pool_ok valid S (pool_insert rb cmp new (rb_erase rb it pool))"
    and "\<mu> \<in> dims \<Longrightarrow> held \<mu> p (pool_insert rb cmp new (rb_erase rb it pool)) = amount \<mu> p e' + held \<mu> p pool"
proof -
  from find_pos_Some [OF it] have i: "it < size pool" and par: "ob_parentId (elems pool ! it) = ob_parentId e'" by auto
  show "pool_ok valid S (pool_insert rb cmp new (rb_erase rb it pool))"
    using new pool_ok_erase [OF rb i ok] by (simp add: pool_ok_insert [OF rb])
  show "held \<mu> p (pool_insert rb cmp new (rb_erase rb it pool)) = amount \<mu> p e' + held \<mu> p pool" if m: "\<mu> \<in> dims"
    using held_erase [OF rb i, of \<mu> p] sum [OF m] par new(1) by (auto simp: held_insert [OF rb] amount_def)
qed

lemma held_member: "it < size pool \<Longrightarrow> amount \<mu> p (elems pool ! it) \<le> held \<mu> p pool"
  unfolding held_def mset_map [symmetric] sum_mset_sum_list by (rule member_le_sum_list) simp_all

lemmas Int_defs = Int_ops_def Int_obj_ops_def Int_DeepCopy_def Int_Move_def Int_Constructor_def
  VMAccelObject_copy_def VMAccelObject_new_def VMAccelObject_move_def

interpretation int_alloc: alloc_type "Int_ops u" Int_valid "{Int_amount}" Int_amount "2 ^ 31" for u
proof
  show "Int_amount \<in> {Int_amount}" by simp
  show "Int_valid x \<Longrightarrow> Int_amount x < 2 ^ 31" for x by (simp add: Int_valid_def Int_amount_def)
  show "\<not> op_cmp (Int_ops u) e k \<Longrightarrow> ob_parentId e = ob_parentId k" for e k by (simp add: Int_ops_def IntCmp_def)
  show "Int_valid x \<Longrightarrow> Int_valid (op_DeepCopy (Int_ops u) l x)" for l x by (simp add: Int_valid_def Int_defs)
  show "\<mu> \<in> {Int_amount} \<Longrightarrow> \<mu> (op_DeepCopy (Int_ops u) l x) = \<mu> x" for \<mu> l x by (auto simp: Int_amount_def Int_defs)
  show "Int_valid x \<Longrightarrow> Int_valid (op_Move (Int_ops u) l x)" for l x by (simp add: Int_valid_def Int_defs)
  show "\<mu> \<in> {Int_amount} \<Longrightarrow> \<mu> (op_Move (Int_ops u) l x) = \<mu> x" for \<mu> l x by (auto simp: Int_amount_def Int_defs)
  show "Int_valid r \<Longrightarrow> op_IsEmpty (Int_ops u) r \<Longrightarrow> \<mu> \<in> {Int_amount} \<Longrightarrow> \<mu> r = 0" for r \<mu>
    by (simp add: Int_amount_def Int_ops_def Int_IsEmpty_def)
  fix x q d r assume v: "Int_valid x" "Int_valid q" and R: "op_Reserve (Int_ops u) x q = Some (d, r)"
  from R v have le: "Int_x q \<le> Int_x x" and d: "Int_x d = Int_x q" and r: "Int_x r = Int_x x - Int_x q"
    by (auto simp: Int_ops_def Int_Reserve_def Int_valid_def sint_small word_le_def split: if_splits)
  show "Int_valid d \<and> Int_valid r" using v le by (simp add: Int_valid_def d r unat_diff)
  show "\<mu> d = \<mu> q \<and> \<mu> x = \<mu> d + \<mu> r" if "\<mu> \<in> {Int_amount}" for \<mu>
    using that le by (simp add: Int_amount_def d r unat_diff word_le_nat_alt)
next
  fix rb :: "IntVal vobj rb" and S pool and e :: "IntVal vobj"
  assume rb: "rb_ok rb" and ok: "pool_ok Int_valid S pool" and e: "Int_valid (ob_obj e)" "unat (ob_parentId e) \<in> S"
    and lim: "Int_amount (ob_obj e) + held Int_amount (ob_parentId e) pool < 2 ^ 31"
  show "\<exists>pool'. op_FreeObj (Int_ops u) rb pool e = (True, pool') \<and> pool_ok Int_valid S pool' \<and>
      (\<forall>\<mu>\<in>{Int_amount}. \<forall>p. held \<mu> p pool' = amount \<mu> p e + held \<mu> p pool)"
  proof (cases "find_pos (\<lambda>x. ob_parentId x = ob_parentId e) (elems pool)")
    case None
    then have "op_FreeObj (Int_ops u) rb pool e =
        (True, pool_insert rb IntCmp (VMAccelObject_copy (Int_obj_ops u) e) pool)"
      by (simp add: Int_ops_def Int_FreeObj_def)
    with e ok show ?thesis
      by (simp add: pool_ok_insert [OF rb] held_insert [OF rb] amount_def Int_amount_def Int_valid_def Int_defs)
  next
    case (Some it)
    from find_pos_Some [OF Some] have i: "it < size pool" "ob_parentId (elems pool ! it) = ob_parentId e" by auto
    let ?v = "Int_x (ob_obj (elems pool ! it)) + Int_x (ob_obj e)"
    let ?new = "VMAccelObject_move (Int_obj_ops u) (VMAccelObject_new (Int_obj_ops u) (ob_parentId e)
      ((ob_obj (elems pool ! it))\<lparr>Int_x := ?v\<rparr>))"
    have new: "ob_parentId ?new = ob_parentId e" "Int_x (ob_obj ?new) = ?v" by (simp_all add: Int_defs)
    have "unat (Int_x (ob_obj (elems pool ! it))) + unat (Int_x (ob_obj e)) < 2 ^ 31"
      using lim held_member [OF i(1), of Int_amount "ob_parentId e"] i(2) by (simp add: amount_def Int_amount_def)
    then have v: "unat ?v = unat (Int_x (ob_obj (elems pool ! it))) + unat (Int_x (ob_obj e))" "unat ?v < 2 ^ 31"
      by (simp_all add: unat_sum)
    have sum: "\<mu> (ob_obj ?new) = \<mu> (ob_obj (elems pool ! it)) + \<mu> (ob_obj e)" if "\<mu> \<in> {Int_amount}" for \<mu>
      using that v by (simp add: Int_amount_def new(2))
    have "Int_valid (ob_obj ?new)" using v by (simp add: Int_valid_def new(2))
    note M = merge_conserves [OF rb ok Some new(1) this e(2) sum]
    have "op_FreeObj (Int_ops u) rb pool e = (True, pool_insert rb IntCmp ?new (rb_erase rb it pool))"
      by (simp add: Int_ops_def Int_FreeObj_def Some Let_def)
    with M [where cmp = IntCmp] show ?thesis by blast
  qed
qed

subsection \<open>Accelerator descriptions\<close>

definition megaFlops :: "VMAccelDesc \<Rightarrow> nat" where
  "megaFlops x = unat (WorkloadDesc_megaFlops (Desc_capacity x))"

definition megaOps :: "VMAccelDesc \<Rightarrow> nat" where
  "megaOps x = unat (WorkloadDesc_megaOps (Desc_capacity x))"

definition localMem :: "VMAccelDesc \<Rightarrow> nat" where
  "localMem x = unat (WorkloadDesc_localMemSizeKB (Desc_capacity x))"

definition Desc_total :: "VMAccelDesc \<Rightarrow> nat" where
  "Desc_total x = megaFlops x + megaOps x + localMem x"

definition Desc_dims :: "(VMAccelDesc \<Rightarrow> nat) set" where
  "Desc_dims = {megaFlops, megaOps, localMem, Desc_total}"

definition Desc_valid :: "VMAccelDesc \<Rightarrow> bool" where
  "Desc_valid x \<longleftrightarrow> (let c = Desc_capacity x in
     WorkloadDesc_llcSizeKB c = 0 \<and> WorkloadDesc_llcBandwidthMBSec c = 0 \<and>
     WorkloadDesc_localMemBandwidthMBSec c = 0 \<and> WorkloadDesc_nonLocalMemSizeKB c = 0 \<and>
     WorkloadDesc_nonLocalMemBandwidthMBSec c = 0 \<and> WorkloadDesc_interconnectBandwidthMBSec c = 0 \<and>
     Desc_total x < 2 ^ 32)"

lemmas Desc_amounts = megaFlops_def megaOps_def localMem_def Desc_total_def

lemma Desc_dims_cases: "\<mu> \<in> Desc_dims \<Longrightarrow> P megaFlops \<Longrightarrow> P megaOps \<Longrightarrow> P localMem \<Longrightarrow> P Desc_total \<Longrightarrow> P \<mu>"
  by (auto simp: Desc_dims_def)

lemma Desc_valid_cong: "Desc_capacity x = Desc_capacity y \<Longrightarrow> Desc_valid x = Desc_valid y"
  by (simp add: Desc_valid_def Desc_amounts)

lemma Desc_dims_cong: "\<mu> \<in> Desc_dims \<Longrightarrow> Desc_capacity x = Desc_capacity y \<Longrightarrow> \<mu> x = \<mu> y"
  by (erule Desc_dims_cases) (simp_all add: Desc_amounts)

lemma Desc_copy_capacity: "Desc_capacity (Desc_DeepCopy l x) = Desc_capacity x" "Desc_capacity (Desc_Move l x) = Desc_capacity x"
  by (simp_all add: Desc_DeepCopy_def Desc_Move_def)

lemma Desc_Reserve_Some:
  assumes "Desc_Reserve x q = Some (d, r)"
  shows "Desc_capacity d = Desc_capacity q" and "Desc_capacity r = WorkloadDesc_sub (Desc_capacity x) (Desc_capacity q)"
    and "\<not> WorkloadDesc_less (Desc_capacity x) (Desc_capacity q)"
  using assms by (auto simp: Desc_Reserve_def Let_def split: if_splits)

lemma Desc_sub_valid:
  assumes "Desc_valid x" and "Desc_valid q" and "Desc_capacity d = Desc_capacity q"
    and "Desc_capacity r = WorkloadDesc_sub (Desc_capacity x) (Desc_capacity q)"
    and "\<not> WorkloadDesc_less (Desc_capacity x) (Desc_capacity q)"
  shows "megaFlops x = megaFlops d + megaFlops r" and "megaOps x = megaOps d + megaOps r"
    and "localMem x = localMem d + localMem r" and "Desc_valid d" and "Desc_valid r"
proof -
  from assms(5) have le: "WorkloadDesc_localMemSizeKB (Desc_capacity q) \<le> WorkloadDesc_localMemSizeKB (Desc_capacity x)"
    "WorkloadDesc_megaFlops (Desc_capacity q) \<le> WorkloadDesc_megaFlops (Desc_capacity x)"
    "WorkloadDesc_megaOps (Desc_capacity q) \<le> WorkloadDesc_megaOps (Desc_capacity x)"
    by (simp_all add: WorkloadDesc_less_def not_less)
  show *: "megaFlops x = megaFlops d + megaFlops r" "megaOps x = megaOps d + megaOps r" "localMem x = localMem d + localMem r"
    using le by (simp_all add: Desc_amounts assms(3,4) WorkloadDesc_sub_def WorkloadDesc_sub_assign_def unat_diff word_le_nat_alt)
  show "Desc_valid d" using assms(2) Desc_valid_cong [OF assms(3)] by simp
  have "Desc_total r \<le> Desc_total x" using * by (simp add: Desc_total_def)
  with assms(1,2) show "Desc_valid r"
    by (simp add: Desc_valid_def Let_def assms(4) WorkloadDesc_sub_def WorkloadDesc_sub_assign_def)
qed

lemma Desc_add_valid:
  assumes "Desc_valid x" and "Desc_valid y" and "Desc_total x + Desc_total y < 2 ^ 32"
    and "Desc_capacity z = WorkloadDesc_add_assign (Desc_capacity x) (Desc_capacity y)"
  shows "megaFlops z = megaFlops x + megaFlops y" and "megaOps z = megaOps x + megaOps y"
    and "localMem z = localMem x + localMem y" and "Desc_valid z" and "Desc_total z = Desc_total x + Desc_total y"
proof -
  show *: "megaFlops z = megaFlops x + megaFlops y" "megaOps z = megaOps x + megaOps y" "localMem z = localMem x + localMem y"
    using assms(3) by (simp_all add: Desc_amounts assms(4) WorkloadDesc_add_assign_def unat_sum)
  then show **: "Desc_total z = Desc_total x + Desc_total y" by (simp add: Desc_total_def)
  from ** assms(1-3) show "Desc_valid z" by (simp add: Desc_valid_def Let_def assms(4) WorkloadDesc_add_assign_def)
qed

lemma Desc_empty:
  assumes "Desc_valid x" and "Desc_IsEmpty x"
  shows "Desc_total x = 0"
proof -
  let ?a = "WorkloadDesc_megaFlops (Desc_capacity x)" and ?b = "WorkloadDesc_megaOps (Desc_capacity x)"
    and ?c = "WorkloadDesc_localMemSizeKB (Desc_capacity x)"
  from assms have lt: "unat ?a + unat ?b + unat ?c < 2 ^ 32" and z: "?a + ?b + ?c = 0"
    by (simp_all add: Desc_valid_def Desc_IsEmpty_def Let_def Desc_amounts)
  have "unat (?a + ?b) = unat ?a + unat ?b" using lt by (intro unat_sum) simp
  with lt have "unat (?a + ?b + ?c) = unat ?a + unat ?b + unat ?c" by (subst unat_sum) simp_all
  with z show ?thesis by (simp add: Desc_amounts)
qed

lemma Desc_object_capacity:
  "Desc_capacity (ob_obj (VMAccelObject_copy (Desc_obj_ops u) e)) = Desc_capacity (ob_obj e)"
  "Desc_capacity (ob_obj (VMAccelObject_new (Desc_obj_ops u) p x)) = Desc_capacity x"
  "Desc_capacity (ob_obj (VMAccelObject_move (Desc_obj_ops u) e)) = Desc_capacity (ob_obj e)"
  by (simp_all add: VMAccelObject_copy_def VMAccelObject_new_def VMAccelObject_move_def Desc_obj_ops_def Desc_copy_capacity)

lemma Desc_object_parent:
  "ob_parentId (VMAccelObject_copy (Desc_obj_ops u) e) = ob_parentId e"
  "ob_parentId (VMAccelObject_new (Desc_obj_ops u) p x) = p"
  "ob_parentId (VMAccelObject_move (Desc_obj_ops u) e) = ob_parentId e"
  by (simp_all add: VMAccelObject_copy_def VMAccelObject_new_def VMAccelObject_move_def)

interpretation desc_alloc: alloc_type "Desc_ops u" Desc_valid Desc_dims Desc_total "2 ^ 32" for u
proof
  show "Desc_total \<in> Desc_dims" by (simp add: Desc_dims_def)
  show "Desc_valid x \<Longrightarrow> Desc_total x < 2 ^ 32" for x by (simp add: Desc_valid_def Let_def)
  show "\<not> op_cmp (Desc_ops u) e k \<Longrightarrow> ob_parentId e = ob_parentId k" for e k by (simp add: Desc_ops_def VMAccelDescCmp_def)
  show "Desc_valid x \<Longrightarrow> Desc_valid (op_DeepCopy (Desc_ops u) l x)" for l x
    using Desc_valid_cong [OF Desc_copy_capacity(1)] by (simp add: Desc_ops_def)
  show "\<mu> \<in> Desc_dims \<Longrightarrow> \<mu> (op_DeepCopy (Desc_ops u) l x) = \<mu> x" for \<mu> l x
    using Desc_dims_cong [OF _ Desc_copy_capacity(1)] by (simp add: Desc_ops_def)
  show "Desc_valid x \<Longrightarrow> Desc_valid (op_Move (Desc_ops u) l x)" for l x
    using Desc_valid_cong [OF Desc_copy_capacity(2)] by (simp add: Desc_ops_def)
  show "\<mu> \<in> Desc_dims \<Longrightarrow> \<mu> (op_Move (Desc_ops u) l x) = \<mu> x" for \<mu> l x
    using Desc_dims_cong [OF _ Desc_copy_capacity(2)] by (simp add: Desc_ops_def)
  show "Desc_valid r \<Longrightarrow> op_IsEmpty (Desc_ops u) r \<Longrightarrow> \<mu> \<in> Desc_dims \<Longrightarrow> \<mu> r = 0" for r \<mu>
    using Desc_empty [of r] by (auto simp: Desc_dims_def Desc_total_def Desc_ops_def)
  fix x q d r assume v: "Desc_valid x" "Desc_valid q" and "op_Reserve (Desc_ops u) x q = Some (d, r)"
  then have R: "Desc_Reserve x q = Some (d, r)" by (simp add: Desc_ops_def)
  note S = Desc_sub_valid [OF v Desc_Reserve_Some [OF R]]
  show "Desc_valid d \<and> Desc_valid r" using S by simp
  show "\<mu> d = \<mu> q \<and> \<mu> x = \<mu> d + \<mu> r" if m: "\<mu> \<in> Desc_dims" for \<mu>
  proof
    show "\<mu> d = \<mu> q" by (rule Desc_dims_cong [OF m Desc_Reserve_Some(1) [OF R]])
    show "\<mu> x = \<mu> d + \<mu> r" by (rule Desc_dims_cases [OF m]) (simp_all add: S Desc_total_def)
  qed
next
  fix rb :: "VMAccelDesc vobj rb" and S pool and e :: "VMAccelDesc vobj"
  assume rb: "rb_ok rb" and ok: "pool_ok Desc_valid S pool" and e: "Desc_valid (ob_obj e)" "unat (ob_parentId e) \<in> S"
    and lim: "Desc_total (ob_obj e) + held Desc_total (ob_parentId e) pool < 2 ^ 32"
  let ?c = "VMAccelObject_copy (Desc_obj_ops u)"
  show "\<exists>pool'. op_FreeObj (Desc_ops u) rb pool e = (True, pool') \<and> pool_ok Desc_valid S pool' \<and>
      (\<forall>\<mu>\<in>Desc_dims. \<forall>p. held \<mu> p pool' = amount \<mu> p e + held \<mu> p pool)"
  proof (cases "find_pos (\<lambda>x. ob_parentId x = ob_parentId e) (elems pool)")
    case None
    have "op_FreeObj (Desc_ops u) rb pool e = (True, pool_insert rb VMAccelDescCmp (?c (?c e)) pool)"
      using None by (simp add: Desc_ops_def Desc_FreeObj_def Let_def Desc_object_parent)
    moreover have "Desc_valid (ob_obj (?c (?c e)))" "\<mu> \<in> Desc_dims \<Longrightarrow> amount \<mu> p (?c (?c e)) = amount \<mu> p e" for \<mu> p
      using e Desc_valid_cong [of "ob_obj (?c (?c e))" "ob_obj e"] Desc_dims_cong [of \<mu> "ob_obj (?c (?c e))" "ob_obj e"]
      by (simp_all add: Desc_object_capacity amount_def Desc_object_parent)
    ultimately show ?thesis
      using e ok by (simp add: pool_ok_insert [OF rb] held_insert [OF rb] Desc_object_parent)
  next
    case (Some it)
    from find_pos_Some [OF Some] have i: "it < size pool" "ob_parentId (elems pool ! it) = ob_parentId e" by auto
    let ?x = "ob_obj (elems pool ! it)" and ?d = "Desc_DeepCopy zero_VMAccelDesc (ob_obj (elems pool ! it))"
    let ?new = "VMAccelObject_move (Desc_obj_ops u) (VMAccelObject_new (Desc_obj_ops u) (ob_parentId e)
      (?d\<lparr>Desc_capacity := WorkloadDesc_add_assign (Desc_capacity ?d) (Desc_capacity (ob_obj (?c e)))\<rparr>))"
    have par: "ob_parentId ?new = ob_parentId e" by (simp add: Desc_object_parent)
    have cap: "Desc_capacity (ob_obj ?new) = WorkloadDesc_add_assign (Desc_capacity ?x) (Desc_capacity (ob_obj e))"
      by (simp add: Desc_object_capacity Desc_copy_capacity)
    have x: "Desc_valid ?x" using ok i(1) by (simp add: pool_ok_def)
    have "Desc_total ?x + Desc_total (ob_obj e) < 2 ^ 32"
      using lim held_member [OF i(1), of Desc_total "ob_parentId e"] i(2) by (simp add: amount_def)
    note A = Desc_add_valid [OF x e(1) this cap]
    have sum: "\<mu> (ob_obj ?new) = \<mu> ?x + \<mu> (ob_obj e)" if "\<mu> \<in> Desc_dims" for \<mu>
      by (rule Desc_dims_cases [OF that]) (rule A)+
    note M = merge_conserves [OF rb ok Some par A(4) e(2) sum]
    have "op_FreeObj (Desc_ops u) rb pool e = (True, pool_insert rb VMAccelDescCmp ?new (rb_erase rb it pool))"
      by (simp add: Desc_ops_def Desc_FreeObj_def Some Let_def Desc_object_parent)
    with M [where cmp = VMAccelDescCmp] show ?thesis by blast
  qed
qed

subsection \<open>Both types keep one object per parent\<close>

interpretation int_single: alloc_single "Int_ops u" Int_valid "{Int_amount}" Int_amount "2 ^ 31" for u
proof
  fix rb :: "IntVal vobj rb" and pool :: "IntVal vobj pool" and e :: "IntVal vobj"
  assume rb: "rb_ok rb" and one: "one_each pool"
  show "one_each (snd (op_FreeObj (Int_ops u) rb pool e))"
  proof (cases "find_pos (\<lambda>x. ob_parentId x = ob_parentId e) (elems pool)")
    case None
    with one_each_add [OF rb one, of "VMAccelObject_copy (Int_obj_ops u) e" IntCmp] show ?thesis
      by (simp add: Int_ops_def Int_FreeObj_def VMAccelObject_copy_def Let_def)
  next
    case (Some it)
    from find_pos_Some [OF Some] have i: "it < size pool" "ob_parentId (elems pool ! it) = ob_parentId e" by auto
    then show ?thesis
      by (simp add: Int_ops_def Int_FreeObj_def Some Let_def one_each_replace [OF rb one] VMAccelObject_move_def
        VMAccelObject_new_def)
  qed
next
  fix e k :: "IntVal vobj"
  assume "Int_valid (ob_obj e)" "Int_valid (ob_obj k)" "ob_parentId e = ob_parentId k"
    "\<forall>\<mu>\<in>{Int_amount}. \<mu> (ob_obj k) \<le> \<mu> (ob_obj e)"
  then show "\<not> op_cmp (Int_ops u) e k \<and> op_Reserve (Int_ops u) (ob_obj e) (ob_obj k) \<noteq> None"
    by (simp add: Int_ops_def IntCmp_def Int_Reserve_def Int_valid_def Int_amount_def sint_small not_less flip: word_le_nat_alt word_le_def)
qed

lemma Desc_Reserve_fits:
  assumes v: "Desc_valid x" "Desc_valid q" and pos: "0 < Desc_total q"
    and le: "megaFlops q \<le> megaFlops x" "megaOps q \<le> megaOps x" "localMem q \<le> localMem x"
  shows "\<not> WorkloadDesc_less (Desc_capacity x) (Desc_capacity q)" and "Desc_Reserve x q \<noteq> None"
proof -
  show nl: "\<not> WorkloadDesc_less (Desc_capacity x) (Desc_capacity q)"
    using le by (simp add: WorkloadDesc_less_def Desc_amounts not_less word_le_nat_alt)
  let ?r = "x\<lparr>Desc_capacity := WorkloadDesc_sub (Desc_capacity x) (Desc_capacity q)\<rparr>"
  have cap: "Desc_capacity ?r = WorkloadDesc_sub (Desc_capacity x) (Desc_capacity q)" by simp
  note S = Desc_sub_valid [OF v refl cap nl]
  from S pos have "megaFlops ?r < megaFlops x \<or> megaOps ?r < megaOps x \<or> localMem ?r < localMem x"
    by (auto simp: Desc_total_def)
  then have "WorkloadDesc_less (Desc_capacity ?r) (Desc_capacity x)"
    by (auto simp: WorkloadDesc_less_def Desc_amounts word_less_nat_alt)
  with nl show "Desc_Reserve x q \<noteq> None" by (simp add: Desc_Reserve_def Let_def)
qed

interpretation desc_single: alloc_single "Desc_ops u" Desc_valid Desc_dims Desc_total "2 ^ 32" for u
proof
  fix rb :: "VMAccelDesc vobj rb" and pool :: "VMAccelDesc vobj pool" and e :: "VMAccelDesc vobj"
  assume rb: "rb_ok rb" and one: "one_each pool"
  show "one_each (snd (op_FreeObj (Desc_ops u) rb pool e))"
  proof (cases "find_pos (\<lambda>x. ob_parentId x = ob_parentId e) (elems pool)")
    case None
    then show ?thesis
      by (simp add: Desc_ops_def Desc_FreeObj_def Let_def Desc_object_parent one_each_add [OF rb one])
  next
    case (Some it)
    from find_pos_Some [OF Some] have i: "it < size pool" "ob_parentId (elems pool ! it) = ob_parentId e" by auto
    then show ?thesis
      by (simp add: Desc_ops_def Desc_FreeObj_def Some Let_def Desc_object_parent one_each_replace [OF rb one])
  qed
next
  fix e k :: "VMAccelDesc vobj"
  assume v: "Desc_valid (ob_obj e)" "Desc_valid (ob_obj k)" and par: "ob_parentId e = ob_parentId k"
    and pos: "0 < Desc_total (ob_obj k)" and le: "\<forall>\<mu>\<in>Desc_dims. \<mu> (ob_obj k) \<le> \<mu> (ob_obj e)"
  from le have "megaFlops (ob_obj k) \<le> megaFlops (ob_obj e)" "megaOps (ob_obj k) \<le> megaOps (ob_obj e)"
    "localMem (ob_obj k) \<le> localMem (ob_obj e)" by (simp_all add: Desc_dims_def)
  from Desc_Reserve_fits [OF v pos this] par
  show "\<not> op_cmp (Desc_ops u) e k \<and> op_Reserve (Desc_ops u) (ob_obj e) (ob_obj k) \<noteq> None"
    by (simp add: Desc_ops_def VMAccelDescCmp_def)
qed

subsection \<open>A concrete container, and a concrete state\<close>

fun spine :: "'a list \<Rightarrow> 'a pool" where
  "spine [] = Leaf"
| "spine (x # xs) = Node Leaf (x, False) (spine xs)"

definition list_rb :: "'a rb" where
  "list_rb = \<lparr>rb_rebalance = (\<lambda>t. t), rb_erase = (\<lambda>i t. spine (remove_at i (elems t)))\<rparr>"

lemma elems_spine: "elems (spine xs) = xs"
  by (induction xs) simp_all

lemma list_rb_ok: "rb_ok list_rb"
  by (simp add: rb_ok_def list_rb_def elems_spine)

definition example_desc :: "u32 \<Rightarrow> VMAccelDesc" where
  "example_desc n = zero_VMAccelDesc\<lparr>Desc_capacity := (Desc_capacity zero_VMAccelDesc)\<lparr>WorkloadDesc_megaFlops := n\<rparr>\<rparr>"

abbreviation desc_reachable :: "VMAccelDesc allocator \<Rightarrow> bool" where
  "desc_reachable \<equiv> reachable (Desc_ops zero_VMAccelDesc) list_rb Desc_valid zero_VMAccelDesc 2"

lemma example_valid: "unat n < 2 ^ 32 \<Longrightarrow> Desc_valid (example_desc n)" "megaFlops (example_desc n) = unat n"
  "megaOps (example_desc n) = 0" "localMem (example_desc n) = 0" "Desc_total (example_desc n) = unat n"
  by (simp_all add: example_desc_def Desc_valid_def Desc_amounts zero_VMAccelDesc_def zero_VMAccelWorkloadDesc_def Let_def)

lemma least_zero: "(LEAST n::nat. n \<notin> {}) = 0"
  by simp

lemma example_state:
  "\<exists>A. desc_reachable A \<and> ids (al_registeredIds A) = {0} \<and> al_registered A ! 0 = example_desc 5 \<and>
     ids (al_externalIds A) = {} \<and> db_size (al_externalIds A) = 2 \<and> db_size (al_registeredIds A) = 2 \<and>
     (\<exists>A0 st. VMAccelAllocator (\<lambda>_. True) (Desc_ops zero_VMAccelDesc) zero_VMAccelDesc 2 = Some A0 \<and>
       Register (Desc_ops zero_VMAccelDesc) list_rb A0 (example_desc 5) = Inr (st, A))"
proof -
  obtain db where db: "IdentifierDB_Alloc (\<lambda>_. True) 2 = Some db" by (simp add: IdentifierDB_Alloc_def Let_def)
  have P: "ids db = {}" "db_size db = 2" by (rule Alloc_props [OF db], simp, simp)+
  obtain A where A: "VMAccelAllocator (\<lambda>_. True) (Desc_ops zero_VMAccelDesc) zero_VMAccelDesc 2 = Some A"
    "al_registeredIds A = db" "al_externalIds A = db" "length (al_registered A) = 2"
    by (simp add: VMAccelAllocator_def db)
  have inv: "alloc_inv Desc_valid Desc_dims A" by (rule desc_alloc.start_inv [OF A(1)]) simp
  have v: "Desc_valid (example_desc 5)" by (rule example_valid) simp
  have ne: "ids (al_registeredIds A) \<noteq> {..<unat (db_size (al_registeredIds A))}" by (simp add: A P) (metis lessThan_iff empty_iff zero_less_numeral)
  from desc_alloc.Register_conserves [OF list_rb_ok inv v ne] obtain A' where
    A': "Register (Desc_ops zero_VMAccelDesc) list_rb A (example_desc 5) = Inr (zero_VMAccelAllocateStatus
       \<lparr>AllocateStatus_id := of_nat (LEAST n. n \<notin> ids (al_registeredIds A)), AllocateStatus_status := VMACCEL_SUCCESS\<rparr>, A')"
    "ids (al_registeredIds A') = insert (LEAST n. n \<notin> ids (al_registeredIds A)) (ids (al_registeredIds A))"
    "db_size (al_registeredIds A') = db_size (al_registeredIds A)"
    "al_registered A' = (al_registered A)[LEAST n. n \<notin> ids (al_registeredIds A) := example_desc 5]"
    "al_externalIds A' = al_externalIds A" by blast
  have "desc_reachable A'" using reachable.start [OF A(1)] v A'(1) by (rule reachable.register)
  moreover have "\<exists>A0 st. VMAccelAllocator (\<lambda>_. True) (Desc_ops zero_VMAccelDesc) zero_VMAccelDesc 2 = Some A0 \<and>
       Register (Desc_ops zero_VMAccelDesc) list_rb A0 (example_desc 5) = Inr (st, A')" using A(1) A'(1) by blast
  ultimately show ?thesis using A'(2-5) by (intro exI [of _ A']) (simp add: A(2-4) P)
qed

subsection \<open>Properties\<close>








lemma example_grant:
  assumes A: "desc_reachable A" "ids (al_registeredIds A) = {0}" "al_registered A ! 0 = example_desc 5"
    "ids (al_externalIds A) = {}" "db_size (al_externalIds A) = 2"
  shows "\<exists>st v A1. Alloc (Desc_ops zero_VMAccelDesc) list_rb A 0 (example_desc 3) = Inr (st, Some v, A1) \<and>
    ids (al_externalIds A1) = {0} \<and> al_registeredIds A1 = al_registeredIds A"
proof -
  have R: "ids (al_registeredIds A) = {unat (0::u32)}" using A(2) by simp
  note inv = desc_alloc.reachable_inv [OF list_rb_ok _ A(1)] and one = desc_single.reachable_single [OF list_rb_ok _ A(1)]
  have h: "held \<mu> 0 (al_free A) = \<mu> (example_desc 5)" if "\<mu> \<in> Desc_dims" for \<mu>
    using alloc_invD(7) [OF inv _ that, of 0] A by (simp add: lent_def)
  have ne: "ids (al_externalIds A) \<noteq> {..<unat (db_size (al_externalIds A))}"
    by (simp add: A) (metis lessThan_iff empty_iff zero_less_numeral)
  have v: "Desc_valid (example_desc 3)" "0 < Desc_total (example_desc 3)" by (simp_all add: example_valid)
  have le: "\<mu> (example_desc 3) \<le> held \<mu> 0 (al_free A)" if m: "\<mu> \<in> Desc_dims" for \<mu>
    unfolding h [OF m] by (rule Desc_dims_cases [OF m]) (simp_all add: example_valid)
  have l: "(LEAST n. n \<notin> ids (al_externalIds A)) = 0" unfolding A(4) by (rule least_zero)
  show ?thesis
  proof (rule desc_single.Alloc_granted [OF list_rb_ok inv one v(1) R ne v(2) le])
    fix it dv r
    assume G: "lower_bound (op_cmp (Desc_ops zero_VMAccelDesc)) (al_free A)
        (VMAccelObject_new (Desc_ops zero_VMAccelDesc) 0 (example_desc 3)) = Some it"
      "op_Reserve (Desc_ops zero_VMAccelDesc) (ob_obj (elems (al_free A) ! it))
        (ob_obj (VMAccelObject_new (Desc_ops zero_VMAccelDesc) 0 (example_desc 3))) = Some (dv, r)"
    show ?thesis
    proof (rule desc_alloc.Alloc_takes [OF list_rb_ok inv v(1) ne G], unfold l)
      fix A' e
      assume "Alloc (Desc_ops zero_VMAccelDesc) list_rb A 0 (example_desc 3) = Inr ((al_result A)\<lparr>AllocateStatus_id := of_nat 0,
          AllocateStatus_status := VMACCEL_SUCCESS\<rparr>, Some (ob_obj e), A')"
        "ids (al_externalIds A') = insert 0 (ids (al_externalIds A))" "al_registeredIds A' = al_registeredIds A"
      then show ?thesis unfolding A(4) by blast
    qed simp_all
  qed simp_all
qed

lemma example_granted:
  "\<exists>A st v A1. desc_reachable A \<and> 0 \<in> ids (al_registeredIds A) \<and> ids (al_externalIds A) = {} \<and>
     Alloc (Desc_ops zero_VMAccelDesc) list_rb A 0 (example_desc 3) = Inr (st, Some v, A1)"
proof -
  obtain A where A: "desc_reachable A" "ids (al_registeredIds A) = {0}" "al_registered A ! 0 = example_desc 5"
    "ids (al_externalIds A) = {}" "db_size (al_externalIds A) = 2" using example_state by blast
  obtain st v A1 where "Alloc (Desc_ops zero_VMAccelDesc) list_rb A 0 (example_desc 3) = Inr (st, Some v, A1)"
    using example_grant [OF A] by blast
  with A(1,4) show ?thesis unfolding A(2) [symmetric] using A(2) by (metis singletonI)
qed


text \<open>C30: \<^verbatim>\<open>Unregister\<close> of the accelerator manager, by cases: while an allocation of the accelerator
  is outstanding it fails and changes nothing; without one it succeeds and exactly that
  accelerator is gone; an identifier that is in range but not registered fails the assertion
  in \<^verbatim>\<open>IdentifierDB_ReleaseId\<close>, and one out of range reads outside the vector of counts.\<close>

theorem Unregister_outcome:
  assumes "rb_ok rb" and "unat num \<le> 2 ^ 32 - 32" and "reachable (Desc_ops u) rb Desc_valid zero num A"
  shows "if unat p \<notin> ids (al_registeredIds A)
      then Unregister (Desc_ops u) rb A p = Inl (if unat p < unat (db_size (al_registeredIds A)) then AssertFailed else OutOfBounds)
    else if \<exists>i\<in>ids (al_externalIds A). ob_parentId (al_allocated A ! i) = p
      then Unregister (Desc_ops u) rb A p = Inr (zero_VMAccelStatus\<lparr>Status_status := VMACCEL_FAIL\<rparr>, A)
    else \<exists>A'. Unregister (Desc_ops u) rb A p = Inr (zero_VMAccelStatus\<lparr>Status_status := VMACCEL_SUCCESS\<rparr>, A') \<and>
      ids (al_registeredIds A') = ids (al_registeredIds A) - {unat p} \<and>
      ids (al_externalIds A') = ids (al_externalIds A) \<and> al_allocated A' = al_allocated A"
proof (cases "unat p \<in> ids (al_registeredIds A)")
  case True
  note inv = desc_alloc.reachable_inv [OF assms]
  have lt: "unat p < unat (db_size (al_registeredIds A))"
    using True vectors_okD(3) [OF alloc_invD(1) [OF inv]] by (auto simp: bounded_db_def)
  show ?thesis
  proof (cases "\<exists>i\<in>ids (al_externalIds A). ob_parentId (al_allocated A ! i) = p")
    case busy: True
    then have "0 < lent (\<lambda>_. 1) p (al_allocated A) (ids (al_externalIds A))"
      by (force simp: lent_def amount_def sum_pos2)
    from desc_alloc.Unregister_busy [OF inv lt this, of u rb] busy True show ?thesis by simp
  next
    case False
    then have "lent (\<lambda>_. 1) p (al_allocated A) (ids (al_externalIds A)) = 0" by (intro lent_zero) blast
    from desc_alloc.Unregister_conserves [OF assms(1) inv True this, of u] False True show ?thesis by fastforce
  qed
next
  case False
  from desc_alloc.Unregister_unknown [OF desc_alloc.reachable_inv [OF assms] False, of u rb] False show ?thesis by simp
qed

theorem Unregister_outcome_witness:
  "\<exists>A A'. desc_reachable A \<and> Unregister (Desc_ops zero_VMAccelDesc) list_rb A 0 =
       Inr (zero_VMAccelStatus\<lparr>Status_status := VMACCEL_SUCCESS\<rparr>, A') \<and> ids (al_registeredIds A') = {} \<and>
     Unregister (Desc_ops zero_VMAccelDesc) list_rb A 1 = Inl AssertFailed \<and>
     Unregister (Desc_ops zero_VMAccelDesc) list_rb A 2 = Inl OutOfBounds"
proof -
  obtain A where A: "desc_reachable A" "ids (al_registeredIds A) = {0}" "ids (al_externalIds A) = {}"
    "db_size (al_registeredIds A) = 2" using example_state by blast
  note U = Unregister_outcome [OF list_rb_ok _ A(1)]
  have "Unregister (Desc_ops zero_VMAccelDesc) list_rb A 1 = Inl AssertFailed" using U [of 1] A by simp
  moreover have "Unregister (Desc_ops zero_VMAccelDesc) list_rb A 2 = Inl OutOfBounds" using U [of 2] A by simp
  moreover obtain A' where "Unregister (Desc_ops zero_VMAccelDesc) list_rb A 0 =
      Inr (zero_VMAccelStatus\<lparr>Status_status := VMACCEL_SUCCESS\<rparr>, A')" "ids (al_registeredIds A') = {}"
    using U [of 0] A by auto
  ultimately show ?thesis using A(1) by blast
qed

subsection \<open>Two accelerators\<close>

text \<open>The comparator is true in both directions for objects of different parents, so the search of
  the pool always turns right at the other accelerator's object, while the insertion went left.\<close>

lemma insert_first: "map_tree fst (insert_leaf cmp y Leaf) = Node Leaf y Leaf"
  by simp

lemma map_tree_single: "map_tree fst t = Node Leaf x Leaf \<Longrightarrow> \<exists>c. t = Node Leaf (x, c) Leaf"
  by (cases t) auto

lemma map_tree_pair: "map_tree fst t = Node (Node Leaf y Leaf) x Leaf \<Longrightarrow>
    \<exists>c d. t = Node (Node Leaf (y, d) Leaf) (x, c) Leaf"
proof (cases t)
  case (Node l xc r)
  assume "map_tree fst t = Node (Node Leaf y Leaf) x Leaf"
  with Node have "map_tree fst l = Node Leaf y Leaf" "fst xc = x" "r = Leaf" by auto
  with map_tree_single [of l y] Node show ?thesis by (cases xc) auto
qed simp

lemma Desc_Register_result:
  assumes "IdentifierDB_AllocId (al_registeredIds A) = Inr (Some i, R)" and "Register (Desc_ops u) rb A x = Inr (st, A')"
    and "find_pos (\<lambda>e. ob_parentId e = i) (elems (al_free A)) = None"
  shows "al_registeredIds A' = R" and "al_externalIds A' = al_externalIds A" and "al_freed A' = al_freed A"
    and "\<exists>e. ob_parentId e = i \<and> al_free A' = rb_rebalance rb (insert_leaf VMAccelDescCmp e (al_free A))"
proof -
  let ?o = "VMAccelObject_new (Desc_ops u) i x"
  let ?e = "VMAccelObject_copy (Desc_obj_ops u) (VMAccelObject_copy (Desc_obj_ops u) ?o)"
  have p: "ob_parentId ?o = i" "ob_parentId ?e = i" by (simp_all add: VMAccelObject_new_def VMAccelObject_copy_def)
  have F: "op_FreeObj (Desc_ops u) rb (al_free A) ?o = (True, pool_insert rb VMAccelDescCmp ?e (al_free A))"
    using assms(3) by (simp add: Desc_ops_def Desc_FreeObj_def Let_def Desc_object_parent VMAccelObject_new_def)
  from assms(2) have "al_registeredIds A' = R \<and> al_externalIds A' = al_externalIds A \<and> al_freed A' = al_freed A \<and>
      al_free A' = pool_insert rb VMAccelDescCmp ?e (al_free A)"
    unfolding Register_def assms(1) by (auto simp: F Let_def cbind_eq_Inr)
  with p(2) show "al_registeredIds A' = R" "al_externalIds A' = al_externalIds A" "al_freed A' = al_freed A"
    "\<exists>e. ob_parentId e = i \<and> al_free A' = rb_rebalance rb (insert_leaf VMAccelDescCmp e (al_free A))"
    by (auto simp: pool_insert_def)
qed


lemma Desc_Register_returns:
  assumes "alloc_inv Desc_valid Desc_dims A" and "Desc_valid x"
  obtains st A' where "Register (Desc_ops u) list_rb A x = Inr (st, A')" and "alloc_inv Desc_valid Desc_dims A'"
proof (cases "ids (al_registeredIds A) = {..<unat (db_size (al_registeredIds A))}")
  case True
  from desc_alloc.Register_full [OF assms(1) True] assms(1) that show ?thesis by blast
next
  case False
  from desc_alloc.Register_conserves [OF list_rb_ok assms False] that show ?thesis by blast
qed


end
