(* ===== verification/Manager.thy ===== *)
theory Manager
  imports Alloc_Instances
begin

section \<open>The accelerator manager: src/accelerators/vmaccel/src/vmaccel\_manager.cpp\<close>

text \<open>
  The manager owns two allocators, of accelerators and of memory ranges, created at power on
  after a self-test of the allocator on integers.  A state of the manager is the two global
  pointers.  Memory allocation is assumed to succeed.  \<open>rb\<close> and \<open>u\<close> are, for the type at hand,
  the container's rebalancing and the contents of uninitialised memory.
\<close>

record manager =
  accelMgr :: "VMAccelDesc allocator option"
  memMgr :: "AllocRange allocator option"

abbreviation (input) VMACCEL_MAX_ACCELERATORS :: u32 where "VMACCEL_MAX_ACCELERATORS \<equiv> 256"

subsection \<open>Power on\<close>

text \<open>The steps of the self-test: an \<^verbatim>\<open>Alloc\<close> whose status is asserted, the two loops.\<close>

definition expect_Alloc :: "IntVal \<Rightarrow> IntVal vobj rb \<Rightarrow> u32 \<Rightarrow> VMAccelId \<Rightarrow> u32 \<Rightarrow> IntVal allocator \<Rightarrow>
    (VMAccelAllocateStatus \<times> IntVal allocator) cres" where
  "expect_Alloc u rb expected parent x A =
     cbind (Alloc (Int_ops u) rb A parent \<lparr>Int_x = x\<rparr>) (\<lambda>(st, d, A).
     cbind (cassert (AllocateStatus_status st = expected)) (\<lambda>_. Inr (st, A)))"

definition expect_Unregister :: "IntVal \<Rightarrow> IntVal vobj rb \<Rightarrow> u32 \<Rightarrow> VMAccelId \<Rightarrow> IntVal allocator \<Rightarrow>
    IntVal allocator cres" where
  "expect_Unregister u rb expected parent A =
     cbind (Unregister (Int_ops u) rb A parent) (\<lambda>(st, A).
     cbind (cassert (Status_status st = expected)) (\<lambda>_. Inr A))"

fun alloc_loop :: "IntVal \<Rightarrow> IntVal vobj rb \<Rightarrow> VMAccelId \<Rightarrow> nat \<Rightarrow> IntVal allocator \<Rightarrow>
    (VMAccelId list \<times> IntVal allocator) cres" where
  "alloc_loop u rb parent 0 A = Inr ([], A)"
| "alloc_loop u rb parent (Suc n) A =
     cbind (expect_Alloc u rb VMACCEL_SUCCESS parent 1 A) (\<lambda>(st, A).
     cbind (alloc_loop u rb parent n A) (\<lambda>(idns, A). Inr (AllocateStatus_id st # idns, A)))"

fun free_loop :: "IntVal \<Rightarrow> IntVal vobj rb \<Rightarrow> VMAccelId list \<Rightarrow> IntVal allocator \<Rightarrow> IntVal allocator cres" where
  "free_loop u rb [] A = Inr A"
| "free_loop u rb (idn # idns) A = cbind (Free (Int_ops u) rb False A idn) (\<lambda>(st, A). free_loop u rb idns A)"

definition self_test :: "IntVal \<Rightarrow> IntVal vobj rb \<Rightarrow> IntVal allocator \<Rightarrow> unit cres" where
  "self_test u rb A =
     cbind (Register (Int_ops u) rb A \<lparr>Int_x = 65535\<rparr>) (\<lambda>(parent, A).
     cbind (cassert (AllocateStatus_status parent = VMACCEL_SUCCESS)) (\<lambda>_.
     let parent = AllocateStatus_id parent in
     cbind (expect_Alloc u rb VMACCEL_SUCCESS parent 32768 A) (\<lambda>(alloc0, A).
     cbind (expect_Unregister u rb VMACCEL_FAIL parent A) (\<lambda>A.
     cbind (expect_Alloc u rb VMACCEL_RESOURCE_UNAVAILABLE parent 32768 A) (\<lambda>(_, A).
     cbind (expect_Alloc u rb VMACCEL_SUCCESS parent 16384 A) (\<lambda>(alloc1, A).
     cbind (expect_Alloc u rb VMACCEL_RESOURCE_UNAVAILABLE parent 16384 A) (\<lambda>(_, A).
     cbind (Free (Int_ops u) rb False A (AllocateStatus_id alloc1)) (\<lambda>(_, A).
     cbind (expect_Alloc u rb VMACCEL_SUCCESS parent 32767 A) (\<lambda>(alloc1, A).
     cbind (Free (Int_ops u) rb False A (AllocateStatus_id alloc1)) (\<lambda>(_, A).
     cbind (Free (Int_ops u) rb False A (AllocateStatus_id alloc0)) (\<lambda>(_, A).
     cbind (alloc_loop u rb parent 2048 A) (\<lambda>(alloc, A).
     cbind (expect_Alloc u rb VMACCEL_FAIL parent 1 A) (\<lambda>(_, A).
     cbind (free_loop u rb alloc A) (\<lambda>A.
     cbind (expect_Unregister u rb VMACCEL_SUCCESS parent A) (\<lambda>_. Inr ())))))))))))))))"

text \<open>\<^verbatim>\<open>new\<close> does not return \<^verbatim>\<open>NULL\<close>.\<close>

definition vmaccel_manager_poweron :: "IntVal \<Rightarrow> VMAccelDesc \<Rightarrow> AllocRange \<Rightarrow> IntVal vobj rb \<Rightarrow> manager \<Rightarrow>
    (u32 \<times> manager) cres" where
  "vmaccel_manager_poweron uI uD uR rb M =
     cbind (case VMAccelAllocator (\<lambda>_. True) (Int_ops uI) \<lparr>Int_x = 0\<rparr> 2048 of
         None \<Rightarrow> Inl AssertFailed | Some intMgr \<Rightarrow> self_test uI rb intMgr) (\<lambda>_.
       let M = M\<lparr>accelMgr := VMAccelAllocator (\<lambda>_. True) (Desc_ops uD) zero_VMAccelDesc VMACCEL_MAX_ACCELERATORS,
             memMgr := VMAccelAllocator (\<lambda>_. True) (AllocRange_ops uR)
               \<lparr>ar_cmpRange = False, ar_size = 0, ar_begin = 0, ar_end = 0\<rparr> VMACCEL_MAX_ACCELERATORS\<rparr>
       in Inr (if accelMgr M \<noteq> None \<and> memMgr M \<noteq> None then VMACCEL_SUCCESS else VMACCEL_FAIL, M))"

definition vmaccel_manager_poweroff :: "manager \<Rightarrow> u32 \<times> manager" where
  "vmaccel_manager_poweroff M =
     (let M = M\<lparr>memMgr := None\<rparr> in
      if accelMgr M \<noteq> None then (VMACCEL_SUCCESS, M\<lparr>accelMgr := None\<rparr>) else (VMACCEL_FAIL, M))"

subsection \<open>Operations\<close>

definition vmaccel_manager_register :: "VMAccelDesc \<Rightarrow> VMAccelDesc vobj rb \<Rightarrow> manager \<Rightarrow> VMAccelDesc \<Rightarrow>
    (VMAccelAllocateStatus \<times> manager) cres" where
  "vmaccel_manager_register u rb M desc = (case accelMgr M of
       None \<Rightarrow> Inr (zero_VMAccelAllocateStatus\<lparr>AllocateStatus_status := VMACCEL_FAIL\<rparr>, M)
     | Some A \<Rightarrow> cbind (Register (Desc_ops u) rb A desc) (\<lambda>(st, A). Inr (st, M\<lparr>accelMgr := Some A\<rparr>)))"

definition vmaccel_manager_unregister :: "VMAccelDesc \<Rightarrow> VMAccelDesc vobj rb \<Rightarrow> manager \<Rightarrow> VMAccelId \<Rightarrow>
    (VMAccelStatus \<times> manager) cres" where
  "vmaccel_manager_unregister u rb M ident = (case accelMgr M of
       None \<Rightarrow> Inr (zero_VMAccelStatus\<lparr>Status_status := VMACCEL_FAIL\<rparr>, M)
     | Some A \<Rightarrow> cbind (Unregister (Desc_ops u) rb A ident) (\<lambda>(st, A). Inr (st, M\<lparr>accelMgr := Some A\<rparr>)))"

definition vmaccel_manager_alloc :: "VMAccelDesc \<Rightarrow> VMAccelDesc vobj rb \<Rightarrow> manager \<Rightarrow> VMAccelDesc \<Rightarrow>
    (VMAccelAllocateStatus \<times> manager) cres" where
  "vmaccel_manager_alloc u rb M desc = (case accelMgr M of
       None \<Rightarrow> Inr (zero_VMAccelAllocateStatus\<lparr>AllocateStatus_status := VMACCEL_FAIL\<rparr>, M)
     | Some A \<Rightarrow> cbind (Alloc (Desc_ops u) rb A (Desc_parentId desc) desc) (\<lambda>(res, d, A).
         let result = (case d of None \<Rightarrow> zero_VMAccelAllocateStatus
           | Some d \<Rightarrow> zero_VMAccelAllocateStatus\<lparr>AllocateStatus_desc := d\<rparr>)
         in Inr (result\<lparr>AllocateStatus_status := AllocateStatus_status res,
             AllocateStatus_id := AllocateStatus_id res\<rparr>, M\<lparr>accelMgr := Some A\<rparr>)))"

definition vmaccel_manager_free :: "VMAccelDesc \<Rightarrow> VMAccelDesc vobj rb \<Rightarrow> manager \<Rightarrow> VMAccelId \<Rightarrow>
    (VMAccelStatus \<times> manager) cres" where
  "vmaccel_manager_free u rb M ident = (case accelMgr M of
       None \<Rightarrow> Inr (zero_VMAccelStatus\<lparr>Status_status := VMACCEL_FAIL\<rparr>, M)
     | Some A \<Rightarrow> cbind (Free (Desc_ops u) rb False A ident) (\<lambda>(st, A). Inr (st, M\<lparr>accelMgr := Some A\<rparr>)))"

subsection \<open>The self-test\<close>

text \<open>The state of the test allocator: the one resource of 65535, \<open>J\<close> the external identifiers in
  use, \<open>am i\<close> the amount lent under identifier \<open>i\<close>.\<close>

definition testing :: "IntVal \<Rightarrow> IntVal vobj rb \<Rightarrow> IntVal allocator \<Rightarrow> nat set \<Rightarrow> (nat \<Rightarrow> nat) \<Rightarrow> bool" where
  "testing u rb A J am \<longleftrightarrow> reachable (Int_ops u) rb Int_valid \<lparr>Int_x = 0\<rparr> 2048 A \<and> db_size (al_registeredIds A) = 2048 \<and>
     ids (al_registeredIds A) = {0} \<and> al_registered A ! 0 = \<lparr>Int_x = 65535\<rparr> \<and> ids (al_externalIds A) = J \<and>
     (\<forall>i\<in>J. ob_parentId (al_allocated A ! i) = 0 \<and> Int_amount (ob_obj (al_allocated A ! i)) = am i)"

lemma testingD:
  assumes rb: "rb_ok rb" and t: "testing u rb A J am"
  shows "alloc_inv Int_valid {Int_amount} A" and "one_each (al_free A)" and "db_size (al_externalIds A) = 2048"
    and "held Int_amount 0 (al_free A) + sum am J = 65535" and "finite J"
proof -
  have r: "reachable (Int_ops u) rb Int_valid \<lparr>Int_x = 0\<rparr> 2048 A" using t by (simp add: testing_def)
  show inv: "alloc_inv Int_valid {Int_amount} A" by (rule int_alloc.reachable_inv [OF rb _ r]) simp
  show "one_each (al_free A)" by (rule int_single.reachable_single [OF rb _ r]) simp
  show "db_size (al_externalIds A) = 2048" using vectors_okD(5) [OF alloc_invD(1) [OF inv]] t by (simp add: testing_def)
  have "lent Int_amount 0 (al_allocated A) J = sum am J"
    using t by (simp add: lent_def testing_def amount_def)
  with alloc_invD(7) [OF inv, of 0 Int_amount] t show "held Int_amount 0 (al_free A) + sum am J = 65535"
    by (simp add: testing_def Int_amount_def)
  have "ids (al_externalIds A) = J" using t by (simp add: testing_def)
  then show "finite J" by (metis finite_ids)
qed

lemma testing_same:
  assumes "testing u rb A J am" and "reachable (Int_ops u) rb Int_valid \<lparr>Int_x = 0\<rparr> 2048 A'"
    and "al_registeredIds A' = al_registeredIds A" and "al_registered A' = al_registered A"
    and "ids (al_externalIds A') = ids (al_externalIds A)" and "al_allocated A' = al_allocated A"
  shows "testing u rb A' J am"
  using assms by (simp add: testing_def)

lemma expect_Alloc_granted:
  assumes rb: "rb_ok rb" and t: "testing u rb A J am" and room: "J \<noteq> {..<2048}" and x: "0 < unat x"
    and fit: "sum am J + unat x \<le> 65535"
  defines "n \<equiv> LEAST n. n \<notin> J"
  shows "\<exists>st A'. expect_Alloc u rb VMACCEL_SUCCESS 0 x A = Inr (st, A') \<and> AllocateStatus_id st = of_nat n \<and>
    unat (AllocateStatus_id st) = n \<and> n \<notin> J \<and> testing u rb A' (insert n J) (am(n := unat x))"
proof -
  note T = testingD [OF rb t]
  have J: "ids (al_externalIds A) = J" using t by (simp add: testing_def)
  let ?q = "\<lparr>Int_x = x\<rparr>"
  have q: "Int_valid ?q" "0 < Int_amount ?q" using x fit by (simp_all add: Int_valid_def Int_amount_def)
  have ne: "ids (al_externalIds A) \<noteq> {..<unat (db_size (al_externalIds A))}" using room T(3) J by simp
  have only: "ids (al_registeredIds A) = {unat (0::u32)}" using t by (simp add: testing_def)
  have le: "\<mu> ?q \<le> held \<mu> 0 (al_free A)" if "\<mu> \<in> {Int_amount}" for \<mu>
    using that T(4) fit by (simp add: Int_amount_def)
  show ?thesis
  proof (rule int_single.Alloc_granted [OF rb T(1,2) q(1) only ne q(2) le])
    fix it dv r
    assume G: "lower_bound (op_cmp (Int_ops u)) (al_free A) (VMAccelObject_new (Int_ops u) 0 ?q) = Some it"
      "op_Reserve (Int_ops u) (ob_obj (elems (al_free A) ! it)) (ob_obj (VMAccelObject_new (Int_ops u) 0 ?q)) = Some (dv, r)"
    show ?thesis
    proof (rule int_alloc.Alloc_takes [OF rb T(1) q(1) ne G], unfold J, fold n_def)
      fix A' e
      assume run: "Alloc (Int_ops u) rb A 0 ?q = Inr ((al_result A)\<lparr>AllocateStatus_id := of_nat n,
          AllocateStatus_status := VMACCEL_SUCCESS\<rparr>, Some (ob_obj e), A')"
        and e: "ob_parentId e = 0" "\<And>\<mu>. \<mu> \<in> {Int_amount} \<Longrightarrow> \<mu> (ob_obj e) = \<mu> ?q"
        and n: "unat (of_nat n :: u32) = n" "n \<notin> J" "n < length (al_allocated A)"
        and A': "ids (al_externalIds A') = insert n J" "al_allocated A' = (al_allocated A)[n := e]"
          "al_registered A' = al_registered A" "al_registeredIds A' = al_registeredIds A"
      have "reachable (Int_ops u) rb Int_valid \<lparr>Int_x = 0\<rparr> 2048 A"
        using t by (simp add: testing_def)
      then have r: "reachable (Int_ops u) rb Int_valid \<lparr>Int_x = 0\<rparr> 2048 A'" using q(1) run by (rule reachable.alloc)
      have "Int_amount (ob_obj e) = unat x" using e(2) [of Int_amount] by (simp add: Int_amount_def)
      with t r e(1) n A' have "testing u rb A' (insert n J) (am(n := unat x))"
        by (auto simp: testing_def nth_list_update)
      with run n show ?thesis by (simp add: expect_Alloc_def)
    qed
  qed simp_all
qed

lemma expect_Alloc_refused:
  assumes rb: "rb_ok rb" and t: "testing u rb A J am" and x: "unat x < 2 ^ 31"
    and fit: "J \<noteq> {..<2048} \<Longrightarrow> 65535 < sum am J + unat x"
  shows "\<exists>st A'. expect_Alloc u rb (if J = {..<2048} then VMACCEL_FAIL else VMACCEL_RESOURCE_UNAVAILABLE) 0 x A = Inr (st, A') \<and>
    testing u rb A' J am"
proof -
  note T = testingD [OF rb t]
  have J: "ids (al_externalIds A) = J" using t by (simp add: testing_def)
  have r: "reachable (Int_ops u) rb Int_valid \<lparr>Int_x = 0\<rparr> 2048 A" using t by (simp add: testing_def)
  let ?q = "\<lparr>Int_x = x\<rparr>"
  have q: "Int_valid ?q" using x by (simp add: Int_valid_def)
  show ?thesis using rb T(1) q
  proof (cases rule: int_alloc.Alloc_cases [where p = 0 and u = u])
    case (full A')
    from reachable.alloc [OF r _ full(2)] q have "reachable (Int_ops u) rb Int_valid \<lparr>Int_x = 0\<rparr> 2048 A'" by simp
    with testing_same [OF t] full J T(3) show ?thesis by (simp add: expect_Alloc_def)
  next
    case (unavailable A')
    from reachable.alloc [OF r _ unavailable(2)] q have "reachable (Int_ops u) rb Int_valid \<lparr>Int_x = 0\<rparr> 2048 A'" by simp
    with testing_same [OF t] unavailable J T(3) show ?thesis by (simp add: expect_Alloc_def)
  next
    case (granted it dv r)
    show ?thesis
    proof (rule int_alloc.Alloc_takes [OF rb T(1) q granted])
      fix A' assume "\<And>\<mu>. \<mu> \<in> {Int_amount} \<Longrightarrow> held \<mu> 0 (al_free A') + \<mu> ?q = held \<mu> 0 (al_free A)"
      from this [of Int_amount] T(4) fit granted(1) J T(3) show ?thesis by (simp add: Int_amount_def)
    qed
  qed
qed

lemma Free_testing:
  assumes rb: "rb_ok rb" and t: "testing u rb A J am" and i: "unat i \<in> J"
  shows "\<exists>st A'. Free (Int_ops u) rb False A i = Inr (st, A') \<and> testing u rb A' (J - {unat i}) am"
proof -
  have J: "ids (al_externalIds A) = J" using t by (simp add: testing_def)
  have r: "reachable (Int_ops u) rb Int_valid \<lparr>Int_x = 0\<rparr> 2048 A" using t by (simp add: testing_def)
  from int_alloc.Free_conserves [OF rb testingD(1) [OF rb t], of i u] i J obtain A' e where
    run: "Free (Int_ops u) rb False A i = Inr (zero_VMAccelStatus\<lparr>Status_status := VMACCEL_SUCCESS\<rparr>, A')"
    and A': "ids (al_externalIds A') = J - {unat i}" "al_allocated A' = (al_allocated A)[unat i := e]"
      "al_registered A' = al_registered A" "al_registeredIds A' = al_registeredIds A" by auto
  from reachable.free [OF r run] t A' run show ?thesis by (auto simp: testing_def)
qed

lemma Unregister_testing:
  assumes rb: "rb_ok rb" and t: "testing u rb A J am"
  shows "J \<noteq> {} \<Longrightarrow> expect_Unregister u rb VMACCEL_FAIL 0 A = Inr A"
    and "J = {} \<Longrightarrow> \<exists>A'. expect_Unregister u rb VMACCEL_SUCCESS 0 A = Inr A'"
proof -
  note inv = testingD(1) [OF rb t]
  have J: "ids (al_externalIds A) = J" "\<forall>i\<in>J. ob_parentId (al_allocated A ! i) = 0" using t by (simp_all add: testing_def)
  have m: "unat (0::u32) \<in> ids (al_registeredIds A)" "unat (0::u32) < unat (db_size (al_registeredIds A))"
    using t by (simp_all add: testing_def)
  show "expect_Unregister u rb VMACCEL_FAIL 0 A = Inr A" if "J \<noteq> {}"
  proof -
    have "0 < lent (\<lambda>_. 1) 0 (al_allocated A) (ids (al_externalIds A))"
      using that J testingD(5) [OF rb t] by (simp add: lent_def amount_def card_gt_0_iff)
    from int_alloc.Unregister_busy [OF inv m(2) this, of u rb] show ?thesis by (simp add: expect_Unregister_def)
  qed
  show "\<exists>A'. expect_Unregister u rb VMACCEL_SUCCESS 0 A = Inr A'" if "J = {}"
  proof -
    have "lent (\<lambda>_. 1) 0 (al_allocated A) (ids (al_externalIds A)) = 0" using that J by (simp add: lent_def)
    from int_alloc.Unregister_conserves [OF rb inv m(1) this, of u] show ?thesis by (auto simp: expect_Unregister_def)
  qed
qed

lemma alloc_loop_testing:
  assumes rb: "rb_ok rb"
  shows "testing u rb A {..<k} (\<lambda>_. 1) \<Longrightarrow> k + n \<le> 2048 \<Longrightarrow>
    \<exists>A'. alloc_loop u rb 0 n A = Inr (map of_nat [k..<k + n], A') \<and> testing u rb A' {..<k + n} (\<lambda>_. 1)"
proof (induction n arbitrary: A k)
  case (Suc n)
  have l: "(LEAST n. n \<notin> {..<k}) = k" by (rule Least_equality) simp_all
  have "{..<k} \<noteq> {..<2048}" using Suc.prems(2) by simp
  from expect_Alloc_granted [OF rb Suc.prems(1) this, of 1] Suc.prems(2) obtain st A1 where
    A1: "expect_Alloc u rb VMACCEL_SUCCESS 0 1 A = Inr (st, A1)" "AllocateStatus_id st = of_nat k"
      "testing u rb A1 (insert k {..<k}) ((\<lambda>_. 1)(k := 1))" unfolding l by auto
  have "insert k {..<k} = {..<Suc k}" by auto
  with A1(3) have "testing u rb A1 {..<Suc k} (\<lambda>_. 1)" by (simp add: fun_upd_def)
  from Suc.IH [OF this] Suc.prems(2) obtain A' where
    "alloc_loop u rb 0 n A1 = Inr (map of_nat [Suc k..<Suc k + n], A')" "testing u rb A' {..<Suc k + n} (\<lambda>_. 1)" by auto
  with A1 show ?case by (simp add: upt_conv_Cons del: upt_Suc)
qed simp

lemma free_loop_testing:
  assumes rb: "rb_ok rb"
  shows "testing u rb A {k..<k + n} am \<Longrightarrow> k + n \<le> 2048 \<Longrightarrow>
    \<exists>A'. free_loop u rb (map of_nat [k..<k + n]) A = Inr A' \<and> testing u rb A' {} am"
proof (induction n arbitrary: A k)
  case (Suc n)
  have k: "unat (of_nat k :: u32) = k" using Suc.prems(2) by (simp add: unat_of_nat)
  from Free_testing [OF rb Suc.prems(1), of "of_nat k"] obtain st A1 where
    A1: "Free (Int_ops u) rb False A (of_nat k) = Inr (st, A1)" "testing u rb A1 ({k..<k + Suc n} - {k}) am"
    unfolding k by auto
  have "{k..<k + Suc n} - {k} = {Suc k..<Suc k + n}" by auto
  with Suc.IH [of A1 "Suc k"] A1(2) Suc.prems(2) obtain A' where
    "free_loop u rb (map of_nat [Suc k..<Suc k + n]) A1 = Inr A'" "testing u rb A' {} am" by auto
  with A1 show ?case by (simp add: upt_conv_Cons del: upt_Suc)
qed simp

lemma self_test_start:
  assumes rb: "rb_ok rb" and A: "VMAccelAllocator (\<lambda>_. True) (Int_ops u) \<lparr>Int_x = 0\<rparr> 2048 = Some A"
  shows "\<exists>st A'. Register (Int_ops u) rb A \<lparr>Int_x = 65535\<rparr> = Inr (st, A') \<and> AllocateStatus_status st = VMACCEL_SUCCESS \<and>
    AllocateStatus_id st = 0 \<and> testing u rb A' {} am"
proof -
  obtain db where db: "IdentifierDB_Alloc (\<lambda>_. True) 2048 = Some db" by (simp add: IdentifierDB_Alloc_def Let_def)
  have P: "ids db = {}" "db_size db = 2048" by (rule Alloc_props [OF db], simp, simp)+
  from A have D: "al_registeredIds A = db" "al_externalIds A = db" "length (al_registered A) = 2048"
    by (auto simp: VMAccelAllocator_def db)
  have inv: "alloc_inv Int_valid {Int_amount} A" by (rule int_alloc.start_inv [OF A]) simp
  have v: "Int_valid \<lparr>Int_x = 65535\<rparr>" by (simp add: Int_valid_def)
  have "0 \<in> {..<unat (db_size (al_registeredIds A))}" by (simp add: D P)
  then have ne: "ids (al_registeredIds A) \<noteq> {..<unat (db_size (al_registeredIds A))}" by (metis D(1) P(1) empty_iff)
  have l: "(LEAST n. n \<notin> ids (al_registeredIds A)) = 0" by (simp add: D P)
  from int_alloc.Register_conserves [OF rb inv v ne, unfolded l, of u] obtain A' where
    run: "Register (Int_ops u) rb A \<lparr>Int_x = 65535\<rparr> = Inr (zero_VMAccelAllocateStatus
      \<lparr>AllocateStatus_id := of_nat 0, AllocateStatus_status := VMACCEL_SUCCESS\<rparr>, A')"
    and A': "ids (al_registeredIds A') = insert 0 (ids (al_registeredIds A))"
      "db_size (al_registeredIds A') = db_size (al_registeredIds A)"
      "al_registered A' = (al_registered A)[0 := \<lparr>Int_x = 65535\<rparr>]" "al_externalIds A' = al_externalIds A" by blast
  have "reachable (Int_ops u) rb Int_valid \<lparr>Int_x = 0\<rparr> 2048 A'"
    using reachable.start [OF A] v run by (rule reachable.register)
  with run A' show ?thesis by (simp add: testing_def D P)
qed

text \<open>The last part of the self-test: all identifiers are used, then released.\<close>

lemma self_test_exhaust:
  assumes rb: "rb_ok rb" and t: "testing u rb A {} am"
  shows "\<exists>alloc A1 st A2 A3 A4. alloc_loop u rb 0 2048 A = Inr (alloc, A1) \<and>
    expect_Alloc u rb VMACCEL_FAIL 0 1 A1 = Inr (st, A2) \<and> free_loop u rb alloc A2 = Inr A3 \<and>
    expect_Unregister u rb VMACCEL_SUCCESS 0 A3 = Inr A4"
proof -
  have "testing u rb A {..<0} (\<lambda>_. 1)" using t by (simp add: testing_def)
  from alloc_loop_testing [OF rb this, of 2048] obtain A1 where
    s1: "alloc_loop u rb 0 2048 A = Inr (map of_nat [0..<2048], A1)" "testing u rb A1 {..<2048} (\<lambda>_. 1)" by auto
  from expect_Alloc_refused [OF rb s1(2), of 1] obtain st A2 where
    s2: "expect_Alloc u rb VMACCEL_FAIL 0 1 A1 = Inr (st, A2)" "testing u rb A2 {..<2048} (\<lambda>_. 1)" by auto
  then have "testing u rb A2 {0..<0 + 2048} (\<lambda>_. 1)" by (simp add: atLeast0LessThan)
  from free_loop_testing [OF rb this] obtain A3 where
    s3: "free_loop u rb (map of_nat [0..<2048]) A2 = Inr A3" "testing u rb A3 {} (\<lambda>_. 1)" by auto
  obtain A4 where "expect_Unregister u rb VMACCEL_SUCCESS 0 A3 = Inr A4"
    using Unregister_testing(2) [OF rb s3(2)] by auto
  with s1(1) s2(1) s3(1) show ?thesis by blast
qed

text \<open>C9: The manager powers on: whatever the memory held before and however the container
  balances its tree, every assertion of the allocator's self-test holds, including the grants and
  refusals at the exact capacity, the 2048 allocations that use up the identifiers and the one
  after them that fails, and the call returns \<^verbatim>\<open>VMACCEL_SUCCESS\<close> with both allocators created.\<close>

theorem poweron_succeeds:
  assumes "rb_ok rb"
  shows "\<exists>M'. vmaccel_manager_poweron uI uD uR rb M = Inr (VMACCEL_SUCCESS, M') \<and> accelMgr M' \<noteq> None \<and> memMgr M' \<noteq> None"
proof -
  obtain A where A: "VMAccelAllocator (\<lambda>_. True) (Int_ops uI) \<lparr>Int_x = 0\<rparr> 2048 = Some A"
    by (simp add: VMAccelAllocator_def IdentifierDB_Alloc_def Let_def)
  have l0: "(LEAST n::nat. n \<notin> {}) = 0" and l1: "(LEAST n::nat. n \<notin> {0}) = 1"
    by simp (rule Least_equality, auto)
  have "5 \<in> {..<2048::nat}" by simp
  then have ne': "J \<noteq> {..<2048}" if "5 \<notin> J" for J :: "nat set" using that by blast
  have ne: "{} \<noteq> {..<2048::nat}" "{0} \<noteq> {..<2048::nat}" "{1, 0} \<noteq> {..<2048::nat}"
    by (rule ne', simp)+
  from self_test_start [OF assms A, of "\<lambda>_. 1"] obtain st A0 where
    s0: "Register (Int_ops uI) rb A \<lparr>Int_x = 65535\<rparr> = Inr (st, A0)" "AllocateStatus_status st = VMACCEL_SUCCESS"
      "AllocateStatus_id st = 0" "testing uI rb A0 {} (\<lambda>_. 1)" by blast
  from expect_Alloc_granted [OF assms s0(4) ne(1), of 32768] obtain a0 A1 where
    s1: "expect_Alloc uI rb VMACCEL_SUCCESS 0 32768 A0 = Inr (a0, A1)" "AllocateStatus_id a0 = 0"
      "testing uI rb A1 {0} ((\<lambda>_. 1)(0 := 32768))" unfolding l0 by auto
  note s2 = Unregister_testing(1) [OF assms s1(3)]
  from expect_Alloc_refused [OF assms s1(3), of 32768] ne(2) obtain b0 A2 where
    s3: "expect_Alloc uI rb VMACCEL_RESOURCE_UNAVAILABLE 0 32768 A1 = Inr (b0, A2)"
      "testing uI rb A2 {0} ((\<lambda>_. 1)(0 := 32768))" by auto
  from expect_Alloc_granted [OF assms s3(2) ne(2), of 16384] obtain a1 A3 where
    s4: "expect_Alloc uI rb VMACCEL_SUCCESS 0 16384 A2 = Inr (a1, A3)" "AllocateStatus_id a1 = 1"
      "testing uI rb A3 {1, 0} ((\<lambda>_. 1)(0 := 32768, 1 := 16384))" unfolding l1 by auto
  from expect_Alloc_refused [OF assms s4(3), of 16384] ne(3) obtain b1 A4 where
    s5: "expect_Alloc uI rb VMACCEL_RESOURCE_UNAVAILABLE 0 16384 A3 = Inr (b1, A4)"
      "testing uI rb A4 {1, 0} ((\<lambda>_. 1)(0 := 32768, 1 := 16384))" by auto
  from Free_testing [OF assms s5(2), of 1] obtain f1 A5 where
    s6: "Free (Int_ops uI) rb False A4 1 = Inr (f1, A5)" "testing uI rb A5 {0} ((\<lambda>_. 1)(0 := 32768, 1 := 16384))" by auto
  from expect_Alloc_granted [OF assms s6(2) ne(2), of 32767] obtain a2 A6 where
    s7: "expect_Alloc uI rb VMACCEL_SUCCESS 0 32767 A5 = Inr (a2, A6)" "AllocateStatus_id a2 = 1"
      "testing uI rb A6 {1, 0} ((\<lambda>_. 1)(0 := 32768, 1 := 32767))" unfolding l1 by auto
  from Free_testing [OF assms s7(3), of 1] obtain f2 A7 where
    s8: "Free (Int_ops uI) rb False A6 1 = Inr (f2, A7)" "testing uI rb A7 {0} ((\<lambda>_. 1)(0 := 32768, 1 := 32767))" by auto
  from Free_testing [OF assms s8(2), of 0] obtain f3 A8 where
    s9: "Free (Int_ops uI) rb False A7 0 = Inr (f3, A8)" "testing uI rb A8 {} ((\<lambda>_. 1)(0 := 32768, 1 := 32767))" by auto
  obtain alloc A9 b2 A10 A11 A12 where s10: "alloc_loop uI rb 0 2048 A8 = Inr (alloc, A9)"
    "expect_Alloc uI rb VMACCEL_FAIL 0 1 A9 = Inr (b2, A10)" "free_loop uI rb alloc A10 = Inr A11"
    "expect_Unregister uI rb VMACCEL_SUCCESS 0 A11 = Inr A12" using self_test_exhaust [OF assms s9(2)] by blast
  have "self_test uI rb A = Inr ()"
    unfolding self_test_def Let_def
    by (simp add: s0 s1 s2 s3 s4 s5 s6 s7 s8 s9 s10)
  then show ?thesis
    by (simp add: vmaccel_manager_poweron_def A Let_def) (simp add: VMAccelAllocator_def IdentifierDB_Alloc_def Let_def)
qed

theorem poweron_succeeds_witness:
  "rb_ok (list_rb :: IntVal vobj rb) \<and> (\<exists>M'. vmaccel_manager_poweron \<lparr>Int_x = 7\<rparr> zero_VMAccelDesc
     \<lparr>ar_cmpRange = True, ar_size = 1, ar_begin = 2, ar_end = 3\<rparr> list_rb \<lparr>accelMgr = None, memMgr = None\<rparr> =
       Inr (VMACCEL_SUCCESS, M') \<and> accelMgr M' \<noteq> None \<and> memMgr M' \<noteq> None)"
  using poweron_succeeds [OF list_rb_ok] list_rb_ok by blast

end
