(* ===== verification/Xdr_Codec.thy ===== *)
theory Xdr_Codec
  imports Xdr_Runtime
begin

section \<open>The contract of an XDR procedure\<close>

text \<open>
  An XDR procedure promises three things about the objects its type allows (\<open>ok\<close>: the
  length fields agree with the blocks): it encodes an object to exactly its external
  representation \<open>enc\<close>, or returns \<^verbatim>\<open>FALSE\<close> when the stream is too short; it decodes that
  representation back, returns \<^verbatim>\<open>FALSE\<close> on a truncated one, and on arbitrary bytes either
  returns \<^verbatim>\<open>FALSE\<close> or delivers an allowed object (never an out-of-bounds access); and it
  frees every block of an object.  A decode starts from a \<open>clean\<close> object, one whose
  pointers are null, which is what the callers pass and what a free leaves behind.

  The locales state this first for a step that reads or writes some fields of a record
  (\<open>copy v d\<close> is the record \<open>d\<close> with the step's fields taken from \<open>v\<close>, \<open>eff\<close> and \<open>feff\<close>
  what a decode and a free may do to the record) and then for a whole type.  The lemmas
  below say how the contract passes through \<^verbatim>\<open>xdr_array\<close>, \<^verbatim>\<open>xdr_pointer\<close>, fields, sequences
  and inline buffers; they are collected in \<open>xdr_steps\<close>.
\<close>

named_theorems xdr_steps \<open>contracts of parts of a procedure\<close>
named_theorems xdr_codecs \<open>contracts of procedures of whole types\<close>

definition wrote :: "XDR \<Rightarrow> byte list \<Rightarrow> XDR \<Rightarrow> bool" where
  "wrote x bs x' \<longleftrightarrow> length bs \<le> x_room x \<and>
     (\<exists>h. x' = x\<lparr>x_out := x_out x @ bs, x_room := x_room x - length bs, x_handy := h\<rparr>)"

definition consumed :: "XDR \<Rightarrow> nat \<Rightarrow> XDR \<Rightarrow> bool" where
  "consumed x n x' \<longleftrightarrow> n \<le> length (x_in x) \<and> (\<exists>h. x' = x\<lparr>x_in := drop n (x_in x), x_handy := h\<rparr>)"

lemma wrote_sel: "wrote x bs x' \<Longrightarrow> x_op x' = x_op x"
  "wrote x bs x' \<Longrightarrow> x_room x' = x_room x - length bs"
  by (auto simp: wrote_def)

lemma consumed_sel: "consumed x n x' \<Longrightarrow> x_op x' = x_op x"
  "consumed x n x' \<Longrightarrow> x_in x' = drop n (x_in x)"
  by (auto simp: consumed_def)

lemma wrote_Nil [simp]: "wrote x [] x"
  by (auto simp: wrote_def intro: exI [of _ "x_handy x"])

lemma consumed_0 [simp]: "consumed x 0 x"
  by (auto simp: consumed_def intro: exI [of _ "x_handy x"])

lemma wrote_trans:
  assumes "wrote x a y" and "wrote y b z"
  shows "wrote x (a @ b) z"
  using assms by (auto simp: wrote_def)

lemma consumed_trans:
  assumes "consumed x m y" and "consumed y n z"
  shows "consumed x (m + n) z"
  using assms by (auto simp: consumed_def add.commute)

locale xdr_encoder =
  fixes proc :: "'r xdrproc" and ok :: "'r \<Rightarrow> bool" and enc :: "'r \<Rightarrow> byte list"
  assumes encode: "x_op x = XDR_ENCODE \<Longrightarrow> ok v \<Longrightarrow> length (enc v) \<le> x_room x \<Longrightarrow>
      \<exists>x'. proc x v = Inr (x', v) \<and> wrote x (enc v) x'"
    and encode_full: "x_op x = XDR_ENCODE \<Longrightarrow> ok v \<Longrightarrow> x_room x < length (enc v) \<Longrightarrow>
      proc x v = Inl ReturnsFalse"

locale xdr_decoder =
  fixes proc :: "'r xdrproc" and ok :: "'r \<Rightarrow> bool" and enc :: "'r \<Rightarrow> byte list"
    and clean :: "'r \<Rightarrow> bool" and copy :: "'r \<Rightarrow> 'r \<Rightarrow> 'r" and eff :: "'r \<Rightarrow> 'r \<Rightarrow> bool"
  assumes decode: "x_op x = XDR_DECODE \<Longrightarrow> ok v \<Longrightarrow> clean d \<Longrightarrow> x_in x = enc v @ rest \<Longrightarrow>
      \<exists>x'. proc x d = Inr (x', copy v d) \<and> consumed x (length (enc v)) x'"
    and decode_short: "x_op x = XDR_DECODE \<Longrightarrow> ok v \<Longrightarrow> clean d \<Longrightarrow> enc v = x_in x @ bs \<Longrightarrow> bs \<noteq> [] \<Longrightarrow>
      proc x d = Inl ReturnsFalse"
    and decode_total: "x_op x = XDR_DECODE \<Longrightarrow> clean d \<Longrightarrow> proc x d = Inl ReturnsFalse \<or>
      (\<exists>x' d' n. proc x d = Inr (x', d') \<and> consumed x n x' \<and> eff d d')"

locale xdr_freer =
  fixes proc :: "'r xdrproc" and ok :: "'r \<Rightarrow> bool" and feff :: "'r \<Rightarrow> 'r \<Rightarrow> bool"
  assumes free: "x_op x = XDR_FREE \<Longrightarrow> ok v \<Longrightarrow> \<exists>v'. proc x v = Inr (x, v') \<and> feff v v'"

locale xdr_step = xdr_encoder proc ok enc + xdr_decoder proc ok enc clean copy eff + xdr_freer proc ok feff
  for proc ok enc clean copy eff feff

locale xdr_codec = xdr_step proc ok enc clean "\<lambda>v d. v" "\<lambda>d d'. ok d'" "\<lambda>v v'. clean v'"
  for proc ok enc clean

context xdr_codec
begin

text \<open>An object sent over one stream arrives at the other end of another.\<close>

lemma transfer:
  assumes "ok v" and "clean d" and "x_op x = XDR_ENCODE" and "length (enc v) \<le> x_room x"
  shows "\<exists>x'. proc x v = Inr (x', v) \<and> x_out x' = x_out x @ enc v \<and>
    (\<forall>y rest. x_op y = XDR_DECODE \<and> x_in y = enc v @ rest \<longrightarrow> (\<exists>y'. proc y d = Inr (y', v) \<and> x_in y' = rest))"
proof -
  obtain x' where x': "proc x v = Inr (x', v)" "wrote x (enc v) x'" using encode [OF assms(3,1,4)] by blast
  have "\<exists>y'. proc y d = Inr (y', v) \<and> x_in y' = rest"
    if "x_op y = XDR_DECODE" "x_in y = enc v @ rest" for y rest
    using decode [OF that(1) assms(1,2) that(2)] that(2) by (auto dest: consumed_sel)
  with x' show ?thesis by (auto simp: wrote_def)
qed

text \<open>Every byte sequence is decoded safely, and what is delivered can be freed.\<close>

lemma decode_safe:
  assumes "x_op x = XDR_DECODE" and "clean d"
  shows "proc x d = Inl ReturnsFalse \<or> (\<exists>x' v. proc x d = Inr (x', v) \<and> ok v \<and>
    (\<forall>y. x_op y = XDR_FREE \<longrightarrow> (\<exists>v'. proc y v = Inr (y, v') \<and> clean v')))"
  using decode_total [OF assms] free by blast

lemma decode_truncated:
  assumes "x_op x = XDR_DECODE" and "clean d" and "ok v" and "n < length (enc v)" and "x_in x = take n (enc v)"
  shows "proc x d = Inl ReturnsFalse"
proof (rule decode_short [OF assms(1,3,2)])
  show "enc v = x_in x @ drop n (enc v)" using assms(5) by simp
  show "drop n (enc v) \<noteq> []" using assms(4) by simp
qed

text \<open>Whether the transport lends its buffer does not show in what is written.\<close>

lemma inline_irrelevant:
  assumes "x_op x = XDR_ENCODE" and "ok v"
  shows "map_sum id (\<lambda>(x', v'). (x_out x', x_room x', v')) (proc (x\<lparr>x_handy := h\<rparr>) v) =
    map_sum id (\<lambda>(x', v'). (x_out x', x_room x', v')) (proc (x\<lparr>x_handy := []\<rparr>) v)"
proof (cases "length (enc v) \<le> x_room x")
  case True
  have "\<exists>x'. proc (x\<lparr>x_handy := h\<rparr>) v = Inr (x', v) \<and> x_out x' = x_out x @ enc v \<and>
      x_room x' = x_room x - length (enc v)" for h
    using encode [of "x\<lparr>x_handy := h\<rparr>" v] assms True by (auto simp: wrote_def)
  from this [of h] this [of "[]"] show ?thesis by auto
next
  case False
  then show ?thesis using encode_full [of "x\<lparr>x_handy := _\<rparr>" v] assms by simp
qed

end

subsection \<open>Sequences of steps and fields\<close>

lemma xdr_struct_Nil_bind [simp]: "cbind m (\<lambda>(x, obj). xdr_struct [] x obj) = m"
  by (cases m) auto

lemma encoder_Nil [xdr_steps]: "xdr_encoder (xdr_struct []) (\<lambda>_. True) (\<lambda>_. [])"
  by unfold_locales auto

lemma decoder_Nil [xdr_steps]:
  "xdr_decoder (xdr_struct []) (\<lambda>_. True) (\<lambda>_. []) (\<lambda>_. True) (\<lambda>v d. d) (=)"
  by unfold_locales (auto intro: exI [of _ "0::nat"])

lemma freer_Nil [xdr_steps]: "xdr_freer (xdr_struct []) (\<lambda>_. True) (=)"
  by unfold_locales auto

lemma encoder_Cons [xdr_steps]:
  assumes "xdr_encoder p ok1 enc1" and "xdr_encoder (xdr_struct ps) ok2 enc2"
  shows "xdr_encoder (xdr_struct (p # ps)) (\<lambda>v. ok1 v \<and> ok2 v) (\<lambda>v. enc1 v @ enc2 v)"
proof
  fix x :: XDR and v assume x: "x_op x = XDR_ENCODE" and ok: "ok1 v \<and> ok2 v"
  note p = xdr_encoder.encode [OF assms(1) x, of v] xdr_encoder.encode_full [OF assms(1) x, of v]
  { assume len: "length (enc1 v @ enc2 v) \<le> x_room x"
    with p ok obtain y where y: "p x v = Inr (y, v)" "wrote x (enc1 v) y" by auto
    moreover have "length (enc2 v) \<le> x_room y" "x_op y = XDR_ENCODE"
      using len x wrote_sel [OF y(2)] by simp_all
    ultimately obtain z where "xdr_struct ps y v = Inr (z, v)" "wrote y (enc2 v) z"
      using ok xdr_encoder.encode [OF assms(2), of y v] by blast
    with y show "\<exists>x'. xdr_struct (p # ps) x v = Inr (x', v) \<and> wrote x (enc1 v @ enc2 v) x'"
      by (auto intro: wrote_trans) }
  { assume len: "x_room x < length (enc1 v @ enc2 v)"
    show "xdr_struct (p # ps) x v = Inl ReturnsFalse"
    proof (cases "x_room x < length (enc1 v)")
      case True
      with p ok show ?thesis by simp
    next
      case False
      with p ok obtain y where y: "p x v = Inr (y, v)" "wrote x (enc1 v) y" by (auto simp: not_less)
      with len ok x False xdr_encoder.encode_full [OF assms(2), of y v] show ?thesis
        by (simp add: wrote_sel)
    qed }
qed

lemma decoder_Cons [xdr_steps]:
  assumes "xdr_decoder p ok1 enc1 clean1 copy1 eff1" and "xdr_decoder (xdr_struct ps) ok2 enc2 clean2 copy2 eff2"
    and "\<And>v d. clean2 (copy1 v d) = clean2 d" and "\<And>d d'. eff1 d d' \<Longrightarrow> clean2 d' = clean2 d"
  shows "xdr_decoder (xdr_struct (p # ps)) (\<lambda>v. ok1 v \<and> ok2 v) (\<lambda>v. enc1 v @ enc2 v)
    (\<lambda>d. clean1 d \<and> clean2 d) (\<lambda>v d. copy2 v (copy1 v d)) (\<lambda>d d'. \<exists>e. eff1 d e \<and> eff2 e d')"
proof
  fix x :: XDR and v d rest bs assume x: "x_op x = XDR_DECODE" and cl: "clean1 d \<and> clean2 d"
  { assume ok: "ok1 v \<and> ok2 v" and inp: "x_in x = (enc1 v @ enc2 v) @ rest"
    with xdr_decoder.decode [OF assms(1) x, of v d "enc2 v @ rest"] cl obtain y where
      y: "p x d = Inr (y, copy1 v d)" "consumed x (length (enc1 v)) y" by auto
    with xdr_decoder.decode [OF assms(2), of y v "copy1 v d" rest] ok cl x inp obtain z where
      "xdr_struct ps y (copy1 v d) = Inr (z, copy2 v (copy1 v d))" "consumed y (length (enc2 v)) z"
      by (auto simp: consumed_sel assms(3))
    with y show "\<exists>x'. xdr_struct (p # ps) x d = Inr (x', copy2 v (copy1 v d)) \<and>
        consumed x (length (enc1 v @ enc2 v)) x'"
      by (auto intro: consumed_trans) }
  { assume ok: "ok1 v \<and> ok2 v" and inp: "enc1 v @ enc2 v = x_in x @ bs" and bs: "bs \<noteq> []"
    from inp obtain us where "enc1 v = x_in x @ us \<and> us @ enc2 v = bs \<or> x_in x = enc1 v @ us \<and> enc2 v = us @ bs"
      unfolding append_eq_append_conv2 by metis
    then consider "enc1 v = x_in x @ us" "us \<noteq> []" | ws where "x_in x = enc1 v @ ws" "enc2 v = ws @ bs"
      by (cases "us = []") auto
    then show "xdr_struct (p # ps) x d = Inl ReturnsFalse"
    proof cases
      case 1
      with xdr_decoder.decode_short [OF assms(1) x, of v d us] ok cl show ?thesis by simp
    next
      case 2
      with xdr_decoder.decode [OF assms(1) x, of v d ws] ok cl obtain y where
        y: "p x d = Inr (y, copy1 v d)" "consumed x (length (enc1 v)) y" by auto
      with xdr_decoder.decode_short [OF assms(2), of y v "copy1 v d" bs] ok cl x 2 bs show ?thesis
        by (simp add: consumed_sel assms(3))
    qed }
  show "xdr_struct (p # ps) x d = Inl ReturnsFalse \<or> (\<exists>x' d' n. xdr_struct (p # ps) x d = Inr (x', d') \<and>
      consumed x n x' \<and> (\<exists>e. eff1 d e \<and> eff2 e d'))"
  proof (cases "p x d = Inl ReturnsFalse")
    case False
    with xdr_decoder.decode_total [OF assms(1) x] cl obtain y e n where
      y: "p x d = Inr (y, e)" "consumed x n y" "eff1 d e" by blast
    with xdr_decoder.decode_total [OF assms(2), of y e] x cl assms(4) [OF y(3)] show ?thesis
      by (fastforce simp: consumed_sel intro: consumed_trans)
  qed simp
qed

lemma freer_Cons [xdr_steps]:
  assumes "xdr_freer p ok1 feff1" and "xdr_freer (xdr_struct ps) ok2 feff2"
    and "\<And>v v'. feff1 v v' \<Longrightarrow> ok2 v' = ok2 v"
  shows "xdr_freer (xdr_struct (p # ps)) (\<lambda>v. ok1 v \<and> ok2 v) (\<lambda>v v'. \<exists>u. feff1 v u \<and> feff2 u v')"
proof
  fix x :: XDR and v assume x: "x_op x = XDR_FREE" and ok: "ok1 v \<and> ok2 v"
  with xdr_freer.free [OF assms(1)] obtain u where u: "p x v = Inr (x, u)" "feff1 v u" by blast
  with xdr_freer.free [OF assms(2) x, of u] ok assms(3) [OF u(2)]
  show "\<exists>v'. xdr_struct (p # ps) x v = Inr (x, v') \<and> (\<exists>u. feff1 v u \<and> feff2 u v')" by auto
qed

text \<open>A field whose type has a codec.\<close>

lemma encoder_field [xdr_steps]:
  assumes "xdr_codec p ok enc clean" and "\<And>v. upd (\<lambda>_. get v) v = v"
  shows "xdr_encoder (xdr_field p get upd) (\<lambda>v. ok (get v)) (\<lambda>v. enc (get v))"
proof -
  from assms(1) have p: "xdr_encoder p ok enc" by (simp add: xdr_codec_def xdr_step_def)
  show ?thesis
    using xdr_encoder.encode [OF p] xdr_encoder.encode_full [OF p]
    by unfold_locales (fastforce simp: xdr_field_def assms(2))+
qed

lemma decoder_field [xdr_steps]:
  assumes "xdr_codec p ok enc clean"
  shows "xdr_decoder (xdr_field p get upd) (\<lambda>v. ok (get v)) (\<lambda>v. enc (get v)) (\<lambda>d. clean (get d))
    (\<lambda>v d. upd (\<lambda>_. get v) d) (\<lambda>d d'. \<exists>a. ok a \<and> d' = upd (\<lambda>_. a) d)"
proof -
  from assms(1) have p: "xdr_decoder p ok enc clean (\<lambda>v d. v) (\<lambda>d d'. ok d')"
    by (simp add: xdr_codec_def xdr_step_def)
  show ?thesis
  proof
    fix x :: XDR and v d rest
    assume "x_op x = XDR_DECODE" "ok (get v)" "clean (get d)" "x_in x = enc (get v) @ rest"
    from xdr_decoder.decode [OF p this] show "\<exists>x'. xdr_field p get upd x d = Inr (x', upd (\<lambda>_. get v) d) \<and>
        consumed x (length (enc (get v))) x'" by (auto simp: xdr_field_def)
  next
    fix x :: XDR and v d bs
    assume "x_op x = XDR_DECODE" "ok (get v)" "clean (get d)" "enc (get v) = x_in x @ bs" "bs \<noteq> []"
    from xdr_decoder.decode_short [OF p this] show "xdr_field p get upd x d = Inl ReturnsFalse"
      by (simp add: xdr_field_def)
  next
    fix x :: XDR and d
    assume "x_op x = XDR_DECODE" "clean (get d)"
    from xdr_decoder.decode_total [OF p this] show "xdr_field p get upd x d = Inl ReturnsFalse \<or>
        (\<exists>x' d' n. xdr_field p get upd x d = Inr (x', d') \<and> consumed x n x' \<and> (\<exists>a. ok a \<and> d' = upd (\<lambda>_. a) d))"
      by (fastforce simp: xdr_field_def)
  qed
qed

lemma freer_field [xdr_steps]:
  assumes "xdr_codec p ok enc clean"
  shows "xdr_freer (xdr_field p get upd) (\<lambda>v. ok (get v)) (\<lambda>v v'. \<exists>a. clean a \<and> v' = upd (\<lambda>_. a) v)"
proof -
  from assms(1) have p: "xdr_freer p ok (\<lambda>v v'. clean v')" by (simp add: xdr_codec_def xdr_step_def)
  show ?thesis using xdr_freer.free [OF p] by unfold_locales (fastforce simp: xdr_field_def)
qed

text \<open>A procedure with one branch per operation.\<close>

lemma encoder_by_op [xdr_steps]: "xdr_encoder p ok enc \<Longrightarrow> xdr_encoder (xdr_by_op p q r) ok enc"
  by (simp add: xdr_encoder_def xdr_by_op_def)

lemma decoder_by_op [xdr_steps]:
  "xdr_decoder q ok enc clean copy eff \<Longrightarrow> xdr_decoder (xdr_by_op p q r) ok enc clean copy eff"
  by (simp add: xdr_decoder_def xdr_by_op_def)

lemma freer_by_op [xdr_steps]: "xdr_freer r ok feff \<Longrightarrow> xdr_freer (xdr_by_op p q r) ok feff"
  by (simp add: xdr_freer_def xdr_by_op_def)

text \<open>From the contracts of the steps to the contract of the type.\<close>

lemma codec_structI:
  assumes "xdr_encoder p ok1 enc1" and "xdr_decoder p ok2 enc2 clean2 copy eff" and "xdr_freer p ok3 feff"
    and "\<And>v. ok v \<Longrightarrow> ok1 v \<and> enc1 v = enc v" and "\<And>v. ok v \<Longrightarrow> ok2 v \<and> enc2 v = enc v"
    and "\<And>v. ok v \<Longrightarrow> ok3 v" and "\<And>d. clean d \<Longrightarrow> clean2 d"
    and "\<And>v d. ok v \<Longrightarrow> clean d \<Longrightarrow> copy v d = v" and "\<And>d d'. clean d \<Longrightarrow> eff d d' \<Longrightarrow> ok d'"
    and "\<And>v v'. ok v \<Longrightarrow> feff v v' \<Longrightarrow> clean v'"
  shows "xdr_codec p ok enc clean"
proof
  fix x :: XDR and v d rest bs
  { assume "x_op x = XDR_ENCODE" "ok v" "length (enc v) \<le> x_room x"
    then show "\<exists>x'. p x v = Inr (x', v) \<and> wrote x (enc v) x'"
      using xdr_encoder.encode [OF assms(1), of x v] assms(4) by auto }
  { assume "x_op x = XDR_ENCODE" "ok v" "x_room x < length (enc v)"
    then show "p x v = Inl ReturnsFalse"
      using xdr_encoder.encode_full [OF assms(1), of x v] assms(4) by auto }
  { assume "x_op x = XDR_DECODE" "ok v" "clean d" "x_in x = enc v @ rest"
    then show "\<exists>x'. p x d = Inr (x', v) \<and> consumed x (length (enc v)) x'"
      using xdr_decoder.decode [OF assms(2), of x v d rest] assms(5,7,8) by auto }
  { assume "x_op x = XDR_DECODE" "ok v" "clean d" "enc v = x_in x @ bs" "bs \<noteq> []"
    then show "p x d = Inl ReturnsFalse"
      using xdr_decoder.decode_short [OF assms(2), of x v d bs] assms(5,7) by auto }
  { assume "x_op x = XDR_DECODE" "clean d"
    then show "p x d = Inl ReturnsFalse \<or> (\<exists>x' d' n. p x d = Inr (x', d') \<and> consumed x n x' \<and> ok d')"
      using xdr_decoder.decode_total [OF assms(2), of x d] assms(7,9) by fast }
  { assume "x_op x = XDR_FREE" "ok v"
    then show "\<exists>v'. p x v = Inr (x, v') \<and> clean v'"
      using xdr_freer.free [OF assms(3), of x v] assms(6,10) by blast }
qed

subsection \<open>Words\<close>

lemma length_be32 [simp]: "length (be32 w) = 4"
  by (simp add: be32_def)

lemma from_be32_be32 [simp]: "from_be32 (be32 w) = w"
proof (rule bit_word_eqI)
  fix n assume "n < LENGTH(32)"
  then have n: "n < 32" by simp
  have "bit (from_be32 (be32 w)) n \<longleftrightarrow> (24 \<le> n \<and> n - 24 < 32 \<and> n - 24 < 8 \<and> bit w (24 + (n - 24))) \<or>
     (16 \<le> n \<and> n - 16 < 32 \<and> n - 16 < 8 \<and> bit w (16 + (n - 16))) \<or>
     (8 \<le> n \<and> n - 8 < 32 \<and> n - 8 < 8 \<and> bit w (8 + (n - 8))) \<or> (n < 8 \<and> bit w n)"
    using n unfolding be32_def from_be32.simps bit_or_iff bit_push_bit_iff bit_ucast_iff bit_drop_bit_eq o_def by simp
  also have "\<dots> \<longleftrightarrow> bit w n"
    using n by (cases "24 \<le> n"; cases "16 \<le> n"; cases "8 \<le> n"; simp; linarith)
  finally show "bit (from_be32 (be32 w)) n \<longleftrightarrow> bit w n" .
qed

lemma strict_prefix_length: "ys = xs @ bs \<Longrightarrow> bs \<noteq> [] \<Longrightarrow> length xs < length ys"
  by simp

lemma getbytes_eq: "getbytes x n = Inl ReturnsFalse \<and> length (x_in x) < n \<or>
    (\<exists>x'. getbytes x n = Inr (take n (x_in x), x') \<and> consumed x n x')"
  unfolding getbytes_def consumed_def by (auto intro: exI [of _ "x_handy x"])

lemma putbytes_fits: "length bs \<le> x_room x \<Longrightarrow> \<exists>x'. putbytes x bs = Inr x' \<and> wrote x bs x'"
  unfolding putbytes_def wrote_def by (auto intro: exI [of _ "x_handy x"])

lemma putbytes_full: "x_room x < length bs \<Longrightarrow> putbytes x bs = Inl ReturnsFalse"
  by (simp add: putbytes_def)

lemma u_int_codec [xdr_codecs]: "xdr_codec xdr_u_int (\<lambda>_. True) be32 (\<lambda>_. True)"
proof
  fix x :: XDR and v d :: u32 and rest bs
  { assume "x_op x = XDR_ENCODE" "length (be32 v) \<le> x_room x"
    then show "\<exists>x'. xdr_u_int x v = Inr (x', v) \<and> wrote x (be32 v) x'"
      using putbytes_fits [of "be32 v" x] by (auto simp: xdr_u_int_def) }
  { assume "x_op x = XDR_ENCODE" "x_room x < length (be32 v)"
    then show "xdr_u_int x v = Inl ReturnsFalse" by (simp add: xdr_u_int_def putbytes_full) }
  { assume "x_op x = XDR_DECODE" "x_in x = be32 v @ rest"
    then show "\<exists>x'. xdr_u_int x d = Inr (x', v) \<and> consumed x (length (be32 v)) x'"
      using getbytes_eq [of x 4] by (auto simp: xdr_u_int_def) }
  { assume a: "x_op x = XDR_DECODE" "be32 v = x_in x @ bs" "bs \<noteq> []"
    have "length (x_in x) < 4" using strict_prefix_length [OF a(2,3)] by simp
    with a(1) show "xdr_u_int x d = Inl ReturnsFalse" by (simp add: xdr_u_int_def getbytes_def) }
  { assume "x_op x = XDR_DECODE"
    then show "xdr_u_int x d = Inl ReturnsFalse \<or>
        (\<exists>x' d' n. xdr_u_int x d = Inr (x', d') \<and> consumed x n x' \<and> True)"
      using getbytes_eq [of x 4] by (auto simp: xdr_u_int_def) }
  { assume "x_op x = XDR_FREE"
    then show "\<exists>v'. xdr_u_int x v = Inr (x, v') \<and> True" by (simp add: xdr_u_int_def) }
qed

lemmas int_codec [xdr_codecs] = u_int_codec [folded xdr_int_def]
lemmas enum_codec [xdr_codecs] = u_int_codec [folded xdr_enum_def]
lemmas float_codec [xdr_codecs] = u_int_codec [folded xdr_float_def]

definition enc_bool :: "bool \<Rightarrow> byte list" where
  "enc_bool b = be32 (if b then 1 else 0)"

text \<open>A procedure that converts to a word first: the conversion must be invertible.\<close>

lemma bool_codec [xdr_codecs]: "xdr_codec xdr_bool (\<lambda>_. True) enc_bool (\<lambda>_. True)"
proof
  fix x :: XDR and v d :: bool and rest bs
  have len: "length (enc_bool v) = 4" by (simp add: enc_bool_def)
  { assume "x_op x = XDR_ENCODE" "length (enc_bool v) \<le> x_room x"
    then show "\<exists>x'. xdr_bool x v = Inr (x', v) \<and> wrote x (enc_bool v) x'"
      using putbytes_fits [of "enc_bool v" x] by (auto simp: xdr_bool_def enc_bool_def) }
  { assume "x_op x = XDR_ENCODE" "x_room x < length (enc_bool v)"
    then show "xdr_bool x v = Inl ReturnsFalse" by (simp add: xdr_bool_def enc_bool_def putbytes_full) }
  { assume "x_op x = XDR_DECODE" "x_in x = enc_bool v @ rest"
    then show "\<exists>x'. xdr_bool x d = Inr (x', v) \<and> consumed x (length (enc_bool v)) x'"
      using getbytes_eq [of x 4] len by (auto simp: xdr_bool_def enc_bool_def split: if_splits) }
  { assume a: "x_op x = XDR_DECODE" "enc_bool v = x_in x @ bs" "bs \<noteq> []"
    have "length (x_in x) < 4" using strict_prefix_length [OF a(2,3)] len by simp
    with a(1) show "xdr_bool x d = Inl ReturnsFalse" by (simp add: xdr_bool_def getbytes_def) }
  { assume "x_op x = XDR_DECODE"
    then show "xdr_bool x d = Inl ReturnsFalse \<or>
        (\<exists>x' d' n. xdr_bool x d = Inr (x', d') \<and> consumed x n x' \<and> True)"
      using getbytes_eq [of x 4] by (auto simp: xdr_bool_def) }
  { assume "x_op x = XDR_FREE"
    then show "\<exists>v'. xdr_bool x v = Inr (x, v') \<and> True" by (simp add: xdr_bool_def) }
qed

text \<open>The two halves of a double.\<close>

definition hi_half :: "u64 \<Rightarrow> u32" where
  "hi_half v = ucast (drop_bit 32 v)"

definition lo_half :: "u64 \<Rightarrow> u32" where
  "lo_half v = ucast v"

definition join_halves :: "u32 \<Rightarrow> u32 \<Rightarrow> u64" where
  "join_halves hi lo = push_bit 32 (ucast hi) OR ucast lo"

lemma join_halves [simp]: "join_halves (hi_half v) (lo_half v) = v"
  by (rule bit_word_eqI)
    (auto simp: join_halves_def hi_half_def lo_half_def bit_or_iff bit_push_bit_iff bit_ucast_iff bit_drop_bit_eq)

lemma halves_join [simp]: "hi_half (join_halves h l) = h" "lo_half (join_halves h l) = l"
  by (rule bit_word_eqI, auto simp: join_halves_def hi_half_def lo_half_def bit_or_iff bit_push_bit_iff
      bit_ucast_iff bit_drop_bit_eq dest: bit_imp_le_length)+

definition enc_double :: "u64 \<Rightarrow> byte list" where
  "enc_double v = be32 (hi_half v) @ be32 (lo_half v)"

lemma xdr_double_struct: "xdr_double = xdr_struct
   [xdr_field xdr_u_int hi_half (\<lambda>f v. join_halves (f (hi_half v)) (lo_half v)),
    xdr_field xdr_u_int lo_half (\<lambda>f v. join_halves (hi_half v) (f (lo_half v)))]"
  unfolding xdr_double_def hi_half_def [symmetric] fun_eq_iff
  unfolding lo_half_def [symmetric] join_halves_def [symmetric]
  by (simp add: xdr_field_def cbind_assoc case_prod_beta')

lemma double_codec [xdr_codecs]: "xdr_codec xdr_double (\<lambda>_. True) enc_double (\<lambda>_. True)"
  unfolding xdr_double_struct
  by (rule codec_structI, (rule xdr_steps xdr_codecs | simp add: enc_double_def)+)

subsection \<open>Counted bytes and arrays\<close>

definition ok_vec :: "('a \<Rightarrow> bool) \<Rightarrow> u32 \<Rightarrow> 'a c_vec \<Rightarrow> bool" where
  "ok_vec ok maxsize v \<longleftrightarrow> vec_len v \<le> maxsize \<and> (case vec_val v of
     None \<Rightarrow> vec_len v = 0 | Some es \<Rightarrow> es \<noteq> [] \<and> length es = unat (vec_len v) \<and> list_all ok es)"

text \<open>The bound \<^verbatim>\<open>xdr_array\<close> puts on the number of elements of size \<open>s\<close>.\<close>

definition vec_bound :: "u32 \<Rightarrow> u32 \<Rightarrow> u32" where
  "vec_bound m s = min m (0xffffffff div s)"

definition clean_vec :: "'a c_vec \<Rightarrow> bool" where
  "clean_vec v \<longleftrightarrow> vec_val v = None"

definition enc_opaque :: "byte list \<Rightarrow> byte list" where
  "enc_opaque bs = bs @ replicate (pad (length bs)) 0"

definition enc_bytes :: "byte c_vec \<Rightarrow> byte list" where
  "enc_bytes v = be32 (vec_len v) @ (case vec_val v of None \<Rightarrow> [] | Some bs \<Rightarrow> enc_opaque bs)"

definition enc_vec :: "('a \<Rightarrow> byte list) \<Rightarrow> 'a c_vec \<Rightarrow> byte list" where
  "enc_vec enc v = be32 (vec_len v) @ (case vec_val v of None \<Rightarrow> [] | Some es \<Rightarrow> concat (map enc es))"

lemma ok_vec_cases:
  assumes "ok_vec ok m v"
  obtains "v = Vec 0 None" | n es where "v = Vec n (Some es)" "n \<le> m" "n \<noteq> 0" "es \<noteq> []" "length es = unat n" "list_all ok es"
proof (cases "vec_val v")
  case None
  with assms that(1) show ?thesis by (cases v) (simp add: ok_vec_def)
next
  case (Some es)
  with assms have "es \<noteq> []" "length es = unat (vec_len v)" by (simp_all add: ok_vec_def)
  then have "vec_len v \<noteq> 0" by (metis length_0_conv unat_0)
  with Some assms that(2) [of "vec_len v" es] show ?thesis by (cases v) (simp add: ok_vec_def)
qed

lemma opaque_put_fits:
  assumes "length (enc_opaque bs) \<le> x_room x"
  shows "\<exists>x'. xdr_opaque_put x bs = Inr x' \<and> wrote x (enc_opaque bs) x'"
proof -
  have "length bs \<le> x_room x" using assms by (simp add: enc_opaque_def)
  then obtain y where y: "putbytes x bs = Inr y" "wrote x bs y" using putbytes_fits by blast
  have "pad (length bs) \<le> x_room y" using assms wrote_sel(2) [OF y(2)] by (simp add: enc_opaque_def)
  then obtain z where "putbytes y (replicate (pad (length bs)) 0) = Inr z"
    "wrote y (replicate (pad (length bs)) 0) z" using putbytes_fits [of "replicate (pad (length bs)) 0" y] by auto
  with y show ?thesis
    by (auto simp: xdr_opaque_put_def enc_opaque_def pad_def intro: wrote_trans)
qed

lemma opaque_put_full:
  assumes "x_room x < length (enc_opaque bs)"
  shows "xdr_opaque_put x bs = Inl ReturnsFalse"
proof (cases "x_room x < length bs")
  case True
  then show ?thesis by (auto simp: xdr_opaque_put_def putbytes_full)
next
  case False
  then obtain y where y: "putbytes x bs = Inr y" "wrote x bs y" using putbytes_fits [of bs x] by auto
  have "x_room y < pad (length bs)" using assms False wrote_sel(2) [OF y(2)] by (simp add: enc_opaque_def)
  then have "pad (length bs) \<noteq> 0" "putbytes y (replicate (pad (length bs)) 0) = Inl ReturnsFalse"
    using putbytes_full [of y "replicate (pad (length bs)) 0"] by auto
  with y show ?thesis by (auto simp: xdr_opaque_put_def pad_def)
qed

lemma opaque_get_cases:
  "xdr_opaque_get x n = Inl ReturnsFalse \<and> length (x_in x) < n + pad n \<or>
   (\<exists>x'. xdr_opaque_get x n = Inr (take n (x_in x), x') \<and> consumed x (n + pad n) x')"
proof (cases "length (x_in x) < n")
  case True
  then show ?thesis by (auto simp: xdr_opaque_get_def getbytes_def)
next
  case False
  then obtain y where y: "getbytes x n = Inr (take n (x_in x), y)" "consumed x n y"
    using getbytes_eq [of x n] by auto
  with getbytes_eq [of y "pad n"] consumed_trans [OF y(2), of "pad n"] consumed_sel(2) [OF y(2)] show ?thesis
    by (cases "n = 0"; cases "pad n = 0") (auto simp: xdr_opaque_get_def pad_def)
qed

lemma length_enc_opaque: "length (enc_opaque bs) = length bs + pad (length bs)"
  by (simp add: enc_opaque_def)

text \<open>The length word comes first in both.  These three lemmas read or write it and leave the
  rest to the caller.\<close>

lemmas u_int_laws = xdr_codec.axioms(1) [OF u_int_codec, unfolded xdr_step_def]
lemmas u_int_encoder = u_int_laws [THEN conjunct1]
lemmas u_int_decoder = u_int_laws [THEN conjunct2, THEN conjunct1]

lemma u_int_free [simp]: "x_op x = XDR_FREE \<Longrightarrow> xdr_u_int x v = Inr (x, v)"
  by (simp add: xdr_u_int_def)

lemma bytes_encoder: "xdr_encoder (xdr_bytes m) (ok_vec (\<lambda>_. True) m) enc_bytes"
proof
  fix x :: XDR and v :: "byte c_vec"
  assume x: "x_op x = XDR_ENCODE" and ok: "ok_vec (\<lambda>_. True) m v"
  { assume fits: "length (enc_bytes v) \<le> x_room x"
    then have "length (be32 (vec_len v)) \<le> x_room x" by (simp add: enc_bytes_def)
    from xdr_encoder.encode [OF u_int_encoder x _ this] obtain y where
      y: "xdr_u_int x (vec_len v) = Inr (y, vec_len v)" "wrote x (be32 (vec_len v)) y" by auto
    from ok show "\<exists>x'. xdr_bytes m x v = Inr (x', v) \<and> wrote x (enc_bytes v) x'"
    proof (cases rule: ok_vec_cases)
      case 1
      with y x show ?thesis by (auto simp: xdr_bytes_def enc_bytes_def wrote_sel)
    next
      case (2 n es)
      have "length (enc_opaque es) \<le> x_room y" using fits wrote_sel(2) [OF y(2)] 2 by (simp add: enc_bytes_def)
      with opaque_put_fits obtain z where "xdr_opaque_put y es = Inr z" "wrote y (enc_opaque es) z" by blast
      with 2 y x show ?thesis
        by (auto simp: xdr_bytes_def enc_bytes_def wrote_sel not_less intro: wrote_trans)
    qed }
  { assume full: "x_room x < length (enc_bytes v)"
    show "xdr_bytes m x v = Inl ReturnsFalse"
    proof (cases "x_room x < length (be32 (vec_len v))")
      case True
      from xdr_encoder.encode_full [OF u_int_encoder x _ this] show ?thesis by (simp add: xdr_bytes_def)
    next
      case False
      with xdr_encoder.encode [OF u_int_encoder x, of "vec_len v"] obtain y where
        y: "xdr_u_int x (vec_len v) = Inr (y, vec_len v)" "wrote x (be32 (vec_len v)) y" by auto
      from ok show ?thesis
      proof (cases rule: ok_vec_cases)
        case 1
        with full False show ?thesis by (simp add: enc_bytes_def)
      next
        case (2 n es)
        have "x_room y < length (enc_opaque es)" using full False wrote_sel(2) [OF y(2)] 2 by (simp add: enc_bytes_def)
        with opaque_put_full [of y es] 2 y x show ?thesis by (auto simp: xdr_bytes_def wrote_sel not_less)
      qed
    qed }
qed

lemma bytes_decoder: "xdr_decoder (xdr_bytes m) (ok_vec (\<lambda>_. True) m) enc_bytes clean_vec (\<lambda>v d. v)
    (\<lambda>d d'. ok_vec (\<lambda>_. True) m d')"
proof
  fix x :: XDR and v d :: "byte c_vec" and rest bs
  assume x: "x_op x = XDR_DECODE" and cl: "clean_vec d"
  then have d: "vec_val d = None" by (simp add: clean_vec_def)
  { assume ok: "ok_vec (\<lambda>_. True) m v" and inp: "x_in x = enc_bytes v @ rest"
    then obtain r where "x_in x = be32 (vec_len v) @ r" by (simp add: enc_bytes_def)
    with xdr_decoder.decode [OF u_int_decoder x, where v = "vec_len v" and d = "vec_len d" and rest = r] obtain y where
      y: "xdr_u_int x (vec_len d) = Inr (y, vec_len v)" "consumed x 4 y" by auto
    from ok show "\<exists>x'. xdr_bytes m x d = Inr (x', v) \<and> consumed x (length (enc_bytes v)) x'"
    proof (cases rule: ok_vec_cases)
      case 1
      with y x d show ?thesis by (auto simp: xdr_bytes_def enc_bytes_def consumed_sel)
    next
      case (2 n es)
      have "x_in y = enc_opaque es @ rest" using inp 2 consumed_sel(2) [OF y(2)] by (simp add: enc_bytes_def)
      with opaque_get_cases [of y "length es"] obtain z where "xdr_opaque_get y (length es) = Inr (es, z)"
        "consumed y (length es + pad (length es)) z" by (auto simp: length_enc_opaque enc_opaque_def)
      with 2 y x d consumed_trans [OF y(2), of "length es + pad (length es)" z] show ?thesis
        by (auto simp: xdr_bytes_def enc_bytes_def consumed_sel length_enc_opaque not_less)
    qed }
  { assume ok: "ok_vec (\<lambda>_. True) m v" and inp: "enc_bytes v = x_in x @ bs" and bs: "bs \<noteq> []"
    have short: "length (x_in x) < length (enc_bytes v)" using inp bs by simp
    show "xdr_bytes m x d = Inl ReturnsFalse"
    proof (cases "length (x_in x) < 4")
      case True
      with x show ?thesis by (simp add: xdr_bytes_def xdr_u_int_def getbytes_def)
    next
      case False
      have "take 4 (x_in x @ bs) = take 4 (enc_bytes v)" using inp by simp
      then have "take 4 (x_in x) = be32 (vec_len v)" using False by (simp add: enc_bytes_def)
      then have r: "x_in x = be32 (vec_len v) @ drop 4 (x_in x)" by (metis append_take_drop_id)
      obtain y where y: "xdr_u_int x (vec_len d) = Inr (y, vec_len v)" "consumed x 4 y"
        using xdr_decoder.decode [OF u_int_decoder x TrueI TrueI r] unfolding length_be32 by blast
      from ok show ?thesis
      proof (cases rule: ok_vec_cases)
        case 1
        with short False show ?thesis by (simp add: enc_bytes_def)
      next
        case (2 n es)
        then have "length (x_in y) < length es + pad (length es)"
          using short False consumed_sel(2) [OF y(2)] by (simp add: enc_bytes_def length_enc_opaque)
        with opaque_get_cases [of y "length es"] have "xdr_opaque_get y (length es) = Inl ReturnsFalse"
          by (auto simp: consumed_def)
        with 2 y x d show ?thesis by (auto simp: xdr_bytes_def consumed_sel not_less)
      qed
    qed }
  show "xdr_bytes m x d = Inl ReturnsFalse \<or>
      (\<exists>x' d' n. xdr_bytes m x d = Inr (x', d') \<and> consumed x n x' \<and> ok_vec (\<lambda>_. True) m d')"
  proof (cases "xdr_u_int x (vec_len d) = Inl ReturnsFalse")
    case True
    then show ?thesis by (simp add: xdr_bytes_def)
  next
    case False
    with xdr_decoder.decode_total [OF u_int_decoder x, of "vec_len d"] obtain y n k where
      y: "xdr_u_int x (vec_len d) = Inr (y, n)" "consumed x k y" by auto
    show ?thesis
    proof (cases "m < n \<or> n = 0")
      case True
      with y x d show ?thesis by (auto simp: xdr_bytes_def consumed_sel ok_vec_def)
    next
      case False
      then have n: "unat n \<noteq> 0" by (simp add: unat_eq_0)
      from opaque_get_cases [of y "unat n"] show ?thesis
      proof
        assume "xdr_opaque_get y (unat n) = Inl ReturnsFalse \<and> length (x_in y) < unat n + pad (unat n)"
        with False y x d show ?thesis by (auto simp: xdr_bytes_def consumed_sel)
      next
        assume "\<exists>x'. xdr_opaque_get y (unat n) = Inr (take (unat n) (x_in y), x') \<and> consumed y (unat n + pad (unat n)) x'"
        then obtain z where z: "xdr_opaque_get y (unat n) = Inr (take (unat n) (x_in y), z)"
          "consumed y (unat n + pad (unat n)) z" by blast
        then have "unat n \<le> length (x_in y)" by (simp add: consumed_def)
        with n have "ok_vec (\<lambda>_. True) m (Vec n (Some (take (unat n) (x_in y))))"
          using False by (auto simp: ok_vec_def list_all_iff)
        moreover have "xdr_bytes m x d = Inr (z, Vec n (Some (take (unat n) (x_in y))))"
          using z False y x d by (auto simp: xdr_bytes_def consumed_sel)
        ultimately show ?thesis using consumed_trans [OF y(2) z(2)] by blast
      qed
    qed
  qed
qed

lemma bytes_codec [xdr_codecs]: "xdr_codec (xdr_bytes m) (ok_vec (\<lambda>_. True) m) enc_bytes clean_vec"
  unfolding xdr_codec_def xdr_step_def
proof (intro conjI bytes_encoder bytes_decoder)
  show "xdr_freer (xdr_bytes m) (ok_vec (\<lambda>_. True) m) (\<lambda>v v'. clean_vec v')"
    by unfold_locales (auto simp: xdr_bytes_def clean_vec_def)
qed

context xdr_codec
begin

lemma elems_encode:
  "x_op x = XDR_ENCODE \<Longrightarrow> list_all ok es \<Longrightarrow> length (concat (map enc es)) \<le> x_room x \<Longrightarrow>
    \<exists>x'. xdr_elems proc x es = Inr (x', es) \<and> wrote x (concat (map enc es)) x'"
proof (induction es arbitrary: x)
  case Nil
  then show ?case by auto
next
  case (Cons e es)
  then obtain y where y: "proc x e = Inr (y, e)" "wrote x (enc e) y" using encode [of x e] by auto
  have "length (concat (map enc es)) \<le> x_room y" "x_op y = XDR_ENCODE"
    using Cons.prems wrote_sel [OF y(2)] by (simp_all del: length_concat map_map)
  with Cons.IH [of y] Cons.prems(2) obtain z where "xdr_elems proc y es = Inr (z, es)"
    "wrote y (concat (map enc es)) z" by auto
  with y show ?case by (auto intro: wrote_trans)
qed

lemma elems_encode_full:
  "x_op x = XDR_ENCODE \<Longrightarrow> list_all ok es \<Longrightarrow> x_room x < length (concat (map enc es)) \<Longrightarrow>
    xdr_elems proc x es = Inl ReturnsFalse"
proof (induction es arbitrary: x)
  case Nil
  then show ?case by simp
next
  case (Cons e es)
  show ?case
  proof (cases "x_room x < length (enc e)")
    case True
    with Cons.prems encode_full [of x e] show ?thesis by simp
  next
    case False
    with Cons.prems encode [of x e] obtain y where y: "proc x e = Inr (y, e)" "wrote x (enc e) y" by auto
    have "x_room y < length (concat (map enc es))" "x_op y = XDR_ENCODE"
      using False Cons.prems wrote_sel [OF y(2)] by (simp_all del: length_concat map_map)
    with Cons.IH [of y] Cons.prems(2) y show ?thesis by simp
  qed
qed

lemma elems_decode:
  "x_op x = XDR_DECODE \<Longrightarrow> list_all ok es \<Longrightarrow> clean z \<Longrightarrow> x_in x = concat (map enc es) @ rest \<Longrightarrow>
    \<exists>x'. xdr_elems proc x (replicate (length es) z) = Inr (x', es) \<and> consumed x (length (concat (map enc es))) x'"
proof (induction es arbitrary: x)
  case Nil
  then show ?case by auto
next
  case (Cons e es)
  then obtain y where y: "proc x z = Inr (y, e)" "consumed x (length (enc e)) y"
    using decode [of x e z "concat (map enc es) @ rest"] by auto
  have "x_in y = concat (map enc es) @ rest" "x_op y = XDR_DECODE"
    using Cons.prems consumed_sel [OF y(2)] by simp_all
  with Cons.IH [of y] Cons.prems(2,3) obtain x' where
    "xdr_elems proc y (replicate (length es) z) = Inr (x', es)" "consumed y (length (concat (map enc es))) x'" by auto
  with y consumed_trans [OF y(2)] show ?case by auto
qed

lemma elems_decode_short:
  "x_op x = XDR_DECODE \<Longrightarrow> list_all ok es \<Longrightarrow> clean z \<Longrightarrow> concat (map enc es) = x_in x @ bs \<Longrightarrow> bs \<noteq> [] \<Longrightarrow>
    xdr_elems proc x (replicate (length es) z) = Inl ReturnsFalse"
proof (induction es arbitrary: x)
  case Nil
  then show ?case by simp
next
  case (Cons e es)
  then obtain us where "enc e = x_in x @ us \<and> us @ concat (map enc es) = bs \<or>
      x_in x = enc e @ us \<and> concat (map enc es) = us @ bs"
    unfolding list.map concat.simps append_eq_append_conv2 by metis
  then consider "enc e = x_in x @ us" "us \<noteq> []" | ws where "x_in x = enc e @ ws" "concat (map enc es) = ws @ bs"
    by (cases "us = []") auto
  then show ?case
  proof cases
    case 1
    with decode_short [of x e z us] Cons.prems show ?thesis by simp
  next
    case 2
    with decode [of x e z ws] Cons.prems obtain y where y: "proc x z = Inr (y, e)" "consumed x (length (enc e)) y" by auto
    have "x_in y = ws" "x_op y = XDR_DECODE" using 2 Cons.prems consumed_sel [OF y(2)] by simp_all
    with Cons.IH [of y] 2 Cons.prems y show ?thesis by simp
  qed
qed

lemma elems_decode_total:
  "x_op x = XDR_DECODE \<Longrightarrow> clean z \<Longrightarrow> xdr_elems proc x (replicate n z) = Inl ReturnsFalse \<or>
    (\<exists>x' es k. xdr_elems proc x (replicate n z) = Inr (x', es) \<and> consumed x k x' \<and> length es = n \<and> list_all ok es)"
proof (induction n arbitrary: x)
  case 0
  show ?case by (auto intro: exI [of _ "0::nat"])
next
  case (Suc n)
  show ?case
  proof (cases "proc x z = Inl ReturnsFalse")
    case True
    then show ?thesis by simp
  next
    case False
    with decode_total [OF Suc.prems] obtain y e k where y: "proc x z = Inr (y, e)" "consumed x k y" "ok e" by blast
    have "x_op y = XDR_DECODE" using Suc.prems consumed_sel [OF y(2)] by simp
    from Suc.IH [OF this Suc.prems(2)] show ?thesis
    proof (elim disjE exE conjE)
      fix x' es j assume es: "xdr_elems proc y (replicate n z) = Inr (x', es)" "consumed y j x'" "length es = n"
        "list_all ok es"
      then have "xdr_elems proc x (replicate (Suc n) z) = Inr (x', e # es)" using y by simp
      moreover have "length (e # es) = Suc n" "list_all ok (e # es)" using es y by simp_all
      ultimately show ?thesis using consumed_trans [OF y(2) es(2)] by blast
    qed (simp add: y)
  qed
qed

lemma elems_free:
  "x_op x = XDR_FREE \<Longrightarrow> list_all ok es \<Longrightarrow> \<exists>es'. xdr_elems proc x es = Inr (x, es')"
proof (induction es)
  case (Cons e es)
  then show ?case using free [of x e] by fastforce
qed simp

end

text \<open>The length word of an array.\<close>

lemma len_encode:
  assumes "x_op x = XDR_ENCODE"
  obtains "x_room x < 4" "xdr_u_int x n = Inl ReturnsFalse"
  | y where "4 \<le> x_room x" "xdr_u_int x n = Inr (y, n)" "wrote x (be32 n) y" "x_op y = XDR_ENCODE" "x_room y = x_room x - 4"
proof (cases "x_room x < 4")
  case True
  with xdr_encoder.encode_full [OF u_int_encoder assms, of n] that(1) show ?thesis by simp
next
  case False
  with xdr_encoder.encode [OF u_int_encoder assms, of n] obtain y where
    "xdr_u_int x n = Inr (y, n)" "wrote x (be32 n) y" by auto
  with False that(2) [of y] assms show ?thesis by (simp add: wrote_sel)
qed

lemma len_decode:
  assumes "x_op x = XDR_DECODE" and "take 4 (x_in x) = be32 n"
  obtains y where "xdr_u_int x l = Inr (y, n)" "consumed x 4 y" "x_op y = XDR_DECODE" "x_in y = drop 4 (x_in x)"
proof -
  have "x_in x = be32 n @ drop 4 (x_in x)" by (metis append_take_drop_id assms(2))
  from xdr_decoder.decode [OF u_int_decoder assms(1) TrueI TrueI this]
  obtain y where "xdr_u_int x l = Inr (y, n)" "consumed x 4 y" unfolding length_be32 by blast
  with that assms(1) show ?thesis by (simp add: consumed_sel)
qed

lemma array_encoder:
  assumes c: "xdr_codec p ok enc clean"
  shows "xdr_encoder (xdr_array m s zero p) (ok_vec ok (vec_bound m s)) (enc_vec enc)"
proof
  fix x :: XDR and v
  assume x: "x_op x = XDR_ENCODE" and ok: "ok_vec ok (vec_bound m s) v"
  have len: "vec_len v \<le> m" "vec_len v \<le> 0xffffffff div s" using ok by (auto simp: ok_vec_def vec_bound_def)
  show "\<exists>x'. xdr_array m s zero p x v = Inr (x', v) \<and> wrote x (enc_vec enc v) x'"
    if fits: "length (enc_vec enc v) \<le> x_room x"
  proof (rule len_encode [OF x, of "vec_len v"])
    assume "x_room x < 4"
    with fits show ?thesis by (simp add: enc_vec_def)
  next
    fix y assume y: "xdr_u_int x (vec_len v) = Inr (y, vec_len v)" "wrote x (be32 (vec_len v)) y"
      "x_op y = XDR_ENCODE" "x_room y = x_room x - 4"
    from ok show ?thesis
    proof (cases rule: ok_vec_cases)
      case 1
      with y len show ?thesis by (auto simp: xdr_array_def enc_vec_def not_less)
    next
      case (2 n es)
      have "length (concat (map enc es)) \<le> x_room y" using fits 2 y(4) by (simp add: enc_vec_def)
      with xdr_codec.elems_encode [OF c y(3) 2(6)] obtain z where
        z: "xdr_elems p y es = Inr (z, es)" "wrote y (concat (map enc es)) z" by blast
      have "xdr_array m s zero p x v = Inr (z, v)"
        using 2 y z len wrote_sel(1) [OF z(2)] by (simp add: xdr_array_def not_less)
      with wrote_trans [OF y(2) z(2)] 2 show ?thesis by (simp add: enc_vec_def)
    qed
  qed
  show "xdr_array m s zero p x v = Inl ReturnsFalse" if full: "x_room x < length (enc_vec enc v)"
  proof (rule len_encode [OF x, of "vec_len v"])
    assume "xdr_u_int x (vec_len v) = Inl ReturnsFalse"
    then show ?thesis by (simp add: xdr_array_def)
  next
    fix y assume y: "4 \<le> x_room x" "xdr_u_int x (vec_len v) = Inr (y, vec_len v)"
      "x_op y = XDR_ENCODE" "x_room y = x_room x - 4"
    from ok show ?thesis
    proof (cases rule: ok_vec_cases)
      case 1
      with y full show ?thesis by (simp add: enc_vec_def)
    next
      case (2 n es)
      have "x_room y < length (concat (map enc es))" using full 2 y by (simp add: enc_vec_def)
      from xdr_codec.elems_encode_full [OF c y(3) 2(6) this] 2 y len show ?thesis
        by (simp add: xdr_array_def not_less)
    qed
  qed
qed

lemma array_decoder:
  fixes p :: "'a xdrproc"
  assumes c: "xdr_codec p ok enc clean" and z: "clean zero"
  shows "xdr_decoder (xdr_array m s zero p) (ok_vec ok (vec_bound m s)) (enc_vec enc) clean_vec (\<lambda>v d. v) (\<lambda>d d'. ok_vec ok (vec_bound m s) d')"
proof
  fix x :: XDR and d :: "'a c_vec" assume x: "x_op x = XDR_DECODE" and "clean_vec d"
  then have d: "vec_val d = None" by (simp add: clean_vec_def)
  { fix v rest assume ok: "ok_vec ok (vec_bound m s) v" and inp: "x_in x = enc_vec enc v @ rest"
    have len: "vec_len v \<le> m" "vec_len v \<le> 0xffffffff div s" using ok by (auto simp: ok_vec_def vec_bound_def)
    have "take 4 (x_in x) = be32 (vec_len v)" using inp by (simp add: enc_vec_def)
    then obtain y where y: "xdr_u_int x (vec_len d) = Inr (y, vec_len v)" "consumed x 4 y" "x_op y = XDR_DECODE"
      "x_in y = drop 4 (x_in x)" by (rule len_decode [OF x])
    from ok show "\<exists>x'. xdr_array m s zero p x d = Inr (x', v) \<and> consumed x (length (enc_vec enc v)) x'"
    proof (cases rule: ok_vec_cases)
      case 1
      with y d len show ?thesis by (auto simp: xdr_array_def enc_vec_def not_less)
    next
      case (2 n es)
      have "x_in y = concat (map enc es) @ rest" using inp 2 y(4) by (simp add: enc_vec_def)
      with xdr_codec.elems_decode [OF c y(3) 2(6) z] obtain w where
        w: "xdr_elems p y (replicate (length es) zero) = Inr (w, es)" "consumed y (length (concat (map enc es))) w"
        by blast
      have "xdr_array m s zero p x d = Inr (w, v)" using 2 y w d len by (simp add: xdr_array_def not_less)
      with consumed_trans [OF y(2) w(2)] 2 show ?thesis by (simp add: enc_vec_def)
    qed }
  { fix v bs assume ok: "ok_vec ok (vec_bound m s) v" and inp: "enc_vec enc v = x_in x @ bs" and bs: "bs \<noteq> []"
    have len: "vec_len v \<le> m" "vec_len v \<le> 0xffffffff div s" using ok by (auto simp: ok_vec_def vec_bound_def)
    show "xdr_array m s zero p x d = Inl ReturnsFalse"
    proof (cases "length (x_in x) < 4")
      case True
      with x show ?thesis by (simp add: xdr_array_def xdr_u_int_def getbytes_def)
    next
      case False
      have "take 4 (x_in x @ bs) = take 4 (enc_vec enc v)" using inp by simp
      then have "take 4 (x_in x) = be32 (vec_len v)" using False by (simp add: enc_vec_def)
      then obtain y where y: "xdr_u_int x (vec_len d) = Inr (y, vec_len v)" "x_op y = XDR_DECODE"
        "x_in y = drop 4 (x_in x)" by (rule len_decode [OF x])
      have "drop 4 (x_in x @ bs) = drop 4 (enc_vec enc v)" using inp by simp
      then have rest: "x_in y @ bs = drop 4 (enc_vec enc v)" using False y(3) by simp
      from ok show ?thesis
      proof (cases rule: ok_vec_cases)
        case 1
        with rest bs show ?thesis by (simp add: enc_vec_def)
      next
        case (2 n es)
        then have "concat (map enc es) = x_in y @ bs" using rest by (simp add: enc_vec_def)
        from xdr_codec.elems_decode_short [OF c y(2) 2(6) z this bs] 2 y d len show ?thesis
          by (simp add: xdr_array_def not_less)
      qed
    qed }
  show "xdr_array m s zero p x d = Inl ReturnsFalse \<or> (\<exists>x' d' n. xdr_array m s zero p x d = Inr (x', d') \<and>
      consumed x n x' \<and> ok_vec ok (vec_bound m s) d')"
  proof (cases "xdr_u_int x (vec_len d) = Inl ReturnsFalse")
    case True
    then show ?thesis by (simp add: xdr_array_def)
  next
    case False
    with xdr_decoder.decode_total [OF u_int_decoder x, of "vec_len d"] obtain y n k where
      y: "xdr_u_int x (vec_len d) = Inr (y, n)" "consumed x k y" by auto
    then have yop: "x_op y = XDR_DECODE" using x by (simp add: consumed_sel)
    consider "m < n \<or> 0xffffffff div s < n" | "n = 0" "n \<le> vec_bound m s" | "n \<noteq> 0" "n \<le> m" "n \<le> 0xffffffff div s" "n \<le> vec_bound m s"
      unfolding vec_bound_def by fastforce
    then show ?thesis
    proof cases
      case 1
      with y yop show ?thesis by (simp add: xdr_array_def)
    next
      case 2
      then have "xdr_array m s zero p x d = Inr (y, Vec 0 None)" using y yop d by (simp add: xdr_array_def)
      moreover have "ok_vec ok (vec_bound m s) (Vec 0 None)" by (simp add: ok_vec_def)
      ultimately show ?thesis using y(2) by blast
    next
      case 3
      from xdr_codec.elems_decode_total [OF c yop z, of "unat n"] show ?thesis
      proof (elim disjE exE conjE)
        assume "xdr_elems p y (replicate (unat n) zero) = Inl ReturnsFalse"
        with 3 y yop d show ?thesis by (simp add: xdr_array_def)
      next
        fix w es j assume w: "xdr_elems p y (replicate (unat n) zero) = Inr (w, es)" "consumed y j w"
          "length es = unat n" "list_all ok es"
        then have "xdr_array m s zero p x d = Inr (w, Vec n (Some es))"
          using 3 y yop d by (simp add: xdr_array_def not_less)
        moreover have "ok_vec ok (vec_bound m s) (Vec n (Some es))" using 3 w by (auto simp: ok_vec_def unat_eq_0)
        ultimately show ?thesis using consumed_trans [OF y(2) w(2)] by blast
      qed
    qed
  qed
qed

lemma array_codec [xdr_codecs]:
  assumes c: "xdr_codec p ok enc clean" and z: "clean zero"
  shows "xdr_codec (xdr_array m s zero p) (ok_vec ok (vec_bound m s)) (enc_vec enc) clean_vec"
  unfolding xdr_codec_def xdr_step_def
proof (intro conjI array_encoder [OF c] array_decoder [OF c z])
  show "xdr_freer (xdr_array m s zero p) (ok_vec ok (vec_bound m s)) (\<lambda>v v'. clean_vec v')"
  proof
    fix x :: XDR and v assume x: "x_op x = XDR_FREE" and "ok_vec ok (vec_bound m s) v"
    from this(2) show "\<exists>v'. xdr_array m s zero p x v = Inr (x, v') \<and> clean_vec v'"
    proof (cases rule: ok_vec_cases)
      case 1
      with x show ?thesis by (simp add: xdr_array_def clean_vec_def)
    next
      case (2 n es)
      with xdr_codec.elems_free [OF c x 2(6)] x show ?thesis by (auto simp: xdr_array_def clean_vec_def)
    qed
  qed
qed

subsection \<open>Pointers and unions\<close>

definition enc_pointer :: "('a \<Rightarrow> byte list) \<Rightarrow> 'a option \<Rightarrow> byte list" where
  "enc_pointer enc p = enc_bool (p \<noteq> None) @ (case p of None \<Rightarrow> [] | Some v \<Rightarrow> enc v)"

lemma length_enc_bool [simp]: "length (enc_bool b) = 4"
  by (simp add: enc_bool_def)

lemma enc_bool_inject [simp]: "enc_bool a = enc_bool b \<longleftrightarrow> a = b"
proof
  assume "enc_bool a = enc_bool b"
  then have "from_be32 (enc_bool a) = from_be32 (enc_bool b)" by simp
  then show "a = b" by (simp add: enc_bool_def split: if_splits)
qed simp

lemma bool_encode:
  assumes "x_op x = XDR_ENCODE"
  obtains "x_room x < 4" "xdr_bool x b = Inl ReturnsFalse"
  | y where "4 \<le> x_room x" "xdr_bool x b = Inr (y, b)" "wrote x (enc_bool b) y" "x_op y = XDR_ENCODE" "x_room y = x_room x - 4"
proof (cases "x_room x < 4")
  case True
  with that(1) assms show ?thesis by (simp add: xdr_bool_def putbytes_full)
next
  case False
  with putbytes_fits [of "enc_bool b" x] obtain y where "putbytes x (enc_bool b) = Inr y" "wrote x (enc_bool b) y" by auto
  with False that(2) [of y] assms show ?thesis by (simp add: xdr_bool_def enc_bool_def wrote_sel)
qed

lemma bool_decode:
  assumes "x_op x = XDR_DECODE"
  obtains "length (x_in x) < 4" "xdr_bool x b = Inl ReturnsFalse"
  | y where "4 \<le> length (x_in x)" "xdr_bool x b = Inr (y, from_be32 (take 4 (x_in x)) \<noteq> 0)" "consumed x 4 y"
    "x_op y = XDR_DECODE" "x_in y = drop 4 (x_in x)"
proof (cases "length (x_in x) < 4")
  case True
  with that(1) assms show ?thesis by (simp add: xdr_bool_def getbytes_def)
next
  case False
  with getbytes_eq [of x 4] obtain y where "getbytes x 4 = Inr (take 4 (x_in x), y)" "consumed x 4 y" by auto
  with False that(2) [of y] assms show ?thesis by (simp add: xdr_bool_def consumed_sel)
qed

lemma from_enc_bool [simp]: "from_be32 (enc_bool b) = (if b then 1 else 0)"
  by (simp add: enc_bool_def)

lemma pointer_encoder:
  assumes c: "xdr_codec p ok enc clean"
  shows "xdr_encoder (xdr_pointer zero p) (pred_option ok) (enc_pointer enc)"
proof
  fix x :: XDR and v
  assume x: "x_op x = XDR_ENCODE" and ok: "pred_option ok v"
  from c have p: "xdr_encoder p ok enc" by (simp add: xdr_codec_def xdr_step_def)
  show "\<exists>x'. xdr_pointer zero p x v = Inr (x', v) \<and> wrote x (enc_pointer enc v) x'"
    if fits: "length (enc_pointer enc v) \<le> x_room x"
  proof (rule bool_encode [OF x, of "v \<noteq> None"])
    assume "x_room x < 4"
    with fits show ?thesis by (simp add: enc_pointer_def)
  next
    fix y assume y: "xdr_bool x (v \<noteq> None) = Inr (y, v \<noteq> None)" "wrote x (enc_bool (v \<noteq> None)) y"
      "x_op y = XDR_ENCODE" "x_room y = x_room x - 4"
    show ?thesis
    proof (cases v)
      case None
      with y show ?thesis by (simp add: xdr_pointer_def enc_pointer_def)
    next
      case (Some a)
      have "length (enc a) \<le> x_room y" using fits Some y(4) by (simp add: enc_pointer_def)
      with xdr_encoder.encode [OF p y(3)] ok Some obtain z where z: "p y a = Inr (z, a)" "wrote y (enc a) z" by auto
      then have "xdr_pointer zero p x v = Inr (z, v)"
        using Some y wrote_sel(1) [OF z(2)] by (simp add: xdr_pointer_def xdr_reference_def)
      with wrote_trans [OF y(2) z(2)] Some show ?thesis by (simp add: enc_pointer_def)
    qed
  qed
  show "xdr_pointer zero p x v = Inl ReturnsFalse" if full: "x_room x < length (enc_pointer enc v)"
  proof (rule bool_encode [OF x, of "v \<noteq> None"])
    assume "xdr_bool x (v \<noteq> None) = Inl ReturnsFalse"
    then show ?thesis by (simp add: xdr_pointer_def)
  next
    fix y assume y: "4 \<le> x_room x" "xdr_bool x (v \<noteq> None) = Inr (y, v \<noteq> None)"
      "x_op y = XDR_ENCODE" "x_room y = x_room x - 4"
    show ?thesis
    proof (cases v)
      case None
      with y full show ?thesis by (simp add: enc_pointer_def)
    next
      case (Some a)
      have "x_room y < length (enc a)" using full Some y by (simp add: enc_pointer_def)
      with xdr_encoder.encode_full [OF p y(3)] ok Some y show ?thesis
        by (simp add: xdr_pointer_def xdr_reference_def)
    qed
  qed
qed

lemma pointer_decoder:
  fixes p :: "'a xdrproc"
  assumes c: "xdr_codec p ok enc clean" and zero: "clean zero"
  shows "xdr_decoder (xdr_pointer zero p) (pred_option ok) (enc_pointer enc) (\<lambda>d. d = None) (\<lambda>v d. v)
    (\<lambda>d d'. pred_option ok d')"
proof
  fix x :: XDR and d :: "'a option" assume x: "x_op x = XDR_DECODE" and d: "d = None"
  from c have p: "xdr_decoder p ok enc clean (\<lambda>v d. v) (\<lambda>d d'. ok d')" by (simp add: xdr_codec_def xdr_step_def)
  { fix v rest assume ok: "pred_option ok v" and inp: "x_in x = enc_pointer enc v @ rest"
    show "\<exists>x'. xdr_pointer zero p x d = Inr (x', v) \<and> consumed x (length (enc_pointer enc v)) x'"
    proof (rule bool_decode [OF x, of "d \<noteq> None"])
      assume "length (x_in x) < 4"
      with inp show ?thesis by (simp add: enc_pointer_def)
    next
      fix y assume y: "xdr_bool x (d \<noteq> None) = Inr (y, from_be32 (take 4 (x_in x)) \<noteq> 0)" "consumed x 4 y"
        "x_op y = XDR_DECODE" "x_in y = drop 4 (x_in x)"
      then have b: "xdr_bool x (d \<noteq> None) = Inr (y, v \<noteq> None)" using inp by (simp add: enc_pointer_def)
      show ?thesis
      proof (cases v)
        case None
        with y b show ?thesis by (simp add: xdr_pointer_def enc_pointer_def)
      next
        case (Some a)
        have "x_in y = enc a @ rest" using inp Some y(4) by (simp add: enc_pointer_def)
        with xdr_decoder.decode [OF p y(3) _ zero, of a rest] ok Some obtain w where
          w: "p y zero = Inr (w, a)" "consumed y (length (enc a)) w" by auto
        with consumed_trans [OF y(2) w(2)] Some b d y(3) show ?thesis
          by (simp add: xdr_pointer_def xdr_reference_def enc_pointer_def)
      qed
    qed }
  { fix v bs assume ok: "pred_option ok v" and inp: "enc_pointer enc v = x_in x @ bs" and bs: "bs \<noteq> []"
    show "xdr_pointer zero p x d = Inl ReturnsFalse"
    proof (rule bool_decode [OF x, of "d \<noteq> None"])
      assume "xdr_bool x (d \<noteq> None) = Inl ReturnsFalse"
      then show ?thesis by (simp add: xdr_pointer_def)
    next
      fix y assume y: "4 \<le> length (x_in x)" "xdr_bool x (d \<noteq> None) = Inr (y, from_be32 (take 4 (x_in x)) \<noteq> 0)"
        "x_op y = XDR_DECODE" "x_in y = drop 4 (x_in x)"
      have "take 4 (x_in x @ bs) = take 4 (enc_pointer enc v)" "drop 4 (x_in x @ bs) = drop 4 (enc_pointer enc v)"
        using inp by simp_all
      then have t: "take 4 (x_in x) = enc_bool (v \<noteq> None)" and
        r: "x_in y @ bs = (case v of None \<Rightarrow> [] | Some a \<Rightarrow> enc a)" using y by (simp_all add: enc_pointer_def)
      show ?thesis
      proof (cases v)
        case None
        with r bs show ?thesis by simp
      next
        case (Some a)
        with r have "enc a = x_in y @ bs" by simp
        from xdr_decoder.decode_short [OF p y(3) _ zero this bs] ok Some t y(2,3) d show ?thesis
          by (simp add: xdr_pointer_def xdr_reference_def)
      qed
    qed }
  show "xdr_pointer zero p x d = Inl ReturnsFalse \<or> (\<exists>x' d' n. xdr_pointer zero p x d = Inr (x', d') \<and>
      consumed x n x' \<and> pred_option ok d')"
  proof (rule bool_decode [OF x, of "d \<noteq> None"])
    assume "xdr_bool x (d \<noteq> None) = Inl ReturnsFalse"
    then show ?thesis by (simp add: xdr_pointer_def)
  next
    fix y assume y: "xdr_bool x (d \<noteq> None) = Inr (y, from_be32 (take 4 (x_in x)) \<noteq> 0)" "consumed x 4 y"
      "x_op y = XDR_DECODE"
    show ?thesis
    proof (cases "from_be32 (take 4 (x_in x)) = 0")
      case True
      with y have "xdr_pointer zero p x d = Inr (y, None)" by (simp add: xdr_pointer_def)
      with y(2) show ?thesis by fastforce
    next
      case False
      with y d have eq: "xdr_pointer zero p x d = cbind (p y zero) (\<lambda>(x, v). Inr (x, Some v))"
        by (simp add: xdr_pointer_def xdr_reference_def)
      from xdr_decoder.decode_total [OF p y(3) zero] show ?thesis
      proof (elim disjE exE conjE)
        fix w a n assume w: "p y zero = Inr (w, a)" "consumed y n w" "ok a"
        then have "xdr_pointer zero p x d = Inr (w, Some a)" "pred_option ok (Some a)" using eq by simp_all
        with consumed_trans [OF y(2) w(2)] show ?thesis by blast
      qed (simp add: eq)
    qed
  qed
qed

lemma pointer_codec [xdr_codecs]:
  assumes c: "xdr_codec p ok enc clean" and zero: "clean zero"
  shows "xdr_codec (xdr_pointer zero p) (pred_option ok) (enc_pointer enc) (\<lambda>d. d = None)"
  unfolding xdr_codec_def xdr_step_def
proof (intro conjI pointer_encoder [OF c] pointer_decoder [OF c zero])
  show "xdr_freer (xdr_pointer zero p) (pred_option ok) (\<lambda>v v'. v' = None)"
  proof
    fix x :: XDR and v assume x: "x_op x = XDR_FREE" and ok: "pred_option ok v"
    from c have p: "xdr_freer p ok (\<lambda>v v'. clean v')" by (simp add: xdr_codec_def xdr_step_def)
    show "\<exists>v'. xdr_pointer zero p x v = Inr (x, v') \<and> v' = None"
      using xdr_freer.free [OF p x, of "the v"] ok x
      by (cases v) (auto simp: xdr_pointer_def xdr_bool_def xdr_reference_def)
  qed
qed

text \<open>A union of an \<^verbatim>\<open>errno\<close> and a field that is present when it is 0.\<close>

lemma union_codec:
  fixes get :: "'r \<Rightarrow> u32" and upd :: "(u32 \<Rightarrow> u32) \<Rightarrow> 'r \<Rightarrow> 'r" and getr :: "'r \<Rightarrow> 'a option"
  assumes c: "xdr_codec p ok enc (\<lambda>q. q = None)"
    and lens: "\<And>v. upd (\<lambda>_. get v) v = v" "\<And>f v. get (upd f v) = f (get v)" "\<And>f v. getr (upd f v) = getr v"
      "\<And>v. updr (\<lambda>_. getr v) v = v" "\<And>f v. getr (updr f v) = f (getr v)" "\<And>f v. get (updr f v) = get v"
      "\<And>v d. updr (\<lambda>_. getr v) (upd (\<lambda>_. get v) d) = v"
  shows "xdr_codec (xdr_union get upd (xdr_field p getr updr))
    (\<lambda>v. if get v = 0 then ok (getr v) else getr v = None)
    (\<lambda>v. be32 (get v) @ (if get v = 0 then enc (getr v) else [])) (\<lambda>d. getr d = None)"
  (is "xdr_codec ?p ?ok ?enc ?clean")
proof
  note errE = encoder_field [where get = get and upd = upd, OF int_codec lens(1)]
  note errD = decoder_field [where get = get and upd = upd, OF int_codec]
  note retE = encoder_field [where get = getr and upd = updr, OF c lens(4)]
  note retD = decoder_field [where get = getr and upd = updr, OF c]
  let ?e = "xdr_field xdr_int get upd" and ?r = "xdr_field p getr updr"
  have none: "upd (\<lambda>_. get v) d = v" if "getr v = getr d" for v d
    using lens(7) [of v d] lens(4) [of "upd (\<lambda>_. get v) d"] that by (simp add: lens)
  note both = encoder_Cons [OF errE encoder_Cons [OF retE encoder_Nil]]
  fix x :: XDR
  { fix v assume x: "x_op x = XDR_ENCODE" and ok: "?ok v"
    show "\<exists>x'. ?p x v = Inr (x', v) \<and> wrote x (?enc v) x'" if "length (?enc v) \<le> x_room x"
      using xdr_encoder.encode [OF both x, of v] xdr_encoder.encode [OF errE x, of v] ok that
      by (cases "get v = 0") (auto simp: xdr_union_def)
    show "?p x v = Inl ReturnsFalse" if "x_room x < length (?enc v)"
      using xdr_encoder.encode_full [OF both x, of v] xdr_encoder.encode_full [OF errE x, of v]
        xdr_encoder.encode [OF errE x, of v] ok that
      by (cases "get v = 0"; cases "x_room x < 4") (auto simp: xdr_union_def)
  }
  { fix d assume x: "x_op x = XDR_DECODE" and d: "?clean d"
    show "\<exists>x'. ?p x d = Inr (x', v) \<and> consumed x (length (?enc v)) x'"
      if ok: "?ok v" and inp: "x_in x = ?enc v @ rest" for v rest
    proof -
      obtain y where y: "?e x d = Inr (y, upd (\<lambda>_. get v) d)" "consumed x 4 y"
        using xdr_decoder.decode [OF errD x, where v = v and d = d] inp by auto
      show ?thesis
      proof (cases "get v = 0")
        case True
        have "x_op y = XDR_DECODE" "x_in y = enc (getr v) @ rest" using x inp True consumed_sel [OF y(2)] by simp_all
        with xdr_decoder.decode [OF retD, of y v "upd (\<lambda>_. get v) d" rest] ok True d obtain z where
          z: "?r y (upd (\<lambda>_. get v) d) = Inr (z, v)" "consumed y (length (enc (getr v))) z" by (auto simp: lens lens(7) [of v d, unfolded True])
        with y True consumed_trans [OF y(2) z(2)] show ?thesis by (simp add: xdr_union_def lens)
      next
        case False
        with y none [of v d] ok d show ?thesis by (simp add: xdr_union_def lens)
      qed
    qed
    show "?p x d = Inl ReturnsFalse" if ok: "?ok v" and inp: "?enc v = x_in x @ bs" and bs: "bs \<noteq> []" for v bs
    proof (cases "length (x_in x) < 4")
      case True
      with x show ?thesis by (simp add: xdr_union_def xdr_field_def xdr_int_def xdr_u_int_def getbytes_def)
    next
      case False
      have "take 4 (x_in x @ bs) = take 4 (?enc v)" "drop 4 (x_in x @ bs) = drop 4 (?enc v)" using inp by simp_all
      then have t: "take 4 (x_in x) = be32 (get v)" and r: "drop 4 (x_in x) @ bs = (if get v = 0 then enc (getr v) else [])"
        using False by simp_all
      obtain y where y: "xdr_u_int x (get d) = Inr (y, get v)" "x_op y = XDR_DECODE" "x_in y = drop 4 (x_in x)"
        by (rule len_decode [OF x t])
      have zero: "get v = 0" using r bs by (auto split: if_splits)
      then have "enc (getr v) = x_in y @ bs" using r y(3) by simp
      from xdr_decoder.decode_short [OF retD y(2), of v "upd (\<lambda>_. get v) d" bs, OF _ _ this bs] ok zero d
      have "?r y (upd (\<lambda>_. get v) d) = Inl ReturnsFalse" by (simp add: lens)
      with y zero show ?thesis by (simp add: xdr_union_def xdr_field_def [of xdr_u_int] xdr_int_def lens)
    qed
    show "?p x d = Inl ReturnsFalse \<or> (\<exists>x' d' n. ?p x d = Inr (x', d') \<and> consumed x n x' \<and> ?ok d')"
      using xdr_decoder.decode_total [OF errD x TrueI, of d]
    proof (elim disjE exE conjE)
      fix y e n a assume y: "?e x d = Inr (y, e)" "consumed x n y" "e = upd (\<lambda>_. a) d"
      show ?thesis
      proof (cases "a = 0")
        case True
        have "x_op y = XDR_DECODE" using x y(2) by (simp add: consumed_sel)
        from xdr_decoder.decode_total [OF retD this, of e] d y(3) have "?r y e = Inl ReturnsFalse \<or>
            (\<exists>x' d' n. ?r y e = Inr (x', d') \<and> consumed y n x' \<and> (\<exists>a. ok a \<and> d' = updr (\<lambda>_. a) e))"
          by (simp add: lens)
        then show ?thesis
        proof (elim disjE exE conjE)
          fix z d' m b assume z: "?r y e = Inr (z, d')" "consumed y m z" "ok b" "d' = updr (\<lambda>_. b) e"
          then have "?p x d = Inr (z, d')" "?ok d'" using y True by (simp_all add: xdr_union_def lens)
          with consumed_trans [OF y(2) z(2)] show ?thesis by blast
        qed (use True y in \<open>simp add: xdr_union_def lens\<close>)
      next
        case False
        then have "?p x d = Inr (y, e)" "?ok e" using y d by (simp_all add: xdr_union_def lens)
        with y(2) show ?thesis by blast
      qed
    qed (simp add: xdr_union_def)
  }
  from c have pf: "xdr_freer p ok (\<lambda>v v'. v' = None)" by (simp add: xdr_codec_def xdr_step_def)
  show "\<exists>v'. ?p x v = Inr (x, v') \<and> ?clean v'" if x: "x_op x = XDR_FREE" and ok: "?ok v" for v
    using xdr_freer.free [OF pf x, of "getr v"] x ok
    by (cases "get v = 0") (auto simp: xdr_union_def xdr_field_def xdr_int_def lens)
qed

subsection \<open>Inline buffers\<close>

text \<open>The fast path writes and reads what the field by field path does.\<close>

lemma inline_put_encoder [xdr_steps]:
  assumes slow: "xdr_encoder slow ok enc" and n: "length gets = n"
    and enc: "\<And>v. enc v = concat (map (\<lambda>g. be32 (g v)) gets)"
  shows "xdr_encoder (inline_put n gets slow) ok enc"
proof -
  have len: "length (enc v) = n * 4" for v
    using n unfolding enc by (induction gets arbitrary: n) auto
  show ?thesis
  proof
    fix x :: XDR and v assume x: "x_op x = XDR_ENCODE" and ok: "ok v"
    let ?y = "x\<lparr>x_handy := tl (x_handy x)\<rparr>"
    have case_inline: "inline_put n gets slow x v = slow ?y v \<or> n * 4 \<le> x_room x \<and>
        inline_put n gets slow x v = Inr (?y\<lparr>x_room := x_room x - n * 4, x_out := x_out x @ enc v\<rparr>, v)"
      using x n by (auto simp: inline_put_def XDR_INLINE_def Let_def enc split: list.split)
    show "\<exists>x'. inline_put n gets slow x v = Inr (x', v) \<and> wrote x (enc v) x'" if fits: "length (enc v) \<le> x_room x"
    proof -
      obtain x' where "slow ?y v = Inr (x', v)" "wrote ?y (enc v) x'"
        using xdr_encoder.encode [OF slow, of ?y v] x ok fits by auto
      moreover have "wrote x (enc v) (?y\<lparr>x_room := x_room x - n * 4, x_out := x_out x @ enc v\<rparr>)"
        using fits len [of v] by (auto simp: wrote_def intro!: exI [of _ "tl (x_handy x)"])
      moreover have "wrote ?y (enc v) x' \<longleftrightarrow> wrote x (enc v) x'" by (auto simp: wrote_def)
      ultimately show ?thesis using case_inline by auto
    qed
    show "inline_put n gets slow x v = Inl ReturnsFalse" if "x_room x < length (enc v)"
      using case_inline that len [of v] xdr_encoder.encode_full [OF slow, of ?y v] x ok by auto
  qed
qed

text \<open>\<open>word_steps upds ps\<close>: the steps \<open>ps\<close> are the \<^verbatim>\<open>xdr_u_int\<close> calls on the fields \<open>upds\<close>.\<close>

inductive word_steps :: "((u32 \<Rightarrow> u32) \<Rightarrow> 'r \<Rightarrow> 'r) list \<Rightarrow> 'r xdrproc list \<Rightarrow> bool" where
  word_Nil [xdr_steps]: "word_steps [] []"
| word_Cons [xdr_steps]: "word_steps upds ps \<Longrightarrow> word_steps (upd # upds) (xdr_field xdr_u_int get upd # ps)"

lemma get_words_struct:
  assumes "word_steps upds ps" and "x_op x = XDR_DECODE" and "length upds * 4 \<le> length (x_in x)"
  shows "xdr_struct ps x d = cbind (get_words (take (length upds * 4) (x_in x)) upds d)
    (\<lambda>d. Inr (x\<lparr>x_in := drop (length upds * 4) (x_in x)\<rparr>, d))"
  using assms
proof (induction upds ps arbitrary: x d rule: word_steps.induct)
  case word_Nil
  then show ?case by simp
next
  case (word_Cons upds ps upd get)
  let ?y = "x\<lparr>x_in := drop 4 (x_in x)\<rparr>"
  have "xdr_struct ps ?y (upd (\<lambda>_. from_be32 (take 4 (x_in x))) d) =
      cbind (get_words (take (length upds * 4) (x_in ?y)) upds (upd (\<lambda>_. from_be32 (take 4 (x_in x))) d))
        (\<lambda>d. Inr (?y\<lparr>x_in := drop (length upds * 4) (x_in ?y)\<rparr>, d))"
    by (rule word_Cons.IH) (use word_Cons.prems in auto)
  with word_Cons.prems show ?case
    by (simp add: xdr_field_def xdr_u_int_def getbytes_def min_absorb2 drop_take add.commute)
qed

lemma inline_get_decoder [xdr_steps]:
  assumes slow: "xdr_decoder (xdr_struct ps) ok enc clean copy eff" and ws: "word_steps upds ps" and n: "length upds = n"
  shows "xdr_decoder (inline_get n upds (xdr_struct ps)) ok enc clean copy eff"
proof -
  have eq: "inline_get n upds (xdr_struct ps) x d = xdr_struct ps (x\<lparr>x_handy := tl (x_handy x)\<rparr>) d"
    if x: "x_op x = XDR_DECODE" for x :: XDR and d
  proof -
    let ?y = "x\<lparr>x_handy := tl (x_handy x)\<rparr>"
    have y: "x_op ?y = XDR_DECODE" using x by simp
    show ?thesis using get_words_struct [OF ws y, of d] x n
      by (auto simp: inline_get_def XDR_INLINE_def Let_def split: list.split)
  qed
  have handy: "consumed (x\<lparr>x_handy := h\<rparr>) k x' \<longleftrightarrow> consumed x k x'" for x :: XDR and h k x'
    by (auto simp: consumed_def)
  show ?thesis
  proof
    fix x :: XDR and v d rest
    assume "x_op x = XDR_DECODE" "ok v" "clean d" "x_in x = enc v @ rest"
    then show "\<exists>x'. inline_get n upds (xdr_struct ps) x d = Inr (x', copy v d) \<and> consumed x (length (enc v)) x'"
      using xdr_decoder.decode [OF slow, of "x\<lparr>x_handy := tl (x_handy x)\<rparr>" v d rest] by (simp add: eq handy)
  next
    fix x :: XDR and v d bs
    assume "x_op x = XDR_DECODE" "ok v" "clean d" "enc v = x_in x @ bs" "bs \<noteq> []"
    then show "inline_get n upds (xdr_struct ps) x d = Inl ReturnsFalse"
      using xdr_decoder.decode_short [OF slow, of "x\<lparr>x_handy := tl (x_handy x)\<rparr>" v d bs] by (simp add: eq)
  next
    fix x :: XDR and d
    assume "x_op x = XDR_DECODE" "clean d"
    then show "inline_get n upds (xdr_struct ps) x d = Inl ReturnsFalse \<or> (\<exists>x' d' m.
        inline_get n upds (xdr_struct ps) x d = Inr (x', d') \<and> consumed x m x' \<and> eff d d')"
      using xdr_decoder.decode_total [OF slow, of "x\<lparr>x_handy := tl (x_handy x)\<rparr>" d] by (simp add: eq handy)
  qed
qed

end
