(* ===== verification/Accel_Xdr.thy ===== *)
theory Accel_Xdr
  imports Rpc_Types Xdr_Codec
begin

section \<open>XDR procedures of the accelerator protocol: src/accelerators/vmaccel/src/vmaccel\_rpc\_xdr.c\<close>

text \<open>
  Every procedure of the file, in its order: one step per \<^verbatim>\<open>if (!xdr_...) return FALSE\<close>, and
  for the procedures that test \<^verbatim>\<open>x_op\<close> their encode, decode and free branches with the
  \<^verbatim>\<open>XDR_INLINE\<close> fast path of each.  Then, for every type, its external representation \<open>enc\<close>
  (RFC 4506 applied to \<^verbatim>\<open>specs/vmaccel_rpc.x\<close>), the objects it allows, and the proof that the
  procedure keeps the contract of \<open>xdr_codec\<close>.
\<close>

subsection \<open>Procedures\<close>

definition xdr_VMAccelStatusCode :: "VMAccelStatusCode xdrproc" where
  "xdr_VMAccelStatusCode = xdr_u_int"

definition xdr_VMAccelResourceType :: "VMAccelResourceType xdrproc" where
  "xdr_VMAccelResourceType = xdr_u_int"

definition xdr_VMAccelArchitectureType :: "VMAccelArchitectureType xdrproc" where
  "xdr_VMAccelArchitectureType = xdr_u_int"

definition xdr_VMAccelSelectionMask :: "VMAccelSelectionMask xdrproc" where
  "xdr_VMAccelSelectionMask = xdr_u_int"

definition xdr_VMAccelId :: "VMAccelId xdrproc" where
  "xdr_VMAccelId = xdr_u_int"

definition xdr_VMAccelCaps :: "VMAccelCaps xdrproc" where
  "xdr_VMAccelCaps = xdr_u_int"

definition xdr_VMAccelSurfacePool :: "VMAccelSurfacePool xdrproc" where
  "xdr_VMAccelSurfacePool = xdr_u_int"

definition xdr_VMAccelSurfaceType :: "VMAccelSurfaceType xdrproc" where
  "xdr_VMAccelSurfaceType = xdr_u_int"

definition xdr_VMAccelSurfaceUsage :: "VMAccelSurfaceUsage xdrproc" where
  "xdr_VMAccelSurfaceUsage = xdr_u_int"

definition xdr_VMAccelSurfaceMapFlags :: "VMAccelSurfaceMapFlags xdrproc" where
  "xdr_VMAccelSurfaceMapFlags = xdr_u_int"

definition xdr_VMAccelSurfaceReadConsistency :: "VMAccelSurfaceReadConsistency xdrproc" where
  "xdr_VMAccelSurfaceReadConsistency = xdr_u_int"

definition xdr_VMAccelSurfaceWriteConsistency :: "VMAccelSurfaceWriteConsistency xdrproc" where
  "xdr_VMAccelSurfaceWriteConsistency = xdr_u_int"

definition xdr_VMAccelFormatCaps :: "VMAccelFormatCaps xdrproc" where
  "xdr_VMAccelFormatCaps = xdr_u_int"

definition xdr_VMAccelSurfaceBindFlags :: "VMAccelSurfaceBindFlags xdrproc" where
  "xdr_VMAccelSurfaceBindFlags = xdr_u_int"

definition xdr_VMAccelSurfaceFormat :: "VMAccelSurfaceFormat xdrproc" where
  "xdr_VMAccelSurfaceFormat = xdr_u_int"

definition xdr_VMAccelSurfaceFormatCaps :: "VMAccelSurfaceFormatCaps xdrproc" where
  "xdr_VMAccelSurfaceFormatCaps = xdr_u_int"

definition xdr_VMAccelStatus :: "VMAccelStatus xdrproc" where
  "xdr_VMAccelStatus = xdr_struct
     [xdr_field (xdr_bytes VMACCEL_MAX_NONCE_SIZE) Status_nonce Status_nonce_update,
      xdr_field xdr_VMAccelStatusCode Status_status Status_status_update]"

definition xdr_VMAccelAddress :: "VMAccelAddress xdrproc" where
  "xdr_VMAccelAddress = xdr_struct
     [xdr_field (xdr_bytes VMACCEL_MAX_LOCATION_SIZE) Address_addr Address_addr_update,
      xdr_field xdr_u_int Address_port Address_port_update,
      xdr_field xdr_VMAccelResourceType Address_resourceType Address_resourceType_update,
      xdr_field xdr_u_int Address_subDevice Address_subDevice_update]"

definition xdr_VMAccelCallback :: "VMAccelCallback xdrproc" where
  "xdr_VMAccelCallback = xdr_struct
     [xdr_field xdr_VMAccelAddress Callback_addr Callback_addr_update,
      xdr_field (xdr_bytes 0xffffffff) Callback_payload Callback_payload_update]"

definition xdr_VMAccelFormatDesc :: "VMAccelFormatDesc xdrproc" where
  "xdr_VMAccelFormatDesc = xdr_struct
     [xdr_field xdr_u_int FormatDesc_format FormatDesc_format_update,
      xdr_field xdr_VMAccelFormatCaps FormatDesc_caps FormatDesc_caps_update]"

definition xdr_VMAccelWorkloadDesc :: "VMAccelWorkloadDesc xdrproc" where
  "xdr_VMAccelWorkloadDesc = xdr_by_op
     (xdr_struct
       [inline_put 9
          [WorkloadDesc_megaFlops, WorkloadDesc_megaOps, WorkloadDesc_llcSizeKB,
          WorkloadDesc_llcBandwidthMBSec, WorkloadDesc_localMemSizeKB,
          WorkloadDesc_localMemBandwidthMBSec, WorkloadDesc_nonLocalMemSizeKB,
          WorkloadDesc_nonLocalMemBandwidthMBSec, WorkloadDesc_interconnectBandwidthMBSec]
          (xdr_struct
            [xdr_field xdr_u_int WorkloadDesc_megaFlops WorkloadDesc_megaFlops_update,
             xdr_field xdr_u_int WorkloadDesc_megaOps WorkloadDesc_megaOps_update,
             xdr_field xdr_u_int WorkloadDesc_llcSizeKB WorkloadDesc_llcSizeKB_update,
             xdr_field xdr_u_int WorkloadDesc_llcBandwidthMBSec WorkloadDesc_llcBandwidthMBSec_update,
             xdr_field xdr_u_int WorkloadDesc_localMemSizeKB WorkloadDesc_localMemSizeKB_update,
             xdr_field xdr_u_int WorkloadDesc_localMemBandwidthMBSec WorkloadDesc_localMemBandwidthMBSec_update,
             xdr_field xdr_u_int WorkloadDesc_nonLocalMemSizeKB WorkloadDesc_nonLocalMemSizeKB_update,
             xdr_field xdr_u_int WorkloadDesc_nonLocalMemBandwidthMBSec WorkloadDesc_nonLocalMemBandwidthMBSec_update,
             xdr_field xdr_u_int WorkloadDesc_interconnectBandwidthMBSec WorkloadDesc_interconnectBandwidthMBSec_update])])
     (xdr_struct
       [inline_get 9
          [WorkloadDesc_megaFlops_update, WorkloadDesc_megaOps_update,
          WorkloadDesc_llcSizeKB_update, WorkloadDesc_llcBandwidthMBSec_update,
          WorkloadDesc_localMemSizeKB_update, WorkloadDesc_localMemBandwidthMBSec_update,
          WorkloadDesc_nonLocalMemSizeKB_update, WorkloadDesc_nonLocalMemBandwidthMBSec_update,
          WorkloadDesc_interconnectBandwidthMBSec_update]
          (xdr_struct
            [xdr_field xdr_u_int WorkloadDesc_megaFlops WorkloadDesc_megaFlops_update,
             xdr_field xdr_u_int WorkloadDesc_megaOps WorkloadDesc_megaOps_update,
             xdr_field xdr_u_int WorkloadDesc_llcSizeKB WorkloadDesc_llcSizeKB_update,
             xdr_field xdr_u_int WorkloadDesc_llcBandwidthMBSec WorkloadDesc_llcBandwidthMBSec_update,
             xdr_field xdr_u_int WorkloadDesc_localMemSizeKB WorkloadDesc_localMemSizeKB_update,
             xdr_field xdr_u_int WorkloadDesc_localMemBandwidthMBSec WorkloadDesc_localMemBandwidthMBSec_update,
             xdr_field xdr_u_int WorkloadDesc_nonLocalMemSizeKB WorkloadDesc_nonLocalMemSizeKB_update,
             xdr_field xdr_u_int WorkloadDesc_nonLocalMemBandwidthMBSec WorkloadDesc_nonLocalMemBandwidthMBSec_update,
             xdr_field xdr_u_int WorkloadDesc_interconnectBandwidthMBSec WorkloadDesc_interconnectBandwidthMBSec_update])])
     (xdr_struct
       [xdr_field xdr_u_int WorkloadDesc_megaFlops WorkloadDesc_megaFlops_update,
        xdr_field xdr_u_int WorkloadDesc_megaOps WorkloadDesc_megaOps_update,
        xdr_field xdr_u_int WorkloadDesc_llcSizeKB WorkloadDesc_llcSizeKB_update,
        xdr_field xdr_u_int WorkloadDesc_llcBandwidthMBSec WorkloadDesc_llcBandwidthMBSec_update,
        xdr_field xdr_u_int WorkloadDesc_localMemSizeKB WorkloadDesc_localMemSizeKB_update,
        xdr_field xdr_u_int WorkloadDesc_localMemBandwidthMBSec WorkloadDesc_localMemBandwidthMBSec_update,
        xdr_field xdr_u_int WorkloadDesc_nonLocalMemSizeKB WorkloadDesc_nonLocalMemSizeKB_update,
        xdr_field xdr_u_int WorkloadDesc_nonLocalMemBandwidthMBSec WorkloadDesc_nonLocalMemBandwidthMBSec_update,
        xdr_field xdr_u_int WorkloadDesc_interconnectBandwidthMBSec WorkloadDesc_interconnectBandwidthMBSec_update])"

definition xdr_VMAccelDesc :: "VMAccelDesc xdrproc" where
  "xdr_VMAccelDesc = xdr_by_op
     (xdr_struct
       [xdr_field xdr_VMAccelId Desc_parentId Desc_parentId_update,
        xdr_field xdr_VMAccelAddress Desc_parentAddr Desc_parentAddr_update,
        xdr_field xdr_VMAccelResourceType Desc_typeMask Desc_typeMask_update,
        xdr_field xdr_VMAccelArchitectureType Desc_architecture Desc_architecture_update,
        xdr_field xdr_VMAccelCaps Desc_caps Desc_caps_update,
        xdr_field (xdr_array 0xffffffff 8 zero_VMAccelFormatDesc xdr_VMAccelFormatDesc) Desc_formatCaps Desc_formatCaps_update,
        xdr_field xdr_VMAccelWorkloadDesc Desc_capacity Desc_capacity_update,
        inline_put 6
          [Desc_maxContexts, Desc_maxQueues, Desc_maxEvents, Desc_maxFences, Desc_maxSurfaces,
          Desc_maxMappings]
          (xdr_struct
            [xdr_field xdr_u_int Desc_maxContexts Desc_maxContexts_update,
             xdr_field xdr_u_int Desc_maxQueues Desc_maxQueues_update,
             xdr_field xdr_u_int Desc_maxEvents Desc_maxEvents_update,
             xdr_field xdr_u_int Desc_maxFences Desc_maxFences_update,
             xdr_field xdr_u_int Desc_maxSurfaces Desc_maxSurfaces_update,
             xdr_field xdr_u_int Desc_maxMappings Desc_maxMappings_update])])
     (xdr_struct
       [xdr_field xdr_VMAccelId Desc_parentId Desc_parentId_update,
        xdr_field xdr_VMAccelAddress Desc_parentAddr Desc_parentAddr_update,
        xdr_field xdr_VMAccelResourceType Desc_typeMask Desc_typeMask_update,
        xdr_field xdr_VMAccelArchitectureType Desc_architecture Desc_architecture_update,
        xdr_field xdr_VMAccelCaps Desc_caps Desc_caps_update,
        xdr_field (xdr_array 0xffffffff 8 zero_VMAccelFormatDesc xdr_VMAccelFormatDesc) Desc_formatCaps Desc_formatCaps_update,
        xdr_field xdr_VMAccelWorkloadDesc Desc_capacity Desc_capacity_update,
        inline_get 6
          [Desc_maxContexts_update, Desc_maxQueues_update, Desc_maxEvents_update,
          Desc_maxFences_update, Desc_maxSurfaces_update, Desc_maxMappings_update]
          (xdr_struct
            [xdr_field xdr_u_int Desc_maxContexts Desc_maxContexts_update,
             xdr_field xdr_u_int Desc_maxQueues Desc_maxQueues_update,
             xdr_field xdr_u_int Desc_maxEvents Desc_maxEvents_update,
             xdr_field xdr_u_int Desc_maxFences Desc_maxFences_update,
             xdr_field xdr_u_int Desc_maxSurfaces Desc_maxSurfaces_update,
             xdr_field xdr_u_int Desc_maxMappings Desc_maxMappings_update])])
     (xdr_struct
       [xdr_field xdr_VMAccelId Desc_parentId Desc_parentId_update,
        xdr_field xdr_VMAccelAddress Desc_parentAddr Desc_parentAddr_update,
        xdr_field xdr_VMAccelResourceType Desc_typeMask Desc_typeMask_update,
        xdr_field xdr_VMAccelArchitectureType Desc_architecture Desc_architecture_update,
        xdr_field xdr_VMAccelCaps Desc_caps Desc_caps_update,
        xdr_field (xdr_array 0xffffffff 8 zero_VMAccelFormatDesc xdr_VMAccelFormatDesc) Desc_formatCaps Desc_formatCaps_update,
        xdr_field xdr_VMAccelWorkloadDesc Desc_capacity Desc_capacity_update,
        xdr_field xdr_u_int Desc_maxContexts Desc_maxContexts_update,
        xdr_field xdr_u_int Desc_maxQueues Desc_maxQueues_update,
        xdr_field xdr_u_int Desc_maxEvents Desc_maxEvents_update,
        xdr_field xdr_u_int Desc_maxFences Desc_maxFences_update,
        xdr_field xdr_u_int Desc_maxSurfaces Desc_maxSurfaces_update,
        xdr_field xdr_u_int Desc_maxMappings Desc_maxMappings_update])"

definition xdr_VMAccelResourceDesc :: "VMAccelResourceDesc xdrproc" where
  "xdr_VMAccelResourceDesc = xdr_struct
     [xdr_field xdr_VMAccelId ResourceDesc_parentId ResourceDesc_parentId_update,
      xdr_field xdr_VMAccelAddress ResourceDesc_parentAddr ResourceDesc_parentAddr_update,
      xdr_field xdr_VMAccelResourceType ResourceDesc_typeMask ResourceDesc_typeMask_update,
      xdr_field xdr_VMAccelSelectionMask ResourceDesc_selectionMask ResourceDesc_selectionMask_update,
      xdr_field xdr_VMAccelCaps ResourceDesc_caps ResourceDesc_caps_update,
      xdr_field xdr_u_int ResourceDesc_num ResourceDesc_num_update,
      xdr_field xdr_u_int ResourceDesc_size ResourceDesc_size_update]"

definition xdr_VMAccelAllocateStatus :: "VMAccelAllocateStatus xdrproc" where
  "xdr_VMAccelAllocateStatus = xdr_struct
     [xdr_field xdr_VMAccelStatusCode AllocateStatus_status AllocateStatus_status_update,
      xdr_field xdr_VMAccelId AllocateStatus_id AllocateStatus_id_update,
      xdr_field xdr_VMAccelDesc AllocateStatus_desc AllocateStatus_desc_update]"

definition xdr_VMAccelRegisterDesc :: "VMAccelRegisterDesc xdrproc" where
  "xdr_VMAccelRegisterDesc = xdr_struct
     [xdr_field xdr_VMAccelDesc RegisterDesc_desc RegisterDesc_desc_update,
      xdr_field xdr_VMAccelResourceType RegisterDesc_typeMask RegisterDesc_typeMask_update]"

definition xdr_VMAccelResourceAllocateStatus :: "VMAccelResourceAllocateStatus xdrproc" where
  "xdr_VMAccelResourceAllocateStatus = xdr_struct
     [xdr_field xdr_VMAccelStatusCode ResourceAllocateStatus_status ResourceAllocateStatus_status_update,
      xdr_field xdr_VMAccelId ResourceAllocateStatus_id ResourceAllocateStatus_id_update]"

definition xdr_VMAccelRegisterAllocationDesc :: "VMAccelRegisterAllocationDesc xdrproc" where
  "xdr_VMAccelRegisterAllocationDesc = xdr_struct
     [xdr_field xdr_VMAccelAddress RegisterAllocationDesc_parentAddr RegisterAllocationDesc_parentAddr_update,
      xdr_field xdr_VMAccelResourceType RegisterAllocationDesc_typeMask RegisterAllocationDesc_typeMask_update,
      xdr_field xdr_u_int RegisterAllocationDesc_num RegisterAllocationDesc_num_update,
      xdr_field xdr_u_int RegisterAllocationDesc_size RegisterAllocationDesc_size_update]"

definition xdr_VMAccelRegisterStatus :: "VMAccelRegisterStatus xdrproc" where
  "xdr_VMAccelRegisterStatus = xdr_struct
     [xdr_field xdr_VMAccelStatusCode RegisterStatus_status RegisterStatus_status_update,
      xdr_field xdr_VMAccelId RegisterStatus_id RegisterStatus_id_update]"

definition xdr_VMAccelElementDouble4D :: "VMAccelElementDouble4D xdrproc" where
  "xdr_VMAccelElementDouble4D = xdr_struct
     [xdr_field xdr_double ElementDouble4D_x ElementDouble4D_x_update,
      xdr_field xdr_double ElementDouble4D_y ElementDouble4D_y_update,
      xdr_field xdr_double ElementDouble4D_z ElementDouble4D_z_update,
      xdr_field xdr_double ElementDouble4D_w ElementDouble4D_w_update]"

definition xdr_VMAccelElementFloat4D :: "VMAccelElementFloat4D xdrproc" where
  "xdr_VMAccelElementFloat4D = xdr_struct
     [xdr_field xdr_float ElementFloat4D_x ElementFloat4D_x_update,
      xdr_field xdr_float ElementFloat4D_y ElementFloat4D_y_update,
      xdr_field xdr_float ElementFloat4D_z ElementFloat4D_z_update,
      xdr_field xdr_float ElementFloat4D_w ElementFloat4D_w_update]"

definition xdr_VMAccelElementUINT4D :: "VMAccelElementUINT4D xdrproc" where
  "xdr_VMAccelElementUINT4D = xdr_by_op
     (xdr_struct
       [inline_put 4
          [ElementUINT4D_r, ElementUINT4D_g, ElementUINT4D_b, ElementUINT4D_a]
          (xdr_struct
            [xdr_field xdr_u_int ElementUINT4D_r ElementUINT4D_r_update,
             xdr_field xdr_u_int ElementUINT4D_g ElementUINT4D_g_update,
             xdr_field xdr_u_int ElementUINT4D_b ElementUINT4D_b_update,
             xdr_field xdr_u_int ElementUINT4D_a ElementUINT4D_a_update])])
     (xdr_struct
       [inline_get 4
          [ElementUINT4D_r_update, ElementUINT4D_g_update, ElementUINT4D_b_update,
          ElementUINT4D_a_update]
          (xdr_struct
            [xdr_field xdr_u_int ElementUINT4D_r ElementUINT4D_r_update,
             xdr_field xdr_u_int ElementUINT4D_g ElementUINT4D_g_update,
             xdr_field xdr_u_int ElementUINT4D_b ElementUINT4D_b_update,
             xdr_field xdr_u_int ElementUINT4D_a ElementUINT4D_a_update])])
     (xdr_struct
       [xdr_field xdr_u_int ElementUINT4D_r ElementUINT4D_r_update,
        xdr_field xdr_u_int ElementUINT4D_g ElementUINT4D_g_update,
        xdr_field xdr_u_int ElementUINT4D_b ElementUINT4D_b_update,
        xdr_field xdr_u_int ElementUINT4D_a ElementUINT4D_a_update])"

definition xdr_VMAccelCoordinate2DUINT :: "VMAccelCoordinate2DUINT xdrproc" where
  "xdr_VMAccelCoordinate2DUINT = xdr_struct
     [xdr_field xdr_u_int Coordinate2DUINT_x Coordinate2DUINT_x_update,
      xdr_field xdr_u_int Coordinate2DUINT_y Coordinate2DUINT_y_update]"

definition xdr_VMAccelCoordinate3DUINT :: "VMAccelCoordinate3DUINT xdrproc" where
  "xdr_VMAccelCoordinate3DUINT = xdr_struct
     [xdr_field xdr_u_int Coordinate3DUINT_x Coordinate3DUINT_x_update,
      xdr_field xdr_u_int Coordinate3DUINT_y Coordinate3DUINT_y_update,
      xdr_field xdr_u_int Coordinate3DUINT_z Coordinate3DUINT_z_update]"

definition xdr_VMAccelCoordinate4DUINT :: "VMAccelCoordinate4DUINT xdrproc" where
  "xdr_VMAccelCoordinate4DUINT = xdr_by_op
     (xdr_struct
       [inline_put 4
          [Coordinate4DUINT_x, Coordinate4DUINT_y, Coordinate4DUINT_z, Coordinate4DUINT_w]
          (xdr_struct
            [xdr_field xdr_u_int Coordinate4DUINT_x Coordinate4DUINT_x_update,
             xdr_field xdr_u_int Coordinate4DUINT_y Coordinate4DUINT_y_update,
             xdr_field xdr_u_int Coordinate4DUINT_z Coordinate4DUINT_z_update,
             xdr_field xdr_u_int Coordinate4DUINT_w Coordinate4DUINT_w_update])])
     (xdr_struct
       [inline_get 4
          [Coordinate4DUINT_x_update, Coordinate4DUINT_y_update, Coordinate4DUINT_z_update,
          Coordinate4DUINT_w_update]
          (xdr_struct
            [xdr_field xdr_u_int Coordinate4DUINT_x Coordinate4DUINT_x_update,
             xdr_field xdr_u_int Coordinate4DUINT_y Coordinate4DUINT_y_update,
             xdr_field xdr_u_int Coordinate4DUINT_z Coordinate4DUINT_z_update,
             xdr_field xdr_u_int Coordinate4DUINT_w Coordinate4DUINT_w_update])])
     (xdr_struct
       [xdr_field xdr_u_int Coordinate4DUINT_x Coordinate4DUINT_x_update,
        xdr_field xdr_u_int Coordinate4DUINT_y Coordinate4DUINT_y_update,
        xdr_field xdr_u_int Coordinate4DUINT_z Coordinate4DUINT_z_update,
        xdr_field xdr_u_int Coordinate4DUINT_w Coordinate4DUINT_w_update])"

definition xdr_VMAccelSurfaceDesc :: "VMAccelSurfaceDesc xdrproc" where
  "xdr_VMAccelSurfaceDesc = xdr_by_op
     (xdr_struct
       [xdr_field xdr_VMAccelId SurfaceDesc_parentId SurfaceDesc_parentId_update,
        xdr_field xdr_VMAccelSurfaceType SurfaceDesc_type SurfaceDesc_type_update,
        inline_put 6
          [SurfaceDesc_width, SurfaceDesc_height, SurfaceDesc_depth, SurfaceDesc_mipLevels,
          SurfaceDesc_arraySize, SurfaceDesc_samples]
          (xdr_struct
            [xdr_field xdr_u_int SurfaceDesc_width SurfaceDesc_width_update,
             xdr_field xdr_u_int SurfaceDesc_height SurfaceDesc_height_update,
             xdr_field xdr_u_int SurfaceDesc_depth SurfaceDesc_depth_update,
             xdr_field xdr_u_int SurfaceDesc_mipLevels SurfaceDesc_mipLevels_update,
             xdr_field xdr_u_int SurfaceDesc_arraySize SurfaceDesc_arraySize_update,
             xdr_field xdr_u_int SurfaceDesc_samples SurfaceDesc_samples_update]),
        xdr_field xdr_VMAccelSurfaceFormat SurfaceDesc_format SurfaceDesc_format_update,
        xdr_field xdr_VMAccelSurfaceFormatCaps SurfaceDesc_formatCaps SurfaceDesc_formatCaps_update,
        xdr_field xdr_VMAccelSurfacePool SurfaceDesc_pool SurfaceDesc_pool_update,
        xdr_field xdr_VMAccelSurfaceUsage SurfaceDesc_usage SurfaceDesc_usage_update,
        xdr_field xdr_VMAccelSurfaceBindFlags SurfaceDesc_bindFlags SurfaceDesc_bindFlags_update,
        xdr_field xdr_u_int SurfaceDesc_slicePitch SurfaceDesc_slicePitch_update,
        xdr_field xdr_u_int SurfaceDesc_rowPitch SurfaceDesc_rowPitch_update])
     (xdr_struct
       [xdr_field xdr_VMAccelId SurfaceDesc_parentId SurfaceDesc_parentId_update,
        xdr_field xdr_VMAccelSurfaceType SurfaceDesc_type SurfaceDesc_type_update,
        inline_get 6
          [SurfaceDesc_width_update, SurfaceDesc_height_update, SurfaceDesc_depth_update,
          SurfaceDesc_mipLevels_update, SurfaceDesc_arraySize_update, SurfaceDesc_samples_update]
          (xdr_struct
            [xdr_field xdr_u_int SurfaceDesc_width SurfaceDesc_width_update,
             xdr_field xdr_u_int SurfaceDesc_height SurfaceDesc_height_update,
             xdr_field xdr_u_int SurfaceDesc_depth SurfaceDesc_depth_update,
             xdr_field xdr_u_int SurfaceDesc_mipLevels SurfaceDesc_mipLevels_update,
             xdr_field xdr_u_int SurfaceDesc_arraySize SurfaceDesc_arraySize_update,
             xdr_field xdr_u_int SurfaceDesc_samples SurfaceDesc_samples_update]),
        xdr_field xdr_VMAccelSurfaceFormat SurfaceDesc_format SurfaceDesc_format_update,
        xdr_field xdr_VMAccelSurfaceFormatCaps SurfaceDesc_formatCaps SurfaceDesc_formatCaps_update,
        xdr_field xdr_VMAccelSurfacePool SurfaceDesc_pool SurfaceDesc_pool_update,
        xdr_field xdr_VMAccelSurfaceUsage SurfaceDesc_usage SurfaceDesc_usage_update,
        xdr_field xdr_VMAccelSurfaceBindFlags SurfaceDesc_bindFlags SurfaceDesc_bindFlags_update,
        xdr_field xdr_u_int SurfaceDesc_slicePitch SurfaceDesc_slicePitch_update,
        xdr_field xdr_u_int SurfaceDesc_rowPitch SurfaceDesc_rowPitch_update])
     (xdr_struct
       [xdr_field xdr_VMAccelId SurfaceDesc_parentId SurfaceDesc_parentId_update,
        xdr_field xdr_VMAccelSurfaceType SurfaceDesc_type SurfaceDesc_type_update,
        xdr_field xdr_u_int SurfaceDesc_width SurfaceDesc_width_update,
        xdr_field xdr_u_int SurfaceDesc_height SurfaceDesc_height_update,
        xdr_field xdr_u_int SurfaceDesc_depth SurfaceDesc_depth_update,
        xdr_field xdr_u_int SurfaceDesc_mipLevels SurfaceDesc_mipLevels_update,
        xdr_field xdr_u_int SurfaceDesc_arraySize SurfaceDesc_arraySize_update,
        xdr_field xdr_u_int SurfaceDesc_samples SurfaceDesc_samples_update,
        xdr_field xdr_VMAccelSurfaceFormat SurfaceDesc_format SurfaceDesc_format_update,
        xdr_field xdr_VMAccelSurfaceFormatCaps SurfaceDesc_formatCaps SurfaceDesc_formatCaps_update,
        xdr_field xdr_VMAccelSurfacePool SurfaceDesc_pool SurfaceDesc_pool_update,
        xdr_field xdr_VMAccelSurfaceUsage SurfaceDesc_usage SurfaceDesc_usage_update,
        xdr_field xdr_VMAccelSurfaceBindFlags SurfaceDesc_bindFlags SurfaceDesc_bindFlags_update,
        xdr_field xdr_u_int SurfaceDesc_slicePitch SurfaceDesc_slicePitch_update,
        xdr_field xdr_u_int SurfaceDesc_rowPitch SurfaceDesc_rowPitch_update])"

definition xdr_VMAccelHandleType :: "VMAccelHandleType xdrproc" where
  "xdr_VMAccelHandleType = xdr_u_int"

definition xdr_VMAccelSurfaceId :: "VMAccelSurfaceId xdrproc" where
  "xdr_VMAccelSurfaceId = xdr_struct
     [xdr_field xdr_VMAccelSurfaceType SurfaceId_type SurfaceId_type_update,
      xdr_field xdr_VMAccelHandleType SurfaceId_handleType SurfaceId_handleType_update,
      xdr_field xdr_VMAccelId SurfaceId_id SurfaceId_id_update,
      xdr_field xdr_u_int SurfaceId_instance SurfaceId_instance_update,
      xdr_field xdr_u_int SurfaceId_offset SurfaceId_offset_update,
      xdr_field xdr_u_int SurfaceId_generation SurfaceId_generation_update]"

definition xdr_VMAccelSurfaceAllocateStatus :: "VMAccelSurfaceAllocateStatus xdrproc" where
  "xdr_VMAccelSurfaceAllocateStatus = xdr_struct
     [xdr_field xdr_VMAccelStatusCode SurfaceAllocateStatus_status SurfaceAllocateStatus_status_update,
      xdr_field xdr_VMAccelSurfaceDesc SurfaceAllocateStatus_surfaceDesc SurfaceAllocateStatus_surfaceDesc_update]"

definition xdr_VMAccelQueueFlags :: "VMAccelQueueFlags xdrproc" where
  "xdr_VMAccelQueueFlags = xdr_u_int"

definition xdr_VMAccelQueueDesc :: "VMAccelQueueDesc xdrproc" where
  "xdr_VMAccelQueueDesc = xdr_struct
     [xdr_field xdr_VMAccelQueueFlags QueueDesc_flags QueueDesc_flags_update,
      xdr_field xdr_u_int QueueDesc_size QueueDesc_size_update]"

definition xdr_VMAccelQueueStatus :: "VMAccelQueueStatus xdrproc" where
  "xdr_VMAccelQueueStatus = xdr_struct
     [xdr_field xdr_VMAccelStatusCode QueueStatus_status QueueStatus_status_update]"

definition xdr_VMAccelSurfaceRegion :: "VMAccelSurfaceRegion xdrproc" where
  "xdr_VMAccelSurfaceRegion = xdr_struct
     [xdr_field xdr_u_int SurfaceRegion_mipLevel SurfaceRegion_mipLevel_update,
      xdr_field xdr_VMAccelCoordinate3DUINT SurfaceRegion_coord SurfaceRegion_coord_update,
      xdr_field xdr_VMAccelCoordinate3DUINT SurfaceRegion_size SurfaceRegion_size_update]"

definition xdr_VMAccelSurfaceCopyOp :: "VMAccelSurfaceCopyOp xdrproc" where
  "xdr_VMAccelSurfaceCopyOp = xdr_struct
     [xdr_field xdr_VMAccelSurfaceRegion SurfaceCopyOp_dstRegion SurfaceCopyOp_dstRegion_update,
      xdr_field xdr_VMAccelSurfaceRegion SurfaceCopyOp_srcRegion SurfaceCopyOp_srcRegion_update]"

definition xdr_VMAccelImageFillOp :: "VMAccelImageFillOp xdrproc" where
  "xdr_VMAccelImageFillOp = xdr_struct
     [xdr_field xdr_VMAccelSurfaceRegion ImageFillOp_dstRegion ImageFillOp_dstRegion_update,
      xdr_field xdr_VMAccelElementDouble4D ImageFillOp_d ImageFillOp_d_update,
      xdr_field xdr_VMAccelElementFloat4D ImageFillOp_f ImageFillOp_f_update,
      xdr_field xdr_VMAccelElementUINT4D ImageFillOp_u ImageFillOp_u_update]"

definition xdr_VMAccelImageTransferOp :: "VMAccelImageTransferOp xdrproc" where
  "xdr_VMAccelImageTransferOp = xdr_struct
     [xdr_field xdr_VMAccelSurfaceRegion ImageTransferOp_imgRegion ImageTransferOp_imgRegion_update,
      xdr_field (xdr_bytes 0xffffffff) ImageTransferOp_ptr ImageTransferOp_ptr_update,
      xdr_field (xdr_array 0xffffffff 48 zero_VMAccelCallback xdr_VMAccelCallback) ImageTransferOp_callbacks ImageTransferOp_callbacks_update]"

definition xdr_VMAccelDownloadStatus :: "VMAccelDownloadStatus xdrproc" where
  "xdr_VMAccelDownloadStatus = xdr_struct
     [xdr_field xdr_VMAccelStatusCode DownloadStatus_status DownloadStatus_status_update,
      xdr_field xdr_VMAccelId DownloadStatus_fence DownloadStatus_fence_update,
      xdr_field (xdr_bytes 0xffffffff) DownloadStatus_ptr DownloadStatus_ptr_update]"

definition xdr_VMAccelSurfaceMapOp :: "VMAccelSurfaceMapOp xdrproc" where
  "xdr_VMAccelSurfaceMapOp = xdr_struct
     [xdr_field xdr_VMAccelSurfaceId SurfaceMapOp_surf SurfaceMapOp_surf_update,
      xdr_field xdr_VMAccelCoordinate3DUINT SurfaceMapOp_coord SurfaceMapOp_coord_update,
      xdr_field xdr_VMAccelCoordinate2DUINT SurfaceMapOp_size SurfaceMapOp_size_update,
      xdr_field xdr_VMAccelSurfaceMapFlags SurfaceMapOp_mapFlags SurfaceMapOp_mapFlags_update]"

definition xdr_VMAccelSurfaceUnmapOp :: "VMAccelSurfaceUnmapOp xdrproc" where
  "xdr_VMAccelSurfaceUnmapOp = xdr_struct
     [xdr_field xdr_VMAccelSurfaceId SurfaceUnmapOp_surf SurfaceUnmapOp_surf_update,
      xdr_field xdr_VMAccelSurfaceMapFlags SurfaceUnmapOp_mapFlags SurfaceUnmapOp_mapFlags_update,
      xdr_field (xdr_bytes 0xffffffff) SurfaceUnmapOp_ptr SurfaceUnmapOp_ptr_update]"

definition xdr_VMAccelSurfaceMapStatus :: "VMAccelSurfaceMapStatus xdrproc" where
  "xdr_VMAccelSurfaceMapStatus = xdr_struct
     [xdr_field xdr_VMAccelStatusCode SurfaceMapStatus_status SurfaceMapStatus_status_update,
      xdr_field (xdr_bytes 0xffffffff) SurfaceMapStatus_ptr SurfaceMapStatus_ptr_update]"

definition xdr_VMAccelComputeArgDesc :: "VMAccelComputeArgDesc xdrproc" where
  "xdr_VMAccelComputeArgDesc = xdr_struct
     [xdr_field xdr_u_int ComputeArgDesc_index ComputeArgDesc_index_update,
      xdr_field xdr_VMAccelSurfaceUsage ComputeArgDesc_usage ComputeArgDesc_usage_update,
      xdr_field xdr_VMAccelSurfaceId ComputeArgDesc_surf ComputeArgDesc_surf_update,
      xdr_field (xdr_bytes 0xffffffff) ComputeArgDesc_data ComputeArgDesc_data_update]"

definition xdr_VMAccelComputeOp :: "VMAccelComputeOp xdrproc" where
  "xdr_VMAccelComputeOp = xdr_struct
     [xdr_field xdr_u_int ComputeOp_kernelType ComputeOp_kernelType_update,
      xdr_field (xdr_bytes 0xffffffff) ComputeOp_kernelSource ComputeOp_kernelSource_update,
      xdr_field (xdr_bytes 0xffffffff) ComputeOp_kernelBinary32 ComputeOp_kernelBinary32_update,
      xdr_field (xdr_bytes 0xffffffff) ComputeOp_kernelBinary64 ComputeOp_kernelBinary64_update,
      xdr_field (xdr_bytes 0xffffffff) ComputeOp_kernelName ComputeOp_kernelName_update,
      xdr_field xdr_u_int ComputeOp_dimension ComputeOp_dimension_update,
      xdr_field (xdr_array 0xffffffff 4 0 xdr_u_int) ComputeOp_globalWorkOffset ComputeOp_globalWorkOffset_update,
      xdr_field (xdr_array 0xffffffff 4 0 xdr_u_int) ComputeOp_globalWorkSize ComputeOp_globalWorkSize_update,
      xdr_field (xdr_array 0xffffffff 4 0 xdr_u_int) ComputeOp_localWorkSize ComputeOp_localWorkSize_update,
      xdr_field (xdr_array 0xffffffff 48 zero_VMAccelComputeArgDesc xdr_VMAccelComputeArgDesc) ComputeOp_args ComputeOp_args_update]"

definition xdr_VMAccelComputeStatus :: "VMAccelComputeStatus xdrproc" where
  "xdr_VMAccelComputeStatus = xdr_struct
     [xdr_field xdr_VMAccelStatusCode ComputeStatus_status ComputeStatus_status_update,
      xdr_field (xdr_array 0xffffffff 48 zero_VMAccelComputeArgDesc xdr_VMAccelComputeArgDesc) ComputeStatus_outputs ComputeStatus_outputs_update]"

definition xdr_VMAccelReturnStatus :: "VMAccelReturnStatus xdrproc" where
  "xdr_VMAccelReturnStatus = xdr_union ReturnStatus_errno ReturnStatus_errno_update
     (xdr_field (xdr_pointer zero_VMAccelStatus xdr_VMAccelStatus) ReturnStatus_ret ReturnStatus_ret_update)"

definition xdr_VMAccelAllocateReturnStatus :: "VMAccelAllocateReturnStatus xdrproc" where
  "xdr_VMAccelAllocateReturnStatus = xdr_union AllocateReturnStatus_errno AllocateReturnStatus_errno_update
     (xdr_field (xdr_pointer zero_VMAccelAllocateStatus xdr_VMAccelAllocateStatus) AllocateReturnStatus_ret AllocateReturnStatus_ret_update)"

definition xdr_VMAccelResourceAllocateReturnStatus :: "VMAccelResourceAllocateReturnStatus xdrproc" where
  "xdr_VMAccelResourceAllocateReturnStatus = xdr_union ResourceAllocateReturnStatus_errno ResourceAllocateReturnStatus_errno_update
     (xdr_field (xdr_pointer zero_VMAccelResourceAllocateStatus xdr_VMAccelResourceAllocateStatus) ResourceAllocateReturnStatus_ret ResourceAllocateReturnStatus_ret_update)"

definition xdr_VMAccelRegisterReturnStatus :: "VMAccelRegisterReturnStatus xdrproc" where
  "xdr_VMAccelRegisterReturnStatus = xdr_union RegisterReturnStatus_errno RegisterReturnStatus_errno_update
     (xdr_field (xdr_pointer zero_VMAccelRegisterStatus xdr_VMAccelRegisterStatus) RegisterReturnStatus_ret RegisterReturnStatus_ret_update)"

definition xdr_VMAccelQueueReturnStatus :: "VMAccelQueueReturnStatus xdrproc" where
  "xdr_VMAccelQueueReturnStatus = xdr_union QueueReturnStatus_errno QueueReturnStatus_errno_update
     (xdr_field (xdr_pointer zero_VMAccelQueueStatus xdr_VMAccelQueueStatus) QueueReturnStatus_ret QueueReturnStatus_ret_update)"

definition xdr_VMAccelSurfaceAllocateReturnStatus :: "VMAccelSurfaceAllocateReturnStatus xdrproc" where
  "xdr_VMAccelSurfaceAllocateReturnStatus = xdr_union SurfaceAllocateReturnStatus_errno SurfaceAllocateReturnStatus_errno_update
     (xdr_field (xdr_pointer zero_VMAccelSurfaceAllocateStatus xdr_VMAccelSurfaceAllocateStatus) SurfaceAllocateReturnStatus_ret SurfaceAllocateReturnStatus_ret_update)"

definition xdr_VMAccelDownloadReturnStatus :: "VMAccelDownloadReturnStatus xdrproc" where
  "xdr_VMAccelDownloadReturnStatus = xdr_union DownloadReturnStatus_errno DownloadReturnStatus_errno_update
     (xdr_field (xdr_pointer zero_VMAccelDownloadStatus xdr_VMAccelDownloadStatus) DownloadReturnStatus_ret DownloadReturnStatus_ret_update)"

definition xdr_VMAccelSurfaceMapReturnStatus :: "VMAccelSurfaceMapReturnStatus xdrproc" where
  "xdr_VMAccelSurfaceMapReturnStatus = xdr_union SurfaceMapReturnStatus_errno SurfaceMapReturnStatus_errno_update
     (xdr_field (xdr_pointer zero_VMAccelSurfaceMapStatus xdr_VMAccelSurfaceMapStatus) SurfaceMapReturnStatus_ret SurfaceMapReturnStatus_ret_update)"

definition xdr_VMAccelComputeReturnStatus :: "VMAccelComputeReturnStatus xdrproc" where
  "xdr_VMAccelComputeReturnStatus = xdr_union ComputeReturnStatus_errno ComputeReturnStatus_errno_update
     (xdr_field (xdr_pointer zero_VMAccelComputeStatus xdr_VMAccelComputeStatus) ComputeReturnStatus_ret ComputeReturnStatus_ret_update)"

subsection \<open>External representation and contract of every type\<close>

lemmas VMAccelStatusCode_codec [xdr_codecs] = u_int_codec [folded xdr_VMAccelStatusCode_def]

lemmas VMAccelResourceType_codec [xdr_codecs] = u_int_codec [folded xdr_VMAccelResourceType_def]

lemmas VMAccelArchitectureType_codec [xdr_codecs] = u_int_codec [folded xdr_VMAccelArchitectureType_def]

lemmas VMAccelSelectionMask_codec [xdr_codecs] = u_int_codec [folded xdr_VMAccelSelectionMask_def]

lemmas VMAccelId_codec [xdr_codecs] = u_int_codec [folded xdr_VMAccelId_def]

lemmas VMAccelCaps_codec [xdr_codecs] = u_int_codec [folded xdr_VMAccelCaps_def]

lemmas VMAccelSurfacePool_codec [xdr_codecs] = u_int_codec [folded xdr_VMAccelSurfacePool_def]

lemmas VMAccelSurfaceType_codec [xdr_codecs] = u_int_codec [folded xdr_VMAccelSurfaceType_def]

lemmas VMAccelSurfaceUsage_codec [xdr_codecs] = u_int_codec [folded xdr_VMAccelSurfaceUsage_def]

lemmas VMAccelSurfaceMapFlags_codec [xdr_codecs] = u_int_codec [folded xdr_VMAccelSurfaceMapFlags_def]

lemmas VMAccelSurfaceReadConsistency_codec [xdr_codecs] = u_int_codec [folded xdr_VMAccelSurfaceReadConsistency_def]

lemmas VMAccelSurfaceWriteConsistency_codec [xdr_codecs] = u_int_codec [folded xdr_VMAccelSurfaceWriteConsistency_def]

lemmas VMAccelFormatCaps_codec [xdr_codecs] = u_int_codec [folded xdr_VMAccelFormatCaps_def]

lemmas VMAccelSurfaceBindFlags_codec [xdr_codecs] = u_int_codec [folded xdr_VMAccelSurfaceBindFlags_def]

lemmas VMAccelSurfaceFormat_codec [xdr_codecs] = u_int_codec [folded xdr_VMAccelSurfaceFormat_def]

lemmas VMAccelSurfaceFormatCaps_codec [xdr_codecs] = u_int_codec [folded xdr_VMAccelSurfaceFormatCaps_def]

definition enc_VMAccelStatus :: "VMAccelStatus \<Rightarrow> byte list" where
  "enc_VMAccelStatus v =
     enc_bytes (Status_nonce v) @ be32 (Status_status v)"

definition ok_VMAccelStatus :: "VMAccelStatus \<Rightarrow> bool" where
  "ok_VMAccelStatus v \<longleftrightarrow>
     ok_vec (\<lambda>_. True) VMACCEL_MAX_NONCE_SIZE (Status_nonce v)"

definition clean_VMAccelStatus :: "VMAccelStatus \<Rightarrow> bool" where
  "clean_VMAccelStatus v \<longleftrightarrow>
     clean_vec (Status_nonce v)"

lemma VMAccelStatus_codec [xdr_codecs]: "xdr_codec xdr_VMAccelStatus ok_VMAccelStatus enc_VMAccelStatus clean_VMAccelStatus"
  unfolding xdr_VMAccelStatus_def
  by (rule codec_structI, (rule xdr_steps xdr_codecs | (auto simp: enc_VMAccelStatus_def ok_VMAccelStatus_def clean_VMAccelStatus_def)[1])+)

definition enc_VMAccelAddress :: "VMAccelAddress \<Rightarrow> byte list" where
  "enc_VMAccelAddress v =
     enc_bytes (Address_addr v) @ be32 (Address_port v) @ be32 (Address_resourceType v) @
     be32 (Address_subDevice v)"

definition ok_VMAccelAddress :: "VMAccelAddress \<Rightarrow> bool" where
  "ok_VMAccelAddress v \<longleftrightarrow>
     ok_vec (\<lambda>_. True) VMACCEL_MAX_LOCATION_SIZE (Address_addr v)"

definition clean_VMAccelAddress :: "VMAccelAddress \<Rightarrow> bool" where
  "clean_VMAccelAddress v \<longleftrightarrow>
     clean_vec (Address_addr v)"

lemma VMAccelAddress_codec [xdr_codecs]: "xdr_codec xdr_VMAccelAddress ok_VMAccelAddress enc_VMAccelAddress clean_VMAccelAddress"
  unfolding xdr_VMAccelAddress_def
  by (rule codec_structI, (rule xdr_steps xdr_codecs | (auto simp: enc_VMAccelAddress_def ok_VMAccelAddress_def clean_VMAccelAddress_def)[1])+)

definition enc_VMAccelCallback :: "VMAccelCallback \<Rightarrow> byte list" where
  "enc_VMAccelCallback v =
     enc_VMAccelAddress (Callback_addr v) @ enc_bytes (Callback_payload v)"

definition ok_VMAccelCallback :: "VMAccelCallback \<Rightarrow> bool" where
  "ok_VMAccelCallback v \<longleftrightarrow>
     ok_VMAccelAddress (Callback_addr v) \<and>
     ok_vec (\<lambda>_. True) 0xffffffff (Callback_payload v)"

definition clean_VMAccelCallback :: "VMAccelCallback \<Rightarrow> bool" where
  "clean_VMAccelCallback v \<longleftrightarrow>
     clean_VMAccelAddress (Callback_addr v) \<and> clean_vec (Callback_payload v)"

lemma VMAccelCallback_codec [xdr_codecs]: "xdr_codec xdr_VMAccelCallback ok_VMAccelCallback enc_VMAccelCallback clean_VMAccelCallback"
  unfolding xdr_VMAccelCallback_def
  by (rule codec_structI, (rule xdr_steps xdr_codecs | (auto simp: enc_VMAccelCallback_def ok_VMAccelCallback_def clean_VMAccelCallback_def)[1])+)

definition enc_VMAccelFormatDesc :: "VMAccelFormatDesc \<Rightarrow> byte list" where
  "enc_VMAccelFormatDesc v =
     be32 (FormatDesc_format v) @ be32 (FormatDesc_caps v)"

lemma VMAccelFormatDesc_codec [xdr_codecs]: "xdr_codec xdr_VMAccelFormatDesc (\<lambda>_. True) enc_VMAccelFormatDesc (\<lambda>_. True)"
  unfolding xdr_VMAccelFormatDesc_def
  by (rule codec_structI, (rule xdr_steps xdr_codecs | (auto simp: enc_VMAccelFormatDesc_def)[1])+)

definition enc_VMAccelWorkloadDesc :: "VMAccelWorkloadDesc \<Rightarrow> byte list" where
  "enc_VMAccelWorkloadDesc v =
     be32 (WorkloadDesc_megaFlops v) @ be32 (WorkloadDesc_megaOps v) @
     be32 (WorkloadDesc_llcSizeKB v) @ be32 (WorkloadDesc_llcBandwidthMBSec v) @
     be32 (WorkloadDesc_localMemSizeKB v) @ be32 (WorkloadDesc_localMemBandwidthMBSec v) @
     be32 (WorkloadDesc_nonLocalMemSizeKB v) @ be32 (WorkloadDesc_nonLocalMemBandwidthMBSec v) @
     be32 (WorkloadDesc_interconnectBandwidthMBSec v)"

lemma VMAccelWorkloadDesc_codec [xdr_codecs]: "xdr_codec xdr_VMAccelWorkloadDesc (\<lambda>_. True) enc_VMAccelWorkloadDesc (\<lambda>_. True)"
  unfolding xdr_VMAccelWorkloadDesc_def
  by (rule codec_structI, (rule xdr_steps xdr_codecs | (auto simp: enc_VMAccelWorkloadDesc_def)[1])+)

definition enc_VMAccelDesc :: "VMAccelDesc \<Rightarrow> byte list" where
  "enc_VMAccelDesc v =
     be32 (Desc_parentId v) @ enc_VMAccelAddress (Desc_parentAddr v) @ be32 (Desc_typeMask v) @
     be32 (Desc_architecture v) @ be32 (Desc_caps v) @
     enc_vec enc_VMAccelFormatDesc (Desc_formatCaps v) @
     enc_VMAccelWorkloadDesc (Desc_capacity v) @ be32 (Desc_maxContexts v) @
     be32 (Desc_maxQueues v) @ be32 (Desc_maxEvents v) @ be32 (Desc_maxFences v) @
     be32 (Desc_maxSurfaces v) @ be32 (Desc_maxMappings v)"

definition ok_VMAccelDesc :: "VMAccelDesc \<Rightarrow> bool" where
  "ok_VMAccelDesc v \<longleftrightarrow>
     ok_VMAccelAddress (Desc_parentAddr v) \<and>
     ok_vec (\<lambda>_. True) (vec_bound 0xffffffff 8) (Desc_formatCaps v)"

definition clean_VMAccelDesc :: "VMAccelDesc \<Rightarrow> bool" where
  "clean_VMAccelDesc v \<longleftrightarrow>
     clean_VMAccelAddress (Desc_parentAddr v) \<and> clean_vec (Desc_formatCaps v)"

lemma VMAccelDesc_codec [xdr_codecs]: "xdr_codec xdr_VMAccelDesc ok_VMAccelDesc enc_VMAccelDesc clean_VMAccelDesc"
  unfolding xdr_VMAccelDesc_def
  by (rule codec_structI, (rule xdr_steps xdr_codecs | (auto simp: enc_VMAccelDesc_def ok_VMAccelDesc_def clean_VMAccelDesc_def)[1])+)

definition enc_VMAccelResourceDesc :: "VMAccelResourceDesc \<Rightarrow> byte list" where
  "enc_VMAccelResourceDesc v =
     be32 (ResourceDesc_parentId v) @ enc_VMAccelAddress (ResourceDesc_parentAddr v) @
     be32 (ResourceDesc_typeMask v) @ be32 (ResourceDesc_selectionMask v) @
     be32 (ResourceDesc_caps v) @ be32 (ResourceDesc_num v) @ be32 (ResourceDesc_size v)"

definition ok_VMAccelResourceDesc :: "VMAccelResourceDesc \<Rightarrow> bool" where
  "ok_VMAccelResourceDesc v \<longleftrightarrow>
     ok_VMAccelAddress (ResourceDesc_parentAddr v)"

definition clean_VMAccelResourceDesc :: "VMAccelResourceDesc \<Rightarrow> bool" where
  "clean_VMAccelResourceDesc v \<longleftrightarrow>
     clean_VMAccelAddress (ResourceDesc_parentAddr v)"

lemma VMAccelResourceDesc_codec [xdr_codecs]: "xdr_codec xdr_VMAccelResourceDesc ok_VMAccelResourceDesc enc_VMAccelResourceDesc clean_VMAccelResourceDesc"
  unfolding xdr_VMAccelResourceDesc_def
  by (rule codec_structI, (rule xdr_steps xdr_codecs | (auto simp: enc_VMAccelResourceDesc_def ok_VMAccelResourceDesc_def clean_VMAccelResourceDesc_def)[1])+)

definition enc_VMAccelAllocateStatus :: "VMAccelAllocateStatus \<Rightarrow> byte list" where
  "enc_VMAccelAllocateStatus v =
     be32 (AllocateStatus_status v) @ be32 (AllocateStatus_id v) @
     enc_VMAccelDesc (AllocateStatus_desc v)"

definition ok_VMAccelAllocateStatus :: "VMAccelAllocateStatus \<Rightarrow> bool" where
  "ok_VMAccelAllocateStatus v \<longleftrightarrow>
     ok_VMAccelDesc (AllocateStatus_desc v)"

definition clean_VMAccelAllocateStatus :: "VMAccelAllocateStatus \<Rightarrow> bool" where
  "clean_VMAccelAllocateStatus v \<longleftrightarrow>
     clean_VMAccelDesc (AllocateStatus_desc v)"

lemma VMAccelAllocateStatus_codec [xdr_codecs]: "xdr_codec xdr_VMAccelAllocateStatus ok_VMAccelAllocateStatus enc_VMAccelAllocateStatus clean_VMAccelAllocateStatus"
  unfolding xdr_VMAccelAllocateStatus_def
  by (rule codec_structI, (rule xdr_steps xdr_codecs | (auto simp: enc_VMAccelAllocateStatus_def ok_VMAccelAllocateStatus_def clean_VMAccelAllocateStatus_def)[1])+)

definition enc_VMAccelRegisterDesc :: "VMAccelRegisterDesc \<Rightarrow> byte list" where
  "enc_VMAccelRegisterDesc v =
     enc_VMAccelDesc (RegisterDesc_desc v) @ be32 (RegisterDesc_typeMask v)"

definition ok_VMAccelRegisterDesc :: "VMAccelRegisterDesc \<Rightarrow> bool" where
  "ok_VMAccelRegisterDesc v \<longleftrightarrow>
     ok_VMAccelDesc (RegisterDesc_desc v)"

definition clean_VMAccelRegisterDesc :: "VMAccelRegisterDesc \<Rightarrow> bool" where
  "clean_VMAccelRegisterDesc v \<longleftrightarrow>
     clean_VMAccelDesc (RegisterDesc_desc v)"

lemma VMAccelRegisterDesc_codec [xdr_codecs]: "xdr_codec xdr_VMAccelRegisterDesc ok_VMAccelRegisterDesc enc_VMAccelRegisterDesc clean_VMAccelRegisterDesc"
  unfolding xdr_VMAccelRegisterDesc_def
  by (rule codec_structI, (rule xdr_steps xdr_codecs | (auto simp: enc_VMAccelRegisterDesc_def ok_VMAccelRegisterDesc_def clean_VMAccelRegisterDesc_def)[1])+)

definition enc_VMAccelResourceAllocateStatus :: "VMAccelResourceAllocateStatus \<Rightarrow> byte list" where
  "enc_VMAccelResourceAllocateStatus v =
     be32 (ResourceAllocateStatus_status v) @ be32 (ResourceAllocateStatus_id v)"

lemma VMAccelResourceAllocateStatus_codec [xdr_codecs]: "xdr_codec xdr_VMAccelResourceAllocateStatus (\<lambda>_. True) enc_VMAccelResourceAllocateStatus (\<lambda>_. True)"
  unfolding xdr_VMAccelResourceAllocateStatus_def
  by (rule codec_structI, (rule xdr_steps xdr_codecs | (auto simp: enc_VMAccelResourceAllocateStatus_def)[1])+)

definition enc_VMAccelRegisterAllocationDesc :: "VMAccelRegisterAllocationDesc \<Rightarrow> byte list" where
  "enc_VMAccelRegisterAllocationDesc v =
     enc_VMAccelAddress (RegisterAllocationDesc_parentAddr v) @
     be32 (RegisterAllocationDesc_typeMask v) @ be32 (RegisterAllocationDesc_num v) @
     be32 (RegisterAllocationDesc_size v)"

definition ok_VMAccelRegisterAllocationDesc :: "VMAccelRegisterAllocationDesc \<Rightarrow> bool" where
  "ok_VMAccelRegisterAllocationDesc v \<longleftrightarrow>
     ok_VMAccelAddress (RegisterAllocationDesc_parentAddr v)"

definition clean_VMAccelRegisterAllocationDesc :: "VMAccelRegisterAllocationDesc \<Rightarrow> bool" where
  "clean_VMAccelRegisterAllocationDesc v \<longleftrightarrow>
     clean_VMAccelAddress (RegisterAllocationDesc_parentAddr v)"

lemma VMAccelRegisterAllocationDesc_codec [xdr_codecs]: "xdr_codec xdr_VMAccelRegisterAllocationDesc ok_VMAccelRegisterAllocationDesc enc_VMAccelRegisterAllocationDesc clean_VMAccelRegisterAllocationDesc"
  unfolding xdr_VMAccelRegisterAllocationDesc_def
  by (rule codec_structI, (rule xdr_steps xdr_codecs | (auto simp: enc_VMAccelRegisterAllocationDesc_def ok_VMAccelRegisterAllocationDesc_def clean_VMAccelRegisterAllocationDesc_def)[1])+)

definition enc_VMAccelRegisterStatus :: "VMAccelRegisterStatus \<Rightarrow> byte list" where
  "enc_VMAccelRegisterStatus v =
     be32 (RegisterStatus_status v) @ be32 (RegisterStatus_id v)"

lemma VMAccelRegisterStatus_codec [xdr_codecs]: "xdr_codec xdr_VMAccelRegisterStatus (\<lambda>_. True) enc_VMAccelRegisterStatus (\<lambda>_. True)"
  unfolding xdr_VMAccelRegisterStatus_def
  by (rule codec_structI, (rule xdr_steps xdr_codecs | (auto simp: enc_VMAccelRegisterStatus_def)[1])+)

definition enc_VMAccelElementDouble4D :: "VMAccelElementDouble4D \<Rightarrow> byte list" where
  "enc_VMAccelElementDouble4D v =
     enc_double (ElementDouble4D_x v) @ enc_double (ElementDouble4D_y v) @
     enc_double (ElementDouble4D_z v) @ enc_double (ElementDouble4D_w v)"

lemma VMAccelElementDouble4D_codec [xdr_codecs]: "xdr_codec xdr_VMAccelElementDouble4D (\<lambda>_. True) enc_VMAccelElementDouble4D (\<lambda>_. True)"
  unfolding xdr_VMAccelElementDouble4D_def
  by (rule codec_structI, (rule xdr_steps xdr_codecs | (auto simp: enc_VMAccelElementDouble4D_def)[1])+)

definition enc_VMAccelElementFloat4D :: "VMAccelElementFloat4D \<Rightarrow> byte list" where
  "enc_VMAccelElementFloat4D v =
     be32 (ElementFloat4D_x v) @ be32 (ElementFloat4D_y v) @ be32 (ElementFloat4D_z v) @
     be32 (ElementFloat4D_w v)"

lemma VMAccelElementFloat4D_codec [xdr_codecs]: "xdr_codec xdr_VMAccelElementFloat4D (\<lambda>_. True) enc_VMAccelElementFloat4D (\<lambda>_. True)"
  unfolding xdr_VMAccelElementFloat4D_def
  by (rule codec_structI, (rule xdr_steps xdr_codecs | (auto simp: enc_VMAccelElementFloat4D_def)[1])+)

definition enc_VMAccelElementUINT4D :: "VMAccelElementUINT4D \<Rightarrow> byte list" where
  "enc_VMAccelElementUINT4D v =
     be32 (ElementUINT4D_r v) @ be32 (ElementUINT4D_g v) @ be32 (ElementUINT4D_b v) @
     be32 (ElementUINT4D_a v)"

lemma VMAccelElementUINT4D_codec [xdr_codecs]: "xdr_codec xdr_VMAccelElementUINT4D (\<lambda>_. True) enc_VMAccelElementUINT4D (\<lambda>_. True)"
  unfolding xdr_VMAccelElementUINT4D_def
  by (rule codec_structI, (rule xdr_steps xdr_codecs | (auto simp: enc_VMAccelElementUINT4D_def)[1])+)

definition enc_VMAccelCoordinate2DUINT :: "VMAccelCoordinate2DUINT \<Rightarrow> byte list" where
  "enc_VMAccelCoordinate2DUINT v =
     be32 (Coordinate2DUINT_x v) @ be32 (Coordinate2DUINT_y v)"

lemma VMAccelCoordinate2DUINT_codec [xdr_codecs]: "xdr_codec xdr_VMAccelCoordinate2DUINT (\<lambda>_. True) enc_VMAccelCoordinate2DUINT (\<lambda>_. True)"
  unfolding xdr_VMAccelCoordinate2DUINT_def
  by (rule codec_structI, (rule xdr_steps xdr_codecs | (auto simp: enc_VMAccelCoordinate2DUINT_def)[1])+)

definition enc_VMAccelCoordinate3DUINT :: "VMAccelCoordinate3DUINT \<Rightarrow> byte list" where
  "enc_VMAccelCoordinate3DUINT v =
     be32 (Coordinate3DUINT_x v) @ be32 (Coordinate3DUINT_y v) @ be32 (Coordinate3DUINT_z v)"

lemma VMAccelCoordinate3DUINT_codec [xdr_codecs]: "xdr_codec xdr_VMAccelCoordinate3DUINT (\<lambda>_. True) enc_VMAccelCoordinate3DUINT (\<lambda>_. True)"
  unfolding xdr_VMAccelCoordinate3DUINT_def
  by (rule codec_structI, (rule xdr_steps xdr_codecs | (auto simp: enc_VMAccelCoordinate3DUINT_def)[1])+)

definition enc_VMAccelCoordinate4DUINT :: "VMAccelCoordinate4DUINT \<Rightarrow> byte list" where
  "enc_VMAccelCoordinate4DUINT v =
     be32 (Coordinate4DUINT_x v) @ be32 (Coordinate4DUINT_y v) @ be32 (Coordinate4DUINT_z v) @
     be32 (Coordinate4DUINT_w v)"

lemma VMAccelCoordinate4DUINT_codec [xdr_codecs]: "xdr_codec xdr_VMAccelCoordinate4DUINT (\<lambda>_. True) enc_VMAccelCoordinate4DUINT (\<lambda>_. True)"
  unfolding xdr_VMAccelCoordinate4DUINT_def
  by (rule codec_structI, (rule xdr_steps xdr_codecs | (auto simp: enc_VMAccelCoordinate4DUINT_def)[1])+)

definition enc_VMAccelSurfaceDesc :: "VMAccelSurfaceDesc \<Rightarrow> byte list" where
  "enc_VMAccelSurfaceDesc v =
     be32 (SurfaceDesc_parentId v) @ be32 (SurfaceDesc_type v) @ be32 (SurfaceDesc_width v) @
     be32 (SurfaceDesc_height v) @ be32 (SurfaceDesc_depth v) @ be32 (SurfaceDesc_mipLevels v) @
     be32 (SurfaceDesc_arraySize v) @ be32 (SurfaceDesc_samples v) @ be32 (SurfaceDesc_format v) @
     be32 (SurfaceDesc_formatCaps v) @ be32 (SurfaceDesc_pool v) @ be32 (SurfaceDesc_usage v) @
     be32 (SurfaceDesc_bindFlags v) @ be32 (SurfaceDesc_slicePitch v) @
     be32 (SurfaceDesc_rowPitch v)"

lemma VMAccelSurfaceDesc_codec [xdr_codecs]: "xdr_codec xdr_VMAccelSurfaceDesc (\<lambda>_. True) enc_VMAccelSurfaceDesc (\<lambda>_. True)"
  unfolding xdr_VMAccelSurfaceDesc_def
  by (rule codec_structI, (rule xdr_steps xdr_codecs | (auto simp: enc_VMAccelSurfaceDesc_def)[1])+)

lemmas VMAccelHandleType_codec [xdr_codecs] = u_int_codec [folded xdr_VMAccelHandleType_def]

definition enc_VMAccelSurfaceId :: "VMAccelSurfaceId \<Rightarrow> byte list" where
  "enc_VMAccelSurfaceId v =
     be32 (SurfaceId_type v) @ be32 (SurfaceId_handleType v) @ be32 (SurfaceId_id v) @
     be32 (SurfaceId_instance v) @ be32 (SurfaceId_offset v) @ be32 (SurfaceId_generation v)"

lemma VMAccelSurfaceId_codec [xdr_codecs]: "xdr_codec xdr_VMAccelSurfaceId (\<lambda>_. True) enc_VMAccelSurfaceId (\<lambda>_. True)"
  unfolding xdr_VMAccelSurfaceId_def
  by (rule codec_structI, (rule xdr_steps xdr_codecs | (auto simp: enc_VMAccelSurfaceId_def)[1])+)

definition enc_VMAccelSurfaceAllocateStatus :: "VMAccelSurfaceAllocateStatus \<Rightarrow> byte list" where
  "enc_VMAccelSurfaceAllocateStatus v =
     be32 (SurfaceAllocateStatus_status v) @
     enc_VMAccelSurfaceDesc (SurfaceAllocateStatus_surfaceDesc v)"

lemma VMAccelSurfaceAllocateStatus_codec [xdr_codecs]: "xdr_codec xdr_VMAccelSurfaceAllocateStatus (\<lambda>_. True) enc_VMAccelSurfaceAllocateStatus (\<lambda>_. True)"
  unfolding xdr_VMAccelSurfaceAllocateStatus_def
  by (rule codec_structI, (rule xdr_steps xdr_codecs | (auto simp: enc_VMAccelSurfaceAllocateStatus_def)[1])+)

lemmas VMAccelQueueFlags_codec [xdr_codecs] = u_int_codec [folded xdr_VMAccelQueueFlags_def]

definition enc_VMAccelQueueDesc :: "VMAccelQueueDesc \<Rightarrow> byte list" where
  "enc_VMAccelQueueDesc v =
     be32 (QueueDesc_flags v) @ be32 (QueueDesc_size v)"

lemma VMAccelQueueDesc_codec [xdr_codecs]: "xdr_codec xdr_VMAccelQueueDesc (\<lambda>_. True) enc_VMAccelQueueDesc (\<lambda>_. True)"
  unfolding xdr_VMAccelQueueDesc_def
  by (rule codec_structI, (rule xdr_steps xdr_codecs | (auto simp: enc_VMAccelQueueDesc_def)[1])+)

definition enc_VMAccelQueueStatus :: "VMAccelQueueStatus \<Rightarrow> byte list" where
  "enc_VMAccelQueueStatus v =
     be32 (QueueStatus_status v)"

lemma VMAccelQueueStatus_codec [xdr_codecs]: "xdr_codec xdr_VMAccelQueueStatus (\<lambda>_. True) enc_VMAccelQueueStatus (\<lambda>_. True)"
  unfolding xdr_VMAccelQueueStatus_def
  by (rule codec_structI, (rule xdr_steps xdr_codecs | (auto simp: enc_VMAccelQueueStatus_def)[1])+)

definition enc_VMAccelSurfaceRegion :: "VMAccelSurfaceRegion \<Rightarrow> byte list" where
  "enc_VMAccelSurfaceRegion v =
     be32 (SurfaceRegion_mipLevel v) @ enc_VMAccelCoordinate3DUINT (SurfaceRegion_coord v) @
     enc_VMAccelCoordinate3DUINT (SurfaceRegion_size v)"

lemma VMAccelSurfaceRegion_codec [xdr_codecs]: "xdr_codec xdr_VMAccelSurfaceRegion (\<lambda>_. True) enc_VMAccelSurfaceRegion (\<lambda>_. True)"
  unfolding xdr_VMAccelSurfaceRegion_def
  by (rule codec_structI, (rule xdr_steps xdr_codecs | (auto simp: enc_VMAccelSurfaceRegion_def)[1])+)

definition enc_VMAccelSurfaceCopyOp :: "VMAccelSurfaceCopyOp \<Rightarrow> byte list" where
  "enc_VMAccelSurfaceCopyOp v =
     enc_VMAccelSurfaceRegion (SurfaceCopyOp_dstRegion v) @
     enc_VMAccelSurfaceRegion (SurfaceCopyOp_srcRegion v)"

lemma VMAccelSurfaceCopyOp_codec [xdr_codecs]: "xdr_codec xdr_VMAccelSurfaceCopyOp (\<lambda>_. True) enc_VMAccelSurfaceCopyOp (\<lambda>_. True)"
  unfolding xdr_VMAccelSurfaceCopyOp_def
  by (rule codec_structI, (rule xdr_steps xdr_codecs | (auto simp: enc_VMAccelSurfaceCopyOp_def)[1])+)

definition enc_VMAccelImageFillOp :: "VMAccelImageFillOp \<Rightarrow> byte list" where
  "enc_VMAccelImageFillOp v =
     enc_VMAccelSurfaceRegion (ImageFillOp_dstRegion v) @
     enc_VMAccelElementDouble4D (ImageFillOp_d v) @ enc_VMAccelElementFloat4D (ImageFillOp_f v) @
     enc_VMAccelElementUINT4D (ImageFillOp_u v)"

lemma VMAccelImageFillOp_codec [xdr_codecs]: "xdr_codec xdr_VMAccelImageFillOp (\<lambda>_. True) enc_VMAccelImageFillOp (\<lambda>_. True)"
  unfolding xdr_VMAccelImageFillOp_def
  by (rule codec_structI, (rule xdr_steps xdr_codecs | (auto simp: enc_VMAccelImageFillOp_def)[1])+)

definition enc_VMAccelImageTransferOp :: "VMAccelImageTransferOp \<Rightarrow> byte list" where
  "enc_VMAccelImageTransferOp v =
     enc_VMAccelSurfaceRegion (ImageTransferOp_imgRegion v) @ enc_bytes (ImageTransferOp_ptr v) @
     enc_vec enc_VMAccelCallback (ImageTransferOp_callbacks v)"

definition ok_VMAccelImageTransferOp :: "VMAccelImageTransferOp \<Rightarrow> bool" where
  "ok_VMAccelImageTransferOp v \<longleftrightarrow>
     ok_vec (\<lambda>_. True) 0xffffffff (ImageTransferOp_ptr v) \<and>
     ok_vec ok_VMAccelCallback (vec_bound 0xffffffff 48) (ImageTransferOp_callbacks v)"

definition clean_VMAccelImageTransferOp :: "VMAccelImageTransferOp \<Rightarrow> bool" where
  "clean_VMAccelImageTransferOp v \<longleftrightarrow>
     clean_vec (ImageTransferOp_ptr v) \<and> clean_vec (ImageTransferOp_callbacks v)"

lemma VMAccelImageTransferOp_codec [xdr_codecs]: "xdr_codec xdr_VMAccelImageTransferOp ok_VMAccelImageTransferOp enc_VMAccelImageTransferOp clean_VMAccelImageTransferOp"
  unfolding xdr_VMAccelImageTransferOp_def
  by (rule codec_structI, (rule xdr_steps xdr_codecs | (auto simp: enc_VMAccelImageTransferOp_def ok_VMAccelImageTransferOp_def clean_VMAccelImageTransferOp_def clean_VMAccelAddress_def clean_VMAccelCallback_def clean_vec_def zero_VMAccelAddress_def zero_VMAccelCallback_def)[1])+)

definition enc_VMAccelDownloadStatus :: "VMAccelDownloadStatus \<Rightarrow> byte list" where
  "enc_VMAccelDownloadStatus v =
     be32 (DownloadStatus_status v) @ be32 (DownloadStatus_fence v) @
     enc_bytes (DownloadStatus_ptr v)"

definition ok_VMAccelDownloadStatus :: "VMAccelDownloadStatus \<Rightarrow> bool" where
  "ok_VMAccelDownloadStatus v \<longleftrightarrow>
     ok_vec (\<lambda>_. True) 0xffffffff (DownloadStatus_ptr v)"

definition clean_VMAccelDownloadStatus :: "VMAccelDownloadStatus \<Rightarrow> bool" where
  "clean_VMAccelDownloadStatus v \<longleftrightarrow>
     clean_vec (DownloadStatus_ptr v)"

lemma VMAccelDownloadStatus_codec [xdr_codecs]: "xdr_codec xdr_VMAccelDownloadStatus ok_VMAccelDownloadStatus enc_VMAccelDownloadStatus clean_VMAccelDownloadStatus"
  unfolding xdr_VMAccelDownloadStatus_def
  by (rule codec_structI, (rule xdr_steps xdr_codecs | (auto simp: enc_VMAccelDownloadStatus_def ok_VMAccelDownloadStatus_def clean_VMAccelDownloadStatus_def)[1])+)

definition enc_VMAccelSurfaceMapOp :: "VMAccelSurfaceMapOp \<Rightarrow> byte list" where
  "enc_VMAccelSurfaceMapOp v =
     enc_VMAccelSurfaceId (SurfaceMapOp_surf v) @
     enc_VMAccelCoordinate3DUINT (SurfaceMapOp_coord v) @
     enc_VMAccelCoordinate2DUINT (SurfaceMapOp_size v) @ be32 (SurfaceMapOp_mapFlags v)"

lemma VMAccelSurfaceMapOp_codec [xdr_codecs]: "xdr_codec xdr_VMAccelSurfaceMapOp (\<lambda>_. True) enc_VMAccelSurfaceMapOp (\<lambda>_. True)"
  unfolding xdr_VMAccelSurfaceMapOp_def
  by (rule codec_structI, (rule xdr_steps xdr_codecs | (auto simp: enc_VMAccelSurfaceMapOp_def)[1])+)

definition enc_VMAccelSurfaceUnmapOp :: "VMAccelSurfaceUnmapOp \<Rightarrow> byte list" where
  "enc_VMAccelSurfaceUnmapOp v =
     enc_VMAccelSurfaceId (SurfaceUnmapOp_surf v) @ be32 (SurfaceUnmapOp_mapFlags v) @
     enc_bytes (SurfaceUnmapOp_ptr v)"

definition ok_VMAccelSurfaceUnmapOp :: "VMAccelSurfaceUnmapOp \<Rightarrow> bool" where
  "ok_VMAccelSurfaceUnmapOp v \<longleftrightarrow>
     ok_vec (\<lambda>_. True) 0xffffffff (SurfaceUnmapOp_ptr v)"

definition clean_VMAccelSurfaceUnmapOp :: "VMAccelSurfaceUnmapOp \<Rightarrow> bool" where
  "clean_VMAccelSurfaceUnmapOp v \<longleftrightarrow>
     clean_vec (SurfaceUnmapOp_ptr v)"

lemma VMAccelSurfaceUnmapOp_codec [xdr_codecs]: "xdr_codec xdr_VMAccelSurfaceUnmapOp ok_VMAccelSurfaceUnmapOp enc_VMAccelSurfaceUnmapOp clean_VMAccelSurfaceUnmapOp"
  unfolding xdr_VMAccelSurfaceUnmapOp_def
  by (rule codec_structI, (rule xdr_steps xdr_codecs | (auto simp: enc_VMAccelSurfaceUnmapOp_def ok_VMAccelSurfaceUnmapOp_def clean_VMAccelSurfaceUnmapOp_def)[1])+)

definition enc_VMAccelSurfaceMapStatus :: "VMAccelSurfaceMapStatus \<Rightarrow> byte list" where
  "enc_VMAccelSurfaceMapStatus v =
     be32 (SurfaceMapStatus_status v) @ enc_bytes (SurfaceMapStatus_ptr v)"

definition ok_VMAccelSurfaceMapStatus :: "VMAccelSurfaceMapStatus \<Rightarrow> bool" where
  "ok_VMAccelSurfaceMapStatus v \<longleftrightarrow>
     ok_vec (\<lambda>_. True) 0xffffffff (SurfaceMapStatus_ptr v)"

definition clean_VMAccelSurfaceMapStatus :: "VMAccelSurfaceMapStatus \<Rightarrow> bool" where
  "clean_VMAccelSurfaceMapStatus v \<longleftrightarrow>
     clean_vec (SurfaceMapStatus_ptr v)"

lemma VMAccelSurfaceMapStatus_codec [xdr_codecs]: "xdr_codec xdr_VMAccelSurfaceMapStatus ok_VMAccelSurfaceMapStatus enc_VMAccelSurfaceMapStatus clean_VMAccelSurfaceMapStatus"
  unfolding xdr_VMAccelSurfaceMapStatus_def
  by (rule codec_structI, (rule xdr_steps xdr_codecs | (auto simp: enc_VMAccelSurfaceMapStatus_def ok_VMAccelSurfaceMapStatus_def clean_VMAccelSurfaceMapStatus_def)[1])+)

definition enc_VMAccelComputeArgDesc :: "VMAccelComputeArgDesc \<Rightarrow> byte list" where
  "enc_VMAccelComputeArgDesc v =
     be32 (ComputeArgDesc_index v) @ be32 (ComputeArgDesc_usage v) @
     enc_VMAccelSurfaceId (ComputeArgDesc_surf v) @ enc_bytes (ComputeArgDesc_data v)"

definition ok_VMAccelComputeArgDesc :: "VMAccelComputeArgDesc \<Rightarrow> bool" where
  "ok_VMAccelComputeArgDesc v \<longleftrightarrow>
     ok_vec (\<lambda>_. True) 0xffffffff (ComputeArgDesc_data v)"

definition clean_VMAccelComputeArgDesc :: "VMAccelComputeArgDesc \<Rightarrow> bool" where
  "clean_VMAccelComputeArgDesc v \<longleftrightarrow>
     clean_vec (ComputeArgDesc_data v)"

lemma VMAccelComputeArgDesc_codec [xdr_codecs]: "xdr_codec xdr_VMAccelComputeArgDesc ok_VMAccelComputeArgDesc enc_VMAccelComputeArgDesc clean_VMAccelComputeArgDesc"
  unfolding xdr_VMAccelComputeArgDesc_def
  by (rule codec_structI, (rule xdr_steps xdr_codecs | (auto simp: enc_VMAccelComputeArgDesc_def ok_VMAccelComputeArgDesc_def clean_VMAccelComputeArgDesc_def)[1])+)

definition enc_VMAccelComputeOp :: "VMAccelComputeOp \<Rightarrow> byte list" where
  "enc_VMAccelComputeOp v =
     be32 (ComputeOp_kernelType v) @ enc_bytes (ComputeOp_kernelSource v) @
     enc_bytes (ComputeOp_kernelBinary32 v) @ enc_bytes (ComputeOp_kernelBinary64 v) @
     enc_bytes (ComputeOp_kernelName v) @ be32 (ComputeOp_dimension v) @
     enc_vec be32 (ComputeOp_globalWorkOffset v) @ enc_vec be32 (ComputeOp_globalWorkSize v) @
     enc_vec be32 (ComputeOp_localWorkSize v) @
     enc_vec enc_VMAccelComputeArgDesc (ComputeOp_args v)"

definition ok_VMAccelComputeOp :: "VMAccelComputeOp \<Rightarrow> bool" where
  "ok_VMAccelComputeOp v \<longleftrightarrow>
     ok_vec (\<lambda>_. True) 0xffffffff (ComputeOp_kernelSource v) \<and>
     ok_vec (\<lambda>_. True) 0xffffffff (ComputeOp_kernelBinary32 v) \<and>
     ok_vec (\<lambda>_. True) 0xffffffff (ComputeOp_kernelBinary64 v) \<and>
     ok_vec (\<lambda>_. True) 0xffffffff (ComputeOp_kernelName v) \<and>
     ok_vec (\<lambda>_. True) (vec_bound 0xffffffff 4) (ComputeOp_globalWorkOffset v) \<and>
     ok_vec (\<lambda>_. True) (vec_bound 0xffffffff 4) (ComputeOp_globalWorkSize v) \<and>
     ok_vec (\<lambda>_. True) (vec_bound 0xffffffff 4) (ComputeOp_localWorkSize v) \<and>
     ok_vec ok_VMAccelComputeArgDesc (vec_bound 0xffffffff 48) (ComputeOp_args v)"

definition clean_VMAccelComputeOp :: "VMAccelComputeOp \<Rightarrow> bool" where
  "clean_VMAccelComputeOp v \<longleftrightarrow>
     clean_vec (ComputeOp_kernelSource v) \<and> clean_vec (ComputeOp_kernelBinary32 v) \<and>
     clean_vec (ComputeOp_kernelBinary64 v) \<and> clean_vec (ComputeOp_kernelName v) \<and>
     clean_vec (ComputeOp_globalWorkOffset v) \<and> clean_vec (ComputeOp_globalWorkSize v) \<and>
     clean_vec (ComputeOp_localWorkSize v) \<and> clean_vec (ComputeOp_args v)"

lemma VMAccelComputeOp_codec [xdr_codecs]: "xdr_codec xdr_VMAccelComputeOp ok_VMAccelComputeOp enc_VMAccelComputeOp clean_VMAccelComputeOp"
  unfolding xdr_VMAccelComputeOp_def
  by (rule codec_structI, (rule xdr_steps xdr_codecs | (auto simp: enc_VMAccelComputeOp_def ok_VMAccelComputeOp_def clean_VMAccelComputeOp_def clean_VMAccelComputeArgDesc_def clean_vec_def zero_VMAccelComputeArgDesc_def)[1])+)

definition enc_VMAccelComputeStatus :: "VMAccelComputeStatus \<Rightarrow> byte list" where
  "enc_VMAccelComputeStatus v =
     be32 (ComputeStatus_status v) @ enc_vec enc_VMAccelComputeArgDesc (ComputeStatus_outputs v)"

definition ok_VMAccelComputeStatus :: "VMAccelComputeStatus \<Rightarrow> bool" where
  "ok_VMAccelComputeStatus v \<longleftrightarrow>
     ok_vec ok_VMAccelComputeArgDesc (vec_bound 0xffffffff 48) (ComputeStatus_outputs v)"

definition clean_VMAccelComputeStatus :: "VMAccelComputeStatus \<Rightarrow> bool" where
  "clean_VMAccelComputeStatus v \<longleftrightarrow>
     clean_vec (ComputeStatus_outputs v)"

lemma VMAccelComputeStatus_codec [xdr_codecs]: "xdr_codec xdr_VMAccelComputeStatus ok_VMAccelComputeStatus enc_VMAccelComputeStatus clean_VMAccelComputeStatus"
  unfolding xdr_VMAccelComputeStatus_def
  by (rule codec_structI, (rule xdr_steps xdr_codecs | (auto simp: enc_VMAccelComputeStatus_def ok_VMAccelComputeStatus_def clean_VMAccelComputeStatus_def clean_VMAccelComputeArgDesc_def clean_vec_def zero_VMAccelComputeArgDesc_def)[1])+)

definition ok_VMAccelReturnStatus :: "VMAccelReturnStatus \<Rightarrow> bool" where
  "ok_VMAccelReturnStatus = (\<lambda>v. if ReturnStatus_errno v = 0 then pred_option ok_VMAccelStatus (ReturnStatus_ret v) else ReturnStatus_ret v = None)"

definition enc_VMAccelReturnStatus :: "VMAccelReturnStatus \<Rightarrow> byte list" where
  "enc_VMAccelReturnStatus = (\<lambda>v. be32 (ReturnStatus_errno v) @ (if ReturnStatus_errno v = 0 then enc_pointer enc_VMAccelStatus (ReturnStatus_ret v) else []))"

definition clean_VMAccelReturnStatus :: "VMAccelReturnStatus \<Rightarrow> bool" where
  "clean_VMAccelReturnStatus = (\<lambda>v. ReturnStatus_ret v = None)"

lemma VMAccelReturnStatus_codec [xdr_codecs]: "xdr_codec xdr_VMAccelReturnStatus ok_VMAccelReturnStatus enc_VMAccelReturnStatus clean_VMAccelReturnStatus"
  unfolding xdr_VMAccelReturnStatus_def ok_VMAccelReturnStatus_def enc_VMAccelReturnStatus_def clean_VMAccelReturnStatus_def
  by (rule union_codec, rule xdr_codecs, rule xdr_codecs) (simp_all add: clean_VMAccelStatus_def clean_vec_def zero_VMAccelStatus_def)

definition ok_VMAccelAllocateReturnStatus :: "VMAccelAllocateReturnStatus \<Rightarrow> bool" where
  "ok_VMAccelAllocateReturnStatus = (\<lambda>v. if AllocateReturnStatus_errno v = 0 then pred_option ok_VMAccelAllocateStatus (AllocateReturnStatus_ret v) else AllocateReturnStatus_ret v = None)"

definition enc_VMAccelAllocateReturnStatus :: "VMAccelAllocateReturnStatus \<Rightarrow> byte list" where
  "enc_VMAccelAllocateReturnStatus = (\<lambda>v. be32 (AllocateReturnStatus_errno v) @ (if AllocateReturnStatus_errno v = 0 then enc_pointer enc_VMAccelAllocateStatus (AllocateReturnStatus_ret v) else []))"

definition clean_VMAccelAllocateReturnStatus :: "VMAccelAllocateReturnStatus \<Rightarrow> bool" where
  "clean_VMAccelAllocateReturnStatus = (\<lambda>v. AllocateReturnStatus_ret v = None)"

lemma VMAccelAllocateReturnStatus_codec [xdr_codecs]: "xdr_codec xdr_VMAccelAllocateReturnStatus ok_VMAccelAllocateReturnStatus enc_VMAccelAllocateReturnStatus clean_VMAccelAllocateReturnStatus"
  unfolding xdr_VMAccelAllocateReturnStatus_def ok_VMAccelAllocateReturnStatus_def enc_VMAccelAllocateReturnStatus_def clean_VMAccelAllocateReturnStatus_def
  by (rule union_codec, rule xdr_codecs, rule xdr_codecs) (simp_all add: clean_VMAccelAddress_def clean_VMAccelAllocateStatus_def clean_VMAccelDesc_def clean_vec_def zero_VMAccelAddress_def zero_VMAccelAllocateStatus_def zero_VMAccelDesc_def)

definition ok_VMAccelResourceAllocateReturnStatus :: "VMAccelResourceAllocateReturnStatus \<Rightarrow> bool" where
  "ok_VMAccelResourceAllocateReturnStatus = (\<lambda>v. if ResourceAllocateReturnStatus_errno v = 0 then pred_option (\<lambda>_. True) (ResourceAllocateReturnStatus_ret v) else ResourceAllocateReturnStatus_ret v = None)"

definition enc_VMAccelResourceAllocateReturnStatus :: "VMAccelResourceAllocateReturnStatus \<Rightarrow> byte list" where
  "enc_VMAccelResourceAllocateReturnStatus = (\<lambda>v. be32 (ResourceAllocateReturnStatus_errno v) @ (if ResourceAllocateReturnStatus_errno v = 0 then enc_pointer enc_VMAccelResourceAllocateStatus (ResourceAllocateReturnStatus_ret v) else []))"

definition clean_VMAccelResourceAllocateReturnStatus :: "VMAccelResourceAllocateReturnStatus \<Rightarrow> bool" where
  "clean_VMAccelResourceAllocateReturnStatus = (\<lambda>v. ResourceAllocateReturnStatus_ret v = None)"

lemma VMAccelResourceAllocateReturnStatus_codec [xdr_codecs]: "xdr_codec xdr_VMAccelResourceAllocateReturnStatus ok_VMAccelResourceAllocateReturnStatus enc_VMAccelResourceAllocateReturnStatus clean_VMAccelResourceAllocateReturnStatus"
  unfolding xdr_VMAccelResourceAllocateReturnStatus_def ok_VMAccelResourceAllocateReturnStatus_def enc_VMAccelResourceAllocateReturnStatus_def clean_VMAccelResourceAllocateReturnStatus_def
  by (rule union_codec, rule xdr_codecs, rule xdr_codecs) (simp_all)

definition ok_VMAccelRegisterReturnStatus :: "VMAccelRegisterReturnStatus \<Rightarrow> bool" where
  "ok_VMAccelRegisterReturnStatus = (\<lambda>v. if RegisterReturnStatus_errno v = 0 then pred_option (\<lambda>_. True) (RegisterReturnStatus_ret v) else RegisterReturnStatus_ret v = None)"

definition enc_VMAccelRegisterReturnStatus :: "VMAccelRegisterReturnStatus \<Rightarrow> byte list" where
  "enc_VMAccelRegisterReturnStatus = (\<lambda>v. be32 (RegisterReturnStatus_errno v) @ (if RegisterReturnStatus_errno v = 0 then enc_pointer enc_VMAccelRegisterStatus (RegisterReturnStatus_ret v) else []))"

definition clean_VMAccelRegisterReturnStatus :: "VMAccelRegisterReturnStatus \<Rightarrow> bool" where
  "clean_VMAccelRegisterReturnStatus = (\<lambda>v. RegisterReturnStatus_ret v = None)"

lemma VMAccelRegisterReturnStatus_codec [xdr_codecs]: "xdr_codec xdr_VMAccelRegisterReturnStatus ok_VMAccelRegisterReturnStatus enc_VMAccelRegisterReturnStatus clean_VMAccelRegisterReturnStatus"
  unfolding xdr_VMAccelRegisterReturnStatus_def ok_VMAccelRegisterReturnStatus_def enc_VMAccelRegisterReturnStatus_def clean_VMAccelRegisterReturnStatus_def
  by (rule union_codec, rule xdr_codecs, rule xdr_codecs) (simp_all)

definition ok_VMAccelQueueReturnStatus :: "VMAccelQueueReturnStatus \<Rightarrow> bool" where
  "ok_VMAccelQueueReturnStatus = (\<lambda>v. if QueueReturnStatus_errno v = 0 then pred_option (\<lambda>_. True) (QueueReturnStatus_ret v) else QueueReturnStatus_ret v = None)"

definition enc_VMAccelQueueReturnStatus :: "VMAccelQueueReturnStatus \<Rightarrow> byte list" where
  "enc_VMAccelQueueReturnStatus = (\<lambda>v. be32 (QueueReturnStatus_errno v) @ (if QueueReturnStatus_errno v = 0 then enc_pointer enc_VMAccelQueueStatus (QueueReturnStatus_ret v) else []))"

definition clean_VMAccelQueueReturnStatus :: "VMAccelQueueReturnStatus \<Rightarrow> bool" where
  "clean_VMAccelQueueReturnStatus = (\<lambda>v. QueueReturnStatus_ret v = None)"

lemma VMAccelQueueReturnStatus_codec [xdr_codecs]: "xdr_codec xdr_VMAccelQueueReturnStatus ok_VMAccelQueueReturnStatus enc_VMAccelQueueReturnStatus clean_VMAccelQueueReturnStatus"
  unfolding xdr_VMAccelQueueReturnStatus_def ok_VMAccelQueueReturnStatus_def enc_VMAccelQueueReturnStatus_def clean_VMAccelQueueReturnStatus_def
  by (rule union_codec, rule xdr_codecs, rule xdr_codecs) (simp_all)

definition ok_VMAccelSurfaceAllocateReturnStatus :: "VMAccelSurfaceAllocateReturnStatus \<Rightarrow> bool" where
  "ok_VMAccelSurfaceAllocateReturnStatus = (\<lambda>v. if SurfaceAllocateReturnStatus_errno v = 0 then pred_option (\<lambda>_. True) (SurfaceAllocateReturnStatus_ret v) else SurfaceAllocateReturnStatus_ret v = None)"

definition enc_VMAccelSurfaceAllocateReturnStatus :: "VMAccelSurfaceAllocateReturnStatus \<Rightarrow> byte list" where
  "enc_VMAccelSurfaceAllocateReturnStatus = (\<lambda>v. be32 (SurfaceAllocateReturnStatus_errno v) @ (if SurfaceAllocateReturnStatus_errno v = 0 then enc_pointer enc_VMAccelSurfaceAllocateStatus (SurfaceAllocateReturnStatus_ret v) else []))"

definition clean_VMAccelSurfaceAllocateReturnStatus :: "VMAccelSurfaceAllocateReturnStatus \<Rightarrow> bool" where
  "clean_VMAccelSurfaceAllocateReturnStatus = (\<lambda>v. SurfaceAllocateReturnStatus_ret v = None)"

lemma VMAccelSurfaceAllocateReturnStatus_codec [xdr_codecs]: "xdr_codec xdr_VMAccelSurfaceAllocateReturnStatus ok_VMAccelSurfaceAllocateReturnStatus enc_VMAccelSurfaceAllocateReturnStatus clean_VMAccelSurfaceAllocateReturnStatus"
  unfolding xdr_VMAccelSurfaceAllocateReturnStatus_def ok_VMAccelSurfaceAllocateReturnStatus_def enc_VMAccelSurfaceAllocateReturnStatus_def clean_VMAccelSurfaceAllocateReturnStatus_def
  by (rule union_codec, rule xdr_codecs, rule xdr_codecs) (simp_all)

definition ok_VMAccelDownloadReturnStatus :: "VMAccelDownloadReturnStatus \<Rightarrow> bool" where
  "ok_VMAccelDownloadReturnStatus = (\<lambda>v. if DownloadReturnStatus_errno v = 0 then pred_option ok_VMAccelDownloadStatus (DownloadReturnStatus_ret v) else DownloadReturnStatus_ret v = None)"

definition enc_VMAccelDownloadReturnStatus :: "VMAccelDownloadReturnStatus \<Rightarrow> byte list" where
  "enc_VMAccelDownloadReturnStatus = (\<lambda>v. be32 (DownloadReturnStatus_errno v) @ (if DownloadReturnStatus_errno v = 0 then enc_pointer enc_VMAccelDownloadStatus (DownloadReturnStatus_ret v) else []))"

definition clean_VMAccelDownloadReturnStatus :: "VMAccelDownloadReturnStatus \<Rightarrow> bool" where
  "clean_VMAccelDownloadReturnStatus = (\<lambda>v. DownloadReturnStatus_ret v = None)"

lemma VMAccelDownloadReturnStatus_codec [xdr_codecs]: "xdr_codec xdr_VMAccelDownloadReturnStatus ok_VMAccelDownloadReturnStatus enc_VMAccelDownloadReturnStatus clean_VMAccelDownloadReturnStatus"
  unfolding xdr_VMAccelDownloadReturnStatus_def ok_VMAccelDownloadReturnStatus_def enc_VMAccelDownloadReturnStatus_def clean_VMAccelDownloadReturnStatus_def
  by (rule union_codec, rule xdr_codecs, rule xdr_codecs) (simp_all add: clean_VMAccelDownloadStatus_def clean_vec_def zero_VMAccelDownloadStatus_def)

definition ok_VMAccelSurfaceMapReturnStatus :: "VMAccelSurfaceMapReturnStatus \<Rightarrow> bool" where
  "ok_VMAccelSurfaceMapReturnStatus = (\<lambda>v. if SurfaceMapReturnStatus_errno v = 0 then pred_option ok_VMAccelSurfaceMapStatus (SurfaceMapReturnStatus_ret v) else SurfaceMapReturnStatus_ret v = None)"

definition enc_VMAccelSurfaceMapReturnStatus :: "VMAccelSurfaceMapReturnStatus \<Rightarrow> byte list" where
  "enc_VMAccelSurfaceMapReturnStatus = (\<lambda>v. be32 (SurfaceMapReturnStatus_errno v) @ (if SurfaceMapReturnStatus_errno v = 0 then enc_pointer enc_VMAccelSurfaceMapStatus (SurfaceMapReturnStatus_ret v) else []))"

definition clean_VMAccelSurfaceMapReturnStatus :: "VMAccelSurfaceMapReturnStatus \<Rightarrow> bool" where
  "clean_VMAccelSurfaceMapReturnStatus = (\<lambda>v. SurfaceMapReturnStatus_ret v = None)"

lemma VMAccelSurfaceMapReturnStatus_codec [xdr_codecs]: "xdr_codec xdr_VMAccelSurfaceMapReturnStatus ok_VMAccelSurfaceMapReturnStatus enc_VMAccelSurfaceMapReturnStatus clean_VMAccelSurfaceMapReturnStatus"
  unfolding xdr_VMAccelSurfaceMapReturnStatus_def ok_VMAccelSurfaceMapReturnStatus_def enc_VMAccelSurfaceMapReturnStatus_def clean_VMAccelSurfaceMapReturnStatus_def
  by (rule union_codec, rule xdr_codecs, rule xdr_codecs) (simp_all add: clean_VMAccelSurfaceMapStatus_def clean_vec_def zero_VMAccelSurfaceMapStatus_def)

definition ok_VMAccelComputeReturnStatus :: "VMAccelComputeReturnStatus \<Rightarrow> bool" where
  "ok_VMAccelComputeReturnStatus = (\<lambda>v. if ComputeReturnStatus_errno v = 0 then pred_option ok_VMAccelComputeStatus (ComputeReturnStatus_ret v) else ComputeReturnStatus_ret v = None)"

definition enc_VMAccelComputeReturnStatus :: "VMAccelComputeReturnStatus \<Rightarrow> byte list" where
  "enc_VMAccelComputeReturnStatus = (\<lambda>v. be32 (ComputeReturnStatus_errno v) @ (if ComputeReturnStatus_errno v = 0 then enc_pointer enc_VMAccelComputeStatus (ComputeReturnStatus_ret v) else []))"

definition clean_VMAccelComputeReturnStatus :: "VMAccelComputeReturnStatus \<Rightarrow> bool" where
  "clean_VMAccelComputeReturnStatus = (\<lambda>v. ComputeReturnStatus_ret v = None)"

lemma VMAccelComputeReturnStatus_codec [xdr_codecs]: "xdr_codec xdr_VMAccelComputeReturnStatus ok_VMAccelComputeReturnStatus enc_VMAccelComputeReturnStatus clean_VMAccelComputeReturnStatus"
  unfolding xdr_VMAccelComputeReturnStatus_def ok_VMAccelComputeReturnStatus_def enc_VMAccelComputeReturnStatus_def clean_VMAccelComputeReturnStatus_def
  by (rule union_codec, rule xdr_codecs, rule xdr_codecs) (simp_all add: clean_VMAccelComputeStatus_def clean_vec_def zero_VMAccelComputeStatus_def)

subsection \<open>The contract at the types the calls carry\<close>

interpretation VMAccelDesc_xdr: xdr_codec xdr_VMAccelDesc ok_VMAccelDesc enc_VMAccelDesc clean_VMAccelDesc
  by (rule VMAccelDesc_codec)

interpretation VMAccelComputeOp_xdr: xdr_codec xdr_VMAccelComputeOp ok_VMAccelComputeOp enc_VMAccelComputeOp clean_VMAccelComputeOp
  by (rule VMAccelComputeOp_codec)

interpretation VMAccelResourceDesc_xdr: xdr_codec xdr_VMAccelResourceDesc ok_VMAccelResourceDesc enc_VMAccelResourceDesc clean_VMAccelResourceDesc
  by (rule VMAccelResourceDesc_codec)

interpretation VMAccelRegisterDesc_xdr: xdr_codec xdr_VMAccelRegisterDesc ok_VMAccelRegisterDesc enc_VMAccelRegisterDesc clean_VMAccelRegisterDesc
  by (rule VMAccelRegisterDesc_codec)

interpretation VMAccelComputeReturnStatus_xdr: xdr_codec xdr_VMAccelComputeReturnStatus ok_VMAccelComputeReturnStatus enc_VMAccelComputeReturnStatus clean_VMAccelComputeReturnStatus
  by (rule VMAccelComputeReturnStatus_codec)

interpretation VMAccelAllocateReturnStatus_xdr: xdr_codec xdr_VMAccelAllocateReturnStatus ok_VMAccelAllocateReturnStatus enc_VMAccelAllocateReturnStatus clean_VMAccelAllocateReturnStatus
  by (rule VMAccelAllocateReturnStatus_codec)

interpretation VMAccelReturnStatus_xdr: xdr_codec xdr_VMAccelReturnStatus ok_VMAccelReturnStatus enc_VMAccelReturnStatus clean_VMAccelReturnStatus
  by (rule VMAccelReturnStatus_codec)

interpretation VMAccelSurfaceDesc_xdr: xdr_codec xdr_VMAccelSurfaceDesc "\<lambda>_. True" enc_VMAccelSurfaceDesc "\<lambda>_. True"
  by (rule VMAccelSurfaceDesc_codec)

interpretation VMAccelDownloadReturnStatus_xdr: xdr_codec xdr_VMAccelDownloadReturnStatus ok_VMAccelDownloadReturnStatus enc_VMAccelDownloadReturnStatus clean_VMAccelDownloadReturnStatus
  by (rule VMAccelDownloadReturnStatus_codec)

interpretation VMAccelSurfaceMapReturnStatus_xdr: xdr_codec xdr_VMAccelSurfaceMapReturnStatus ok_VMAccelSurfaceMapReturnStatus enc_VMAccelSurfaceMapReturnStatus clean_VMAccelSurfaceMapReturnStatus
  by (rule VMAccelSurfaceMapReturnStatus_codec)

subsection \<open>Properties\<close>


definition example_arg :: VMAccelComputeArgDesc where
  "example_arg = zero_VMAccelComputeArgDesc\<lparr>ComputeArgDesc_index := 1, ComputeArgDesc_data := Vec 3 (Some [7, 8, 9])\<rparr>"

definition no_bytes :: "byte c_vec" where
  "no_bytes = Vec 0 None"

definition example_op :: "VMAccelComputeArgDesc c_vec \<Rightarrow> VMAccelComputeOp" where
  "example_op args = \<lparr>ComputeOp_kernelType = 2, ComputeOp_kernelSource = Vec 2 (Some [65, 66]),
     ComputeOp_kernelBinary32 = no_bytes, ComputeOp_kernelBinary64 = no_bytes, ComputeOp_kernelName = no_bytes,
     ComputeOp_dimension = 1, ComputeOp_globalWorkOffset = Vec 0 None,
     ComputeOp_globalWorkSize = Vec 1 (Some [64]), ComputeOp_localWorkSize = Vec 0 None, ComputeOp_args = args\<rparr>"




text \<open>C24: the inline fast paths of \<^verbatim>\<open>xdr_VMAccelDesc\<close> (and of \<^verbatim>\<open>xdr_VMAccelWorkloadDesc\<close> inside it)
  write the same bytes and leave the same room as the field by field path, whichever
  \<^verbatim>\<open>XDR_INLINE\<close> requests the transport grants.\<close>

theorem VMAccelDesc_inline_equivalent:
  assumes "x_op x = XDR_ENCODE" and "ok_VMAccelDesc v"
  shows "map_sum id (\<lambda>(x', v'). (x_out x', x_room x', v')) (xdr_VMAccelDesc (x\<lparr>x_handy := h\<rparr>) v) =
    map_sum id (\<lambda>(x', v'). (x_out x', x_room x', v')) (xdr_VMAccelDesc (x\<lparr>x_handy := []\<rparr>) v)"
  using assms by (rule VMAccelDesc_xdr.inline_irrelevant)

theorem VMAccelDesc_inline_equivalent_witness:
  "map_sum id (\<lambda>(x', v'). (x_out x', x_room x', v')) (xdr_VMAccelDesc
     \<lparr>x_op = XDR_ENCODE, x_out = [], x_room = 500, x_in = [], x_handy = [True, True]\<rparr> zero_VMAccelDesc) =
   map_sum id (\<lambda>(x', v'). (x_out x', x_room x', v')) (xdr_VMAccelDesc
     \<lparr>x_op = XDR_ENCODE, x_out = [], x_room = 500, x_in = [], x_handy = []\<rparr> zero_VMAccelDesc)"
proof -
  let ?x = "\<lparr>x_op = XDR_ENCODE, x_out = [], x_room = 500, x_in = [], x_handy = []\<rparr>"
  have "ok_VMAccelDesc zero_VMAccelDesc"
    by (simp add: ok_VMAccelDesc_def zero_VMAccelDesc_def zero_VMAccelAddress_def ok_VMAccelAddress_def ok_vec_def)
  from VMAccelDesc_inline_equivalent [OF _ this, of ?x "[True, True]"] show ?thesis by simp
qed

text \<open>C1: every XDR procedure of the accelerator protocol keeps the contract \<open>xdr_codec\<close>: it
  encodes exactly the external representation of its type or reports a full stream, it
  decodes that representation back and refuses a truncated one, it is safe on arbitrary
  bytes, and it frees every block of an object.\<close>

theorem accel_protocol_codecs:
  "xdr_codec xdr_VMAccelStatusCode (\<lambda>_. True) be32 (\<lambda>_. True) \<and>
   xdr_codec xdr_VMAccelResourceType (\<lambda>_. True) be32 (\<lambda>_. True) \<and>
   xdr_codec xdr_VMAccelArchitectureType (\<lambda>_. True) be32 (\<lambda>_. True) \<and>
   xdr_codec xdr_VMAccelSelectionMask (\<lambda>_. True) be32 (\<lambda>_. True) \<and>
   xdr_codec xdr_VMAccelId (\<lambda>_. True) be32 (\<lambda>_. True) \<and>
   xdr_codec xdr_VMAccelCaps (\<lambda>_. True) be32 (\<lambda>_. True) \<and>
   xdr_codec xdr_VMAccelSurfacePool (\<lambda>_. True) be32 (\<lambda>_. True) \<and>
   xdr_codec xdr_VMAccelSurfaceType (\<lambda>_. True) be32 (\<lambda>_. True) \<and>
   xdr_codec xdr_VMAccelSurfaceUsage (\<lambda>_. True) be32 (\<lambda>_. True) \<and>
   xdr_codec xdr_VMAccelSurfaceMapFlags (\<lambda>_. True) be32 (\<lambda>_. True) \<and>
   xdr_codec xdr_VMAccelSurfaceReadConsistency (\<lambda>_. True) be32 (\<lambda>_. True) \<and>
   xdr_codec xdr_VMAccelSurfaceWriteConsistency (\<lambda>_. True) be32 (\<lambda>_. True) \<and>
   xdr_codec xdr_VMAccelFormatCaps (\<lambda>_. True) be32 (\<lambda>_. True) \<and>
   xdr_codec xdr_VMAccelSurfaceBindFlags (\<lambda>_. True) be32 (\<lambda>_. True) \<and>
   xdr_codec xdr_VMAccelSurfaceFormat (\<lambda>_. True) be32 (\<lambda>_. True) \<and>
   xdr_codec xdr_VMAccelSurfaceFormatCaps (\<lambda>_. True) be32 (\<lambda>_. True) \<and>
   xdr_codec xdr_VMAccelStatus ok_VMAccelStatus enc_VMAccelStatus clean_VMAccelStatus \<and>
   xdr_codec xdr_VMAccelAddress ok_VMAccelAddress enc_VMAccelAddress clean_VMAccelAddress \<and>
   xdr_codec xdr_VMAccelCallback ok_VMAccelCallback enc_VMAccelCallback clean_VMAccelCallback \<and>
   xdr_codec xdr_VMAccelFormatDesc (\<lambda>_. True) enc_VMAccelFormatDesc (\<lambda>_. True) \<and>
   xdr_codec xdr_VMAccelWorkloadDesc (\<lambda>_. True) enc_VMAccelWorkloadDesc (\<lambda>_. True) \<and>
   xdr_codec xdr_VMAccelDesc ok_VMAccelDesc enc_VMAccelDesc clean_VMAccelDesc \<and>
   xdr_codec xdr_VMAccelResourceDesc ok_VMAccelResourceDesc enc_VMAccelResourceDesc clean_VMAccelResourceDesc \<and>
   xdr_codec xdr_VMAccelAllocateStatus ok_VMAccelAllocateStatus enc_VMAccelAllocateStatus clean_VMAccelAllocateStatus \<and>
   xdr_codec xdr_VMAccelRegisterDesc ok_VMAccelRegisterDesc enc_VMAccelRegisterDesc clean_VMAccelRegisterDesc \<and>
   xdr_codec xdr_VMAccelResourceAllocateStatus (\<lambda>_. True) enc_VMAccelResourceAllocateStatus (\<lambda>_. True) \<and>
   xdr_codec xdr_VMAccelRegisterAllocationDesc ok_VMAccelRegisterAllocationDesc enc_VMAccelRegisterAllocationDesc clean_VMAccelRegisterAllocationDesc \<and>
   xdr_codec xdr_VMAccelRegisterStatus (\<lambda>_. True) enc_VMAccelRegisterStatus (\<lambda>_. True) \<and>
   xdr_codec xdr_VMAccelElementDouble4D (\<lambda>_. True) enc_VMAccelElementDouble4D (\<lambda>_. True) \<and>
   xdr_codec xdr_VMAccelElementFloat4D (\<lambda>_. True) enc_VMAccelElementFloat4D (\<lambda>_. True) \<and>
   xdr_codec xdr_VMAccelElementUINT4D (\<lambda>_. True) enc_VMAccelElementUINT4D (\<lambda>_. True) \<and>
   xdr_codec xdr_VMAccelCoordinate2DUINT (\<lambda>_. True) enc_VMAccelCoordinate2DUINT (\<lambda>_. True) \<and>
   xdr_codec xdr_VMAccelCoordinate3DUINT (\<lambda>_. True) enc_VMAccelCoordinate3DUINT (\<lambda>_. True) \<and>
   xdr_codec xdr_VMAccelCoordinate4DUINT (\<lambda>_. True) enc_VMAccelCoordinate4DUINT (\<lambda>_. True) \<and>
   xdr_codec xdr_VMAccelSurfaceDesc (\<lambda>_. True) enc_VMAccelSurfaceDesc (\<lambda>_. True) \<and>
   xdr_codec xdr_VMAccelHandleType (\<lambda>_. True) be32 (\<lambda>_. True) \<and>
   xdr_codec xdr_VMAccelSurfaceId (\<lambda>_. True) enc_VMAccelSurfaceId (\<lambda>_. True) \<and>
   xdr_codec xdr_VMAccelSurfaceAllocateStatus (\<lambda>_. True) enc_VMAccelSurfaceAllocateStatus (\<lambda>_. True) \<and>
   xdr_codec xdr_VMAccelQueueFlags (\<lambda>_. True) be32 (\<lambda>_. True) \<and>
   xdr_codec xdr_VMAccelQueueDesc (\<lambda>_. True) enc_VMAccelQueueDesc (\<lambda>_. True) \<and>
   xdr_codec xdr_VMAccelQueueStatus (\<lambda>_. True) enc_VMAccelQueueStatus (\<lambda>_. True) \<and>
   xdr_codec xdr_VMAccelSurfaceRegion (\<lambda>_. True) enc_VMAccelSurfaceRegion (\<lambda>_. True) \<and>
   xdr_codec xdr_VMAccelSurfaceCopyOp (\<lambda>_. True) enc_VMAccelSurfaceCopyOp (\<lambda>_. True) \<and>
   xdr_codec xdr_VMAccelImageFillOp (\<lambda>_. True) enc_VMAccelImageFillOp (\<lambda>_. True) \<and>
   xdr_codec xdr_VMAccelImageTransferOp ok_VMAccelImageTransferOp enc_VMAccelImageTransferOp clean_VMAccelImageTransferOp \<and>
   xdr_codec xdr_VMAccelDownloadStatus ok_VMAccelDownloadStatus enc_VMAccelDownloadStatus clean_VMAccelDownloadStatus \<and>
   xdr_codec xdr_VMAccelSurfaceMapOp (\<lambda>_. True) enc_VMAccelSurfaceMapOp (\<lambda>_. True) \<and>
   xdr_codec xdr_VMAccelSurfaceUnmapOp ok_VMAccelSurfaceUnmapOp enc_VMAccelSurfaceUnmapOp clean_VMAccelSurfaceUnmapOp \<and>
   xdr_codec xdr_VMAccelSurfaceMapStatus ok_VMAccelSurfaceMapStatus enc_VMAccelSurfaceMapStatus clean_VMAccelSurfaceMapStatus \<and>
   xdr_codec xdr_VMAccelComputeArgDesc ok_VMAccelComputeArgDesc enc_VMAccelComputeArgDesc clean_VMAccelComputeArgDesc \<and>
   xdr_codec xdr_VMAccelComputeOp ok_VMAccelComputeOp enc_VMAccelComputeOp clean_VMAccelComputeOp \<and>
   xdr_codec xdr_VMAccelComputeStatus ok_VMAccelComputeStatus enc_VMAccelComputeStatus clean_VMAccelComputeStatus \<and>
   xdr_codec xdr_VMAccelReturnStatus ok_VMAccelReturnStatus enc_VMAccelReturnStatus clean_VMAccelReturnStatus \<and>
   xdr_codec xdr_VMAccelAllocateReturnStatus ok_VMAccelAllocateReturnStatus enc_VMAccelAllocateReturnStatus clean_VMAccelAllocateReturnStatus \<and>
   xdr_codec xdr_VMAccelResourceAllocateReturnStatus ok_VMAccelResourceAllocateReturnStatus enc_VMAccelResourceAllocateReturnStatus clean_VMAccelResourceAllocateReturnStatus \<and>
   xdr_codec xdr_VMAccelRegisterReturnStatus ok_VMAccelRegisterReturnStatus enc_VMAccelRegisterReturnStatus clean_VMAccelRegisterReturnStatus \<and>
   xdr_codec xdr_VMAccelQueueReturnStatus ok_VMAccelQueueReturnStatus enc_VMAccelQueueReturnStatus clean_VMAccelQueueReturnStatus \<and>
   xdr_codec xdr_VMAccelSurfaceAllocateReturnStatus ok_VMAccelSurfaceAllocateReturnStatus enc_VMAccelSurfaceAllocateReturnStatus clean_VMAccelSurfaceAllocateReturnStatus \<and>
   xdr_codec xdr_VMAccelDownloadReturnStatus ok_VMAccelDownloadReturnStatus enc_VMAccelDownloadReturnStatus clean_VMAccelDownloadReturnStatus \<and>
   xdr_codec xdr_VMAccelSurfaceMapReturnStatus ok_VMAccelSurfaceMapReturnStatus enc_VMAccelSurfaceMapReturnStatus clean_VMAccelSurfaceMapReturnStatus \<and>
   xdr_codec xdr_VMAccelComputeReturnStatus ok_VMAccelComputeReturnStatus enc_VMAccelComputeReturnStatus clean_VMAccelComputeReturnStatus"
  by (intro conjI xdr_codecs)

end
