(* ===== verification/Rpc_Runtime.thy ===== *)
theory Rpc_Runtime
  imports Xdr_Codec
begin

section \<open>Remote procedure calls and mutexes\<close>

text \<open>
  What the generated client stubs and dispatch routines use of the ONC RPC library
  (\<^verbatim>\<open>clnt_call\<close>, \<^verbatim>\<open>svc_getargs\<close>, \<^verbatim>\<open>svc_sendreply\<close>, \<^verbatim>\<open>svc_freeargs\<close>, the \<^verbatim>\<open>svcerr\<close> replies) and of POSIX
  mutexes, as documented by \<^verbatim>\<open>rpc(3)\<close> and \<^verbatim>\<open>pthread_mutex_lock(3)\<close>.

  A server transport holds the bytes of the arguments that arrived and the room for a
  reply.  A dispatch routine takes a procedure number, a transport and the server's state,
  and returns the reply it sent (\<open>None\<close>: none) and the new state.  A client handle knows how
  much it can send and what happens to a request; \<open>connect\<close> is the handle whose requests reach
  a given dispatch routine.
\<close>

datatype rpc_reply = ReplyOk "byte list" | ProcUnavail | GarbageArgs | SystemErr

record svcxprt =
  tp_in :: "byte list"
  tp_room :: nat
  tp_handy :: "bool list"

type_synonym 's dispatcher = "u32 \<Rightarrow> svcxprt \<Rightarrow> 's \<Rightarrow> (rpc_reply option \<times> 's) cres"

definition svc_getargs :: "svcxprt \<Rightarrow> 'a xdrproc \<Rightarrow> 'a \<Rightarrow> 'a option cres" where
  "svc_getargs tp proc argp =
     (case proc \<lparr>x_op = XDR_DECODE, x_out = [], x_room = 0, x_in = tp_in tp, x_handy = tp_handy tp\<rparr> argp of
        Inl e \<Rightarrow> if e = ReturnsFalse then Inr None else Inl e
      | Inr (x, v) \<Rightarrow> Inr (Some v))"

definition svc_sendreply :: "svcxprt \<Rightarrow> 'a xdrproc \<Rightarrow> 'a \<Rightarrow> rpc_reply option cres" where
  "svc_sendreply tp proc v =
     (case proc \<lparr>x_op = XDR_ENCODE, x_out = [], x_room = tp_room tp, x_in = [], x_handy = tp_handy tp\<rparr> v of
        Inl e \<Rightarrow> if e = ReturnsFalse then Inr None else Inl e
      | Inr (x, v) \<Rightarrow> Inr (Some (ReplyOk (x_out x))))"

definition svc_freeargs :: "'a xdrproc \<Rightarrow> 'a \<Rightarrow> bool cres" where
  "svc_freeargs proc argp =
     (case proc \<lparr>x_op = XDR_FREE, x_out = [], x_room = 0, x_in = [], x_handy = []\<rparr> argp of
        Inl e \<Rightarrow> if e = ReturnsFalse then Inr False else Inl e
      | Inr _ \<Rightarrow> Inr True)"

text \<open>The part every dispatch routine has after its \<^verbatim>\<open>switch\<close>: \<open>xa\<close> and \<open>xr\<close> are \<^verbatim>\<open>_xdr_argument\<close> and
  \<^verbatim>\<open>_xdr_result\<close>, \<open>za\<close> the cleared \<^verbatim>\<open>argument\<close>, \<open>local\<close> the procedure, which may change the argument.\<close>

definition serve :: "'a xdrproc \<Rightarrow> 'a \<Rightarrow> 'r xdrproc \<Rightarrow> ('a \<Rightarrow> 's \<Rightarrow> ('r option \<times> 'a \<times> 's) cres) \<Rightarrow> svcxprt \<Rightarrow> 's \<Rightarrow>
    (rpc_reply option \<times> 's) cres" where
  "serve xa za xr local tp s =
     cbind (svc_getargs tp xa za) (\<lambda>arg. case arg of
       None \<Rightarrow> Inr (Some GarbageArgs, s)
     | Some arg \<Rightarrow> cbind (local arg s) (\<lambda>(result, arg, s).
         cbind (case result of None \<Rightarrow> Inr None
           | Some r \<Rightarrow> cbind (svc_sendreply tp xr r) (\<lambda>reply. Inr (Some (case reply of Some x \<Rightarrow> x | None \<Rightarrow> SystemErr)))) (\<lambda>reply.
         cbind (svc_freeargs xa arg) (\<lambda>ok. if ok then Inr (reply, s) else Inl Exits))))"

record 's client =
  cl_room :: nat
  cl_handy :: "bool list"
  cl_call :: "u32 \<Rightarrow> byte list \<Rightarrow> 's \<Rightarrow> (rpc_reply option \<times> 's) cres"

text \<open>\<^verbatim>\<open>clnt_call\<close> on a cleared result \<open>zr\<close>: \<open>None\<close> when it does not return \<^verbatim>\<open>RPC_SUCCESS\<close>.\<close>

definition clnt_call :: "'s client \<Rightarrow> u32 \<Rightarrow> 'a xdrproc \<Rightarrow> 'a \<Rightarrow> 'r xdrproc \<Rightarrow> 'r \<Rightarrow> 's \<Rightarrow> ('r option \<times> 's) cres" where
  "clnt_call clnt procnum xa arg xr zr s =
     (case xa \<lparr>x_op = XDR_ENCODE, x_out = [], x_room = cl_room clnt, x_in = [], x_handy = cl_handy clnt\<rparr> arg of
        Inl e \<Rightarrow> if e = ReturnsFalse then Inr (None, s) else Inl e
      | Inr (x, arg) \<Rightarrow> cbind (cl_call clnt procnum (x_out x) s) (\<lambda>(reply, s).
          case reply of Some (ReplyOk bs) \<Rightarrow>
            (case xr \<lparr>x_op = XDR_DECODE, x_out = [], x_room = 0, x_in = bs, x_handy = cl_handy clnt\<rparr> zr of
               Inl e \<Rightarrow> if e = ReturnsFalse then Inr (None, s) else Inl e
             | Inr (x, r) \<Rightarrow> Inr (Some r, s))
          | _ \<Rightarrow> Inr (None, s)))"

definition connect :: "nat \<Rightarrow> nat \<Rightarrow> bool list \<Rightarrow> bool list \<Rightarrow> 's dispatcher \<Rightarrow> 's client" where
  "connect room reply_room handy handy' dispatch =
     \<lparr>cl_room = room, cl_handy = handy,
      cl_call = (\<lambda>procnum bs s. dispatch procnum \<lparr>tp_in = bs, tp_room = reply_room, tp_handy = handy'\<rparr> s)\<rparr>"

subsection \<open>A remote method\<close>

text \<open>A method is an argument type and a result type with their XDR procedures and cleared
  values.  In this locale: what a dispatch routine does with any bytes, and what a stub
  returns when its requests reach the procedure.\<close>

locale rpc_method = arg: xdr_codec xa oka enca cleana + res: xdr_codec xr okr encr cleanr
  for xa :: "'a xdrproc" and oka enca cleana and xr :: "'r xdrproc" and okr encr cleanr +
  fixes za :: 'a and zr :: 'r
  assumes clean_arg: "cleana za" and clean_res: "cleanr zr"
begin

lemma getargs_ok: "oka v \<Longrightarrow> tp_in tp = enca v \<Longrightarrow> svc_getargs tp xa za = Inr (Some v)"
  using arg.decode [of "\<lparr>x_op = XDR_DECODE, x_out = [], x_room = 0, x_in = tp_in tp, x_handy = tp_handy tp\<rparr>" v za "[]"]
    clean_arg by (auto simp: svc_getargs_def)

lemma getargs_total: "\<exists>v. svc_getargs tp xa za = Inr v \<and> pred_option oka v"
proof -
  let ?x = "\<lparr>x_op = XDR_DECODE, x_out = [], x_room = 0, x_in = tp_in tp, x_handy = tp_handy tp\<rparr>"
  have "xa ?x za = Inl ReturnsFalse \<or> (\<exists>x' v. xa ?x za = Inr (x', v) \<and> oka v)"
    using arg.decode_total [of ?x za] clean_arg by auto
  then show ?thesis by (auto simp: svc_getargs_def)
qed

lemma sendreply_ok: "okr r \<Longrightarrow> length (encr r) \<le> tp_room tp \<Longrightarrow> svc_sendreply tp xr r = Inr (Some (ReplyOk (encr r)))"
  using res.encode [of "\<lparr>x_op = XDR_ENCODE, x_out = [], x_room = tp_room tp, x_in = [], x_handy = tp_handy tp\<rparr>" r]
  by (auto simp: svc_sendreply_def wrote_def)

lemma sendreply_full: "okr r \<Longrightarrow> tp_room tp < length (encr r) \<Longrightarrow> svc_sendreply tp xr r = Inr None"
  using res.encode_full [of "\<lparr>x_op = XDR_ENCODE, x_out = [], x_room = tp_room tp, x_in = [], x_handy = tp_handy tp\<rparr>" r]
  by (auto simp: svc_sendreply_def)

lemma freeargs_ok: "oka v \<Longrightarrow> svc_freeargs xa v = Inr True"
  using arg.free [of "\<lparr>x_op = XDR_FREE, x_out = [], x_room = 0, x_in = [], x_handy = []\<rparr>" v] by (auto simp: svc_freeargs_def)

lemma serve_ok:
  assumes "oka v" and "tp_in tp = enca v" and "local v s = Inr (Some r, v', s')" and "oka v'" and "okr r"
  shows "serve xa za xr local tp s =
    Inr (Some (if length (encr r) \<le> tp_room tp then ReplyOk (encr r) else SystemErr), s')"
  using getargs_ok [OF assms(1,2)] assms(3-5) sendreply_ok [of r tp] sendreply_full [of r tp] freeargs_ok [of v']
  by (simp add: serve_def)

lemma serve_abort:
  assumes "oka v" and "tp_in tp = enca v" and "local v s = Inl e"
  shows "serve xa za xr local tp s = Inl e"
  using getargs_ok [OF assms(1,2)] assms(3) by (simp add: serve_def)

text \<open>Whatever bytes arrive, the routine replies with an error and leaves the state alone, or
  the procedure has run on an allowed argument.\<close>

lemma serve_cases:
  obtains "serve xa za xr local tp s = Inr (Some GarbageArgs, s)"
  | v where "oka v" and "svc_getargs tp xa za = Inr (Some v)"
proof -
  obtain v where "svc_getargs tp xa za = Inr v" "pred_option oka v" using getargs_total [of tp] by blast
  with that show ?thesis by (cases v) (auto simp: serve_def)
qed

text \<open>A call over a connection is a call of the procedure.\<close>

lemma call_connected:
  assumes "\<And>tp. dispatch procnum tp s = serve xa za xr local tp s"
    and "oka v" and "length (enca v) \<le> room"
    and "local v s = Inr (Some r, v', s')" and "oka v'" and "okr r" and "length (encr r) \<le> reply_room"
  shows "clnt_call (connect room reply_room handy handy' dispatch) procnum xa v xr zr s = Inr (Some r, s')"
proof -
  let ?x = "\<lparr>x_op = XDR_ENCODE, x_out = [], x_room = room, x_in = [], x_handy = handy\<rparr>"
  let ?tp = "\<lparr>tp_in = enca v, tp_room = reply_room, tp_handy = handy'\<rparr>"
  let ?y = "\<lparr>x_op = XDR_DECODE, x_out = [], x_room = 0, x_in = encr r, x_handy = handy\<rparr>"
  obtain x' where x': "xa ?x v = Inr (x', v)" "x_out x' = enca v" using arg.encode [of ?x v] assms(2,3) by (auto simp: wrote_def)
  have "serve xa za xr local ?tp s = Inr (Some (ReplyOk (encr r)), s')"
    using serve_ok [where local = local and v = v and tp = ?tp and s = s, OF assms(2) _ assms(4-6)] assms(7) by simp
  moreover obtain y' where "xr ?y zr = Inr (y', r)" using res.decode [of ?y r zr "[]"] assms(6) clean_res by auto
  ultimately show ?thesis using x' by (simp add: clnt_call_def connect_def assms(1))
qed

lemma call_aborted:
  assumes "\<And>tp. dispatch procnum tp s = serve xa za xr local tp s"
    and "oka v" and "length (enca v) \<le> room" and "local v s = Inl e"
  shows "clnt_call (connect room reply_room handy handy' dispatch) procnum xa v xr zr s = Inl e"
proof -
  let ?x = "\<lparr>x_op = XDR_ENCODE, x_out = [], x_room = room, x_in = [], x_handy = handy\<rparr>"
  obtain x' where x': "xa ?x v = Inr (x', v)" "x_out x' = enca v" using arg.encode [of ?x v] assms(2,3) by (auto simp: wrote_def)
  with serve_abort [where local = local and v = v and s = s and e = e] assms show ?thesis
    by (simp add: clnt_call_def connect_def)
qed

lemma call_too_long:
  assumes "oka v" and "cl_room clnt < length (enca v)"
  shows "clnt_call clnt procnum xa v xr zr s = Inr (None, s)"
  using arg.encode_full [of "\<lparr>x_op = XDR_ENCODE, x_out = [], x_room = cl_room clnt, x_in = [], x_handy = cl_handy clnt\<rparr>" v] assms
  by (simp add: clnt_call_def)

end

subsection \<open>Mutexes and client stubs\<close>

text \<open>A mutex of the default kind: locking it twice from one thread blocks for ever, locking a
  destroyed one returns an error, destroying a locked one returns an error.\<close>

datatype mutex = Destroyed | Unlocked | Locked

definition pthread_mutex_lock :: "mutex \<Rightarrow> mutex option cres" where
  "pthread_mutex_lock m = (case m of Destroyed \<Rightarrow> Inr None | Unlocked \<Rightarrow> Inr (Some Locked) | Locked \<Rightarrow> Inl Spins)"

definition pthread_mutex_unlock :: "mutex \<Rightarrow> mutex" where
  "pthread_mutex_unlock m = (if m = Locked then Unlocked else m)"

definition pthread_mutex_destroy :: "mutex \<Rightarrow> mutex option" where
  "pthread_mutex_destroy m = (if m = Unlocked then Some Destroyed else None)"

text \<open>The process a stub runs in: the three global mutexes of \<^verbatim>\<open>vmaccel_utils.c\<close>, the state of the
  service linked into the process and the state of the service at the other end.  The build
  switches choose the code of a stub.\<close>

datatype svc_mutex = svc_compute_mutex | svc_data_mutex | svc_state_mutex

record 's svc_world =
  w_mutex :: "svc_mutex \<Rightarrow> mutex"
  w_local :: 's
  w_remote :: 's

record build =
  ENABLE_VMACCEL_LOCAL :: bool
  ENABLE_VMACCEL_RPC :: bool

definition under_lock :: "svc_mutex \<Rightarrow> ('s svc_world \<Rightarrow> ('r option \<times> 'a \<times> 's svc_world) cres) \<Rightarrow> 'a \<Rightarrow> 's svc_world \<Rightarrow>
    ('r option \<times> 'a \<times> 's svc_world) cres" where
  "under_lock l body argp w =
     cbind (pthread_mutex_lock (w_mutex w l)) (\<lambda>m. case m of
       None \<Rightarrow> Inr (None, argp, w)
     | Some m \<Rightarrow> cbind (body (w\<lparr>w_mutex := (w_mutex w)(l := m)\<rparr>)) (\<lambda>(ret, argp, w).
         Inr (ret, argp, w\<lparr>w_mutex := (w_mutex w)(l := pthread_mutex_unlock (w_mutex w l))\<rparr>)))"

text \<open>The body every stub has: \<open>svc\<close> is the procedure of the same name, called in local mode with
  no request; otherwise the request goes out through the client handle.\<close>

definition stub :: "build \<Rightarrow> svc_mutex \<Rightarrow> ('a \<Rightarrow> 's \<Rightarrow> ('r option \<times> 'a \<times> 's) cres) \<Rightarrow> u32 \<Rightarrow> 'a xdrproc \<Rightarrow> 'r xdrproc \<Rightarrow> 'r \<Rightarrow>
    'a \<Rightarrow> 's client option \<Rightarrow> 's svc_world \<Rightarrow> ('r option \<times> 'a \<times> 's svc_world) cres" where
  "stub b l svc procnum xa xr zr argp clnt w =
     (if ENABLE_VMACCEL_LOCAL b \<and> clnt = None then
        under_lock l (\<lambda>w. cbind (svc argp (w_local w)) (\<lambda>(ret, argp, s). Inr (ret, argp, w\<lparr>w_local := s\<rparr>))) argp w
      else if ENABLE_VMACCEL_RPC b then
        under_lock l (\<lambda>w. case clnt of
            None \<Rightarrow> Inl NullPointer
          | Some c \<Rightarrow> cbind (clnt_call c procnum xa argp xr zr (w_remote w)) (\<lambda>(ret, s). Inr (ret, argp, w\<lparr>w_remote := s\<rparr>))) argp w
      else Inr (None, argp, w))"

lemma under_lock_ok:
  assumes "w_mutex w l = Unlocked" and "body (w\<lparr>w_mutex := (w_mutex w)(l := Locked)\<rparr>) = Inr (ret, argp', w')"
    and "w_mutex w' = (w_mutex w)(l := Locked)"
  shows "under_lock l body argp w = Inr (ret, argp', w'\<lparr>w_mutex := w_mutex w\<rparr>)"
proof -
  have "(w_mutex w)(l := Unlocked) = w_mutex w" using assms(1) by auto
  with assms show ?thesis by (simp add: under_lock_def pthread_mutex_lock_def pthread_mutex_unlock_def)
qed

text \<open>A stub gives back the mutex it took, whatever the procedure or the transport does, and
  takes the one mutex only: it cannot block on a mutex its thread does not hold already.\<close>

lemma stub_unlocks:
  assumes "stub b l svc procnum xa xr zr argp clnt w = Inr (ret, argp', w')"
  shows "w_mutex w' = w_mutex w"
proof -
  have *: "w_mutex w' = w_mutex w"
    if "under_lock l body argp w = Inr (ret, argp', w')"
      and "\<And>ret argp' w2. body (w\<lparr>w_mutex := (w_mutex w)(l := Locked)\<rparr>) = Inr (ret, argp', w2) \<Longrightarrow> w_mutex w2 = (w_mutex w)(l := Locked)"
    for body
  proof (cases "w_mutex w l")
    case Unlocked
    with that(1) obtain w2 where w2: "body (w\<lparr>w_mutex := (w_mutex w)(l := Locked)\<rparr>) = Inr (ret, argp', w2)"
      by (auto simp: under_lock_def pthread_mutex_lock_def cbind_eq_Inr)
    from under_lock_ok [where body = body and argp = argp, OF Unlocked w2 that(2) [OF w2]] that(1) show ?thesis by auto
  qed (use that(1) in \<open>auto simp: under_lock_def pthread_mutex_lock_def\<close>)
  consider "ENABLE_VMACCEL_LOCAL b \<and> clnt = None" | "\<not> (ENABLE_VMACCEL_LOCAL b \<and> clnt = None)" "ENABLE_VMACCEL_RPC b"
    | "\<not> (ENABLE_VMACCEL_LOCAL b \<and> clnt = None)" "\<not> ENABLE_VMACCEL_RPC b" by blast
  then show ?thesis
  proof cases
    case 1
    with assms show ?thesis by (simp add: stub_def) (erule *, auto simp: cbind_eq_Inr)
  next
    case 2
    with assms show ?thesis by (simp only: stub_def if_True if_False) (erule *, auto simp: cbind_eq_Inr split: option.splits)
  next
    case 3
    with assms show ?thesis by (auto simp: stub_def)
  qed
qed

definition keeps_mutexes :: "('a \<Rightarrow> 's client option \<Rightarrow> 's svc_world \<Rightarrow> ('r option \<times> 'a \<times> 's svc_world) cres) \<Rightarrow> bool" where
  "keeps_mutexes call \<longleftrightarrow> (\<forall>argp clnt w ret argp' w'. call argp clnt w = Inr (ret, argp', w') \<longrightarrow> w_mutex w' = w_mutex w)"

lemma stub_keeps_mutexes: "keeps_mutexes (stub b l svc procnum xa xr zr)"
  unfolding keeps_mutexes_def using stub_unlocks by fast

subsection \<open>What a stub and a procedure promise\<close>

text \<open>A stub \<open>call\<close> calls the procedure \<open>svc\<close>: without a client handle the one of its own process,
  with a handle connected to \<open>dispatch\<close> the one at the other end, and it returns what the
  procedure returned.  A request that does not fit in the transport changes nothing and
  returns \<^verbatim>\<open>NULL\<close>.\<close>

definition calls_procedure :: "('a \<Rightarrow> bool) \<Rightarrow> ('a \<Rightarrow> byte list) \<Rightarrow> ('r \<Rightarrow> bool) \<Rightarrow> ('r \<Rightarrow> byte list) \<Rightarrow>
    ('a \<Rightarrow> bool \<Rightarrow> 's \<Rightarrow> ('r option \<times> 'a \<times> 's) cres) \<Rightarrow>
    ('a \<Rightarrow> 's client option \<Rightarrow> 's svc_world \<Rightarrow> ('r option \<times> 'a \<times> 's svc_world) cres) \<Rightarrow> 's dispatcher \<Rightarrow> bool" where
  "calls_procedure oka enca okr encr svc call dispatch \<longleftrightarrow> (\<forall>w v. (\<forall>l. w_mutex w l = Unlocked) \<longrightarrow>
     (\<forall>ret v' s'. svc v False (w_local w) = Inr (ret, v', s') \<longrightarrow> call v None w = Inr (ret, v', w\<lparr>w_local := s'\<rparr>)) \<and>
     (oka v \<longrightarrow>
       (\<forall>r v' s' room reply_room handy handy'. length (enca v) \<le> room \<and> svc v True (w_remote w) = Inr (Some r, v', s') \<and>
          oka v' \<and> okr r \<and> length (encr r) \<le> reply_room \<longrightarrow>
          call v (Some (connect room reply_room handy handy' dispatch)) w = Inr (Some r, v, w\<lparr>w_remote := s'\<rparr>)) \<and>
       (\<forall>c. cl_room c < length (enca v) \<longrightarrow> call v (Some c) w = Inr (None, v, w))))"

text \<open>An operation that returns on every allowed argument, with an allowed result and an argument
  the caller can free.\<close>

definition returns :: "('a \<Rightarrow> bool) \<Rightarrow> ('r \<Rightarrow> bool) \<Rightarrow> ('a \<Rightarrow> 's \<Rightarrow> ('r option \<times> 'a \<times> 's) cres) \<Rightarrow> bool" where
  "returns oka okr f \<longleftrightarrow> (\<forall>v s. oka v \<longrightarrow> (\<exists>r v' s'. f v s = Inr (r, v', s') \<and> oka v' \<and> pred_option okr r))"

context rpc_method
begin

lemma stub_local:
  assumes "ENABLE_VMACCEL_LOCAL b" and "w_mutex w l = Unlocked" and "svc v (w_local w) = Inr (ret, v', s')"
  shows "stub b l svc procnum xa xr zr v None w = Inr (ret, v', w\<lparr>w_local := s'\<rparr>)"
  using assms under_lock_ok [of w l _ ret v' "w\<lparr>w_mutex := (w_mutex w)(l := Locked), w_local := s'\<rparr>" v]
  by (simp add: stub_def)

lemma stub_remote:
  assumes "\<And>tp. dispatch procnum tp (w_remote w) = serve xa za xr svc tp (w_remote w)"
    and "ENABLE_VMACCEL_RPC b" and "w_mutex w l = Unlocked" and "oka v" and "length (enca v) \<le> room"
    and "svc v (w_remote w) = Inr (Some r, v', s')" and "oka v'" and "okr r" and "length (encr r) \<le> reply_room"
  shows "stub b l svc' procnum xa xr zr v (Some (connect room reply_room handy handy' dispatch)) w =
    Inr (Some r, v, w\<lparr>w_remote := s'\<rparr>)"
  using assms(2,3) call_connected [where dispatch = dispatch and local = svc, OF assms(1,4-9)]
    under_lock_ok [of w l _ "Some r" v "w\<lparr>w_mutex := (w_mutex w)(l := Locked), w_remote := s'\<rparr>" v]
  by (simp add: stub_def)

lemma stub_too_long:
  assumes "ENABLE_VMACCEL_RPC b" and "w_mutex w l = Unlocked" and "oka v" and "cl_room c < length (enca v)"
  shows "stub b l svc' procnum xa xr zr v (Some c) w = Inr (None, v, w)"
  using assms(1,2) call_too_long [OF assms(3,4), where procnum = procnum]
    under_lock_ok [of w l "\<lambda>w. Inr (None, v, w)" None v "w\<lparr>w_mutex := (w_mutex w)(l := Locked)\<rparr>" v]
  by (simp add: stub_def)

lemma calls_procedureI:
  fixes svc :: "'a \<Rightarrow> bool \<Rightarrow> 's \<Rightarrow> ('r option \<times> 'a \<times> 's) cres"
  assumes "\<And>tp s. dispatch procnum tp s = serve xa za xr (\<lambda>v. svc v True) tp s"
    and "ENABLE_VMACCEL_LOCAL b" and "ENABLE_VMACCEL_RPC b"
  shows "calls_procedure oka enca okr encr svc (stub b l (\<lambda>v. svc v False) procnum xa xr zr) dispatch"
  unfolding calls_procedure_def
proof (intro allI impI conjI)
  fix w :: "'s svc_world" and v ret v' s'
  assume "\<forall>l. w_mutex w l = Unlocked" "svc v False (w_local w) = Inr (ret, v', s')"
  then show "stub b l (\<lambda>v. svc v False) procnum xa xr zr v None w = Inr (ret, v', w\<lparr>w_local := s'\<rparr>)"
    using stub_local [where svc = "\<lambda>v. svc v False", OF assms(2)] by simp
next
  fix w :: "'s svc_world" and v r v' s' room reply_room handy handy'
  assume w: "\<forall>l. w_mutex w l = Unlocked" and v: "oka v" and *: "length (enca v) \<le> room \<and>
    svc v True (w_remote w) = Inr (Some r, v', s') \<and> oka v' \<and> okr r \<and> length (encr r) \<le> reply_room"
  have l: "w_mutex w l = Unlocked" using w by simp
  show "stub b l (\<lambda>v. svc v False) procnum xa xr zr v (Some (connect room reply_room handy handy' dispatch)) w =
      Inr (Some r, v, w\<lparr>w_remote := s'\<rparr>)"
    by (rule stub_remote [where svc = "\<lambda>v. svc v True" and dispatch = dispatch and v' = v', OF assms(1,3) l v]) (use * in auto)
next
  fix w :: "'s svc_world" and v and c :: "'s client"
  assume "\<forall>l. w_mutex w l = Unlocked" "oka v" "cl_room c < length (enca v)"
  then show "stub b l (\<lambda>v. svc v False) procnum xa xr zr v (Some c) w = Inr (None, v, w)"
    by (intro stub_too_long [OF assms(3)]) simp_all
qed

text \<open>A dispatch routine over such a procedure replies to whatever arrives.\<close>

lemma serve_replies:
  assumes "\<And>v s. oka v \<Longrightarrow> \<exists>r v' s'. f v s = Inr (Some r, v', s') \<and> oka v' \<and> okr r"
  shows "\<exists>reply s'. serve xa za xr f tp s = Inr (Some reply, s') \<and> reply \<noteq> ProcUnavail \<and> (reply = GarbageArgs \<longrightarrow> s' = s)"
proof (rule serve_cases [of f tp s])
  fix v assume v: "oka v" "svc_getargs tp xa za = Inr (Some v)"
  from assms [OF v(1)] obtain r v' s' where f: "f v s = Inr (Some r, v', s')" "oka v'" "okr r" by blast
  show ?thesis
    using v f freeargs_ok [OF f(2)] sendreply_ok [OF f(3), of tp] sendreply_full [OF f(3), of tp]
    by (cases "length (encr r) \<le> tp_room tp") (simp_all add: serve_def)
qed simp

lemma serve_returns:
  assumes "returns oka okret f" and "\<And>x. pred_option okret x \<Longrightarrow> okr (g x)" and "okr c"
  shows "\<exists>reply s'. serve xa za xr (\<lambda>v s. if p v then Inr (Some c, v, s)
      else cbind (f v s) (\<lambda>(ret, v, s). Inr (Some (g ret), v, s))) tp s = Inr (Some reply, s') \<and>
    reply \<noteq> ProcUnavail \<and> (reply = GarbageArgs \<longrightarrow> s' = s)"
proof (rule serve_replies)
  fix v s assume v: "oka v"
  with assms(1) obtain r v' s' where "f v s = Inr (r, v', s')" "oka v'" "pred_option okret r"
    unfolding returns_def by blast
  with v assms(2,3) show "\<exists>r v' s'. (if p v then Inr (Some c, v, s)
      else cbind (f v s) (\<lambda>(ret, v, s). Inr (Some (g ret), v, s))) = Inr (Some r, v', s') \<and> oka v' \<and> okr r" by simp
qed

lemma serve_returns':
  assumes "returns oka okret f" and "\<And>x. pred_option okret x \<Longrightarrow> okr (g x)"
  shows "\<exists>reply s'. serve xa za xr (\<lambda>v s. cbind (f v s) (\<lambda>(ret, v, s). Inr (Some (g ret), v, s))) tp s = Inr (Some reply, s') \<and>
    reply \<noteq> ProcUnavail \<and> (reply = GarbageArgs \<longrightarrow> s' = s)"
  using serve_returns [where c = "g None" and p = "\<lambda>_. False", OF assms] assms(2) [of None] by simp

end

end
