(* ===== verification/Accel_Rpc.thy ===== *)
theory Accel_Rpc
  imports Accel_Xdr Alloc_Types Rpc_Runtime
begin

section \<open>The accelerator service\<close>

text \<open>
  The client stubs (\<^verbatim>\<open>src/accelerators/vmaccel/src/vmaccel_clnt.c\<close>), the dispatch routine
  (\<^verbatim>\<open>vmaccel_rpc_svc.c\<close>) and the procedures (\<^verbatim>\<open>vmaccel_rpc_server.c\<close>) of program \<^verbatim>\<open>VMACCEL\<close>.  The
  procedures are empty in the source: each returns its zero-initialised static result.  Then
  the mutexes the stubs take, which \<^verbatim>\<open>src/common/src/vmaccel_utils.c\<close> creates and destroys.
\<close>

subsection \<open>Cleared arguments and results\<close>

definition zero_VMAccelResourceDesc :: VMAccelResourceDesc where
  "zero_VMAccelResourceDesc =
     \<lparr>ResourceDesc_parentId = 0, ResourceDesc_parentAddr = zero_VMAccelAddress,
      ResourceDesc_typeMask = 0, ResourceDesc_selectionMask = 0, ResourceDesc_caps = 0,
      ResourceDesc_num = 0, ResourceDesc_size = 0\<rparr>"

definition zero_VMAccelResourceAllocateReturnStatus :: VMAccelResourceAllocateReturnStatus where
  "zero_VMAccelResourceAllocateReturnStatus =
     \<lparr>ResourceAllocateReturnStatus_errno = 0, ResourceAllocateReturnStatus_ret = None\<rparr>"

definition zero_VMAccelReturnStatus :: VMAccelReturnStatus where
  "zero_VMAccelReturnStatus =
     \<lparr>ReturnStatus_errno = 0, ReturnStatus_ret = None\<rparr>"

definition zero_VMAccelComputeOp :: VMAccelComputeOp where
  "zero_VMAccelComputeOp =
     \<lparr>ComputeOp_kernelType = 0, ComputeOp_kernelSource = Vec 0 None,
      ComputeOp_kernelBinary32 = Vec 0 None, ComputeOp_kernelBinary64 = Vec 0 None,
      ComputeOp_kernelName = Vec 0 None, ComputeOp_dimension = 0,
      ComputeOp_globalWorkOffset = Vec 0 None, ComputeOp_globalWorkSize = Vec 0 None,
      ComputeOp_localWorkSize = Vec 0 None, ComputeOp_args = Vec 0 None\<rparr>"

definition zero_VMAccelComputeReturnStatus :: VMAccelComputeReturnStatus where
  "zero_VMAccelComputeReturnStatus =
     \<lparr>ComputeReturnStatus_errno = 0, ComputeReturnStatus_ret = None\<rparr>"

definition zero_VMAccelRegisterDesc :: VMAccelRegisterDesc where
  "zero_VMAccelRegisterDesc =
     \<lparr>RegisterDesc_desc = zero_VMAccelDesc, RegisterDesc_typeMask = 0\<rparr>"

definition zero_VMAccelAllocateReturnStatus :: VMAccelAllocateReturnStatus where
  "zero_VMAccelAllocateReturnStatus =
     \<lparr>AllocateReturnStatus_errno = 0, AllocateReturnStatus_ret = None\<rparr>"

subsection \<open>Procedures\<close>

definition vmaccel_resourcealloc_1_svc :: "VMAccelResourceDesc \<Rightarrow> bool \<Rightarrow> 's \<Rightarrow> (VMAccelResourceAllocateReturnStatus option \<times> VMAccelResourceDesc \<times> 's) cres" where
  "vmaccel_resourcealloc_1_svc argp rqstp s = Inr (Some zero_VMAccelResourceAllocateReturnStatus, argp, s)"

definition vmaccel_resourcerelease_1_svc :: "VMAccelId \<Rightarrow> bool \<Rightarrow> 's \<Rightarrow> (VMAccelReturnStatus option \<times> VMAccelId \<times> 's) cres" where
  "vmaccel_resourcerelease_1_svc argp rqstp s = Inr (Some zero_VMAccelReturnStatus, argp, s)"

definition vmaccel_compute_1_svc :: "VMAccelComputeOp \<Rightarrow> bool \<Rightarrow> 's \<Rightarrow> (VMAccelComputeReturnStatus option \<times> VMAccelComputeOp \<times> 's) cres" where
  "vmaccel_compute_1_svc argp rqstp s = Inr (Some zero_VMAccelComputeReturnStatus, argp, s)"

subsection \<open>Dispatch\<close>

abbreviation (input) VMACCEL_RESOURCEALLOC :: u32 where "VMACCEL_RESOURCEALLOC \<equiv> 1"
abbreviation (input) VMACCEL_RESOURCERELEASE :: u32 where "VMACCEL_RESOURCERELEASE \<equiv> 2"
abbreviation (input) VMACCEL_COMPUTE :: u32 where "VMACCEL_COMPUTE \<equiv> 3"

definition vmaccel_1 :: "'s dispatcher" where
  "vmaccel_1 procnum tp s =
     (if procnum = 0 then Inr (Some (ReplyOk []), s)
      else if procnum = VMACCEL_RESOURCEALLOC then
        serve xdr_VMAccelResourceDesc zero_VMAccelResourceDesc xdr_VMAccelResourceAllocateReturnStatus (\<lambda>argp. vmaccel_resourcealloc_1_svc argp True) tp s
      else if procnum = VMACCEL_RESOURCERELEASE then
        serve xdr_VMAccelId 0 xdr_VMAccelReturnStatus (\<lambda>argp. vmaccel_resourcerelease_1_svc argp True) tp s
      else if procnum = VMACCEL_COMPUTE then
        serve xdr_VMAccelComputeOp zero_VMAccelComputeOp xdr_VMAccelComputeReturnStatus (\<lambda>argp. vmaccel_compute_1_svc argp True) tp s
      else Inr (Some ProcUnavail, s))"

subsection \<open>Stubs\<close>

definition vmaccel_resourcealloc_1 :: "build \<Rightarrow> VMAccelResourceDesc \<Rightarrow> 's client option \<Rightarrow> 's svc_world \<Rightarrow> (VMAccelResourceAllocateReturnStatus option \<times> VMAccelResourceDesc \<times> 's svc_world) cres" where
  "vmaccel_resourcealloc_1 b argp clnt =
     stub b svc_state_mutex (\<lambda>argp. vmaccel_resourcealloc_1_svc argp False) VMACCEL_RESOURCEALLOC xdr_VMAccelResourceDesc xdr_VMAccelResourceAllocateReturnStatus zero_VMAccelResourceAllocateReturnStatus argp clnt"

definition vmaccel_resourcerelease_1 :: "build \<Rightarrow> VMAccelId \<Rightarrow> 's client option \<Rightarrow> 's svc_world \<Rightarrow> (VMAccelReturnStatus option \<times> VMAccelId \<times> 's svc_world) cres" where
  "vmaccel_resourcerelease_1 b argp clnt =
     stub b svc_state_mutex (\<lambda>argp. vmaccel_resourcerelease_1_svc argp False) VMACCEL_RESOURCERELEASE xdr_VMAccelId xdr_VMAccelReturnStatus zero_VMAccelReturnStatus argp clnt"

definition vmaccel_compute_1 :: "build \<Rightarrow> VMAccelComputeOp \<Rightarrow> 's client option \<Rightarrow> 's svc_world \<Rightarrow> (VMAccelComputeReturnStatus option \<times> VMAccelComputeOp \<times> 's svc_world) cres" where
  "vmaccel_compute_1 b argp clnt =
     stub b svc_compute_mutex (\<lambda>argp. vmaccel_compute_1_svc argp False) VMACCEL_COMPUTE xdr_VMAccelComputeOp xdr_VMAccelComputeReturnStatus zero_VMAccelComputeReturnStatus argp clnt"

subsection \<open>The methods\<close>

interpretation vmaccel_resourcealloc_1: rpc_method xdr_VMAccelResourceDesc ok_VMAccelResourceDesc enc_VMAccelResourceDesc clean_VMAccelResourceDesc
  xdr_VMAccelResourceAllocateReturnStatus ok_VMAccelResourceAllocateReturnStatus enc_VMAccelResourceAllocateReturnStatus clean_VMAccelResourceAllocateReturnStatus zero_VMAccelResourceDesc zero_VMAccelResourceAllocateReturnStatus
  unfolding rpc_method_def rpc_method_axioms_def
  by (intro conjI xdr_codecs) (simp_all add: clean_VMAccelAddress_def clean_VMAccelResourceAllocateReturnStatus_def clean_VMAccelResourceDesc_def clean_vec_def zero_VMAccelAddress_def zero_VMAccelResourceAllocateReturnStatus_def zero_VMAccelResourceDesc_def)

interpretation vmaccel_resourcerelease_1: rpc_method xdr_VMAccelId "\<lambda>_. True" be32 "\<lambda>_. True"
  xdr_VMAccelReturnStatus ok_VMAccelReturnStatus enc_VMAccelReturnStatus clean_VMAccelReturnStatus 0 zero_VMAccelReturnStatus
  unfolding rpc_method_def rpc_method_axioms_def
  by (intro conjI xdr_codecs) (simp_all add: clean_VMAccelReturnStatus_def zero_VMAccelReturnStatus_def)

interpretation vmaccel_compute_1: rpc_method xdr_VMAccelComputeOp ok_VMAccelComputeOp enc_VMAccelComputeOp clean_VMAccelComputeOp
  xdr_VMAccelComputeReturnStatus ok_VMAccelComputeReturnStatus enc_VMAccelComputeReturnStatus clean_VMAccelComputeReturnStatus zero_VMAccelComputeOp zero_VMAccelComputeReturnStatus
  unfolding rpc_method_def rpc_method_axioms_def
  by (intro conjI xdr_codecs) (simp_all add: clean_VMAccelComputeOp_def clean_VMAccelComputeReturnStatus_def clean_vec_def zero_VMAccelComputeOp_def zero_VMAccelComputeReturnStatus_def)

subsection \<open>Power on and off of the mutexes: src/common/src/vmaccel\_utils.c\<close>

text \<open>\<open>attr\<close> and \<open>init\<close> say whether \<^verbatim>\<open>pthread_mutexattr_init\<close> and the initialisation of each mutex
  succeed; a mutex that could not be initialised is left as it was.\<close>

definition vmaccel_utils_poweron_svc :: "bool \<Rightarrow> (svc_mutex \<Rightarrow> bool) \<Rightarrow> (svc_mutex \<Rightarrow> mutex) \<Rightarrow>
    VMAccelAllocateStatus option \<times> (svc_mutex \<Rightarrow> mutex)" where
  "vmaccel_utils_poweron_svc attr init m =
     (if \<not> attr then (None, m)
      else if \<not> init svc_compute_mutex then (None, m)
      else let m = m(svc_compute_mutex := Unlocked) in
        if \<not> init svc_data_mutex then (None, m)
        else let m = m(svc_data_mutex := Unlocked) in
          if \<not> init svc_state_mutex then (None, m)
          else (Some (zero_VMAccelAllocateStatus\<lparr>AllocateStatus_status := VMACCEL_SUCCESS\<rparr>), m(svc_state_mutex := Unlocked)))"

definition vmaccel_utils_poweroff_svc :: "(svc_mutex \<Rightarrow> mutex) \<Rightarrow> VMAccelStatus option \<times> (svc_mutex \<Rightarrow> mutex)" where
  "vmaccel_utils_poweroff_svc m =
     (case pthread_mutex_destroy (m svc_state_mutex) of None \<Rightarrow> (None, m)
      | Some x \<Rightarrow> let m = m(svc_state_mutex := x) in
        case pthread_mutex_destroy (m svc_data_mutex) of None \<Rightarrow> (None, m)
        | Some x \<Rightarrow> let m = m(svc_data_mutex := x) in
          case pthread_mutex_destroy (m svc_compute_mutex) of None \<Rightarrow> (None, m)
          | Some x \<Rightarrow> (Some (zero_VMAccelStatus\<lparr>Status_status := VMACCEL_SUCCESS\<rparr>), m(svc_compute_mutex := x)))"

end
