(* ===== verification/Manager_Rpc.thy ===== *)
theory Manager_Rpc
  imports Manager Accel_Rpc
begin

section \<open>The manager service\<close>

text \<open>
  Program \<^verbatim>\<open>VMACCELMGR\<close>: the procedures of \<^verbatim>\<open>src/accelerators/vmaccel/src/vmaccel_mgr_server.c\<close>, the
  dispatch routine of \<^verbatim>\<open>vmaccel_mgr_svc.c\<close> and the stubs of \<^verbatim>\<open>vmaccel_mgr_clnt.c\<close>, which take no
  mutex and have no local mode.  The state of the service is the manager's; \<open>u\<close> and \<open>rb\<close> are
  those of the accelerator allocator.
\<close>

subsection \<open>Procedures\<close>

definition vmaccelmgr_register_1_svc :: "VMAccelDesc \<Rightarrow> VMAccelDesc vobj rb \<Rightarrow> VMAccelRegisterDesc \<Rightarrow> bool \<Rightarrow> manager \<Rightarrow>
    (VMAccelAllocateReturnStatus option \<times> VMAccelRegisterDesc \<times> manager) cres" where
  "vmaccelmgr_register_1_svc u rb argp rqstp M =
     cbind (vmaccel_manager_register u rb M (RegisterDesc_desc argp)) (\<lambda>(ret, M). Inr (Some \<lparr>AllocateReturnStatus_errno = 0, AllocateReturnStatus_ret = Some ret\<rparr>, argp, M))"

definition vmaccelmgr_unregister_1_svc :: "VMAccelDesc \<Rightarrow> VMAccelDesc vobj rb \<Rightarrow> VMAccelId \<Rightarrow> bool \<Rightarrow> manager \<Rightarrow>
    (VMAccelReturnStatus option \<times> VMAccelId \<times> manager) cres" where
  "vmaccelmgr_unregister_1_svc u rb argp rqstp M =
     cbind (vmaccel_manager_unregister u rb M argp) (\<lambda>(ret, M). Inr (Some \<lparr>ReturnStatus_errno = 0, ReturnStatus_ret = Some ret\<rparr>, argp, M))"

definition vmaccelmgr_alloc_1_svc :: "VMAccelDesc \<Rightarrow> VMAccelDesc vobj rb \<Rightarrow> VMAccelDesc \<Rightarrow> bool \<Rightarrow> manager \<Rightarrow>
    (VMAccelAllocateReturnStatus option \<times> VMAccelDesc \<times> manager) cres" where
  "vmaccelmgr_alloc_1_svc u rb argp rqstp M =
     cbind (vmaccel_manager_alloc u rb M argp) (\<lambda>(ret, M). Inr (Some \<lparr>AllocateReturnStatus_errno = 0, AllocateReturnStatus_ret = Some ret\<rparr>, argp, M))"

definition vmaccelmgr_free_1_svc :: "VMAccelDesc \<Rightarrow> VMAccelDesc vobj rb \<Rightarrow> VMAccelId \<Rightarrow> bool \<Rightarrow> manager \<Rightarrow>
    (VMAccelReturnStatus option \<times> VMAccelId \<times> manager) cres" where
  "vmaccelmgr_free_1_svc u rb argp rqstp M =
     cbind (vmaccel_manager_free u rb M argp) (\<lambda>(ret, M). Inr (Some \<lparr>ReturnStatus_errno = 0, ReturnStatus_ret = Some ret\<rparr>, argp, M))"

subsection \<open>Dispatch\<close>

abbreviation (input) VMACCELMGR_REGISTER :: u32 where "VMACCELMGR_REGISTER \<equiv> 1"
abbreviation (input) VMACCELMGR_UNREGISTER :: u32 where "VMACCELMGR_UNREGISTER \<equiv> 2"
abbreviation (input) VMACCELMGR_ALLOC :: u32 where "VMACCELMGR_ALLOC \<equiv> 3"
abbreviation (input) VMACCELMGR_FREE :: u32 where "VMACCELMGR_FREE \<equiv> 4"

definition vmaccelmgr_1 :: "VMAccelDesc \<Rightarrow> VMAccelDesc vobj rb \<Rightarrow> manager dispatcher" where
  "vmaccelmgr_1 u rb procnum tp s =
     (if procnum = 0 then Inr (Some (ReplyOk []), s)
      else if procnum = VMACCELMGR_REGISTER then
        serve xdr_VMAccelRegisterDesc zero_VMAccelRegisterDesc xdr_VMAccelAllocateReturnStatus (\<lambda>argp. vmaccelmgr_register_1_svc u rb argp True) tp s
      else if procnum = VMACCELMGR_UNREGISTER then
        serve xdr_VMAccelId 0 xdr_VMAccelReturnStatus (\<lambda>argp. vmaccelmgr_unregister_1_svc u rb argp True) tp s
      else if procnum = VMACCELMGR_ALLOC then
        serve xdr_VMAccelDesc zero_VMAccelDesc xdr_VMAccelAllocateReturnStatus (\<lambda>argp. vmaccelmgr_alloc_1_svc u rb argp True) tp s
      else if procnum = VMACCELMGR_FREE then
        serve xdr_VMAccelId 0 xdr_VMAccelReturnStatus (\<lambda>argp. vmaccelmgr_free_1_svc u rb argp True) tp s
      else Inr (Some ProcUnavail, s))"

subsection \<open>Stubs\<close>

definition vmaccelmgr_register_1 :: "VMAccelRegisterDesc \<Rightarrow> 's client \<Rightarrow> 's \<Rightarrow> (VMAccelAllocateReturnStatus option \<times> 's) cres" where
  "vmaccelmgr_register_1 argp clnt = clnt_call clnt VMACCELMGR_REGISTER xdr_VMAccelRegisterDesc argp xdr_VMAccelAllocateReturnStatus zero_VMAccelAllocateReturnStatus"

definition vmaccelmgr_unregister_1 :: "VMAccelId \<Rightarrow> 's client \<Rightarrow> 's \<Rightarrow> (VMAccelReturnStatus option \<times> 's) cres" where
  "vmaccelmgr_unregister_1 argp clnt = clnt_call clnt VMACCELMGR_UNREGISTER xdr_VMAccelId argp xdr_VMAccelReturnStatus zero_VMAccelReturnStatus"

definition vmaccelmgr_alloc_1 :: "VMAccelDesc \<Rightarrow> 's client \<Rightarrow> 's \<Rightarrow> (VMAccelAllocateReturnStatus option \<times> 's) cres" where
  "vmaccelmgr_alloc_1 argp clnt = clnt_call clnt VMACCELMGR_ALLOC xdr_VMAccelDesc argp xdr_VMAccelAllocateReturnStatus zero_VMAccelAllocateReturnStatus"

definition vmaccelmgr_free_1 :: "VMAccelId \<Rightarrow> 's client \<Rightarrow> 's \<Rightarrow> (VMAccelReturnStatus option \<times> 's) cres" where
  "vmaccelmgr_free_1 argp clnt = clnt_call clnt VMACCELMGR_FREE xdr_VMAccelId argp xdr_VMAccelReturnStatus zero_VMAccelReturnStatus"

subsection \<open>The methods\<close>

interpretation vmaccelmgr_register_1: rpc_method xdr_VMAccelRegisterDesc ok_VMAccelRegisterDesc enc_VMAccelRegisterDesc clean_VMAccelRegisterDesc
  xdr_VMAccelAllocateReturnStatus ok_VMAccelAllocateReturnStatus enc_VMAccelAllocateReturnStatus clean_VMAccelAllocateReturnStatus zero_VMAccelRegisterDesc zero_VMAccelAllocateReturnStatus
  unfolding rpc_method_def rpc_method_axioms_def
  by (intro conjI xdr_codecs) (simp_all add: clean_VMAccelAddress_def clean_VMAccelAllocateReturnStatus_def clean_VMAccelDesc_def clean_VMAccelRegisterDesc_def clean_vec_def zero_VMAccelAddress_def zero_VMAccelAllocateReturnStatus_def zero_VMAccelDesc_def zero_VMAccelRegisterDesc_def)

interpretation vmaccelmgr_alloc_1: rpc_method xdr_VMAccelDesc ok_VMAccelDesc enc_VMAccelDesc clean_VMAccelDesc
  xdr_VMAccelAllocateReturnStatus ok_VMAccelAllocateReturnStatus enc_VMAccelAllocateReturnStatus clean_VMAccelAllocateReturnStatus zero_VMAccelDesc zero_VMAccelAllocateReturnStatus
  unfolding rpc_method_def rpc_method_axioms_def
  by (intro conjI xdr_codecs) (simp_all add: clean_VMAccelAddress_def clean_VMAccelAllocateReturnStatus_def clean_VMAccelDesc_def clean_vec_def zero_VMAccelAddress_def zero_VMAccelAllocateReturnStatus_def zero_VMAccelDesc_def)

subsection \<open>Descriptions that can be sent\<close>

text \<open>The allocator never makes a description that the protocol cannot carry out of ones that it
  can: a second interpretation of the allocator's contract, with that as part of validity.\<close>

definition Desc_wire :: "VMAccelDesc \<Rightarrow> bool" where
  "Desc_wire x \<longleftrightarrow> Desc_valid x \<and> ok_VMAccelDesc x"

lemma ok_copy_block: "ok_vec ok m v \<Longrightarrow> ok_vec ok m (copy_block v)"
  by (auto simp: ok_vec_def copy_block_def unat_gt_0 split: option.splits)

lemma ok_DeepCopy: "ok_VMAccelDesc x \<Longrightarrow> ok_VMAccelDesc (Desc_DeepCopy l x)"
  by (simp add: ok_VMAccelDesc_def ok_VMAccelAddress_def Desc_DeepCopy_def Address_DeepCopy_def ok_copy_block)

lemma ok_Move: "ok_VMAccelDesc x \<Longrightarrow> ok_VMAccelDesc (Desc_Move l x)"
  by (simp add: ok_VMAccelDesc_def ok_VMAccelAddress_def Desc_Move_def Address_Move_def)

lemma ok_capacity: "ok_VMAccelDesc (x\<lparr>Desc_capacity := c\<rparr>) = ok_VMAccelDesc x"
  by (simp add: ok_VMAccelDesc_def)

lemma ok_Reserve:
  assumes "ok_VMAccelDesc x" and "Desc_Reserve x q = Some (d, r)"
  shows "ok_VMAccelDesc d" and "ok_VMAccelDesc r"
  using assms by (auto simp: Desc_Reserve_def Let_def ok_capacity ok_DeepCopy split: if_splits)

lemma ok_FreeObj:
  assumes "rb_ok rb" and "\<forall>x\<in>set (elems pool). ok_VMAccelDesc (ob_obj x)" and "ok_VMAccelDesc (ob_obj e)"
  shows "\<forall>x\<in>set (elems (snd (Desc_FreeObj u rb pool e))). ok_VMAccelDesc (ob_obj x)"
proof (cases "find_pos (\<lambda>x. ob_parentId x = ob_parentId e) (elems pool)")
  case None
  with assms show ?thesis
    by (simp add: Desc_FreeObj_def Let_def Desc_object_parent set_pool_insert VMAccelObject_copy_def Desc_obj_ops_def ok_DeepCopy)
next
  case (Some it)
  then have it: "it < size pool" using find_pos_Some [OF Some] by simp
  with assms(2) have "ok_VMAccelDesc (ob_obj (elems pool ! it))" by simp
  with Some assms set_erase [OF assms(1) it] show ?thesis
    by (simp add: Desc_FreeObj_def Let_def Desc_object_parent set_pool_insert)
      (auto simp: VMAccelObject_new_def VMAccelObject_move_def Desc_obj_ops_def ok_DeepCopy ok_Move ok_capacity)
qed

interpretation wire_alloc: alloc_type "Desc_ops u" Desc_wire Desc_dims Desc_total "2 ^ 32" for u
proof
  show "Desc_total \<in> Desc_dims" by (rule desc_alloc.tot_measure)
  show "Desc_wire x \<Longrightarrow> Desc_total x < 2 ^ 32" for x using desc_alloc.tot_lim by (simp add: Desc_wire_def)
  show "\<not> op_cmp (Desc_ops u) e k \<Longrightarrow> ob_parentId e = ob_parentId k" for e k by (rule desc_alloc.cmp_parent)
  show "Desc_wire x \<Longrightarrow> Desc_wire (op_DeepCopy (Desc_ops u) l x)" for l x
    using desc_alloc.copy_valid [of x u l] by (simp add: Desc_wire_def Desc_ops_def ok_DeepCopy)
  show "Desc_wire x \<Longrightarrow> Desc_wire (op_Move (Desc_ops u) l x)" for l x
    using desc_alloc.move_valid [of x u l] by (simp add: Desc_wire_def Desc_ops_def ok_Move)
  show "\<mu> \<in> Desc_dims \<Longrightarrow> \<mu> (op_DeepCopy (Desc_ops u) l x) = \<mu> x" for \<mu> l x by (rule desc_alloc.copy_measure)
  show "\<mu> \<in> Desc_dims \<Longrightarrow> \<mu> (op_Move (Desc_ops u) l x) = \<mu> x" for \<mu> l x by (rule desc_alloc.move_measure)
  show "Desc_wire r \<Longrightarrow> op_IsEmpty (Desc_ops u) r \<Longrightarrow> \<mu> \<in> Desc_dims \<Longrightarrow> \<mu> r = 0" for r \<mu>
    using desc_alloc.empty_measure by (simp add: Desc_wire_def)
  fix x q d r assume v: "Desc_wire x" "Desc_wire q" and R: "op_Reserve (Desc_ops u) x q = Some (d, r)"
  have v': "Desc_valid x" "Desc_valid q" "ok_VMAccelDesc x" using v by (simp_all add: Desc_wire_def)
  have "Desc_Reserve x q = Some (d, r)" using R by (simp add: Desc_ops_def)
  with desc_alloc.reserve_valid [OF v'(1,2) R] ok_Reserve [OF v'(3)] show "Desc_wire d \<and> Desc_wire r" by (simp add: Desc_wire_def)
  show "\<mu> d = \<mu> q \<and> \<mu> x = \<mu> d + \<mu> r" if "\<mu> \<in> Desc_dims" for \<mu> by (rule desc_alloc.reserve_measure [OF v'(1,2) R that])
next
  fix rb :: "VMAccelDesc vobj rb" and S pool and e :: "VMAccelDesc vobj"
  assume rb: "rb_ok rb" and ok: "pool_ok Desc_wire S pool" and e: "Desc_wire (ob_obj e)" "unat (ob_parentId e) \<in> S"
    and lim: "Desc_total (ob_obj e) + held Desc_total (ob_parentId e) pool < 2 ^ 32"
  have P: "pool_ok Desc_wire S t \<longleftrightarrow> pool_ok Desc_valid S t \<and> (\<forall>x\<in>set (elems t). ok_VMAccelDesc (ob_obj x))" for t
    by (auto simp: pool_ok_def Desc_wire_def)
  have e': "Desc_valid (ob_obj e)" "ok_VMAccelDesc (ob_obj e)" using e by (simp_all add: Desc_wire_def)
  from desc_alloc.free_obj [OF rb _ e'(1) e(2) lim, of u] ok P obtain pool' where
    p: "op_FreeObj (Desc_ops u) rb pool e = (True, pool')" "pool_ok Desc_valid S pool'"
      "\<forall>\<mu>\<in>Desc_dims. \<forall>p. held \<mu> p pool' = amount \<mu> p e + held \<mu> p pool" by blast
  have "snd (Desc_FreeObj u rb pool e) = pool'" using p(1) by (simp add: Desc_ops_def)
  with ok_FreeObj [OF rb _ e'(2), of pool u] ok P p show "\<exists>pool'. op_FreeObj (Desc_ops u) rb pool e = (True, pool') \<and>
    pool_ok Desc_wire S pool' \<and> (\<forall>\<mu>\<in>Desc_dims. \<forall>p. held \<mu> p pool' = amount \<mu> p e + held \<mu> p pool)" by auto
qed

subsection \<open>Calls\<close>

lemma vmaccelmgr_calls:
  shows "ok_VMAccelRegisterDesc v \<Longrightarrow> length (enc_VMAccelRegisterDesc v) \<le> room \<Longrightarrow>
      vmaccelmgr_register_1_svc u rb v True M = Inr (Some r, v, M') \<Longrightarrow> ok_VMAccelAllocateReturnStatus r \<Longrightarrow>
      length (enc_VMAccelAllocateReturnStatus r) \<le> reply_room \<Longrightarrow>
      vmaccelmgr_register_1 v (connect room reply_room handy handy' (vmaccelmgr_1 u rb)) M = Inr (Some r, M')"
    and "ok_VMAccelDesc q \<Longrightarrow> length (enc_VMAccelDesc q) \<le> room \<Longrightarrow>
      vmaccelmgr_alloc_1_svc u rb q True M = Inr (Some r, q, M') \<Longrightarrow> ok_VMAccelAllocateReturnStatus r \<Longrightarrow>
      length (enc_VMAccelAllocateReturnStatus r) \<le> reply_room \<Longrightarrow>
      vmaccelmgr_alloc_1 q (connect room reply_room handy handy' (vmaccelmgr_1 u rb)) M = Inr (Some r, M')"
    and "4 \<le> room \<Longrightarrow> vmaccelmgr_unregister_1_svc u rb i True M = Inr (Some s, i, M') \<Longrightarrow> ok_VMAccelReturnStatus s \<Longrightarrow>
      length (enc_VMAccelReturnStatus s) \<le> reply_room \<Longrightarrow>
      vmaccelmgr_unregister_1 i (connect room reply_room handy handy' (vmaccelmgr_1 u rb)) M = Inr (Some s, M')"
    and "4 \<le> room \<Longrightarrow> vmaccelmgr_free_1_svc u rb i True M = Inr (Some s, i, M') \<Longrightarrow> ok_VMAccelReturnStatus s \<Longrightarrow>
      length (enc_VMAccelReturnStatus s) \<le> reply_room \<Longrightarrow>
      vmaccelmgr_free_1 i (connect room reply_room handy handy' (vmaccelmgr_1 u rb)) M = Inr (Some s, M')"
  unfolding vmaccelmgr_register_1_def vmaccelmgr_alloc_1_def vmaccelmgr_unregister_1_def vmaccelmgr_free_1_def
  by (rule vmaccelmgr_register_1.call_connected, simp add: vmaccelmgr_1_def, assumption+)
    (rule vmaccelmgr_alloc_1.call_connected vmaccel_resourcerelease_1.call_connected, simp add: vmaccelmgr_1_def, simp_all)+

text \<open>What the operations of the manager answer, on a manager in use.\<close>

lemma manager_answers:
  assumes rb: "rb_ok rb" and M: "accelMgr M = Some A" and inv: "alloc_inv Desc_wire Desc_dims A"
  shows "Desc_wire d \<Longrightarrow> \<exists>ret M'. vmaccel_manager_register u rb M d = Inr (ret, M') \<and> ok_VMAccelAllocateStatus ret"
    and "Desc_wire d \<Longrightarrow> \<exists>ret M'. vmaccel_manager_alloc u rb M d = Inr (ret, M') \<and> ok_VMAccelAllocateStatus ret"
    and "unat i \<in> ids (al_registeredIds A) \<Longrightarrow> \<exists>ret M'. vmaccel_manager_unregister u rb M i = Inr (ret, M') \<and> ok_VMAccelStatus ret"
    and "unat i \<in> ids (al_externalIds A) \<Longrightarrow> \<exists>ret M'. vmaccel_manager_free u rb M i = Inr (ret, M') \<and> ok_VMAccelStatus ret"
proof -
  have z: "ok_VMAccelDesc zero_VMAccelDesc" by (simp add: ok_VMAccelDesc_def ok_VMAccelAddress_def zero_VMAccelDesc_def zero_VMAccelAddress_def ok_vec_def)
  note Z = z ok_VMAccelAllocateStatus_def ok_VMAccelStatus_def zero_VMAccelAllocateStatus_def zero_VMAccelStatus_def ok_vec_def
  show "\<exists>ret M'. vmaccel_manager_register u rb M d = Inr (ret, M') \<and> ok_VMAccelAllocateStatus ret" if d: "Desc_wire d"
    using wire_alloc.Register_full [OF inv, of u rb d] wire_alloc.Register_conserves [OF rb inv d, of u]
    by (cases "ids (al_registeredIds A) = {..<unat (db_size (al_registeredIds A))}")
      (auto simp: vmaccel_manager_register_def M Z)
  show "\<exists>ret M'. vmaccel_manager_alloc u rb M d = Inr (ret, M') \<and> ok_VMAccelAllocateStatus ret" if d: "Desc_wire d"
    using rb inv d
  proof (cases rule: wire_alloc.Alloc_cases [where p = "Desc_parentId d" and u = u])
    case (granted it dv r)
    show ?thesis
    proof (rule wire_alloc.Alloc_takes [OF rb inv d granted])
      fix A' e
      let ?n = "LEAST n. n \<notin> ids (al_externalIds A)"
      assume run: "Alloc (Desc_ops u) rb A (Desc_parentId d) d = Inr ((al_result A)\<lparr>AllocateStatus_id := of_nat ?n,
          AllocateStatus_status := VMACCEL_SUCCESS\<rparr>, Some (ob_obj e), A')"
        and A': "alloc_inv Desc_wire Desc_dims A'" "?n < length (al_allocated A)"
          "ids (al_externalIds A') = insert ?n (ids (al_externalIds A))" "al_allocated A' = (al_allocated A)[?n := e]"
      have "Desc_wire (ob_obj (al_allocated A' ! ?n))" by (rule alloc_invD(3) [OF A'(1)]) (simp only: A'(3) insertI1)
      then have "ok_VMAccelDesc (ob_obj e)" by (simp only: A'(4) nth_list_update_eq [OF A'(2)] Desc_wire_def)
      with run show ?thesis by (simp add: vmaccel_manager_alloc_def M Let_def ok_VMAccelAllocateStatus_def zero_VMAccelAllocateStatus_def ok_vec_def)
    qed
  qed (simp_all add: vmaccel_manager_alloc_def M Z Let_def)
  show "\<exists>ret M'. vmaccel_manager_unregister u rb M i = Inr (ret, M') \<and> ok_VMAccelStatus ret"
    if i: "unat i \<in> ids (al_registeredIds A)"
  proof -
    have "unat i < unat (db_size (al_registeredIds A))"
      using i vectors_okD(3) [OF alloc_invD(1) [OF inv]] by (auto simp: bounded_db_def)
    from wire_alloc.Unregister_busy [OF inv this, of u rb] wire_alloc.Unregister_conserves [OF rb inv i, of u] show ?thesis
      by (cases "lent (\<lambda>_. 1) i (al_allocated A) (ids (al_externalIds A)) = 0") (auto simp: vmaccel_manager_unregister_def M Z)
  qed
  show "\<exists>ret M'. vmaccel_manager_free u rb M i = Inr (ret, M') \<and> ok_VMAccelStatus ret" if i: "unat i \<in> ids (al_externalIds A)"
    using wire_alloc.Free_conserves [OF rb inv i, of u] by (auto simp: vmaccel_manager_free_def M Z)
qed

definition reply_fits :: "nat \<Rightarrow> VMAccelAllocateStatus \<Rightarrow> bool" where
  "reply_fits n ret \<longleftrightarrow>
     length (enc_VMAccelAllocateReturnStatus \<lparr>AllocateReturnStatus_errno = 0, AllocateReturnStatus_ret = Some ret\<rparr>) \<le> n"

lemma length_enc_status:
  assumes "ok_VMAccelStatus r"
  shows "length (enc_VMAccelReturnStatus \<lparr>ReturnStatus_errno = 0, ReturnStatus_ret = Some r\<rparr>) \<le> 20"
  using assms[unfolded ok_VMAccelStatus_def]
proof (cases rule: ok_vec_cases)
  case (2 n es)
  then have "unat n \<le> 4" by (simp add: VMACCEL_MAX_NONCE_SIZE_def word_le_nat_alt)
  moreover have "unat n \<noteq> 0" using 2 by (simp add: unat_eq_0)
  ultimately consider "unat n = 1" | "unat n = 2" | "unat n = 3" | "unat n = 4" by linarith
  then have "length (enc_opaque es) \<le> 4" using 2 by cases (simp_all add: enc_opaque_def pad_def)
  with 2 show ?thesis by (simp add: enc_VMAccelReturnStatus_def enc_pointer_def enc_VMAccelStatus_def enc_bytes_def)
qed (simp add: enc_VMAccelReturnStatus_def enc_pointer_def enc_VMAccelStatus_def enc_bytes_def)


lemma example_wire: "unat n < 2 ^ 32 \<Longrightarrow> Desc_wire (example_desc n)"
  using example_valid(1) [of n] by (simp add: Desc_wire_def example_desc_def ok_VMAccelDesc_def ok_VMAccelAddress_def
    zero_VMAccelDesc_def zero_VMAccelAddress_def ok_vec_def)

lemma example_wire_state:
  "\<exists>A. reachable (Desc_ops zero_VMAccelDesc) list_rb Desc_wire zero_VMAccelDesc 2 A \<and>
     0 \<in> ids (al_registeredIds A) \<and> ids (al_externalIds A) = {0}"
proof -
  obtain A A0 st where A: "desc_reachable A" "ids (al_registeredIds A) = {0}" "al_registered A ! 0 = example_desc 5"
    "ids (al_externalIds A) = {}" "db_size (al_externalIds A) = 2"
    "VMAccelAllocator (\<lambda>_. True) (Desc_ops zero_VMAccelDesc) zero_VMAccelDesc 2 = Some A0"
    "Register (Desc_ops zero_VMAccelDesc) list_rb A0 (example_desc 5) = Inr (st, A)" using example_state by blast
  obtain st' v A1 where A1: "Alloc (Desc_ops zero_VMAccelDesc) list_rb A 0 (example_desc 3) = Inr (st', Some v, A1)"
    "ids (al_externalIds A1) = {0}" "al_registeredIds A1 = al_registeredIds A" using example_grant [OF A(1-5)] by blast
  have w: "Desc_wire (example_desc 5)" "Desc_wire (example_desc 3)" by (simp_all add: example_wire)
  note r = reachable.start [OF A(6), of list_rb Desc_wire]
  have "reachable (Desc_ops zero_VMAccelDesc) list_rb Desc_wire zero_VMAccelDesc 2 A1"
    using reachable.register [OF r w(1) A(7)] w(2) A1(1) by (rule reachable.alloc)
  with A1(2,3) A(2) show ?thesis by (metis singletonI)
qed


text \<open>C37: As the code stands, a request to free an identifier that is not in use, which any client
  can send, makes the manager fail an assertion instead of answering with an error.\<close>

theorem manager_free_unknown_aborts:
  assumes "rb_ok rb" and "unat num \<le> 2 ^ 32 - 32" and "reachable (Desc_ops u) rb Desc_wire zero num A" and "accelMgr M = Some A"
    and "unat i \<notin> ids (al_externalIds A)"
  shows "vmaccelmgr_1 u rb VMACCELMGR_FREE \<lparr>tp_in = be32 i, tp_room = room, tp_handy = handy\<rparr> M = Inl AssertFailed"
proof -
  have "vmaccelmgr_free_1_svc u rb i True M = Inl AssertFailed"
    using wire_alloc.Free_inactive [OF wire_alloc.reachable_inv [OF assms(1-3)] assms(5), of u rb False]
    by (simp add: vmaccelmgr_free_1_svc_def vmaccel_manager_free_def assms(4))
  from vmaccel_resourcerelease_1.serve_abort [where local = "\<lambda>argp. vmaccelmgr_free_1_svc u rb argp True", OF _ _ this] show ?thesis
    by (simp add: vmaccelmgr_1_def)
qed

theorem manager_free_unknown_aborts_witness:
  "\<exists>A. reachable (Desc_ops zero_VMAccelDesc) list_rb Desc_wire zero_VMAccelDesc 2 A \<and>
     vmaccelmgr_1 zero_VMAccelDesc list_rb VMACCELMGR_FREE \<lparr>tp_in = be32 7, tp_room = 400, tp_handy = []\<rparr>
       \<lparr>accelMgr = Some A, memMgr = None\<rparr> = Inl AssertFailed"
proof -
  obtain A where A: "reachable (Desc_ops zero_VMAccelDesc) list_rb Desc_wire zero_VMAccelDesc 2 A"
    "ids (al_externalIds A) = {0}" using example_wire_state by blast
  from manager_free_unknown_aborts [OF list_rb_ok _ A(1), of "\<lparr>accelMgr = Some A, memMgr = None\<rparr>" 7 400 "[]"] A
  show ?thesis by (intro exI [of _ A]) simp
qed

end
