(* ===== verification/Accel_Defs.thy ===== *)
theory Accel_Defs
  imports Accel_Prelude
begin

section \<open>Constants: src/common/inc/vmaccel_defs.h\<close>

text \<open>
  The constants and enumeration values of the header that the client library and the OpenCL
  backend use, as names of their values.
\<close>

abbreviation (input) VMACCEL_MAX_SURFACE_INSTANCE :: nat where "VMACCEL_MAX_SURFACE_INSTANCE \<equiv> 1"
abbreviation (input) VMACCEL_COMPUTE_ACCELERATOR_MASK :: u32 where "VMACCEL_COMPUTE_ACCELERATOR_MASK \<equiv> 32"
abbreviation (input) VMACCEL_SURFACEMAP :: u32 where "VMACCEL_SURFACEMAP \<equiv> 4"
abbreviation (input) VMACCEL_SURFACE_BUFFER :: u32 where "VMACCEL_SURFACE_BUFFER \<equiv> 1"
abbreviation (input) VMACCEL_SURFACE_POOL_SYSTEM_MEMORY :: u32 where "VMACCEL_SURFACE_POOL_SYSTEM_MEMORY \<equiv> 2"
abbreviation (input) VMACCEL_SURFACE_USAGE_READONLY :: u32 where "VMACCEL_SURFACE_USAGE_READONLY \<equiv> 0"
abbreviation (input) VMACCEL_SURFACE_USAGE_WRITEONLY :: u32 where "VMACCEL_SURFACE_USAGE_WRITEONLY \<equiv> 1"
abbreviation (input) VMACCEL_SURFACE_USAGE_READWRITE :: u32 where "VMACCEL_SURFACE_USAGE_READWRITE \<equiv> 2"
abbreviation (input) VMACCEL_FORMAT_R8_TYPELESS :: u32 where "VMACCEL_FORMAT_R8_TYPELESS \<equiv> 5"
abbreviation (input) VMACCEL_SURFACE_READ_SYNCHRONOUS :: u32 where "VMACCEL_SURFACE_READ_SYNCHRONOUS \<equiv> 0"
abbreviation (input) VMACCEL_MAP_READ_FLAG :: u32 where "VMACCEL_MAP_READ_FLAG \<equiv> 1"
abbreviation (input) VMACCEL_MAP_WRITE_FLAG :: u32 where "VMACCEL_MAP_WRITE_FLAG \<equiv> 2"
abbreviation (input) VMACCEL_MAP_WRITE_DISCARD_FLAG :: u32 where "VMACCEL_MAP_WRITE_DISCARD_FLAG \<equiv> 4"
abbreviation (input) VMACCEL_MAP_ASYNC_FLAG :: u32 where "VMACCEL_MAP_ASYNC_FLAG \<equiv> 32"
abbreviation (input) VMACCEL_MAX_REF_OBJECTS :: u32 where "VMACCEL_MAX_REF_OBJECTS \<equiv> 48"
abbreviation (input) VMACCEL_SURFACE_WRITE_ASYNCHRONOUS :: u32 where "VMACCEL_SURFACE_WRITE_ASYNCHRONOUS \<equiv> 2"
abbreviation (input) VMACCEL_HANDLE_ID :: u32 where "VMACCEL_HANDLE_ID \<equiv> 0"
abbreviation (input) VMACCEL_BIND_UNORDERED_ACCESS_FLAG :: u32 where "VMACCEL_BIND_UNORDERED_ACCESS_FLAG \<equiv> 512"
abbreviation (input) VMACCEL_QUEUE_ON_DEVICE_FLAG :: u32 where "VMACCEL_QUEUE_ON_DEVICE_FLAG \<equiv> 1"
abbreviation (input) VMACCEL_FORMAT_UINT :: u32 where "VMACCEL_FORMAT_UINT \<equiv> 54"

end
