(* ===== verification/Vmcl_Types.thy ===== *)
theory Vmcl_Types
  imports Rpc_Types
begin

section \<open>RPC types of the VMCL protocol: src/common/inc/vmcl_rpc.h\<close>

text \<open>
  The structs and enumerations of the compute protocol, as in Rpc\_Types.  A C enumeration
  holds any 32-bit value, whether or not it names a constant, so its type is a word and
  its constants are abbreviations.
\<close>

type_synonym VMCLCaps = u32
type_synonym VMCLKernelLanguage = u32
type_synonym VMCLContextId = VMAccelId

record VMCLContextAllocateDesc =
  CLContextAllocateDesc_accelId :: VMAccelId
  CLContextAllocateDesc_clientId :: VMCLContextId
  CLContextAllocateDesc_selectionMask :: VMAccelSelectionMask
  CLContextAllocateDesc_numSubDevices :: u32
  CLContextAllocateDesc_requiredCaps :: VMCLCaps

record VMCLContextAllocateStatus =
  CLContextAllocateStatus_status :: VMAccelStatusCode
  CLContextAllocateStatus_caps :: VMCLCaps

record VMCLSurfaceId =
  CLSurfaceId_cid :: VMCLContextId
  CLSurfaceId_accel :: VMAccelSurfaceId

record VMCLSurfaceAllocateDesc =
  CLSurfaceAllocateDesc_client :: VMCLSurfaceId
  CLSurfaceAllocateDesc_desc :: VMAccelSurfaceDesc

record VMCLQueueId =
  CLQueueId_cid :: VMCLContextId
  CLQueueId_id :: VMAccelId

record VMCLQueueAllocateDesc =
  CLQueueAllocateDesc_client :: VMCLQueueId
  CLQueueAllocateDesc_subDevice :: u32
  CLQueueAllocateDesc_desc :: VMAccelQueueDesc

record VMCLQueueFlushOp =
  CLQueueFlushOp_queue :: VMCLQueueId

record VMCLSurfaceCopyOp =
  CLSurfaceCopyOp_queue :: VMCLQueueId
  CLSurfaceCopyOp_dst :: VMCLSurfaceId
  CLSurfaceCopyOp_src :: VMCLSurfaceId
  CLSurfaceCopyOp_op :: VMAccelSurfaceCopyOp

record VMCLImageFillOp =
  CLImageFillOp_queue :: VMCLQueueId
  CLImageFillOp_img :: VMCLSurfaceId
  CLImageFillOp_op :: VMAccelImageFillOp

record VMCLImageUploadOp =
  CLImageUploadOp_queue :: VMCLQueueId
  CLImageUploadOp_img :: VMCLSurfaceId
  CLImageUploadOp_op :: VMAccelImageTransferOp
  CLImageUploadOp_mode :: VMAccelSurfaceWriteConsistency

record VMCLImageDownloadOp =
  CLImageDownloadOp_queue :: VMCLQueueId
  CLImageDownloadOp_img :: VMCLSurfaceId
  CLImageDownloadOp_op :: VMAccelImageTransferOp
  CLImageDownloadOp_mode :: VMAccelSurfaceReadConsistency

record VMCLSurfaceMapOp =
  CLSurfaceMapOp_queue :: VMCLQueueId
  CLSurfaceMapOp_op :: VMAccelSurfaceMapOp

record VMCLSurfaceUnmapOp =
  CLSurfaceUnmapOp_queue :: VMCLQueueId
  CLSurfaceUnmapOp_op :: VMAccelSurfaceUnmapOp

record VMCLSamplerId =
  CLSamplerId_cid :: VMCLContextId
  CLSamplerId_id :: VMAccelId

type_synonym VMCLSamplerAddressingMode = u32

abbreviation (input) VMCL_ADDRESS_MIRRORED_REPEAT :: VMCLSamplerAddressingMode where "VMCL_ADDRESS_MIRRORED_REPEAT \<equiv> 0"
abbreviation (input) VMCL_ADDRESS_REPEAT :: VMCLSamplerAddressingMode where "VMCL_ADDRESS_REPEAT \<equiv> 1"
abbreviation (input) VMCL_ADDRESS_CLAMP_TO_EDGE :: VMCLSamplerAddressingMode where "VMCL_ADDRESS_CLAMP_TO_EDGE \<equiv> 2"
abbreviation (input) VMCL_ADDRESS_CLAMP :: VMCLSamplerAddressingMode where "VMCL_ADDRESS_CLAMP \<equiv> 3"
abbreviation (input) VMCL_ADDRESS_NONE :: VMCLSamplerAddressingMode where "VMCL_ADDRESS_NONE \<equiv> 4"

type_synonym VMCLSamplerFilterMode = u32

abbreviation (input) VMCL_FILTER_NEAREST :: VMCLSamplerFilterMode where "VMCL_FILTER_NEAREST \<equiv> 0"
abbreviation (input) VMCL_FILTER_LINEAR :: VMCLSamplerFilterMode where "VMCL_FILTER_LINEAR \<equiv> 1"

record VMCLSamplerDesc =
  CLSamplerDesc_normalizedCoords :: bool
  CLSamplerDesc_addressMode :: VMCLSamplerAddressingMode
  CLSamplerDesc_filterMode :: VMCLSamplerFilterMode

record VMCLSamplerAllocateDesc =
  CLSamplerAllocateDesc_client :: VMCLSamplerId
  CLSamplerAllocateDesc_desc :: VMCLSamplerDesc

record VMCLSamplerAllocateStatus =
  CLSamplerAllocateStatus_status :: VMAccelStatusCode

record VMCLKernelId =
  CLKernelId_cid :: VMCLContextId
  CLKernelId_id :: VMAccelId

record VMCLKernelAllocateDesc =
  CLKernelAllocateDesc_client :: VMCLKernelId
  CLKernelAllocateDesc_subDevice :: u32
  CLKernelAllocateDesc_language :: VMCLKernelLanguage
  CLKernelAllocateDesc_source :: "byte c_vec"
  CLKernelAllocateDesc_kernelName :: "byte c_vec"

record VMCLKernelAllocateStatus =
  CLKernelAllocateStatus_status :: VMAccelStatusCode

type_synonym VMCLKernelSemanticType = u32

abbreviation (input) VMCL_SEMANTIC_DECLARED :: VMCLKernelSemanticType where "VMCL_SEMANTIC_DECLARED \<equiv> 0"
abbreviation (input) VMCL_SEMANTIC_WORK_DIMENSION :: VMCLKernelSemanticType where "VMCL_SEMANTIC_WORK_DIMENSION \<equiv> 1"
abbreviation (input) VMCL_SEMANTIC_GLOBAL_ID :: VMCLKernelSemanticType where "VMCL_SEMANTIC_GLOBAL_ID \<equiv> 2"
abbreviation (input) VMCL_SEMANTIC_GLOBAL_SIZE :: VMCLKernelSemanticType where "VMCL_SEMANTIC_GLOBAL_SIZE \<equiv> 3"
abbreviation (input) VMCL_SEMANTIC_GLOBAL_OFFSET :: VMCLKernelSemanticType where "VMCL_SEMANTIC_GLOBAL_OFFSET \<equiv> 4"
abbreviation (input) VMCL_SEMANTIC_GROUP_ID :: VMCLKernelSemanticType where "VMCL_SEMANTIC_GROUP_ID \<equiv> 5"
abbreviation (input) VMCL_SEMANTIC_LOCAL_ID :: VMCLKernelSemanticType where "VMCL_SEMANTIC_LOCAL_ID \<equiv> 6"
abbreviation (input) VMCL_SEMANTIC_LOCAL_SIZE :: VMCLKernelSemanticType where "VMCL_SEMANTIC_LOCAL_SIZE \<equiv> 7"
abbreviation (input) VMCL_SEMANTIC_NUM_GROUPS :: VMCLKernelSemanticType where "VMCL_SEMANTIC_NUM_GROUPS \<equiv> 8"
abbreviation (input) VMCL_SEMANTIC_MAX :: VMCLKernelSemanticType where "VMCL_SEMANTIC_MAX \<equiv> 9"

type_synonym VMCLKernelArgType = u32

abbreviation (input) VMCL_ARG_IMMEDIATE :: VMCLKernelArgType where "VMCL_ARG_IMMEDIATE \<equiv> 0"
abbreviation (input) VMCL_ARG_SURFACE :: VMCLKernelArgType where "VMCL_ARG_SURFACE \<equiv> 1"
abbreviation (input) VMCL_ARG_SAMPLER :: VMCLKernelArgType where "VMCL_ARG_SAMPLER \<equiv> 2"

record VMCLKernelArgDesc =
  CLKernelArgDesc_queue :: VMCLQueueId
  CLKernelArgDesc_index :: u32
  CLKernelArgDesc_type :: VMCLKernelArgType
  CLKernelArgDesc_usage :: VMAccelSurfaceUsage
  CLKernelArgDesc_surf :: VMAccelSurfaceId
  CLKernelArgDesc_sampler :: VMCLSamplerId

record VMCLDispatchOp =
  CLDispatchOp_queue :: VMCLQueueId
  CLDispatchOp_kernel :: VMCLKernelId
  CLDispatchOp_dimension :: u32
  CLDispatchOp_globalWorkOffset :: "u32 c_vec"
  CLDispatchOp_globalWorkSize :: "u32 c_vec"
  CLDispatchOp_localWorkSize :: "u32 c_vec"
  CLDispatchOp_args :: "VMCLKernelArgDesc c_vec"
  CLDispatchOp_refs :: "VMAccelSurfaceId c_vec"

record VMCLContextAllocateReturnStatus =
  CLContextAllocateReturnStatus_errno :: u32
  CLContextAllocateReturnStatus_ret :: "VMCLContextAllocateStatus option"

record VMCLSamplerAllocateReturnStatus =
  CLSamplerAllocateReturnStatus_errno :: u32
  CLSamplerAllocateReturnStatus_ret :: "VMCLSamplerAllocateStatus option"

record VMCLKernelAllocateReturnStatus =
  CLKernelAllocateReturnStatus_errno :: u32
  CLKernelAllocateReturnStatus_ret :: "VMCLKernelAllocateStatus option"

subsection \<open>Zeroed objects\<close>

text \<open>What \<^verbatim>\<open>memset(p, 0, sizeof(*p))\<close> leaves in an object of the type.\<close>

definition zero_VMCLContextAllocateStatus :: VMCLContextAllocateStatus where
  "zero_VMCLContextAllocateStatus = \<lparr>CLContextAllocateStatus_status = 0, CLContextAllocateStatus_caps = 0\<rparr>"

definition zero_VMCLQueueId :: VMCLQueueId where
  "zero_VMCLQueueId = \<lparr>CLQueueId_cid = 0, CLQueueId_id = 0\<rparr>"

definition zero_VMCLSamplerId :: VMCLSamplerId where
  "zero_VMCLSamplerId = \<lparr>CLSamplerId_cid = 0, CLSamplerId_id = 0\<rparr>"

definition zero_VMCLSamplerAllocateStatus :: VMCLSamplerAllocateStatus where
  "zero_VMCLSamplerAllocateStatus = \<lparr>CLSamplerAllocateStatus_status = 0\<rparr>"

definition zero_VMCLKernelAllocateStatus :: VMCLKernelAllocateStatus where
  "zero_VMCLKernelAllocateStatus = \<lparr>CLKernelAllocateStatus_status = 0\<rparr>"

definition zero_VMCLKernelArgDesc :: VMCLKernelArgDesc where
  "zero_VMCLKernelArgDesc = \<lparr>CLKernelArgDesc_queue = zero_VMCLQueueId, CLKernelArgDesc_index = 0,
     CLKernelArgDesc_type = 0, CLKernelArgDesc_usage = 0,
     CLKernelArgDesc_surf = zero_VMAccelSurfaceId, CLKernelArgDesc_sampler = zero_VMCLSamplerId\<rparr>"

end
