(* ===== verification/C_Memory.thy ===== *)
theory C_Memory
  imports Identifier_DB
begin

section \<open>Heap blocks\<close>

text \<open>
  Pointers to heap blocks, as the C parts of the program hold them, and the functions of the
  identifier database called through such a pointer.
\<close>

text \<open>A pointer to a heap block: never set, to a block in use, or to one that was freed.\<close>

datatype 'a c_ptr = Null | Live 'a | Freed

definition deref :: "'a c_ptr \<Rightarrow> 'a cres" where
  "deref p = (case p of Null \<Rightarrow> Inl NullPointer | Live x \<Rightarrow> Inr x | Freed \<Rightarrow> Inl Dangling)"

lemma deref_simps [simp]: "deref Null = Inl NullPointer" "deref (Live x) = Inr x" "deref Freed = Inl Dangling"
  by (simp_all add: deref_def)

lemma deref_eq_Inr [cres_simps]: "deref p = Inr x \<longleftrightarrow> p = Live x"
  by (cases p) simp_all

text \<open>The identifier database behind a pointer: its functions assert that it is not \<^verbatim>\<open>NULL\<close>.\<close>

definition id_db :: "IdentifierDB c_ptr \<Rightarrow> IdentifierDB cres" where
  "id_db p = (case p of Null \<Rightarrow> Inl AssertFailed | Live db \<Rightarrow> Inr db | Freed \<Rightarrow> Inl Dangling)"

definition id_active :: "IdentifierDB c_ptr \<Rightarrow> u32 \<Rightarrow> bool cres" where
  "id_active p ident = cbind (id_db p) (\<lambda>db. IdentifierDB_ActiveId db ident)"

definition id_acquire :: "IdentifierDB c_ptr \<Rightarrow> u32 \<Rightarrow> (bool \<times> IdentifierDB c_ptr) cres" where
  "id_acquire p ident =
     cbind (id_db p) (\<lambda>db. cbind (IdentifierDB_AcquireId db ident) (\<lambda>(b, db). Inr (b, Live db)))"

definition id_release :: "IdentifierDB c_ptr \<Rightarrow> u32 \<Rightarrow> IdentifierDB c_ptr cres" where
  "id_release p ident =
     cbind (id_db p) (\<lambda>db. cbind (IdentifierDB_ReleaseId db ident) (\<lambda>db. Inr (Live db)))"

definition IdentifierDB_Free :: "IdentifierDB c_ptr \<Rightarrow> IdentifierDB c_ptr cres" where
  "IdentifierDB_Free p = cbind (id_db p) (\<lambda>_. Inr Freed)"

definition c_free :: "'a c_ptr \<Rightarrow> 'a c_ptr cres" where
  "c_free p = (case p of Null \<Rightarrow> Inr Null | Live _ \<Rightarrow> Inr Freed | Freed \<Rightarrow> Inl Dangling)"

definition ptr_read :: "'a list c_ptr \<Rightarrow> u32 \<Rightarrow> 'a cres" where
  "ptr_read p i = cbind (deref p) (\<lambda>xs. cread xs (unat i))"

definition ptr_write :: "'a list c_ptr \<Rightarrow> u32 \<Rightarrow> 'a \<Rightarrow> 'a list c_ptr cres" where
  "ptr_write p i v = cbind (deref p) (\<lambda>xs. cbind (cwrite xs (unat i) v) (\<lambda>xs. Inr (Live xs)))"

definition alloc_ids :: "(nat \<Rightarrow> bool) \<Rightarrow> u32 \<Rightarrow> IdentifierDB c_ptr" where
  "alloc_ids ok n = (case IdentifierDB_Alloc ok n of None \<Rightarrow> Null | Some db \<Rightarrow> Live db)"

end
