(* ===== verification/Opencl_Api.thy ===== *)
theory Opencl_Api
  imports Vmcl_Types C_Memory
begin

section \<open>The OpenCL library as the backend sees it\<close>

text \<open>
  The OpenCL functions that \<^verbatim>\<open>src/backends/vmwopencl/src/vmwopencl_ops.c\<close> calls are parameters of
  the model: a record of functions over the state \<open>'d\<close> of the OpenCL runtime.  A handle is a
  64-bit word, 0 for \<^verbatim>\<open>NULL\<close>; an error code is a word, 0 for \<^verbatim>\<open>CL_SUCCESS\<close>.  Strings a query
  returns are given as such, buffers as lists of bytes.  \<^verbatim>\<open>clGetPlatformIDs\<close> gives the platforms it
  wrote and the number there are, \<^verbatim>\<open>clGetDeviceIDs\<close> the devices it wrote, \<open>clGetDeviceSizes\<close> is the
  query of \<^verbatim>\<open>CL_DEVICE_MAX_WORK_ITEM_SIZES\<close>, and \<^verbatim>\<open>clEnqueueReadBuffer\<close> gives what it wrote to the
  destination.

  \<open>host_read\<close> and \<open>host_write\<close> are accesses of the process to memory OpenCL gave it a pointer
  to (a mapped buffer, shared virtual memory).
\<close>

record 'd cl_api =
  clGetPlatformIDs :: "'d \<Rightarrow> u32 \<times> u64 list \<times> u32 \<times> 'd"
  clGetPlatformInfo :: "u64 \<Rightarrow> u32 \<Rightarrow> 'd \<Rightarrow> u32 \<times> string \<times> 'd"
  clGetDeviceIDs :: "u64 \<Rightarrow> u32 \<Rightarrow> u32 \<Rightarrow> 'd \<Rightarrow> u32 \<times> u64 list \<times> 'd"
  clGetDeviceInfo :: "u64 \<Rightarrow> string \<Rightarrow> 'd \<Rightarrow> u32 \<times> u64 \<times> 'd"
  clGetDeviceSizes :: "u64 \<Rightarrow> u32 \<Rightarrow> 'd \<Rightarrow> u32 \<times> u64 list \<times> 'd"
  clCreateContext :: "u64 list \<Rightarrow> 'd \<Rightarrow> u32 \<times> u64 \<times> 'd"
  clReleaseContext :: "u64 \<Rightarrow> 'd \<Rightarrow> 'd"
  clGetContextInfo :: "u64 \<Rightarrow> 'd \<Rightarrow> u32 \<times> u64 list \<times> 'd"
  clSVMAlloc :: "u64 \<Rightarrow> u32 \<Rightarrow> u32 \<Rightarrow> 'd \<Rightarrow> u64 \<times> 'd"
  clSVMFree :: "u64 \<Rightarrow> u64 \<Rightarrow> 'd \<Rightarrow> 'd"
  clCreateBuffer :: "u64 \<Rightarrow> u32 \<Rightarrow> u32 \<Rightarrow> 'd \<Rightarrow> u64 \<times> 'd"
  clReleaseMemObject :: "u64 \<Rightarrow> 'd \<Rightarrow> 'd"
  clCreateCommandQueue :: "u64 \<Rightarrow> u64 \<Rightarrow> 'd \<Rightarrow> u64 \<times> 'd"
  clReleaseCommandQueue :: "u64 \<Rightarrow> 'd \<Rightarrow> 'd"
  clFlush :: "u64 \<Rightarrow> 'd \<Rightarrow> u32 \<times> 'd"
  clFinish :: "u64 \<Rightarrow> 'd \<Rightarrow> u32 \<times> 'd"
  clEnqueueWriteBuffer :: "u64 \<Rightarrow> u64 \<Rightarrow> bool \<Rightarrow> u32 \<Rightarrow> u32 \<Rightarrow> byte list option \<Rightarrow> 'd \<Rightarrow> u32 \<times> 'd"
  clEnqueueReadBuffer :: "u64 \<Rightarrow> u64 \<Rightarrow> bool \<Rightarrow> u32 \<Rightarrow> u32 \<Rightarrow> byte list option \<Rightarrow> 'd \<Rightarrow> u32 \<times> byte list \<times> 'd"
  clEnqueueMapBuffer :: "u64 \<Rightarrow> u64 \<Rightarrow> bool \<Rightarrow> u32 \<Rightarrow> u32 \<Rightarrow> u32 \<Rightarrow> 'd \<Rightarrow> u32 \<times> u64 \<times> 'd"
  clEnqueueUnmapMemObject :: "u64 \<Rightarrow> u64 \<Rightarrow> u64 \<Rightarrow> 'd \<Rightarrow> u32 \<times> 'd"
  clEnqueueCopyBuffer :: "u64 \<Rightarrow> u64 \<Rightarrow> u64 \<Rightarrow> u32 \<Rightarrow> u32 \<Rightarrow> u32 \<Rightarrow> 'd \<Rightarrow> u32 \<times> 'd"
  clEnqueueFillBuffer :: "u64 \<Rightarrow> u64 \<Rightarrow> VMAccelElementUINT4D \<Rightarrow> u32 \<Rightarrow> u32 \<Rightarrow> 'd \<Rightarrow> u32 \<times> 'd"
  clCreateProgramWithSource :: "u64 \<Rightarrow> byte c_vec \<Rightarrow> 'd \<Rightarrow> u32 \<times> u64 \<times> 'd"
  clCreateProgramWithIL :: "u64 \<Rightarrow> byte c_vec \<Rightarrow> 'd \<Rightarrow> u32 \<times> u64 \<times> 'd"
  clBuildProgram :: "u64 \<Rightarrow> u64 \<Rightarrow> 'd \<Rightarrow> u32 \<times> 'd"
  clReleaseProgram :: "u64 \<Rightarrow> 'd \<Rightarrow> 'd"
  clCreateKernel :: "u64 \<Rightarrow> byte c_vec \<Rightarrow> 'd \<Rightarrow> u64 \<times> 'd"
  clReleaseKernel :: "u64 \<Rightarrow> 'd \<Rightarrow> 'd"
  clSetKernelArg :: "u64 \<Rightarrow> u32 \<Rightarrow> u64 \<Rightarrow> 'd \<Rightarrow> u32 \<times> 'd"
  clSetKernelArgSVMPointer :: "u64 \<Rightarrow> u32 \<Rightarrow> u64 \<Rightarrow> 'd \<Rightarrow> u32 \<times> 'd"
  clSetKernelExecInfo :: "u64 \<Rightarrow> u64 \<Rightarrow> 'd \<Rightarrow> u32 \<times> 'd"
  clEnqueueNDRangeKernel :: "u64 \<Rightarrow> u64 \<Rightarrow> u32 \<Rightarrow> u32 list \<Rightarrow> u32 list \<Rightarrow> u32 list \<Rightarrow> 'd \<Rightarrow> u32 \<times> 'd"
  host_read :: "u64 \<Rightarrow> u32 \<Rightarrow> 'd \<Rightarrow> byte list"
  host_write :: "u64 \<Rightarrow> byte list \<Rightarrow> 'd \<Rightarrow> 'd option"

text \<open>The version macros of the OpenCL header the backend is compiled with.\<close>

record cl_build =
  CL_VERSION_2_0 :: bool
  CL_VERSION_2_1 :: bool
  CL_VERSION_2_2 :: bool

abbreviation (input) CL_SUCCESS :: u32 where "CL_SUCCESS \<equiv> 0"
abbreviation (input) CL_PLATFORM_VERSION :: u32 where "CL_PLATFORM_VERSION \<equiv> 0x0901"
abbreviation (input) CL_PLATFORM_NAME :: u32 where "CL_PLATFORM_NAME \<equiv> 0x0902"
abbreviation (input) CL_PLATFORM_VENDOR :: u32 where "CL_PLATFORM_VENDOR \<equiv> 0x0903"
abbreviation (input) CL_PLATFORM_EXTENSIONS :: u32 where "CL_PLATFORM_EXTENSIONS \<equiv> 0x0904"
abbreviation (input) CL_MEM_READ_WRITE :: u32 where "CL_MEM_READ_WRITE \<equiv> 1"
abbreviation (input) CL_MEM_WRITE_ONLY :: u32 where "CL_MEM_WRITE_ONLY \<equiv> 2"
abbreviation (input) CL_MEM_READ_ONLY :: u32 where "CL_MEM_READ_ONLY \<equiv> 4"
abbreviation (input) CL_MAP_READ :: u32 where "CL_MAP_READ \<equiv> 1"
abbreviation (input) CL_MAP_WRITE :: u32 where "CL_MAP_WRITE \<equiv> 2"
abbreviation (input) CL_MAP_WRITE_INVALIDATE_REGION :: u32 where "CL_MAP_WRITE_INVALIDATE_REGION \<equiv> 4"
abbreviation (input) CL_DEVICE_MAX_WORK_ITEM_DIMENSIONS :: u32 where "CL_DEVICE_MAX_WORK_ITEM_DIMENSIONS \<equiv> 0x1003"

subsection \<open>Strings\<close>

text \<open>Whether \<^verbatim>\<open>strstr\<close> finds the second string in the first.\<close>

fun strstr :: "string \<Rightarrow> string \<Rightarrow> bool" where
  "strstr [] t \<longleftrightarrow> t = []"
| "strstr (c # s) t \<longleftrightarrow> take (length t) (c # s) = t \<or> strstr s t"

end
