(* ===== verification/Vmcl_Xdr.thy ===== *)
theory Vmcl_Xdr
  imports Vmcl_Types Accel_Xdr
begin

section \<open>XDR procedures of the VMCL protocol: src/accelerators/vmcl/src/vmcl\_rpc\_xdr.c\<close>

text \<open>
  The procedures of the compute protocol and their contracts, as in Accel\_Xdr.
\<close>

subsection \<open>Procedures\<close>

definition xdr_VMCLCaps :: "VMCLCaps xdrproc" where
  "xdr_VMCLCaps = xdr_u_int"

definition xdr_VMCLKernelLanguage :: "VMCLKernelLanguage xdrproc" where
  "xdr_VMCLKernelLanguage = xdr_u_int"

definition xdr_VMCLContextId :: "VMCLContextId xdrproc" where
  "xdr_VMCLContextId = xdr_VMAccelId"

definition xdr_VMCLContextAllocateDesc :: "VMCLContextAllocateDesc xdrproc" where
  "xdr_VMCLContextAllocateDesc = xdr_struct
     [xdr_field xdr_VMAccelId CLContextAllocateDesc_accelId CLContextAllocateDesc_accelId_update,
      xdr_field xdr_VMCLContextId CLContextAllocateDesc_clientId CLContextAllocateDesc_clientId_update,
      xdr_field xdr_VMAccelSelectionMask CLContextAllocateDesc_selectionMask CLContextAllocateDesc_selectionMask_update,
      xdr_field xdr_u_int CLContextAllocateDesc_numSubDevices CLContextAllocateDesc_numSubDevices_update,
      xdr_field xdr_VMCLCaps CLContextAllocateDesc_requiredCaps CLContextAllocateDesc_requiredCaps_update]"

definition xdr_VMCLContextAllocateStatus :: "VMCLContextAllocateStatus xdrproc" where
  "xdr_VMCLContextAllocateStatus = xdr_struct
     [xdr_field xdr_VMAccelStatusCode CLContextAllocateStatus_status CLContextAllocateStatus_status_update,
      xdr_field xdr_VMCLCaps CLContextAllocateStatus_caps CLContextAllocateStatus_caps_update]"

definition xdr_VMCLSurfaceId :: "VMCLSurfaceId xdrproc" where
  "xdr_VMCLSurfaceId = xdr_struct
     [xdr_field xdr_VMCLContextId CLSurfaceId_cid CLSurfaceId_cid_update,
      xdr_field xdr_VMAccelSurfaceId CLSurfaceId_accel CLSurfaceId_accel_update]"

definition xdr_VMCLSurfaceAllocateDesc :: "VMCLSurfaceAllocateDesc xdrproc" where
  "xdr_VMCLSurfaceAllocateDesc = xdr_struct
     [xdr_field xdr_VMCLSurfaceId CLSurfaceAllocateDesc_client CLSurfaceAllocateDesc_client_update,
      xdr_field xdr_VMAccelSurfaceDesc CLSurfaceAllocateDesc_desc CLSurfaceAllocateDesc_desc_update]"

definition xdr_VMCLQueueId :: "VMCLQueueId xdrproc" where
  "xdr_VMCLQueueId = xdr_struct
     [xdr_field xdr_VMCLContextId CLQueueId_cid CLQueueId_cid_update,
      xdr_field xdr_VMAccelId CLQueueId_id CLQueueId_id_update]"

definition xdr_VMCLQueueAllocateDesc :: "VMCLQueueAllocateDesc xdrproc" where
  "xdr_VMCLQueueAllocateDesc = xdr_struct
     [xdr_field xdr_VMCLQueueId CLQueueAllocateDesc_client CLQueueAllocateDesc_client_update,
      xdr_field xdr_u_int CLQueueAllocateDesc_subDevice CLQueueAllocateDesc_subDevice_update,
      xdr_field xdr_VMAccelQueueDesc CLQueueAllocateDesc_desc CLQueueAllocateDesc_desc_update]"

definition xdr_VMCLQueueFlushOp :: "VMCLQueueFlushOp xdrproc" where
  "xdr_VMCLQueueFlushOp = xdr_struct
     [xdr_field xdr_VMCLQueueId CLQueueFlushOp_queue CLQueueFlushOp_queue_update]"

definition xdr_VMCLSurfaceCopyOp :: "VMCLSurfaceCopyOp xdrproc" where
  "xdr_VMCLSurfaceCopyOp = xdr_struct
     [xdr_field xdr_VMCLQueueId CLSurfaceCopyOp_queue CLSurfaceCopyOp_queue_update,
      xdr_field xdr_VMCLSurfaceId CLSurfaceCopyOp_dst CLSurfaceCopyOp_dst_update,
      xdr_field xdr_VMCLSurfaceId CLSurfaceCopyOp_src CLSurfaceCopyOp_src_update,
      xdr_field xdr_VMAccelSurfaceCopyOp CLSurfaceCopyOp_op CLSurfaceCopyOp_op_update]"

definition xdr_VMCLImageFillOp :: "VMCLImageFillOp xdrproc" where
  "xdr_VMCLImageFillOp = xdr_struct
     [xdr_field xdr_VMCLQueueId CLImageFillOp_queue CLImageFillOp_queue_update,
      xdr_field xdr_VMCLSurfaceId CLImageFillOp_img CLImageFillOp_img_update,
      xdr_field xdr_VMAccelImageFillOp CLImageFillOp_op CLImageFillOp_op_update]"

definition xdr_VMCLImageUploadOp :: "VMCLImageUploadOp xdrproc" where
  "xdr_VMCLImageUploadOp = xdr_struct
     [xdr_field xdr_VMCLQueueId CLImageUploadOp_queue CLImageUploadOp_queue_update,
      xdr_field xdr_VMCLSurfaceId CLImageUploadOp_img CLImageUploadOp_img_update,
      xdr_field xdr_VMAccelImageTransferOp CLImageUploadOp_op CLImageUploadOp_op_update,
      xdr_field xdr_VMAccelSurfaceWriteConsistency CLImageUploadOp_mode CLImageUploadOp_mode_update]"

definition xdr_VMCLImageDownloadOp :: "VMCLImageDownloadOp xdrproc" where
  "xdr_VMCLImageDownloadOp = xdr_struct
     [xdr_field xdr_VMCLQueueId CLImageDownloadOp_queue CLImageDownloadOp_queue_update,
      xdr_field xdr_VMCLSurfaceId CLImageDownloadOp_img CLImageDownloadOp_img_update,
      xdr_field xdr_VMAccelImageTransferOp CLImageDownloadOp_op CLImageDownloadOp_op_update,
      xdr_field xdr_VMAccelSurfaceReadConsistency CLImageDownloadOp_mode CLImageDownloadOp_mode_update]"

definition xdr_VMCLSurfaceMapOp :: "VMCLSurfaceMapOp xdrproc" where
  "xdr_VMCLSurfaceMapOp = xdr_struct
     [xdr_field xdr_VMCLQueueId CLSurfaceMapOp_queue CLSurfaceMapOp_queue_update,
      xdr_field xdr_VMAccelSurfaceMapOp CLSurfaceMapOp_op CLSurfaceMapOp_op_update]"

definition xdr_VMCLSurfaceUnmapOp :: "VMCLSurfaceUnmapOp xdrproc" where
  "xdr_VMCLSurfaceUnmapOp = xdr_struct
     [xdr_field xdr_VMCLQueueId CLSurfaceUnmapOp_queue CLSurfaceUnmapOp_queue_update,
      xdr_field xdr_VMAccelSurfaceUnmapOp CLSurfaceUnmapOp_op CLSurfaceUnmapOp_op_update]"

definition xdr_VMCLSamplerId :: "VMCLSamplerId xdrproc" where
  "xdr_VMCLSamplerId = xdr_struct
     [xdr_field xdr_VMCLContextId CLSamplerId_cid CLSamplerId_cid_update,
      xdr_field xdr_VMAccelId CLSamplerId_id CLSamplerId_id_update]"

definition xdr_VMCLSamplerAddressingMode :: "VMCLSamplerAddressingMode xdrproc" where
  "xdr_VMCLSamplerAddressingMode = xdr_enum"

definition xdr_VMCLSamplerFilterMode :: "VMCLSamplerFilterMode xdrproc" where
  "xdr_VMCLSamplerFilterMode = xdr_enum"

definition xdr_VMCLSamplerDesc :: "VMCLSamplerDesc xdrproc" where
  "xdr_VMCLSamplerDesc = xdr_struct
     [xdr_field xdr_bool CLSamplerDesc_normalizedCoords CLSamplerDesc_normalizedCoords_update,
      xdr_field xdr_VMCLSamplerAddressingMode CLSamplerDesc_addressMode CLSamplerDesc_addressMode_update,
      xdr_field xdr_VMCLSamplerFilterMode CLSamplerDesc_filterMode CLSamplerDesc_filterMode_update]"

definition xdr_VMCLSamplerAllocateDesc :: "VMCLSamplerAllocateDesc xdrproc" where
  "xdr_VMCLSamplerAllocateDesc = xdr_struct
     [xdr_field xdr_VMCLSamplerId CLSamplerAllocateDesc_client CLSamplerAllocateDesc_client_update,
      xdr_field xdr_VMCLSamplerDesc CLSamplerAllocateDesc_desc CLSamplerAllocateDesc_desc_update]"

definition xdr_VMCLSamplerAllocateStatus :: "VMCLSamplerAllocateStatus xdrproc" where
  "xdr_VMCLSamplerAllocateStatus = xdr_struct
     [xdr_field xdr_VMAccelStatusCode CLSamplerAllocateStatus_status CLSamplerAllocateStatus_status_update]"

definition xdr_VMCLKernelId :: "VMCLKernelId xdrproc" where
  "xdr_VMCLKernelId = xdr_struct
     [xdr_field xdr_VMCLContextId CLKernelId_cid CLKernelId_cid_update,
      xdr_field xdr_VMAccelId CLKernelId_id CLKernelId_id_update]"

definition xdr_VMCLKernelAllocateDesc :: "VMCLKernelAllocateDesc xdrproc" where
  "xdr_VMCLKernelAllocateDesc = xdr_struct
     [xdr_field xdr_VMCLKernelId CLKernelAllocateDesc_client CLKernelAllocateDesc_client_update,
      xdr_field xdr_u_int CLKernelAllocateDesc_subDevice CLKernelAllocateDesc_subDevice_update,
      xdr_field xdr_VMCLKernelLanguage CLKernelAllocateDesc_language CLKernelAllocateDesc_language_update,
      xdr_field (xdr_bytes 0xffffffff) CLKernelAllocateDesc_source CLKernelAllocateDesc_source_update,
      xdr_field (xdr_bytes 0xffffffff) CLKernelAllocateDesc_kernelName CLKernelAllocateDesc_kernelName_update]"

definition xdr_VMCLKernelAllocateStatus :: "VMCLKernelAllocateStatus xdrproc" where
  "xdr_VMCLKernelAllocateStatus = xdr_struct
     [xdr_field xdr_VMAccelStatusCode CLKernelAllocateStatus_status CLKernelAllocateStatus_status_update]"

definition xdr_VMCLKernelSemanticType :: "VMCLKernelSemanticType xdrproc" where
  "xdr_VMCLKernelSemanticType = xdr_enum"

definition xdr_VMCLKernelArgType :: "VMCLKernelArgType xdrproc" where
  "xdr_VMCLKernelArgType = xdr_enum"

definition xdr_VMCLKernelArgDesc :: "VMCLKernelArgDesc xdrproc" where
  "xdr_VMCLKernelArgDesc = xdr_struct
     [xdr_field xdr_VMCLQueueId CLKernelArgDesc_queue CLKernelArgDesc_queue_update,
      xdr_field xdr_u_int CLKernelArgDesc_index CLKernelArgDesc_index_update,
      xdr_field xdr_VMCLKernelArgType CLKernelArgDesc_type CLKernelArgDesc_type_update,
      xdr_field xdr_VMAccelSurfaceUsage CLKernelArgDesc_usage CLKernelArgDesc_usage_update,
      xdr_field xdr_VMAccelSurfaceId CLKernelArgDesc_surf CLKernelArgDesc_surf_update,
      xdr_field xdr_VMCLSamplerId CLKernelArgDesc_sampler CLKernelArgDesc_sampler_update]"

definition xdr_VMCLDispatchOp :: "VMCLDispatchOp xdrproc" where
  "xdr_VMCLDispatchOp = xdr_struct
     [xdr_field xdr_VMCLQueueId CLDispatchOp_queue CLDispatchOp_queue_update,
      xdr_field xdr_VMCLKernelId CLDispatchOp_kernel CLDispatchOp_kernel_update,
      xdr_field xdr_u_int CLDispatchOp_dimension CLDispatchOp_dimension_update,
      xdr_field (xdr_array 0xffffffff 4 0 xdr_u_int) CLDispatchOp_globalWorkOffset CLDispatchOp_globalWorkOffset_update,
      xdr_field (xdr_array 0xffffffff 4 0 xdr_u_int) CLDispatchOp_globalWorkSize CLDispatchOp_globalWorkSize_update,
      xdr_field (xdr_array 0xffffffff 4 0 xdr_u_int) CLDispatchOp_localWorkSize CLDispatchOp_localWorkSize_update,
      xdr_field (xdr_array 0xffffffff 52 zero_VMCLKernelArgDesc xdr_VMCLKernelArgDesc) CLDispatchOp_args CLDispatchOp_args_update,
      xdr_field (xdr_array 0xffffffff 24 zero_VMAccelSurfaceId xdr_VMAccelSurfaceId) CLDispatchOp_refs CLDispatchOp_refs_update]"

definition xdr_VMCLContextAllocateReturnStatus :: "VMCLContextAllocateReturnStatus xdrproc" where
  "xdr_VMCLContextAllocateReturnStatus = xdr_union CLContextAllocateReturnStatus_errno CLContextAllocateReturnStatus_errno_update
     (xdr_field (xdr_pointer zero_VMCLContextAllocateStatus xdr_VMCLContextAllocateStatus) CLContextAllocateReturnStatus_ret CLContextAllocateReturnStatus_ret_update)"

definition xdr_VMCLSamplerAllocateReturnStatus :: "VMCLSamplerAllocateReturnStatus xdrproc" where
  "xdr_VMCLSamplerAllocateReturnStatus = xdr_union CLSamplerAllocateReturnStatus_errno CLSamplerAllocateReturnStatus_errno_update
     (xdr_field (xdr_pointer zero_VMCLSamplerAllocateStatus xdr_VMCLSamplerAllocateStatus) CLSamplerAllocateReturnStatus_ret CLSamplerAllocateReturnStatus_ret_update)"

definition xdr_VMCLKernelAllocateReturnStatus :: "VMCLKernelAllocateReturnStatus xdrproc" where
  "xdr_VMCLKernelAllocateReturnStatus = xdr_union CLKernelAllocateReturnStatus_errno CLKernelAllocateReturnStatus_errno_update
     (xdr_field (xdr_pointer zero_VMCLKernelAllocateStatus xdr_VMCLKernelAllocateStatus) CLKernelAllocateReturnStatus_ret CLKernelAllocateReturnStatus_ret_update)"

subsection \<open>External representation and contract of every type\<close>

lemmas VMCLCaps_codec [xdr_codecs] = u_int_codec [folded xdr_VMCLCaps_def]

lemmas VMCLKernelLanguage_codec [xdr_codecs] = u_int_codec [folded xdr_VMCLKernelLanguage_def]

lemmas VMCLContextId_codec [xdr_codecs] = VMAccelId_codec [folded xdr_VMCLContextId_def]

definition enc_VMCLContextAllocateDesc :: "VMCLContextAllocateDesc \<Rightarrow> byte list" where
  "enc_VMCLContextAllocateDesc v =
     be32 (CLContextAllocateDesc_accelId v) @ be32 (CLContextAllocateDesc_clientId v) @
     be32 (CLContextAllocateDesc_selectionMask v) @ be32 (CLContextAllocateDesc_numSubDevices v) @
     be32 (CLContextAllocateDesc_requiredCaps v)"

lemma VMCLContextAllocateDesc_codec [xdr_codecs]: "xdr_codec xdr_VMCLContextAllocateDesc (\<lambda>_. True) enc_VMCLContextAllocateDesc (\<lambda>_. True)"
  unfolding xdr_VMCLContextAllocateDesc_def
  by (rule codec_structI, (rule xdr_steps xdr_codecs | (auto simp: enc_VMCLContextAllocateDesc_def)[1])+)

definition enc_VMCLContextAllocateStatus :: "VMCLContextAllocateStatus \<Rightarrow> byte list" where
  "enc_VMCLContextAllocateStatus v =
     be32 (CLContextAllocateStatus_status v) @ be32 (CLContextAllocateStatus_caps v)"

lemma VMCLContextAllocateStatus_codec [xdr_codecs]: "xdr_codec xdr_VMCLContextAllocateStatus (\<lambda>_. True) enc_VMCLContextAllocateStatus (\<lambda>_. True)"
  unfolding xdr_VMCLContextAllocateStatus_def
  by (rule codec_structI, (rule xdr_steps xdr_codecs | (auto simp: enc_VMCLContextAllocateStatus_def)[1])+)

definition enc_VMCLSurfaceId :: "VMCLSurfaceId \<Rightarrow> byte list" where
  "enc_VMCLSurfaceId v =
     be32 (CLSurfaceId_cid v) @ enc_VMAccelSurfaceId (CLSurfaceId_accel v)"

lemma VMCLSurfaceId_codec [xdr_codecs]: "xdr_codec xdr_VMCLSurfaceId (\<lambda>_. True) enc_VMCLSurfaceId (\<lambda>_. True)"
  unfolding xdr_VMCLSurfaceId_def
  by (rule codec_structI, (rule xdr_steps xdr_codecs | (auto simp: enc_VMCLSurfaceId_def)[1])+)

definition enc_VMCLSurfaceAllocateDesc :: "VMCLSurfaceAllocateDesc \<Rightarrow> byte list" where
  "enc_VMCLSurfaceAllocateDesc v =
     enc_VMCLSurfaceId (CLSurfaceAllocateDesc_client v) @
     enc_VMAccelSurfaceDesc (CLSurfaceAllocateDesc_desc v)"

lemma VMCLSurfaceAllocateDesc_codec [xdr_codecs]: "xdr_codec xdr_VMCLSurfaceAllocateDesc (\<lambda>_. True) enc_VMCLSurfaceAllocateDesc (\<lambda>_. True)"
  unfolding xdr_VMCLSurfaceAllocateDesc_def
  by (rule codec_structI, (rule xdr_steps xdr_codecs | (auto simp: enc_VMCLSurfaceAllocateDesc_def)[1])+)

definition enc_VMCLQueueId :: "VMCLQueueId \<Rightarrow> byte list" where
  "enc_VMCLQueueId v =
     be32 (CLQueueId_cid v) @ be32 (CLQueueId_id v)"

lemma VMCLQueueId_codec [xdr_codecs]: "xdr_codec xdr_VMCLQueueId (\<lambda>_. True) enc_VMCLQueueId (\<lambda>_. True)"
  unfolding xdr_VMCLQueueId_def
  by (rule codec_structI, (rule xdr_steps xdr_codecs | (auto simp: enc_VMCLQueueId_def)[1])+)

definition enc_VMCLQueueAllocateDesc :: "VMCLQueueAllocateDesc \<Rightarrow> byte list" where
  "enc_VMCLQueueAllocateDesc v =
     enc_VMCLQueueId (CLQueueAllocateDesc_client v) @ be32 (CLQueueAllocateDesc_subDevice v) @
     enc_VMAccelQueueDesc (CLQueueAllocateDesc_desc v)"

lemma VMCLQueueAllocateDesc_codec [xdr_codecs]: "xdr_codec xdr_VMCLQueueAllocateDesc (\<lambda>_. True) enc_VMCLQueueAllocateDesc (\<lambda>_. True)"
  unfolding xdr_VMCLQueueAllocateDesc_def
  by (rule codec_structI, (rule xdr_steps xdr_codecs | (auto simp: enc_VMCLQueueAllocateDesc_def)[1])+)

definition enc_VMCLQueueFlushOp :: "VMCLQueueFlushOp \<Rightarrow> byte list" where
  "enc_VMCLQueueFlushOp v =
     enc_VMCLQueueId (CLQueueFlushOp_queue v)"

lemma VMCLQueueFlushOp_codec [xdr_codecs]: "xdr_codec xdr_VMCLQueueFlushOp (\<lambda>_. True) enc_VMCLQueueFlushOp (\<lambda>_. True)"
  unfolding xdr_VMCLQueueFlushOp_def
  by (rule codec_structI, (rule xdr_steps xdr_codecs | (auto simp: enc_VMCLQueueFlushOp_def)[1])+)

definition enc_VMCLSurfaceCopyOp :: "VMCLSurfaceCopyOp \<Rightarrow> byte list" where
  "enc_VMCLSurfaceCopyOp v =
     enc_VMCLQueueId (CLSurfaceCopyOp_queue v) @ enc_VMCLSurfaceId (CLSurfaceCopyOp_dst v) @
     enc_VMCLSurfaceId (CLSurfaceCopyOp_src v) @ enc_VMAccelSurfaceCopyOp (CLSurfaceCopyOp_op v)"

lemma VMCLSurfaceCopyOp_codec [xdr_codecs]: "xdr_codec xdr_VMCLSurfaceCopyOp (\<lambda>_. True) enc_VMCLSurfaceCopyOp (\<lambda>_. True)"
  unfolding xdr_VMCLSurfaceCopyOp_def
  by (rule codec_structI, (rule xdr_steps xdr_codecs | (auto simp: enc_VMCLSurfaceCopyOp_def)[1])+)

definition enc_VMCLImageFillOp :: "VMCLImageFillOp \<Rightarrow> byte list" where
  "enc_VMCLImageFillOp v =
     enc_VMCLQueueId (CLImageFillOp_queue v) @ enc_VMCLSurfaceId (CLImageFillOp_img v) @
     enc_VMAccelImageFillOp (CLImageFillOp_op v)"

lemma VMCLImageFillOp_codec [xdr_codecs]: "xdr_codec xdr_VMCLImageFillOp (\<lambda>_. True) enc_VMCLImageFillOp (\<lambda>_. True)"
  unfolding xdr_VMCLImageFillOp_def
  by (rule codec_structI, (rule xdr_steps xdr_codecs | (auto simp: enc_VMCLImageFillOp_def)[1])+)

definition enc_VMCLImageUploadOp :: "VMCLImageUploadOp \<Rightarrow> byte list" where
  "enc_VMCLImageUploadOp v =
     enc_VMCLQueueId (CLImageUploadOp_queue v) @ enc_VMCLSurfaceId (CLImageUploadOp_img v) @
     enc_VMAccelImageTransferOp (CLImageUploadOp_op v) @ be32 (CLImageUploadOp_mode v)"

definition ok_VMCLImageUploadOp :: "VMCLImageUploadOp \<Rightarrow> bool" where
  "ok_VMCLImageUploadOp v \<longleftrightarrow>
     ok_VMAccelImageTransferOp (CLImageUploadOp_op v)"

definition clean_VMCLImageUploadOp :: "VMCLImageUploadOp \<Rightarrow> bool" where
  "clean_VMCLImageUploadOp v \<longleftrightarrow>
     clean_VMAccelImageTransferOp (CLImageUploadOp_op v)"

lemma VMCLImageUploadOp_codec [xdr_codecs]: "xdr_codec xdr_VMCLImageUploadOp ok_VMCLImageUploadOp enc_VMCLImageUploadOp clean_VMCLImageUploadOp"
  unfolding xdr_VMCLImageUploadOp_def
  by (rule codec_structI, (rule xdr_steps xdr_codecs | (auto simp: enc_VMCLImageUploadOp_def ok_VMCLImageUploadOp_def clean_VMCLImageUploadOp_def)[1])+)

definition enc_VMCLImageDownloadOp :: "VMCLImageDownloadOp \<Rightarrow> byte list" where
  "enc_VMCLImageDownloadOp v =
     enc_VMCLQueueId (CLImageDownloadOp_queue v) @ enc_VMCLSurfaceId (CLImageDownloadOp_img v) @
     enc_VMAccelImageTransferOp (CLImageDownloadOp_op v) @ be32 (CLImageDownloadOp_mode v)"

definition ok_VMCLImageDownloadOp :: "VMCLImageDownloadOp \<Rightarrow> bool" where
  "ok_VMCLImageDownloadOp v \<longleftrightarrow>
     ok_VMAccelImageTransferOp (CLImageDownloadOp_op v)"

definition clean_VMCLImageDownloadOp :: "VMCLImageDownloadOp \<Rightarrow> bool" where
  "clean_VMCLImageDownloadOp v \<longleftrightarrow>
     clean_VMAccelImageTransferOp (CLImageDownloadOp_op v)"

lemma VMCLImageDownloadOp_codec [xdr_codecs]: "xdr_codec xdr_VMCLImageDownloadOp ok_VMCLImageDownloadOp enc_VMCLImageDownloadOp clean_VMCLImageDownloadOp"
  unfolding xdr_VMCLImageDownloadOp_def
  by (rule codec_structI, (rule xdr_steps xdr_codecs | (auto simp: enc_VMCLImageDownloadOp_def ok_VMCLImageDownloadOp_def clean_VMCLImageDownloadOp_def)[1])+)

definition enc_VMCLSurfaceMapOp :: "VMCLSurfaceMapOp \<Rightarrow> byte list" where
  "enc_VMCLSurfaceMapOp v =
     enc_VMCLQueueId (CLSurfaceMapOp_queue v) @ enc_VMAccelSurfaceMapOp (CLSurfaceMapOp_op v)"

lemma VMCLSurfaceMapOp_codec [xdr_codecs]: "xdr_codec xdr_VMCLSurfaceMapOp (\<lambda>_. True) enc_VMCLSurfaceMapOp (\<lambda>_. True)"
  unfolding xdr_VMCLSurfaceMapOp_def
  by (rule codec_structI, (rule xdr_steps xdr_codecs | (auto simp: enc_VMCLSurfaceMapOp_def)[1])+)

definition enc_VMCLSurfaceUnmapOp :: "VMCLSurfaceUnmapOp \<Rightarrow> byte list" where
  "enc_VMCLSurfaceUnmapOp v =
     enc_VMCLQueueId (CLSurfaceUnmapOp_queue v) @
     enc_VMAccelSurfaceUnmapOp (CLSurfaceUnmapOp_op v)"

definition ok_VMCLSurfaceUnmapOp :: "VMCLSurfaceUnmapOp \<Rightarrow> bool" where
  "ok_VMCLSurfaceUnmapOp v \<longleftrightarrow>
     ok_VMAccelSurfaceUnmapOp (CLSurfaceUnmapOp_op v)"

definition clean_VMCLSurfaceUnmapOp :: "VMCLSurfaceUnmapOp \<Rightarrow> bool" where
  "clean_VMCLSurfaceUnmapOp v \<longleftrightarrow>
     clean_VMAccelSurfaceUnmapOp (CLSurfaceUnmapOp_op v)"

lemma VMCLSurfaceUnmapOp_codec [xdr_codecs]: "xdr_codec xdr_VMCLSurfaceUnmapOp ok_VMCLSurfaceUnmapOp enc_VMCLSurfaceUnmapOp clean_VMCLSurfaceUnmapOp"
  unfolding xdr_VMCLSurfaceUnmapOp_def
  by (rule codec_structI, (rule xdr_steps xdr_codecs | (auto simp: enc_VMCLSurfaceUnmapOp_def ok_VMCLSurfaceUnmapOp_def clean_VMCLSurfaceUnmapOp_def)[1])+)

definition enc_VMCLSamplerId :: "VMCLSamplerId \<Rightarrow> byte list" where
  "enc_VMCLSamplerId v =
     be32 (CLSamplerId_cid v) @ be32 (CLSamplerId_id v)"

lemma VMCLSamplerId_codec [xdr_codecs]: "xdr_codec xdr_VMCLSamplerId (\<lambda>_. True) enc_VMCLSamplerId (\<lambda>_. True)"
  unfolding xdr_VMCLSamplerId_def
  by (rule codec_structI, (rule xdr_steps xdr_codecs | (auto simp: enc_VMCLSamplerId_def)[1])+)

lemmas VMCLSamplerAddressingMode_codec [xdr_codecs] = enum_codec [folded xdr_VMCLSamplerAddressingMode_def]

lemmas VMCLSamplerFilterMode_codec [xdr_codecs] = enum_codec [folded xdr_VMCLSamplerFilterMode_def]

definition enc_VMCLSamplerDesc :: "VMCLSamplerDesc \<Rightarrow> byte list" where
  "enc_VMCLSamplerDesc v =
     enc_bool (CLSamplerDesc_normalizedCoords v) @ be32 (CLSamplerDesc_addressMode v) @
     be32 (CLSamplerDesc_filterMode v)"

lemma VMCLSamplerDesc_codec [xdr_codecs]: "xdr_codec xdr_VMCLSamplerDesc (\<lambda>_. True) enc_VMCLSamplerDesc (\<lambda>_. True)"
  unfolding xdr_VMCLSamplerDesc_def
  by (rule codec_structI, (rule xdr_steps xdr_codecs | (auto simp: enc_VMCLSamplerDesc_def)[1])+)

definition enc_VMCLSamplerAllocateDesc :: "VMCLSamplerAllocateDesc \<Rightarrow> byte list" where
  "enc_VMCLSamplerAllocateDesc v =
     enc_VMCLSamplerId (CLSamplerAllocateDesc_client v) @
     enc_VMCLSamplerDesc (CLSamplerAllocateDesc_desc v)"

lemma VMCLSamplerAllocateDesc_codec [xdr_codecs]: "xdr_codec xdr_VMCLSamplerAllocateDesc (\<lambda>_. True) enc_VMCLSamplerAllocateDesc (\<lambda>_. True)"
  unfolding xdr_VMCLSamplerAllocateDesc_def
  by (rule codec_structI, (rule xdr_steps xdr_codecs | (auto simp: enc_VMCLSamplerAllocateDesc_def)[1])+)

definition enc_VMCLSamplerAllocateStatus :: "VMCLSamplerAllocateStatus \<Rightarrow> byte list" where
  "enc_VMCLSamplerAllocateStatus v =
     be32 (CLSamplerAllocateStatus_status v)"

lemma VMCLSamplerAllocateStatus_codec [xdr_codecs]: "xdr_codec xdr_VMCLSamplerAllocateStatus (\<lambda>_. True) enc_VMCLSamplerAllocateStatus (\<lambda>_. True)"
  unfolding xdr_VMCLSamplerAllocateStatus_def
  by (rule codec_structI, (rule xdr_steps xdr_codecs | (auto simp: enc_VMCLSamplerAllocateStatus_def)[1])+)

definition enc_VMCLKernelId :: "VMCLKernelId \<Rightarrow> byte list" where
  "enc_VMCLKernelId v =
     be32 (CLKernelId_cid v) @ be32 (CLKernelId_id v)"

lemma VMCLKernelId_codec [xdr_codecs]: "xdr_codec xdr_VMCLKernelId (\<lambda>_. True) enc_VMCLKernelId (\<lambda>_. True)"
  unfolding xdr_VMCLKernelId_def
  by (rule codec_structI, (rule xdr_steps xdr_codecs | (auto simp: enc_VMCLKernelId_def)[1])+)

definition enc_VMCLKernelAllocateDesc :: "VMCLKernelAllocateDesc \<Rightarrow> byte list" where
  "enc_VMCLKernelAllocateDesc v =
     enc_VMCLKernelId (CLKernelAllocateDesc_client v) @ be32 (CLKernelAllocateDesc_subDevice v) @
     be32 (CLKernelAllocateDesc_language v) @ enc_bytes (CLKernelAllocateDesc_source v) @
     enc_bytes (CLKernelAllocateDesc_kernelName v)"

definition ok_VMCLKernelAllocateDesc :: "VMCLKernelAllocateDesc \<Rightarrow> bool" where
  "ok_VMCLKernelAllocateDesc v \<longleftrightarrow>
     ok_vec (\<lambda>_. True) 0xffffffff (CLKernelAllocateDesc_source v) \<and>
     ok_vec (\<lambda>_. True) 0xffffffff (CLKernelAllocateDesc_kernelName v)"

definition clean_VMCLKernelAllocateDesc :: "VMCLKernelAllocateDesc \<Rightarrow> bool" where
  "clean_VMCLKernelAllocateDesc v \<longleftrightarrow>
     clean_vec (CLKernelAllocateDesc_source v) \<and>
     clean_vec (CLKernelAllocateDesc_kernelName v)"

lemma VMCLKernelAllocateDesc_codec [xdr_codecs]: "xdr_codec xdr_VMCLKernelAllocateDesc ok_VMCLKernelAllocateDesc enc_VMCLKernelAllocateDesc clean_VMCLKernelAllocateDesc"
  unfolding xdr_VMCLKernelAllocateDesc_def
  by (rule codec_structI, (rule xdr_steps xdr_codecs | (auto simp: enc_VMCLKernelAllocateDesc_def ok_VMCLKernelAllocateDesc_def clean_VMCLKernelAllocateDesc_def)[1])+)

definition enc_VMCLKernelAllocateStatus :: "VMCLKernelAllocateStatus \<Rightarrow> byte list" where
  "enc_VMCLKernelAllocateStatus v =
     be32 (CLKernelAllocateStatus_status v)"

lemma VMCLKernelAllocateStatus_codec [xdr_codecs]: "xdr_codec xdr_VMCLKernelAllocateStatus (\<lambda>_. True) enc_VMCLKernelAllocateStatus (\<lambda>_. True)"
  unfolding xdr_VMCLKernelAllocateStatus_def
  by (rule codec_structI, (rule xdr_steps xdr_codecs | (auto simp: enc_VMCLKernelAllocateStatus_def)[1])+)

lemmas VMCLKernelSemanticType_codec [xdr_codecs] = enum_codec [folded xdr_VMCLKernelSemanticType_def]

lemmas VMCLKernelArgType_codec [xdr_codecs] = enum_codec [folded xdr_VMCLKernelArgType_def]

definition enc_VMCLKernelArgDesc :: "VMCLKernelArgDesc \<Rightarrow> byte list" where
  "enc_VMCLKernelArgDesc v =
     enc_VMCLQueueId (CLKernelArgDesc_queue v) @ be32 (CLKernelArgDesc_index v) @
     be32 (CLKernelArgDesc_type v) @ be32 (CLKernelArgDesc_usage v) @
     enc_VMAccelSurfaceId (CLKernelArgDesc_surf v) @ enc_VMCLSamplerId (CLKernelArgDesc_sampler v)"

lemma VMCLKernelArgDesc_codec [xdr_codecs]: "xdr_codec xdr_VMCLKernelArgDesc (\<lambda>_. True) enc_VMCLKernelArgDesc (\<lambda>_. True)"
  unfolding xdr_VMCLKernelArgDesc_def
  by (rule codec_structI, (rule xdr_steps xdr_codecs | (auto simp: enc_VMCLKernelArgDesc_def)[1])+)

definition enc_VMCLDispatchOp :: "VMCLDispatchOp \<Rightarrow> byte list" where
  "enc_VMCLDispatchOp v =
     enc_VMCLQueueId (CLDispatchOp_queue v) @ enc_VMCLKernelId (CLDispatchOp_kernel v) @
     be32 (CLDispatchOp_dimension v) @ enc_vec be32 (CLDispatchOp_globalWorkOffset v) @
     enc_vec be32 (CLDispatchOp_globalWorkSize v) @ enc_vec be32 (CLDispatchOp_localWorkSize v) @
     enc_vec enc_VMCLKernelArgDesc (CLDispatchOp_args v) @
     enc_vec enc_VMAccelSurfaceId (CLDispatchOp_refs v)"

definition ok_VMCLDispatchOp :: "VMCLDispatchOp \<Rightarrow> bool" where
  "ok_VMCLDispatchOp v \<longleftrightarrow>
     ok_vec (\<lambda>_. True) (vec_bound 0xffffffff 4) (CLDispatchOp_globalWorkOffset v) \<and>
     ok_vec (\<lambda>_. True) (vec_bound 0xffffffff 4) (CLDispatchOp_globalWorkSize v) \<and>
     ok_vec (\<lambda>_. True) (vec_bound 0xffffffff 4) (CLDispatchOp_localWorkSize v) \<and>
     ok_vec (\<lambda>_. True) (vec_bound 0xffffffff 52) (CLDispatchOp_args v) \<and>
     ok_vec (\<lambda>_. True) (vec_bound 0xffffffff 24) (CLDispatchOp_refs v)"

definition clean_VMCLDispatchOp :: "VMCLDispatchOp \<Rightarrow> bool" where
  "clean_VMCLDispatchOp v \<longleftrightarrow>
     clean_vec (CLDispatchOp_globalWorkOffset v) \<and>
     clean_vec (CLDispatchOp_globalWorkSize v) \<and>
     clean_vec (CLDispatchOp_localWorkSize v) \<and> clean_vec (CLDispatchOp_args v) \<and>
     clean_vec (CLDispatchOp_refs v)"

lemma VMCLDispatchOp_codec [xdr_codecs]: "xdr_codec xdr_VMCLDispatchOp ok_VMCLDispatchOp enc_VMCLDispatchOp clean_VMCLDispatchOp"
  unfolding xdr_VMCLDispatchOp_def
  by (rule codec_structI, (rule xdr_steps xdr_codecs | (auto simp: enc_VMCLDispatchOp_def ok_VMCLDispatchOp_def clean_VMCLDispatchOp_def)[1])+)

definition ok_VMCLContextAllocateReturnStatus :: "VMCLContextAllocateReturnStatus \<Rightarrow> bool" where
  "ok_VMCLContextAllocateReturnStatus = (\<lambda>v. if CLContextAllocateReturnStatus_errno v = 0 then pred_option (\<lambda>_. True) (CLContextAllocateReturnStatus_ret v) else CLContextAllocateReturnStatus_ret v = None)"

definition enc_VMCLContextAllocateReturnStatus :: "VMCLContextAllocateReturnStatus \<Rightarrow> byte list" where
  "enc_VMCLContextAllocateReturnStatus = (\<lambda>v. be32 (CLContextAllocateReturnStatus_errno v) @ (if CLContextAllocateReturnStatus_errno v = 0 then enc_pointer enc_VMCLContextAllocateStatus (CLContextAllocateReturnStatus_ret v) else []))"

definition clean_VMCLContextAllocateReturnStatus :: "VMCLContextAllocateReturnStatus \<Rightarrow> bool" where
  "clean_VMCLContextAllocateReturnStatus = (\<lambda>v. CLContextAllocateReturnStatus_ret v = None)"

lemma VMCLContextAllocateReturnStatus_codec [xdr_codecs]: "xdr_codec xdr_VMCLContextAllocateReturnStatus ok_VMCLContextAllocateReturnStatus enc_VMCLContextAllocateReturnStatus clean_VMCLContextAllocateReturnStatus"
  unfolding xdr_VMCLContextAllocateReturnStatus_def ok_VMCLContextAllocateReturnStatus_def enc_VMCLContextAllocateReturnStatus_def clean_VMCLContextAllocateReturnStatus_def
  by (rule union_codec, rule xdr_codecs, rule xdr_codecs) (simp_all)

definition ok_VMCLSamplerAllocateReturnStatus :: "VMCLSamplerAllocateReturnStatus \<Rightarrow> bool" where
  "ok_VMCLSamplerAllocateReturnStatus = (\<lambda>v. if CLSamplerAllocateReturnStatus_errno v = 0 then pred_option (\<lambda>_. True) (CLSamplerAllocateReturnStatus_ret v) else CLSamplerAllocateReturnStatus_ret v = None)"

definition enc_VMCLSamplerAllocateReturnStatus :: "VMCLSamplerAllocateReturnStatus \<Rightarrow> byte list" where
  "enc_VMCLSamplerAllocateReturnStatus = (\<lambda>v. be32 (CLSamplerAllocateReturnStatus_errno v) @ (if CLSamplerAllocateReturnStatus_errno v = 0 then enc_pointer enc_VMCLSamplerAllocateStatus (CLSamplerAllocateReturnStatus_ret v) else []))"

definition clean_VMCLSamplerAllocateReturnStatus :: "VMCLSamplerAllocateReturnStatus \<Rightarrow> bool" where
  "clean_VMCLSamplerAllocateReturnStatus = (\<lambda>v. CLSamplerAllocateReturnStatus_ret v = None)"

lemma VMCLSamplerAllocateReturnStatus_codec [xdr_codecs]: "xdr_codec xdr_VMCLSamplerAllocateReturnStatus ok_VMCLSamplerAllocateReturnStatus enc_VMCLSamplerAllocateReturnStatus clean_VMCLSamplerAllocateReturnStatus"
  unfolding xdr_VMCLSamplerAllocateReturnStatus_def ok_VMCLSamplerAllocateReturnStatus_def enc_VMCLSamplerAllocateReturnStatus_def clean_VMCLSamplerAllocateReturnStatus_def
  by (rule union_codec, rule xdr_codecs, rule xdr_codecs) (simp_all)

definition ok_VMCLKernelAllocateReturnStatus :: "VMCLKernelAllocateReturnStatus \<Rightarrow> bool" where
  "ok_VMCLKernelAllocateReturnStatus = (\<lambda>v. if CLKernelAllocateReturnStatus_errno v = 0 then pred_option (\<lambda>_. True) (CLKernelAllocateReturnStatus_ret v) else CLKernelAllocateReturnStatus_ret v = None)"

definition enc_VMCLKernelAllocateReturnStatus :: "VMCLKernelAllocateReturnStatus \<Rightarrow> byte list" where
  "enc_VMCLKernelAllocateReturnStatus = (\<lambda>v. be32 (CLKernelAllocateReturnStatus_errno v) @ (if CLKernelAllocateReturnStatus_errno v = 0 then enc_pointer enc_VMCLKernelAllocateStatus (CLKernelAllocateReturnStatus_ret v) else []))"

definition clean_VMCLKernelAllocateReturnStatus :: "VMCLKernelAllocateReturnStatus \<Rightarrow> bool" where
  "clean_VMCLKernelAllocateReturnStatus = (\<lambda>v. CLKernelAllocateReturnStatus_ret v = None)"

lemma VMCLKernelAllocateReturnStatus_codec [xdr_codecs]: "xdr_codec xdr_VMCLKernelAllocateReturnStatus ok_VMCLKernelAllocateReturnStatus enc_VMCLKernelAllocateReturnStatus clean_VMCLKernelAllocateReturnStatus"
  unfolding xdr_VMCLKernelAllocateReturnStatus_def ok_VMCLKernelAllocateReturnStatus_def enc_VMCLKernelAllocateReturnStatus_def clean_VMCLKernelAllocateReturnStatus_def
  by (rule union_codec, rule xdr_codecs, rule xdr_codecs) (simp_all)

subsection \<open>The contract at the types the calls carry\<close>

interpretation VMCLContextAllocateDesc_xdr: xdr_codec xdr_VMCLContextAllocateDesc "\<lambda>_. True" enc_VMCLContextAllocateDesc "\<lambda>_. True"
  by (rule VMCLContextAllocateDesc_codec)

interpretation VMCLSurfaceAllocateDesc_xdr: xdr_codec xdr_VMCLSurfaceAllocateDesc "\<lambda>_. True" enc_VMCLSurfaceAllocateDesc "\<lambda>_. True"
  by (rule VMCLSurfaceAllocateDesc_codec)

interpretation VMCLQueueAllocateDesc_xdr: xdr_codec xdr_VMCLQueueAllocateDesc "\<lambda>_. True" enc_VMCLQueueAllocateDesc "\<lambda>_. True"
  by (rule VMCLQueueAllocateDesc_codec)

interpretation VMCLSurfaceCopyOp_xdr: xdr_codec xdr_VMCLSurfaceCopyOp "\<lambda>_. True" enc_VMCLSurfaceCopyOp "\<lambda>_. True"
  by (rule VMCLSurfaceCopyOp_codec)

interpretation VMCLImageFillOp_xdr: xdr_codec xdr_VMCLImageFillOp "\<lambda>_. True" enc_VMCLImageFillOp "\<lambda>_. True"
  by (rule VMCLImageFillOp_codec)

interpretation VMCLImageUploadOp_xdr: xdr_codec xdr_VMCLImageUploadOp ok_VMCLImageUploadOp enc_VMCLImageUploadOp clean_VMCLImageUploadOp
  by (rule VMCLImageUploadOp_codec)

interpretation VMCLImageDownloadOp_xdr: xdr_codec xdr_VMCLImageDownloadOp ok_VMCLImageDownloadOp enc_VMCLImageDownloadOp clean_VMCLImageDownloadOp
  by (rule VMCLImageDownloadOp_codec)

interpretation VMCLSurfaceMapOp_xdr: xdr_codec xdr_VMCLSurfaceMapOp "\<lambda>_. True" enc_VMCLSurfaceMapOp "\<lambda>_. True"
  by (rule VMCLSurfaceMapOp_codec)

interpretation VMCLSurfaceUnmapOp_xdr: xdr_codec xdr_VMCLSurfaceUnmapOp ok_VMCLSurfaceUnmapOp enc_VMCLSurfaceUnmapOp clean_VMCLSurfaceUnmapOp
  by (rule VMCLSurfaceUnmapOp_codec)

interpretation VMCLSamplerAllocateDesc_xdr: xdr_codec xdr_VMCLSamplerAllocateDesc "\<lambda>_. True" enc_VMCLSamplerAllocateDesc "\<lambda>_. True"
  by (rule VMCLSamplerAllocateDesc_codec)

interpretation VMCLKernelAllocateDesc_xdr: xdr_codec xdr_VMCLKernelAllocateDesc ok_VMCLKernelAllocateDesc enc_VMCLKernelAllocateDesc clean_VMCLKernelAllocateDesc
  by (rule VMCLKernelAllocateDesc_codec)

interpretation VMCLDispatchOp_xdr: xdr_codec xdr_VMCLDispatchOp ok_VMCLDispatchOp enc_VMCLDispatchOp clean_VMCLDispatchOp
  by (rule VMCLDispatchOp_codec)

interpretation VMCLContextAllocateReturnStatus_xdr: xdr_codec xdr_VMCLContextAllocateReturnStatus ok_VMCLContextAllocateReturnStatus enc_VMCLContextAllocateReturnStatus clean_VMCLContextAllocateReturnStatus
  by (rule VMCLContextAllocateReturnStatus_codec)

subsection \<open>Properties\<close>


definition example_dispatch :: "u32 c_vec \<Rightarrow> VMCLDispatchOp" where
  "example_dispatch sizes = \<lparr>CLDispatchOp_queue = \<lparr>CLQueueId_cid = 1, CLQueueId_id = 2\<rparr>,
     CLDispatchOp_kernel = \<lparr>CLKernelId_cid = 1, CLKernelId_id = 3\<rparr>, CLDispatchOp_dimension = 2,
     CLDispatchOp_globalWorkOffset = Vec 0 None, CLDispatchOp_globalWorkSize = sizes,
     CLDispatchOp_localWorkSize = Vec 0 None, CLDispatchOp_args = Vec 0 None, CLDispatchOp_refs = Vec 0 None\<rparr>"



definition example_upload :: VMCLImageUploadOp where
  "example_upload = \<lparr>CLImageUploadOp_queue = \<lparr>CLQueueId_cid = 0, CLQueueId_id = 0\<rparr>,
     CLImageUploadOp_img = \<lparr>CLSurfaceId_cid = 0, CLSurfaceId_accel = zero_VMAccelSurfaceId\<rparr>,
     CLImageUploadOp_op = \<lparr>ImageTransferOp_imgRegion = \<lparr>SurfaceRegion_mipLevel = 0,
         SurfaceRegion_coord = \<lparr>Coordinate3DUINT_x = 0, Coordinate3DUINT_y = 0, Coordinate3DUINT_z = 0\<rparr>,
         SurfaceRegion_size = \<lparr>Coordinate3DUINT_x = 1, Coordinate3DUINT_y = 1, Coordinate3DUINT_z = 1\<rparr>\<rparr>,
       ImageTransferOp_ptr = Vec 0 None, ImageTransferOp_callbacks = Vec 0 None\<rparr>,
     CLImageUploadOp_mode = 0\<rparr>"



definition example_kernel :: "byte c_vec \<Rightarrow> VMCLKernelAllocateDesc" where
  "example_kernel src = \<lparr>CLKernelAllocateDesc_client = \<lparr>CLKernelId_cid = 1, CLKernelId_id = 2\<rparr>,
     CLKernelAllocateDesc_subDevice = 0, CLKernelAllocateDesc_language = 0,
     CLKernelAllocateDesc_source = src, CLKernelAllocateDesc_kernelName = Vec 0 None\<rparr>"


text \<open>C2: every XDR procedure of the VMCL compute protocol keeps the contract \<open>xdr_codec\<close>, as the
  procedures of the accelerator protocol do.\<close>

theorem vmcl_protocol_codecs:
  "xdr_codec xdr_VMCLCaps (\<lambda>_. True) be32 (\<lambda>_. True) \<and>
   xdr_codec xdr_VMCLKernelLanguage (\<lambda>_. True) be32 (\<lambda>_. True) \<and>
   xdr_codec xdr_VMCLContextId (\<lambda>_. True) be32 (\<lambda>_. True) \<and>
   xdr_codec xdr_VMCLContextAllocateDesc (\<lambda>_. True) enc_VMCLContextAllocateDesc (\<lambda>_. True) \<and>
   xdr_codec xdr_VMCLContextAllocateStatus (\<lambda>_. True) enc_VMCLContextAllocateStatus (\<lambda>_. True) \<and>
   xdr_codec xdr_VMCLSurfaceId (\<lambda>_. True) enc_VMCLSurfaceId (\<lambda>_. True) \<and>
   xdr_codec xdr_VMCLSurfaceAllocateDesc (\<lambda>_. True) enc_VMCLSurfaceAllocateDesc (\<lambda>_. True) \<and>
   xdr_codec xdr_VMCLQueueId (\<lambda>_. True) enc_VMCLQueueId (\<lambda>_. True) \<and>
   xdr_codec xdr_VMCLQueueAllocateDesc (\<lambda>_. True) enc_VMCLQueueAllocateDesc (\<lambda>_. True) \<and>
   xdr_codec xdr_VMCLQueueFlushOp (\<lambda>_. True) enc_VMCLQueueFlushOp (\<lambda>_. True) \<and>
   xdr_codec xdr_VMCLSurfaceCopyOp (\<lambda>_. True) enc_VMCLSurfaceCopyOp (\<lambda>_. True) \<and>
   xdr_codec xdr_VMCLImageFillOp (\<lambda>_. True) enc_VMCLImageFillOp (\<lambda>_. True) \<and>
   xdr_codec xdr_VMCLImageUploadOp ok_VMCLImageUploadOp enc_VMCLImageUploadOp clean_VMCLImageUploadOp \<and>
   xdr_codec xdr_VMCLImageDownloadOp ok_VMCLImageDownloadOp enc_VMCLImageDownloadOp clean_VMCLImageDownloadOp \<and>
   xdr_codec xdr_VMCLSurfaceMapOp (\<lambda>_. True) enc_VMCLSurfaceMapOp (\<lambda>_. True) \<and>
   xdr_codec xdr_VMCLSurfaceUnmapOp ok_VMCLSurfaceUnmapOp enc_VMCLSurfaceUnmapOp clean_VMCLSurfaceUnmapOp \<and>
   xdr_codec xdr_VMCLSamplerId (\<lambda>_. True) enc_VMCLSamplerId (\<lambda>_. True) \<and>
   xdr_codec xdr_VMCLSamplerAddressingMode (\<lambda>_. True) be32 (\<lambda>_. True) \<and>
   xdr_codec xdr_VMCLSamplerFilterMode (\<lambda>_. True) be32 (\<lambda>_. True) \<and>
   xdr_codec xdr_VMCLSamplerDesc (\<lambda>_. True) enc_VMCLSamplerDesc (\<lambda>_. True) \<and>
   xdr_codec xdr_VMCLSamplerAllocateDesc (\<lambda>_. True) enc_VMCLSamplerAllocateDesc (\<lambda>_. True) \<and>
   xdr_codec xdr_VMCLSamplerAllocateStatus (\<lambda>_. True) enc_VMCLSamplerAllocateStatus (\<lambda>_. True) \<and>
   xdr_codec xdr_VMCLKernelId (\<lambda>_. True) enc_VMCLKernelId (\<lambda>_. True) \<and>
   xdr_codec xdr_VMCLKernelAllocateDesc ok_VMCLKernelAllocateDesc enc_VMCLKernelAllocateDesc clean_VMCLKernelAllocateDesc \<and>
   xdr_codec xdr_VMCLKernelAllocateStatus (\<lambda>_. True) enc_VMCLKernelAllocateStatus (\<lambda>_. True) \<and>
   xdr_codec xdr_VMCLKernelSemanticType (\<lambda>_. True) be32 (\<lambda>_. True) \<and>
   xdr_codec xdr_VMCLKernelArgType (\<lambda>_. True) be32 (\<lambda>_. True) \<and>
   xdr_codec xdr_VMCLKernelArgDesc (\<lambda>_. True) enc_VMCLKernelArgDesc (\<lambda>_. True) \<and>
   xdr_codec xdr_VMCLDispatchOp ok_VMCLDispatchOp enc_VMCLDispatchOp clean_VMCLDispatchOp \<and>
   xdr_codec xdr_VMCLContextAllocateReturnStatus ok_VMCLContextAllocateReturnStatus enc_VMCLContextAllocateReturnStatus clean_VMCLContextAllocateReturnStatus \<and>
   xdr_codec xdr_VMCLSamplerAllocateReturnStatus ok_VMCLSamplerAllocateReturnStatus enc_VMCLSamplerAllocateReturnStatus clean_VMCLSamplerAllocateReturnStatus \<and>
   xdr_codec xdr_VMCLKernelAllocateReturnStatus ok_VMCLKernelAllocateReturnStatus enc_VMCLKernelAllocateReturnStatus clean_VMCLKernelAllocateReturnStatus"
  by (intro conjI xdr_codecs)

end
