(* ===== verification/Vmcl_Rpc.thy ===== *)
theory Vmcl_Rpc
  imports Vmcl_Xdr Accel_Rpc
begin

unbundle bit_operations_syntax

section \<open>The compute service\<close>

text \<open>
  The operations table of \<^verbatim>\<open>src/common/inc/vmcl_ops.h\<close>, the procedures of
  \<^verbatim>\<open>src/accelerators/vmcl/src/vmcl_rpc_server.c\<close> which call through it, the dispatch routine of
  \<^verbatim>\<open>vmcl_rpc_svc.c\<close> and the client stubs of \<^verbatim>\<open>vmcl_clnt.c\<close>.

  An operation of the table takes its argument and the state of the backend and returns a
  pointer to its result (\<open>None\<close> for \<^verbatim>\<open>NULL\<close>), the argument as it leaves it and the new state.
  \<open>rqstp\<close> is whether the procedure was called for a request that arrived, \<open>False\<close> in local mode.
\<close>

record 's VMCLOps =
  poweron :: "u32 \<Rightarrow> u32 \<Rightarrow> u32 \<Rightarrow> 's \<Rightarrow> (VMAccelAllocateStatus option \<times> 's) cres"
  poweroff :: "'s \<Rightarrow> (VMAccelStatus option \<times> 's) cres"
  contextalloc_1 :: "VMCLContextAllocateDesc \<Rightarrow> 's \<Rightarrow> (VMCLContextAllocateStatus option \<times> VMCLContextAllocateDesc \<times> 's) cres"
  contextdestroy_1 :: "VMCLContextId \<Rightarrow> 's \<Rightarrow> (VMAccelStatus option \<times> VMCLContextId \<times> 's) cres"
  surfacealloc_1 :: "VMCLSurfaceAllocateDesc \<Rightarrow> 's \<Rightarrow> (VMAccelSurfaceAllocateStatus option \<times> VMCLSurfaceAllocateDesc \<times> 's) cres"
  surfacedestroy_1 :: "VMCLSurfaceId \<Rightarrow> 's \<Rightarrow> (VMAccelStatus option \<times> VMCLSurfaceId \<times> 's) cres"
  queuealloc_1 :: "VMCLQueueAllocateDesc \<Rightarrow> 's \<Rightarrow> (VMAccelQueueStatus option \<times> VMCLQueueAllocateDesc \<times> 's) cres"
  queuedestroy_1 :: "VMCLQueueId \<Rightarrow> 's \<Rightarrow> (VMAccelStatus option \<times> VMCLQueueId \<times> 's) cres"
  sampleralloc_1 :: "VMCLSamplerAllocateDesc \<Rightarrow> 's \<Rightarrow> (VMCLSamplerAllocateStatus option \<times> VMCLSamplerAllocateDesc \<times> 's) cres"
  samplerdestroy_1 :: "VMCLSamplerId \<Rightarrow> 's \<Rightarrow> (VMAccelStatus option \<times> VMCLSamplerId \<times> 's) cres"
  kernelalloc_1 :: "VMCLKernelAllocateDesc \<Rightarrow> 's \<Rightarrow> (VMCLKernelAllocateStatus option \<times> VMCLKernelAllocateDesc \<times> 's) cres"
  kerneldestroy_1 :: "VMCLKernelId \<Rightarrow> 's \<Rightarrow> (VMAccelStatus option \<times> VMCLKernelId \<times> 's) cres"
  queueflush_1 :: "VMCLQueueId \<Rightarrow> 's \<Rightarrow> (VMAccelStatus option \<times> VMCLQueueId \<times> 's) cres"
  imageupload_1 :: "VMCLImageUploadOp \<Rightarrow> 's \<Rightarrow> (VMAccelStatus option \<times> VMCLImageUploadOp \<times> 's) cres"
  imagedownload_1 :: "VMCLImageDownloadOp \<Rightarrow> 's \<Rightarrow> (VMAccelDownloadStatus option \<times> VMCLImageDownloadOp \<times> 's) cres"
  surfacemap_1 :: "VMCLSurfaceMapOp \<Rightarrow> 's \<Rightarrow> (VMAccelSurfaceMapStatus option \<times> VMCLSurfaceMapOp \<times> 's) cres"
  surfaceunmap_1 :: "VMCLSurfaceUnmapOp \<Rightarrow> 's \<Rightarrow> (VMAccelStatus option \<times> VMCLSurfaceUnmapOp \<times> 's) cres"
  surfacecopy_1 :: "VMCLSurfaceCopyOp \<Rightarrow> 's \<Rightarrow> (VMAccelStatus option \<times> VMCLSurfaceCopyOp \<times> 's) cres"
  imagefill_1 :: "VMCLImageFillOp \<Rightarrow> 's \<Rightarrow> (VMAccelStatus option \<times> VMCLImageFillOp \<times> 's) cres"
  dispatch_1 :: "VMCLDispatchOp \<Rightarrow> 's \<Rightarrow> (VMAccelStatus option \<times> VMCLDispatchOp \<times> 's) cres"

subsection \<open>Cleared arguments and results\<close>

definition zero_VMCLContextAllocateDesc :: VMCLContextAllocateDesc where
  "zero_VMCLContextAllocateDesc =
     \<lparr>CLContextAllocateDesc_accelId = 0, CLContextAllocateDesc_clientId = 0,
      CLContextAllocateDesc_selectionMask = 0, CLContextAllocateDesc_numSubDevices = 0,
      CLContextAllocateDesc_requiredCaps = 0\<rparr>"

definition zero_VMCLContextAllocateReturnStatus :: VMCLContextAllocateReturnStatus where
  "zero_VMCLContextAllocateReturnStatus =
     \<lparr>CLContextAllocateReturnStatus_errno = 0, CLContextAllocateReturnStatus_ret = None\<rparr>"

definition zero_VMCLSurfaceId :: VMCLSurfaceId where
  "zero_VMCLSurfaceId =
     \<lparr>CLSurfaceId_cid = 0, CLSurfaceId_accel = zero_VMAccelSurfaceId\<rparr>"

definition zero_VMCLSurfaceAllocateDesc :: VMCLSurfaceAllocateDesc where
  "zero_VMCLSurfaceAllocateDesc =
     \<lparr>CLSurfaceAllocateDesc_client = zero_VMCLSurfaceId,
      CLSurfaceAllocateDesc_desc = zero_VMAccelSurfaceDesc\<rparr>"

definition zero_VMAccelSurfaceAllocateReturnStatus :: VMAccelSurfaceAllocateReturnStatus where
  "zero_VMAccelSurfaceAllocateReturnStatus =
     \<lparr>SurfaceAllocateReturnStatus_errno = 0, SurfaceAllocateReturnStatus_ret = None\<rparr>"

definition zero_VMAccelQueueDesc :: VMAccelQueueDesc where
  "zero_VMAccelQueueDesc =
     \<lparr>QueueDesc_flags = 0, QueueDesc_size = 0\<rparr>"

definition zero_VMCLQueueAllocateDesc :: VMCLQueueAllocateDesc where
  "zero_VMCLQueueAllocateDesc =
     \<lparr>CLQueueAllocateDesc_client = zero_VMCLQueueId, CLQueueAllocateDesc_subDevice = 0,
      CLQueueAllocateDesc_desc = zero_VMAccelQueueDesc\<rparr>"

definition zero_VMAccelQueueReturnStatus :: VMAccelQueueReturnStatus where
  "zero_VMAccelQueueReturnStatus =
     \<lparr>QueueReturnStatus_errno = 0, QueueReturnStatus_ret = None\<rparr>"

definition zero_VMAccelCoordinate3DUINT :: VMAccelCoordinate3DUINT where
  "zero_VMAccelCoordinate3DUINT =
     \<lparr>Coordinate3DUINT_x = 0, Coordinate3DUINT_y = 0, Coordinate3DUINT_z = 0\<rparr>"

definition zero_VMAccelSurfaceRegion :: VMAccelSurfaceRegion where
  "zero_VMAccelSurfaceRegion =
     \<lparr>SurfaceRegion_mipLevel = 0, SurfaceRegion_coord = zero_VMAccelCoordinate3DUINT,
      SurfaceRegion_size = zero_VMAccelCoordinate3DUINT\<rparr>"

definition zero_VMAccelImageTransferOp :: VMAccelImageTransferOp where
  "zero_VMAccelImageTransferOp =
     \<lparr>ImageTransferOp_imgRegion = zero_VMAccelSurfaceRegion, ImageTransferOp_ptr = Vec 0 None,
      ImageTransferOp_callbacks = Vec 0 None\<rparr>"

definition zero_VMCLImageUploadOp :: VMCLImageUploadOp where
  "zero_VMCLImageUploadOp =
     \<lparr>CLImageUploadOp_queue = zero_VMCLQueueId, CLImageUploadOp_img = zero_VMCLSurfaceId,
      CLImageUploadOp_op = zero_VMAccelImageTransferOp, CLImageUploadOp_mode = 0\<rparr>"

definition zero_VMCLImageDownloadOp :: VMCLImageDownloadOp where
  "zero_VMCLImageDownloadOp =
     \<lparr>CLImageDownloadOp_queue = zero_VMCLQueueId, CLImageDownloadOp_img = zero_VMCLSurfaceId,
      CLImageDownloadOp_op = zero_VMAccelImageTransferOp, CLImageDownloadOp_mode = 0\<rparr>"

definition zero_VMAccelDownloadReturnStatus :: VMAccelDownloadReturnStatus where
  "zero_VMAccelDownloadReturnStatus =
     \<lparr>DownloadReturnStatus_errno = 0, DownloadReturnStatus_ret = None\<rparr>"

definition zero_VMAccelCoordinate2DUINT :: VMAccelCoordinate2DUINT where
  "zero_VMAccelCoordinate2DUINT =
     \<lparr>Coordinate2DUINT_x = 0, Coordinate2DUINT_y = 0\<rparr>"

definition zero_VMAccelSurfaceMapOp :: VMAccelSurfaceMapOp where
  "zero_VMAccelSurfaceMapOp =
     \<lparr>SurfaceMapOp_surf = zero_VMAccelSurfaceId,
      SurfaceMapOp_coord = zero_VMAccelCoordinate3DUINT,
      SurfaceMapOp_size = zero_VMAccelCoordinate2DUINT, SurfaceMapOp_mapFlags = 0\<rparr>"

definition zero_VMCLSurfaceMapOp :: VMCLSurfaceMapOp where
  "zero_VMCLSurfaceMapOp =
     \<lparr>CLSurfaceMapOp_queue = zero_VMCLQueueId, CLSurfaceMapOp_op = zero_VMAccelSurfaceMapOp\<rparr>"

definition zero_VMAccelSurfaceMapReturnStatus :: VMAccelSurfaceMapReturnStatus where
  "zero_VMAccelSurfaceMapReturnStatus =
     \<lparr>SurfaceMapReturnStatus_errno = 0, SurfaceMapReturnStatus_ret = None\<rparr>"

definition zero_VMAccelSurfaceUnmapOp :: VMAccelSurfaceUnmapOp where
  "zero_VMAccelSurfaceUnmapOp =
     \<lparr>SurfaceUnmapOp_surf = zero_VMAccelSurfaceId, SurfaceUnmapOp_mapFlags = 0,
      SurfaceUnmapOp_ptr = Vec 0 None\<rparr>"

definition zero_VMCLSurfaceUnmapOp :: VMCLSurfaceUnmapOp where
  "zero_VMCLSurfaceUnmapOp =
     \<lparr>CLSurfaceUnmapOp_queue = zero_VMCLQueueId, CLSurfaceUnmapOp_op = zero_VMAccelSurfaceUnmapOp\<rparr>"

definition zero_VMAccelSurfaceCopyOp :: VMAccelSurfaceCopyOp where
  "zero_VMAccelSurfaceCopyOp =
     \<lparr>SurfaceCopyOp_dstRegion = zero_VMAccelSurfaceRegion,
      SurfaceCopyOp_srcRegion = zero_VMAccelSurfaceRegion\<rparr>"

definition zero_VMCLSurfaceCopyOp :: VMCLSurfaceCopyOp where
  "zero_VMCLSurfaceCopyOp =
     \<lparr>CLSurfaceCopyOp_queue = zero_VMCLQueueId, CLSurfaceCopyOp_dst = zero_VMCLSurfaceId,
      CLSurfaceCopyOp_src = zero_VMCLSurfaceId, CLSurfaceCopyOp_op = zero_VMAccelSurfaceCopyOp\<rparr>"

definition zero_VMAccelElementDouble4D :: VMAccelElementDouble4D where
  "zero_VMAccelElementDouble4D =
     \<lparr>ElementDouble4D_x = 0, ElementDouble4D_y = 0, ElementDouble4D_z = 0, ElementDouble4D_w = 0\<rparr>"

definition zero_VMAccelElementFloat4D :: VMAccelElementFloat4D where
  "zero_VMAccelElementFloat4D =
     \<lparr>ElementFloat4D_x = 0, ElementFloat4D_y = 0, ElementFloat4D_z = 0, ElementFloat4D_w = 0\<rparr>"

definition zero_VMAccelElementUINT4D :: VMAccelElementUINT4D where
  "zero_VMAccelElementUINT4D =
     \<lparr>ElementUINT4D_r = 0, ElementUINT4D_g = 0, ElementUINT4D_b = 0, ElementUINT4D_a = 0\<rparr>"

definition zero_VMAccelImageFillOp :: VMAccelImageFillOp where
  "zero_VMAccelImageFillOp =
     \<lparr>ImageFillOp_dstRegion = zero_VMAccelSurfaceRegion,
      ImageFillOp_d = zero_VMAccelElementDouble4D, ImageFillOp_f = zero_VMAccelElementFloat4D,
      ImageFillOp_u = zero_VMAccelElementUINT4D\<rparr>"

definition zero_VMCLImageFillOp :: VMCLImageFillOp where
  "zero_VMCLImageFillOp =
     \<lparr>CLImageFillOp_queue = zero_VMCLQueueId, CLImageFillOp_img = zero_VMCLSurfaceId,
      CLImageFillOp_op = zero_VMAccelImageFillOp\<rparr>"

definition zero_VMCLSamplerDesc :: VMCLSamplerDesc where
  "zero_VMCLSamplerDesc =
     \<lparr>CLSamplerDesc_normalizedCoords = False, CLSamplerDesc_addressMode = 0,
      CLSamplerDesc_filterMode = 0\<rparr>"

definition zero_VMCLSamplerAllocateDesc :: VMCLSamplerAllocateDesc where
  "zero_VMCLSamplerAllocateDesc =
     \<lparr>CLSamplerAllocateDesc_client = zero_VMCLSamplerId,
      CLSamplerAllocateDesc_desc = zero_VMCLSamplerDesc\<rparr>"

definition zero_VMCLSamplerAllocateReturnStatus :: VMCLSamplerAllocateReturnStatus where
  "zero_VMCLSamplerAllocateReturnStatus =
     \<lparr>CLSamplerAllocateReturnStatus_errno = 0, CLSamplerAllocateReturnStatus_ret = None\<rparr>"

definition zero_VMCLKernelId :: VMCLKernelId where
  "zero_VMCLKernelId =
     \<lparr>CLKernelId_cid = 0, CLKernelId_id = 0\<rparr>"

definition zero_VMCLKernelAllocateDesc :: VMCLKernelAllocateDesc where
  "zero_VMCLKernelAllocateDesc =
     \<lparr>CLKernelAllocateDesc_client = zero_VMCLKernelId, CLKernelAllocateDesc_subDevice = 0,
      CLKernelAllocateDesc_language = 0, CLKernelAllocateDesc_source = Vec 0 None,
      CLKernelAllocateDesc_kernelName = Vec 0 None\<rparr>"

definition zero_VMCLKernelAllocateReturnStatus :: VMCLKernelAllocateReturnStatus where
  "zero_VMCLKernelAllocateReturnStatus =
     \<lparr>CLKernelAllocateReturnStatus_errno = 0, CLKernelAllocateReturnStatus_ret = None\<rparr>"

definition zero_VMCLDispatchOp :: VMCLDispatchOp where
  "zero_VMCLDispatchOp =
     \<lparr>CLDispatchOp_queue = zero_VMCLQueueId, CLDispatchOp_kernel = zero_VMCLKernelId,
      CLDispatchOp_dimension = 0, CLDispatchOp_globalWorkOffset = Vec 0 None,
      CLDispatchOp_globalWorkSize = Vec 0 None, CLDispatchOp_localWorkSize = Vec 0 None,
      CLDispatchOp_args = Vec 0 None, CLDispatchOp_refs = Vec 0 None\<rparr>"

subsection \<open>Power on and off\<close>

text \<open>The table in use is always the one of the OpenCL backend, so the state of the server is
  its reference count and the state of that backend.\<close>

record 's vmcl_server =
  clRefCount :: u64
  cl_state :: 's

abbreviation (input) VMACCEL_SELECT_MAX :: u32 where "VMACCEL_SELECT_MAX \<equiv> 4"

fun vmcl_poweron_loop :: "'s VMCLOps \<Rightarrow> u32 \<Rightarrow> u32 list \<Rightarrow> VMAccelAllocateStatus option \<Rightarrow> 's vmcl_server \<Rightarrow>
    (VMAccelAllocateStatus option \<times> 's vmcl_server) cres" where
  "vmcl_poweron_loop cl useDataStreaming [] ret sv = Inr (ret, sv)"
| "vmcl_poweron_loop cl useDataStreaming (i # is) ret sv =
     cbind (poweron cl i 0 useDataStreaming (cl_state sv)) (\<lambda>(ret, s).
       let sv = sv\<lparr>cl_state := s\<rparr> in
       case ret of None \<Rightarrow> Inl NullPointer
       | Some st \<Rightarrow> if AllocateStatus_status st = VMACCEL_SUCCESS then Inr (ret, sv\<lparr>clRefCount := clRefCount sv + 1\<rparr>)
           else vmcl_poweron_loop cl useDataStreaming is ret sv)"

definition vmcl_poweron_svc :: "'s VMCLOps \<Rightarrow> u32 \<Rightarrow> 's vmcl_server \<Rightarrow> (VMAccelAllocateStatus option \<times> 's vmcl_server) cres" where
  "vmcl_poweron_svc cl useDataStreaming sv =
     vmcl_poweron_loop cl useDataStreaming (map of_nat [0..<unat VMACCEL_SELECT_MAX]) None sv"

definition vmcl_poweroff_svc :: "'s VMCLOps \<Rightarrow> 's vmcl_server \<Rightarrow> (VMAccelStatus option \<times> 's vmcl_server) cres" where
  "vmcl_poweroff_svc cl sv =
     (if clRefCount sv = 1 then
        let sv = sv\<lparr>clRefCount := 0\<rparr> in cbind (poweroff cl (cl_state sv)) (\<lambda>(ret, s). Inr (ret, sv\<lparr>cl_state := s\<rparr>))
      else if 1 < clRefCount sv then Inr (None, sv\<lparr>clRefCount := clRefCount sv - 1\<rparr>)
      else Inr (None, sv))"

subsection \<open>Procedures\<close>

abbreviation (input) VMACCEL_MAP_NO_FREE_PTR_FLAG :: u32 where "VMACCEL_MAP_NO_FREE_PTR_FLAG \<equiv> 16"

definition vmcl_contextalloc_2_svc :: "'s VMCLOps \<Rightarrow> VMCLContextAllocateDesc \<Rightarrow> bool \<Rightarrow> 's \<Rightarrow>
    (VMCLContextAllocateReturnStatus option \<times> VMCLContextAllocateDesc \<times> 's) cres" where
  "vmcl_contextalloc_2_svc cl argp rqstp s =
     cbind (contextalloc_1 cl argp s) (\<lambda>(ret, argp, s). Inr (Some \<lparr>CLContextAllocateReturnStatus_errno = 0, CLContextAllocateReturnStatus_ret = ret\<rparr>, argp, s))"

definition vmcl_contextdestroy_2_svc :: "'s VMCLOps \<Rightarrow> VMCLContextId \<Rightarrow> bool \<Rightarrow> 's \<Rightarrow>
    (VMAccelReturnStatus option \<times> VMCLContextId \<times> 's) cres" where
  "vmcl_contextdestroy_2_svc cl argp rqstp s =
     cbind (contextdestroy_1 cl argp s) (\<lambda>(ret, argp, s). Inr (Some \<lparr>ReturnStatus_errno = 0, ReturnStatus_ret = ret\<rparr>, argp, s))"

definition vmcl_surfacealloc_2_svc :: "'s VMCLOps \<Rightarrow> VMCLSurfaceAllocateDesc \<Rightarrow> bool \<Rightarrow> 's \<Rightarrow>
    (VMAccelSurfaceAllocateReturnStatus option \<times> VMCLSurfaceAllocateDesc \<times> 's) cres" where
  "vmcl_surfacealloc_2_svc cl argp rqstp s =
     cbind (surfacealloc_1 cl argp s) (\<lambda>(ret, argp, s). Inr (Some \<lparr>SurfaceAllocateReturnStatus_errno = 0, SurfaceAllocateReturnStatus_ret = ret\<rparr>, argp, s))"

definition vmcl_surfacedestroy_2_svc :: "'s VMCLOps \<Rightarrow> VMCLSurfaceId \<Rightarrow> bool \<Rightarrow> 's \<Rightarrow>
    (VMAccelReturnStatus option \<times> VMCLSurfaceId \<times> 's) cres" where
  "vmcl_surfacedestroy_2_svc cl argp rqstp s =
     cbind (surfacedestroy_1 cl argp s) (\<lambda>(ret, argp, s). Inr (Some \<lparr>ReturnStatus_errno = 0, ReturnStatus_ret = ret\<rparr>, argp, s))"

definition vmcl_queuealloc_2_svc :: "'s VMCLOps \<Rightarrow> VMCLQueueAllocateDesc \<Rightarrow> bool \<Rightarrow> 's \<Rightarrow>
    (VMAccelQueueReturnStatus option \<times> VMCLQueueAllocateDesc \<times> 's) cres" where
  "vmcl_queuealloc_2_svc cl argp rqstp s =
     cbind (queuealloc_1 cl argp s) (\<lambda>(ret, argp, s). Inr (Some \<lparr>QueueReturnStatus_errno = 0, QueueReturnStatus_ret = ret\<rparr>, argp, s))"

definition vmcl_queuedestroy_2_svc :: "'s VMCLOps \<Rightarrow> VMCLQueueId \<Rightarrow> bool \<Rightarrow> 's \<Rightarrow>
    (VMAccelReturnStatus option \<times> VMCLQueueId \<times> 's) cres" where
  "vmcl_queuedestroy_2_svc cl argp rqstp s =
     cbind (queuedestroy_1 cl argp s) (\<lambda>(ret, argp, s). Inr (Some \<lparr>ReturnStatus_errno = 0, ReturnStatus_ret = ret\<rparr>, argp, s))"

definition vmcl_queueflush_2_svc :: "'s VMCLOps \<Rightarrow> VMCLQueueId \<Rightarrow> bool \<Rightarrow> 's \<Rightarrow>
    (VMAccelReturnStatus option \<times> VMCLQueueId \<times> 's) cres" where
  "vmcl_queueflush_2_svc cl argp rqstp s =
     cbind (queueflush_1 cl argp s) (\<lambda>(ret, argp, s). Inr (Some \<lparr>ReturnStatus_errno = 0, ReturnStatus_ret = ret\<rparr>, argp, s))"

definition vmcl_imageupload_2_svc :: "'s VMCLOps \<Rightarrow> VMCLImageUploadOp \<Rightarrow> bool \<Rightarrow> 's \<Rightarrow>
    (VMAccelReturnStatus option \<times> VMCLImageUploadOp \<times> 's) cres" where
  "vmcl_imageupload_2_svc cl argp rqstp s =
     cbind (imageupload_1 cl argp s) (\<lambda>(ret, argp, s). Inr (Some \<lparr>ReturnStatus_errno = 0, ReturnStatus_ret = ret\<rparr>, argp, s))"

definition vmcl_imagedownload_2_svc :: "'s VMCLOps \<Rightarrow> VMCLImageDownloadOp \<Rightarrow> bool \<Rightarrow> 's \<Rightarrow>
    (VMAccelDownloadReturnStatus option \<times> VMCLImageDownloadOp \<times> 's) cres" where
  "vmcl_imagedownload_2_svc cl argp rqstp s =
     cbind (imagedownload_1 cl argp s) (\<lambda>(ret, argp, s). Inr (Some \<lparr>DownloadReturnStatus_errno = 0, DownloadReturnStatus_ret = ret\<rparr>, argp, s))"

definition vmcl_surfacemap_2_svc :: "'s VMCLOps \<Rightarrow> VMCLSurfaceMapOp \<Rightarrow> bool \<Rightarrow> 's \<Rightarrow>
    (VMAccelSurfaceMapReturnStatus option \<times> VMCLSurfaceMapOp \<times> 's) cres" where
  "vmcl_surfacemap_2_svc cl argp rqstp s =
     (if \<not> rqstp then
        let argp = argp\<lparr>CLSurfaceMapOp_op := (CLSurfaceMapOp_op argp)\<lparr>SurfaceMapOp_mapFlags := SurfaceMapOp_mapFlags (CLSurfaceMapOp_op argp) OR VMACCEL_MAP_NO_FREE_PTR_FLAG\<rparr>\<rparr> in
        cbind (surfacemap_1 cl argp s) (\<lambda>(ret, argp, s). Inr (Some \<lparr>SurfaceMapReturnStatus_errno = 0, SurfaceMapReturnStatus_ret = ret\<rparr>, argp, s))
      else if SurfaceMapOp_mapFlags (CLSurfaceMapOp_op argp) AND VMACCEL_MAP_NO_FREE_PTR_FLAG \<noteq> 0 then
        Inr (Some \<lparr>SurfaceMapReturnStatus_errno = 0, SurfaceMapReturnStatus_ret = Some (zero_VMAccelSurfaceMapStatus\<lparr>SurfaceMapStatus_status := VMACCEL_FAIL\<rparr>)\<rparr>, argp, s)
      else cbind (surfacemap_1 cl argp s) (\<lambda>(ret, argp, s). Inr (Some \<lparr>SurfaceMapReturnStatus_errno = 0, SurfaceMapReturnStatus_ret = ret\<rparr>, argp, s)))"

definition vmcl_surfaceunmap_2_svc :: "'s VMCLOps \<Rightarrow> VMCLSurfaceUnmapOp \<Rightarrow> bool \<Rightarrow> 's \<Rightarrow>
    (VMAccelReturnStatus option \<times> VMCLSurfaceUnmapOp \<times> 's) cres" where
  "vmcl_surfaceunmap_2_svc cl argp rqstp s =
     (if \<not> rqstp then
        let argp = argp\<lparr>CLSurfaceUnmapOp_op := (CLSurfaceUnmapOp_op argp)\<lparr>SurfaceUnmapOp_mapFlags := SurfaceUnmapOp_mapFlags (CLSurfaceUnmapOp_op argp) OR VMACCEL_MAP_NO_FREE_PTR_FLAG\<rparr>\<rparr> in
        cbind (surfaceunmap_1 cl argp s) (\<lambda>(ret, argp, s). Inr (Some \<lparr>ReturnStatus_errno = 0, ReturnStatus_ret = ret\<rparr>, argp, s))
      else if SurfaceUnmapOp_mapFlags (CLSurfaceUnmapOp_op argp) AND VMACCEL_MAP_NO_FREE_PTR_FLAG \<noteq> 0 then
        Inr (Some \<lparr>ReturnStatus_errno = 0, ReturnStatus_ret = Some (zero_VMAccelStatus\<lparr>Status_status := VMACCEL_FAIL\<rparr>)\<rparr>, argp, s)
      else cbind (surfaceunmap_1 cl argp s) (\<lambda>(ret, argp, s). Inr (Some \<lparr>ReturnStatus_errno = 0, ReturnStatus_ret = ret\<rparr>, argp, s)))"

definition vmcl_surfacecopy_2_svc :: "'s VMCLOps \<Rightarrow> VMCLSurfaceCopyOp \<Rightarrow> bool \<Rightarrow> 's \<Rightarrow>
    (VMAccelReturnStatus option \<times> VMCLSurfaceCopyOp \<times> 's) cres" where
  "vmcl_surfacecopy_2_svc cl argp rqstp s =
     cbind (surfacecopy_1 cl argp s) (\<lambda>(ret, argp, s). Inr (Some \<lparr>ReturnStatus_errno = 0, ReturnStatus_ret = ret\<rparr>, argp, s))"

definition vmcl_imagefill_2_svc :: "'s VMCLOps \<Rightarrow> VMCLImageFillOp \<Rightarrow> bool \<Rightarrow> 's \<Rightarrow>
    (VMAccelReturnStatus option \<times> VMCLImageFillOp \<times> 's) cres" where
  "vmcl_imagefill_2_svc cl argp rqstp s =
     cbind (imagefill_1 cl argp s) (\<lambda>(ret, argp, s). Inr (Some \<lparr>ReturnStatus_errno = 0, ReturnStatus_ret = ret\<rparr>, argp, s))"

definition vmcl_sampleralloc_2_svc :: "'s VMCLOps \<Rightarrow> VMCLSamplerAllocateDesc \<Rightarrow> bool \<Rightarrow> 's \<Rightarrow>
    (VMCLSamplerAllocateReturnStatus option \<times> VMCLSamplerAllocateDesc \<times> 's) cres" where
  "vmcl_sampleralloc_2_svc cl argp rqstp s =
     cbind (sampleralloc_1 cl argp s) (\<lambda>(ret, argp, s). Inr (Some \<lparr>CLSamplerAllocateReturnStatus_errno = 0, CLSamplerAllocateReturnStatus_ret = ret\<rparr>, argp, s))"

definition vmcl_samplerdestroy_2_svc :: "'s VMCLOps \<Rightarrow> VMCLSamplerId \<Rightarrow> bool \<Rightarrow> 's \<Rightarrow>
    (VMAccelReturnStatus option \<times> VMCLSamplerId \<times> 's) cres" where
  "vmcl_samplerdestroy_2_svc cl argp rqstp s =
     cbind (samplerdestroy_1 cl argp s) (\<lambda>(ret, argp, s). Inr (Some \<lparr>ReturnStatus_errno = 0, ReturnStatus_ret = ret\<rparr>, argp, s))"

definition vmcl_kernelalloc_2_svc :: "'s VMCLOps \<Rightarrow> VMCLKernelAllocateDesc \<Rightarrow> bool \<Rightarrow> 's \<Rightarrow>
    (VMCLKernelAllocateReturnStatus option \<times> VMCLKernelAllocateDesc \<times> 's) cres" where
  "vmcl_kernelalloc_2_svc cl argp rqstp s =
     cbind (kernelalloc_1 cl argp s) (\<lambda>(ret, argp, s). Inr (Some \<lparr>CLKernelAllocateReturnStatus_errno = 0, CLKernelAllocateReturnStatus_ret = ret\<rparr>, argp, s))"

definition vmcl_kerneldestroy_2_svc :: "'s VMCLOps \<Rightarrow> VMCLKernelId \<Rightarrow> bool \<Rightarrow> 's \<Rightarrow>
    (VMAccelReturnStatus option \<times> VMCLKernelId \<times> 's) cres" where
  "vmcl_kerneldestroy_2_svc cl argp rqstp s =
     cbind (kerneldestroy_1 cl argp s) (\<lambda>(ret, argp, s). Inr (Some \<lparr>ReturnStatus_errno = 0, ReturnStatus_ret = ret\<rparr>, argp, s))"

definition vmcl_dispatch_2_svc :: "'s VMCLOps \<Rightarrow> VMCLDispatchOp \<Rightarrow> bool \<Rightarrow> 's \<Rightarrow>
    (VMAccelReturnStatus option \<times> VMCLDispatchOp \<times> 's) cres" where
  "vmcl_dispatch_2_svc cl argp rqstp s =
     cbind (dispatch_1 cl argp s) (\<lambda>(ret, argp, s). Inr (Some \<lparr>ReturnStatus_errno = 0, ReturnStatus_ret = ret\<rparr>, argp, s))"

subsection \<open>Dispatch\<close>

abbreviation (input) VMCL_CONTEXTALLOC :: u32 where "VMCL_CONTEXTALLOC \<equiv> 1"
abbreviation (input) VMCL_CONTEXTDESTROY :: u32 where "VMCL_CONTEXTDESTROY \<equiv> 2"
abbreviation (input) VMCL_SURFACEALLOC :: u32 where "VMCL_SURFACEALLOC \<equiv> 3"
abbreviation (input) VMCL_SURFACEDESTROY :: u32 where "VMCL_SURFACEDESTROY \<equiv> 4"
abbreviation (input) VMCL_QUEUEALLOC :: u32 where "VMCL_QUEUEALLOC \<equiv> 5"
abbreviation (input) VMCL_QUEUEDESTROY :: u32 where "VMCL_QUEUEDESTROY \<equiv> 6"
abbreviation (input) VMCL_QUEUEFLUSH :: u32 where "VMCL_QUEUEFLUSH \<equiv> 7"
abbreviation (input) VMCL_IMAGEUPLOAD :: u32 where "VMCL_IMAGEUPLOAD \<equiv> 8"
abbreviation (input) VMCL_IMAGEDOWNLOAD :: u32 where "VMCL_IMAGEDOWNLOAD \<equiv> 9"
abbreviation (input) VMCL_SURFACEMAP :: u32 where "VMCL_SURFACEMAP \<equiv> 10"
abbreviation (input) VMCL_SURFACEUNMAP :: u32 where "VMCL_SURFACEUNMAP \<equiv> 11"
abbreviation (input) VMCL_SURFACECOPY :: u32 where "VMCL_SURFACECOPY \<equiv> 12"
abbreviation (input) VMCL_IMAGEFILL :: u32 where "VMCL_IMAGEFILL \<equiv> 13"
abbreviation (input) VMCL_SAMPLERALLOC :: u32 where "VMCL_SAMPLERALLOC \<equiv> 14"
abbreviation (input) VMCL_SAMPLERDESTROY :: u32 where "VMCL_SAMPLERDESTROY \<equiv> 15"
abbreviation (input) VMCL_KERNELALLOC :: u32 where "VMCL_KERNELALLOC \<equiv> 16"
abbreviation (input) VMCL_KERNELDESTROY :: u32 where "VMCL_KERNELDESTROY \<equiv> 17"
abbreviation (input) VMCL_DISPATCH :: u32 where "VMCL_DISPATCH \<equiv> 18"

definition vmcl_1 :: "'s VMCLOps \<Rightarrow> 's dispatcher" where
  "vmcl_1 cl procnum tp s =
     (if procnum = 0 then Inr (Some (ReplyOk []), s)
      else if procnum = VMCL_CONTEXTALLOC then
        serve xdr_VMCLContextAllocateDesc zero_VMCLContextAllocateDesc xdr_VMCLContextAllocateReturnStatus (\<lambda>argp. vmcl_contextalloc_2_svc cl argp True) tp s
      else if procnum = VMCL_CONTEXTDESTROY then
        serve xdr_VMCLContextId 0 xdr_VMAccelReturnStatus (\<lambda>argp. vmcl_contextdestroy_2_svc cl argp True) tp s
      else if procnum = VMCL_SURFACEALLOC then
        serve xdr_VMCLSurfaceAllocateDesc zero_VMCLSurfaceAllocateDesc xdr_VMAccelSurfaceAllocateReturnStatus (\<lambda>argp. vmcl_surfacealloc_2_svc cl argp True) tp s
      else if procnum = VMCL_SURFACEDESTROY then
        serve xdr_VMCLSurfaceId zero_VMCLSurfaceId xdr_VMAccelReturnStatus (\<lambda>argp. vmcl_surfacedestroy_2_svc cl argp True) tp s
      else if procnum = VMCL_QUEUEALLOC then
        serve xdr_VMCLQueueAllocateDesc zero_VMCLQueueAllocateDesc xdr_VMAccelQueueReturnStatus (\<lambda>argp. vmcl_queuealloc_2_svc cl argp True) tp s
      else if procnum = VMCL_QUEUEDESTROY then
        serve xdr_VMCLQueueId zero_VMCLQueueId xdr_VMAccelReturnStatus (\<lambda>argp. vmcl_queuedestroy_2_svc cl argp True) tp s
      else if procnum = VMCL_QUEUEFLUSH then
        serve xdr_VMCLQueueId zero_VMCLQueueId xdr_VMAccelReturnStatus (\<lambda>argp. vmcl_queueflush_2_svc cl argp True) tp s
      else if procnum = VMCL_IMAGEUPLOAD then
        serve xdr_VMCLImageUploadOp zero_VMCLImageUploadOp xdr_VMAccelReturnStatus (\<lambda>argp. vmcl_imageupload_2_svc cl argp True) tp s
      else if procnum = VMCL_IMAGEDOWNLOAD then
        serve xdr_VMCLImageDownloadOp zero_VMCLImageDownloadOp xdr_VMAccelDownloadReturnStatus (\<lambda>argp. vmcl_imagedownload_2_svc cl argp True) tp s
      else if procnum = VMCL_SURFACEMAP then
        serve xdr_VMCLSurfaceMapOp zero_VMCLSurfaceMapOp xdr_VMAccelSurfaceMapReturnStatus (\<lambda>argp. vmcl_surfacemap_2_svc cl argp True) tp s
      else if procnum = VMCL_SURFACEUNMAP then
        serve xdr_VMCLSurfaceUnmapOp zero_VMCLSurfaceUnmapOp xdr_VMAccelReturnStatus (\<lambda>argp. vmcl_surfaceunmap_2_svc cl argp True) tp s
      else if procnum = VMCL_SURFACECOPY then
        serve xdr_VMCLSurfaceCopyOp zero_VMCLSurfaceCopyOp xdr_VMAccelReturnStatus (\<lambda>argp. vmcl_surfacecopy_2_svc cl argp True) tp s
      else if procnum = VMCL_IMAGEFILL then
        serve xdr_VMCLImageFillOp zero_VMCLImageFillOp xdr_VMAccelReturnStatus (\<lambda>argp. vmcl_imagefill_2_svc cl argp True) tp s
      else if procnum = VMCL_SAMPLERALLOC then
        serve xdr_VMCLSamplerAllocateDesc zero_VMCLSamplerAllocateDesc xdr_VMCLSamplerAllocateReturnStatus (\<lambda>argp. vmcl_sampleralloc_2_svc cl argp True) tp s
      else if procnum = VMCL_SAMPLERDESTROY then
        serve xdr_VMCLSamplerId zero_VMCLSamplerId xdr_VMAccelReturnStatus (\<lambda>argp. vmcl_samplerdestroy_2_svc cl argp True) tp s
      else if procnum = VMCL_KERNELALLOC then
        serve xdr_VMCLKernelAllocateDesc zero_VMCLKernelAllocateDesc xdr_VMCLKernelAllocateReturnStatus (\<lambda>argp. vmcl_kernelalloc_2_svc cl argp True) tp s
      else if procnum = VMCL_KERNELDESTROY then
        serve xdr_VMCLKernelId zero_VMCLKernelId xdr_VMAccelReturnStatus (\<lambda>argp. vmcl_kerneldestroy_2_svc cl argp True) tp s
      else if procnum = VMCL_DISPATCH then
        serve xdr_VMCLDispatchOp zero_VMCLDispatchOp xdr_VMAccelReturnStatus (\<lambda>argp. vmcl_dispatch_2_svc cl argp True) tp s
      else Inr (Some ProcUnavail, s))"

subsection \<open>Stubs\<close>

definition vmcl_contextalloc_2 :: "build \<Rightarrow> 's VMCLOps \<Rightarrow> VMCLContextAllocateDesc \<Rightarrow> 's client option \<Rightarrow> 's svc_world \<Rightarrow>
    (VMCLContextAllocateReturnStatus option \<times> VMCLContextAllocateDesc \<times> 's svc_world) cres" where
  "vmcl_contextalloc_2 b cl argp clnt =
     stub b svc_state_mutex (\<lambda>argp. vmcl_contextalloc_2_svc cl argp False) VMCL_CONTEXTALLOC xdr_VMCLContextAllocateDesc xdr_VMCLContextAllocateReturnStatus zero_VMCLContextAllocateReturnStatus argp clnt"

definition vmcl_contextdestroy_2 :: "build \<Rightarrow> 's VMCLOps \<Rightarrow> VMCLContextId \<Rightarrow> 's client option \<Rightarrow> 's svc_world \<Rightarrow>
    (VMAccelReturnStatus option \<times> VMCLContextId \<times> 's svc_world) cres" where
  "vmcl_contextdestroy_2 b cl argp clnt =
     stub b svc_state_mutex (\<lambda>argp. vmcl_contextdestroy_2_svc cl argp False) VMCL_CONTEXTDESTROY xdr_VMCLContextId xdr_VMAccelReturnStatus zero_VMAccelReturnStatus argp clnt"

definition vmcl_surfacealloc_2 :: "build \<Rightarrow> 's VMCLOps \<Rightarrow> VMCLSurfaceAllocateDesc \<Rightarrow> 's client option \<Rightarrow> 's svc_world \<Rightarrow>
    (VMAccelSurfaceAllocateReturnStatus option \<times> VMCLSurfaceAllocateDesc \<times> 's svc_world) cres" where
  "vmcl_surfacealloc_2 b cl argp clnt =
     stub b svc_state_mutex (\<lambda>argp. vmcl_surfacealloc_2_svc cl argp False) VMCL_SURFACEALLOC xdr_VMCLSurfaceAllocateDesc xdr_VMAccelSurfaceAllocateReturnStatus zero_VMAccelSurfaceAllocateReturnStatus argp clnt"

definition vmcl_surfacedestroy_2 :: "build \<Rightarrow> 's VMCLOps \<Rightarrow> VMCLSurfaceId \<Rightarrow> 's client option \<Rightarrow> 's svc_world \<Rightarrow>
    (VMAccelReturnStatus option \<times> VMCLSurfaceId \<times> 's svc_world) cres" where
  "vmcl_surfacedestroy_2 b cl argp clnt =
     stub b svc_state_mutex (\<lambda>argp. vmcl_surfacedestroy_2_svc cl argp False) VMCL_SURFACEDESTROY xdr_VMCLSurfaceId xdr_VMAccelReturnStatus zero_VMAccelReturnStatus argp clnt"

definition vmcl_queuealloc_2 :: "build \<Rightarrow> 's VMCLOps \<Rightarrow> VMCLQueueAllocateDesc \<Rightarrow> 's client option \<Rightarrow> 's svc_world \<Rightarrow>
    (VMAccelQueueReturnStatus option \<times> VMCLQueueAllocateDesc \<times> 's svc_world) cres" where
  "vmcl_queuealloc_2 b cl argp clnt =
     stub b svc_state_mutex (\<lambda>argp. vmcl_queuealloc_2_svc cl argp False) VMCL_QUEUEALLOC xdr_VMCLQueueAllocateDesc xdr_VMAccelQueueReturnStatus zero_VMAccelQueueReturnStatus argp clnt"

definition vmcl_queuedestroy_2 :: "build \<Rightarrow> 's VMCLOps \<Rightarrow> VMCLQueueId \<Rightarrow> 's client option \<Rightarrow> 's svc_world \<Rightarrow>
    (VMAccelReturnStatus option \<times> VMCLQueueId \<times> 's svc_world) cres" where
  "vmcl_queuedestroy_2 b cl argp clnt =
     stub b svc_state_mutex (\<lambda>argp. vmcl_queuedestroy_2_svc cl argp False) VMCL_QUEUEDESTROY xdr_VMCLQueueId xdr_VMAccelReturnStatus zero_VMAccelReturnStatus argp clnt"

definition vmcl_queueflush_2 :: "build \<Rightarrow> 's VMCLOps \<Rightarrow> VMCLQueueId \<Rightarrow> 's client option \<Rightarrow> 's svc_world \<Rightarrow>
    (VMAccelReturnStatus option \<times> VMCLQueueId \<times> 's svc_world) cres" where
  "vmcl_queueflush_2 b cl argp clnt =
     stub b svc_state_mutex (\<lambda>argp. vmcl_queueflush_2_svc cl argp False) VMCL_QUEUEFLUSH xdr_VMCLQueueId xdr_VMAccelReturnStatus zero_VMAccelReturnStatus argp clnt"

definition vmcl_imageupload_2 :: "build \<Rightarrow> 's VMCLOps \<Rightarrow> VMCLImageUploadOp \<Rightarrow> 's client option \<Rightarrow> 's svc_world \<Rightarrow>
    (VMAccelReturnStatus option \<times> VMCLImageUploadOp \<times> 's svc_world) cres" where
  "vmcl_imageupload_2 b cl argp clnt =
     stub b svc_data_mutex (\<lambda>argp. vmcl_imageupload_2_svc cl argp False) VMCL_IMAGEUPLOAD xdr_VMCLImageUploadOp xdr_VMAccelReturnStatus zero_VMAccelReturnStatus argp clnt"

definition vmcl_imagedownload_2 :: "build \<Rightarrow> 's VMCLOps \<Rightarrow> VMCLImageDownloadOp \<Rightarrow> 's client option \<Rightarrow> 's svc_world \<Rightarrow>
    (VMAccelDownloadReturnStatus option \<times> VMCLImageDownloadOp \<times> 's svc_world) cres" where
  "vmcl_imagedownload_2 b cl argp clnt =
     stub b svc_data_mutex (\<lambda>argp. vmcl_imagedownload_2_svc cl argp False) VMCL_IMAGEDOWNLOAD xdr_VMCLImageDownloadOp xdr_VMAccelDownloadReturnStatus zero_VMAccelDownloadReturnStatus argp clnt"

definition vmcl_surfacemap_2 :: "build \<Rightarrow> 's VMCLOps \<Rightarrow> VMCLSurfaceMapOp \<Rightarrow> 's client option \<Rightarrow> 's svc_world \<Rightarrow>
    (VMAccelSurfaceMapReturnStatus option \<times> VMCLSurfaceMapOp \<times> 's svc_world) cres" where
  "vmcl_surfacemap_2 b cl argp clnt =
     stub b svc_data_mutex (\<lambda>argp. vmcl_surfacemap_2_svc cl argp False) VMCL_SURFACEMAP xdr_VMCLSurfaceMapOp xdr_VMAccelSurfaceMapReturnStatus zero_VMAccelSurfaceMapReturnStatus argp clnt"

definition vmcl_surfaceunmap_2 :: "build \<Rightarrow> 's VMCLOps \<Rightarrow> VMCLSurfaceUnmapOp \<Rightarrow> 's client option \<Rightarrow> 's svc_world \<Rightarrow>
    (VMAccelReturnStatus option \<times> VMCLSurfaceUnmapOp \<times> 's svc_world) cres" where
  "vmcl_surfaceunmap_2 b cl argp clnt =
     stub b svc_data_mutex (\<lambda>argp. vmcl_surfaceunmap_2_svc cl argp False) VMCL_SURFACEUNMAP xdr_VMCLSurfaceUnmapOp xdr_VMAccelReturnStatus zero_VMAccelReturnStatus argp clnt"

definition vmcl_surfacecopy_2 :: "build \<Rightarrow> 's VMCLOps \<Rightarrow> VMCLSurfaceCopyOp \<Rightarrow> 's client option \<Rightarrow> 's svc_world \<Rightarrow>
    (VMAccelReturnStatus option \<times> VMCLSurfaceCopyOp \<times> 's svc_world) cres" where
  "vmcl_surfacecopy_2 b cl argp clnt =
     stub b svc_data_mutex (\<lambda>argp. vmcl_surfacecopy_2_svc cl argp False) VMCL_SURFACECOPY xdr_VMCLSurfaceCopyOp xdr_VMAccelReturnStatus zero_VMAccelReturnStatus argp clnt"

definition vmcl_imagefill_2 :: "build \<Rightarrow> 's VMCLOps \<Rightarrow> VMCLImageFillOp \<Rightarrow> 's client option \<Rightarrow> 's svc_world \<Rightarrow>
    (VMAccelReturnStatus option \<times> VMCLImageFillOp \<times> 's svc_world) cres" where
  "vmcl_imagefill_2 b cl argp clnt =
     stub b svc_data_mutex (\<lambda>argp. vmcl_imagefill_2_svc cl argp False) VMCL_IMAGEFILL xdr_VMCLImageFillOp xdr_VMAccelReturnStatus zero_VMAccelReturnStatus argp clnt"

definition vmcl_sampleralloc_2 :: "build \<Rightarrow> 's VMCLOps \<Rightarrow> VMCLSamplerAllocateDesc \<Rightarrow> 's client option \<Rightarrow> 's svc_world \<Rightarrow>
    (VMCLSamplerAllocateReturnStatus option \<times> VMCLSamplerAllocateDesc \<times> 's svc_world) cres" where
  "vmcl_sampleralloc_2 b cl argp clnt =
     stub b svc_state_mutex (\<lambda>argp. vmcl_sampleralloc_2_svc cl argp False) VMCL_SAMPLERALLOC xdr_VMCLSamplerAllocateDesc xdr_VMCLSamplerAllocateReturnStatus zero_VMCLSamplerAllocateReturnStatus argp clnt"

definition vmcl_samplerdestroy_2 :: "build \<Rightarrow> 's VMCLOps \<Rightarrow> VMCLSamplerId \<Rightarrow> 's client option \<Rightarrow> 's svc_world \<Rightarrow>
    (VMAccelReturnStatus option \<times> VMCLSamplerId \<times> 's svc_world) cres" where
  "vmcl_samplerdestroy_2 b cl argp clnt =
     stub b svc_state_mutex (\<lambda>argp. vmcl_samplerdestroy_2_svc cl argp False) VMCL_SAMPLERDESTROY xdr_VMCLSamplerId xdr_VMAccelReturnStatus zero_VMAccelReturnStatus argp clnt"

definition vmcl_kernelalloc_2 :: "build \<Rightarrow> 's VMCLOps \<Rightarrow> VMCLKernelAllocateDesc \<Rightarrow> 's client option \<Rightarrow> 's svc_world \<Rightarrow>
    (VMCLKernelAllocateReturnStatus option \<times> VMCLKernelAllocateDesc \<times> 's svc_world) cres" where
  "vmcl_kernelalloc_2 b cl argp clnt =
     stub b svc_state_mutex (\<lambda>argp. vmcl_kernelalloc_2_svc cl argp False) VMCL_KERNELALLOC xdr_VMCLKernelAllocateDesc xdr_VMCLKernelAllocateReturnStatus zero_VMCLKernelAllocateReturnStatus argp clnt"

definition vmcl_kerneldestroy_2 :: "build \<Rightarrow> 's VMCLOps \<Rightarrow> VMCLKernelId \<Rightarrow> 's client option \<Rightarrow> 's svc_world \<Rightarrow>
    (VMAccelReturnStatus option \<times> VMCLKernelId \<times> 's svc_world) cres" where
  "vmcl_kerneldestroy_2 b cl argp clnt =
     stub b svc_state_mutex (\<lambda>argp. vmcl_kerneldestroy_2_svc cl argp False) VMCL_KERNELDESTROY xdr_VMCLKernelId xdr_VMAccelReturnStatus zero_VMAccelReturnStatus argp clnt"

definition vmcl_dispatch_2 :: "build \<Rightarrow> 's VMCLOps \<Rightarrow> VMCLDispatchOp \<Rightarrow> 's client option \<Rightarrow> 's svc_world \<Rightarrow>
    (VMAccelReturnStatus option \<times> VMCLDispatchOp \<times> 's svc_world) cres" where
  "vmcl_dispatch_2 b cl argp clnt =
     stub b svc_compute_mutex (\<lambda>argp. vmcl_dispatch_2_svc cl argp False) VMCL_DISPATCH xdr_VMCLDispatchOp xdr_VMAccelReturnStatus zero_VMAccelReturnStatus argp clnt"

subsection \<open>The methods\<close>

interpretation vmcl_contextalloc_2: rpc_method xdr_VMCLContextAllocateDesc "\<lambda>_. True" enc_VMCLContextAllocateDesc "\<lambda>_. True"
  xdr_VMCLContextAllocateReturnStatus ok_VMCLContextAllocateReturnStatus enc_VMCLContextAllocateReturnStatus clean_VMCLContextAllocateReturnStatus zero_VMCLContextAllocateDesc zero_VMCLContextAllocateReturnStatus
  unfolding rpc_method_def rpc_method_axioms_def
  by (intro conjI xdr_codecs) (simp_all add: clean_VMCLContextAllocateReturnStatus_def zero_VMCLContextAllocateReturnStatus_def)

interpretation vmcl_contextdestroy_2: rpc_method xdr_VMCLContextId "\<lambda>_. True" be32 "\<lambda>_. True"
  xdr_VMAccelReturnStatus ok_VMAccelReturnStatus enc_VMAccelReturnStatus clean_VMAccelReturnStatus 0 zero_VMAccelReturnStatus
  unfolding rpc_method_def rpc_method_axioms_def
  by (intro conjI xdr_codecs) (simp_all add: clean_VMAccelReturnStatus_def zero_VMAccelReturnStatus_def)

interpretation vmcl_surfacealloc_2: rpc_method xdr_VMCLSurfaceAllocateDesc "\<lambda>_. True" enc_VMCLSurfaceAllocateDesc "\<lambda>_. True"
  xdr_VMAccelSurfaceAllocateReturnStatus ok_VMAccelSurfaceAllocateReturnStatus enc_VMAccelSurfaceAllocateReturnStatus clean_VMAccelSurfaceAllocateReturnStatus zero_VMCLSurfaceAllocateDesc zero_VMAccelSurfaceAllocateReturnStatus
  unfolding rpc_method_def rpc_method_axioms_def
  by (intro conjI xdr_codecs) (simp_all add: clean_VMAccelSurfaceAllocateReturnStatus_def zero_VMAccelSurfaceAllocateReturnStatus_def)

interpretation vmcl_surfacedestroy_2: rpc_method xdr_VMCLSurfaceId "\<lambda>_. True" enc_VMCLSurfaceId "\<lambda>_. True"
  xdr_VMAccelReturnStatus ok_VMAccelReturnStatus enc_VMAccelReturnStatus clean_VMAccelReturnStatus zero_VMCLSurfaceId zero_VMAccelReturnStatus
  unfolding rpc_method_def rpc_method_axioms_def
  by (intro conjI xdr_codecs) (simp_all add: clean_VMAccelReturnStatus_def zero_VMAccelReturnStatus_def)

interpretation vmcl_queuealloc_2: rpc_method xdr_VMCLQueueAllocateDesc "\<lambda>_. True" enc_VMCLQueueAllocateDesc "\<lambda>_. True"
  xdr_VMAccelQueueReturnStatus ok_VMAccelQueueReturnStatus enc_VMAccelQueueReturnStatus clean_VMAccelQueueReturnStatus zero_VMCLQueueAllocateDesc zero_VMAccelQueueReturnStatus
  unfolding rpc_method_def rpc_method_axioms_def
  by (intro conjI xdr_codecs) (simp_all add: clean_VMAccelQueueReturnStatus_def zero_VMAccelQueueReturnStatus_def)

interpretation vmcl_queuedestroy_2: rpc_method xdr_VMCLQueueId "\<lambda>_. True" enc_VMCLQueueId "\<lambda>_. True"
  xdr_VMAccelReturnStatus ok_VMAccelReturnStatus enc_VMAccelReturnStatus clean_VMAccelReturnStatus zero_VMCLQueueId zero_VMAccelReturnStatus
  unfolding rpc_method_def rpc_method_axioms_def
  by (intro conjI xdr_codecs) (simp_all add: clean_VMAccelReturnStatus_def zero_VMAccelReturnStatus_def)

interpretation vmcl_imageupload_2: rpc_method xdr_VMCLImageUploadOp ok_VMCLImageUploadOp enc_VMCLImageUploadOp clean_VMCLImageUploadOp
  xdr_VMAccelReturnStatus ok_VMAccelReturnStatus enc_VMAccelReturnStatus clean_VMAccelReturnStatus zero_VMCLImageUploadOp zero_VMAccelReturnStatus
  unfolding rpc_method_def rpc_method_axioms_def
  by (intro conjI xdr_codecs) (simp_all add: clean_VMAccelImageTransferOp_def clean_VMAccelReturnStatus_def clean_VMCLImageUploadOp_def clean_vec_def zero_VMAccelImageTransferOp_def zero_VMAccelReturnStatus_def zero_VMCLImageUploadOp_def)

interpretation vmcl_imagedownload_2: rpc_method xdr_VMCLImageDownloadOp ok_VMCLImageDownloadOp enc_VMCLImageDownloadOp clean_VMCLImageDownloadOp
  xdr_VMAccelDownloadReturnStatus ok_VMAccelDownloadReturnStatus enc_VMAccelDownloadReturnStatus clean_VMAccelDownloadReturnStatus zero_VMCLImageDownloadOp zero_VMAccelDownloadReturnStatus
  unfolding rpc_method_def rpc_method_axioms_def
  by (intro conjI xdr_codecs) (simp_all add: clean_VMAccelDownloadReturnStatus_def clean_VMAccelImageTransferOp_def clean_VMCLImageDownloadOp_def clean_vec_def zero_VMAccelDownloadReturnStatus_def zero_VMAccelImageTransferOp_def zero_VMCLImageDownloadOp_def)

interpretation vmcl_surfacemap_2: rpc_method xdr_VMCLSurfaceMapOp "\<lambda>_. True" enc_VMCLSurfaceMapOp "\<lambda>_. True"
  xdr_VMAccelSurfaceMapReturnStatus ok_VMAccelSurfaceMapReturnStatus enc_VMAccelSurfaceMapReturnStatus clean_VMAccelSurfaceMapReturnStatus zero_VMCLSurfaceMapOp zero_VMAccelSurfaceMapReturnStatus
  unfolding rpc_method_def rpc_method_axioms_def
  by (intro conjI xdr_codecs) (simp_all add: clean_VMAccelSurfaceMapReturnStatus_def zero_VMAccelSurfaceMapReturnStatus_def)

interpretation vmcl_surfaceunmap_2: rpc_method xdr_VMCLSurfaceUnmapOp ok_VMCLSurfaceUnmapOp enc_VMCLSurfaceUnmapOp clean_VMCLSurfaceUnmapOp
  xdr_VMAccelReturnStatus ok_VMAccelReturnStatus enc_VMAccelReturnStatus clean_VMAccelReturnStatus zero_VMCLSurfaceUnmapOp zero_VMAccelReturnStatus
  unfolding rpc_method_def rpc_method_axioms_def
  by (intro conjI xdr_codecs) (simp_all add: clean_VMAccelReturnStatus_def clean_VMAccelSurfaceUnmapOp_def clean_VMCLSurfaceUnmapOp_def clean_vec_def zero_VMAccelReturnStatus_def zero_VMAccelSurfaceUnmapOp_def zero_VMCLSurfaceUnmapOp_def)

interpretation vmcl_surfacecopy_2: rpc_method xdr_VMCLSurfaceCopyOp "\<lambda>_. True" enc_VMCLSurfaceCopyOp "\<lambda>_. True"
  xdr_VMAccelReturnStatus ok_VMAccelReturnStatus enc_VMAccelReturnStatus clean_VMAccelReturnStatus zero_VMCLSurfaceCopyOp zero_VMAccelReturnStatus
  unfolding rpc_method_def rpc_method_axioms_def
  by (intro conjI xdr_codecs) (simp_all add: clean_VMAccelReturnStatus_def zero_VMAccelReturnStatus_def)

interpretation vmcl_imagefill_2: rpc_method xdr_VMCLImageFillOp "\<lambda>_. True" enc_VMCLImageFillOp "\<lambda>_. True"
  xdr_VMAccelReturnStatus ok_VMAccelReturnStatus enc_VMAccelReturnStatus clean_VMAccelReturnStatus zero_VMCLImageFillOp zero_VMAccelReturnStatus
  unfolding rpc_method_def rpc_method_axioms_def
  by (intro conjI xdr_codecs) (simp_all add: clean_VMAccelReturnStatus_def zero_VMAccelReturnStatus_def)

interpretation vmcl_sampleralloc_2: rpc_method xdr_VMCLSamplerAllocateDesc "\<lambda>_. True" enc_VMCLSamplerAllocateDesc "\<lambda>_. True"
  xdr_VMCLSamplerAllocateReturnStatus ok_VMCLSamplerAllocateReturnStatus enc_VMCLSamplerAllocateReturnStatus clean_VMCLSamplerAllocateReturnStatus zero_VMCLSamplerAllocateDesc zero_VMCLSamplerAllocateReturnStatus
  unfolding rpc_method_def rpc_method_axioms_def
  by (intro conjI xdr_codecs) (simp_all add: clean_VMCLSamplerAllocateReturnStatus_def zero_VMCLSamplerAllocateReturnStatus_def)

interpretation vmcl_samplerdestroy_2: rpc_method xdr_VMCLSamplerId "\<lambda>_. True" enc_VMCLSamplerId "\<lambda>_. True"
  xdr_VMAccelReturnStatus ok_VMAccelReturnStatus enc_VMAccelReturnStatus clean_VMAccelReturnStatus zero_VMCLSamplerId zero_VMAccelReturnStatus
  unfolding rpc_method_def rpc_method_axioms_def
  by (intro conjI xdr_codecs) (simp_all add: clean_VMAccelReturnStatus_def zero_VMAccelReturnStatus_def)

interpretation vmcl_kernelalloc_2: rpc_method xdr_VMCLKernelAllocateDesc ok_VMCLKernelAllocateDesc enc_VMCLKernelAllocateDesc clean_VMCLKernelAllocateDesc
  xdr_VMCLKernelAllocateReturnStatus ok_VMCLKernelAllocateReturnStatus enc_VMCLKernelAllocateReturnStatus clean_VMCLKernelAllocateReturnStatus zero_VMCLKernelAllocateDesc zero_VMCLKernelAllocateReturnStatus
  unfolding rpc_method_def rpc_method_axioms_def
  by (intro conjI xdr_codecs) (simp_all add: clean_VMCLKernelAllocateDesc_def clean_VMCLKernelAllocateReturnStatus_def clean_vec_def zero_VMCLKernelAllocateDesc_def zero_VMCLKernelAllocateReturnStatus_def)

interpretation vmcl_kerneldestroy_2: rpc_method xdr_VMCLKernelId "\<lambda>_. True" enc_VMCLKernelId "\<lambda>_. True"
  xdr_VMAccelReturnStatus ok_VMAccelReturnStatus enc_VMAccelReturnStatus clean_VMAccelReturnStatus zero_VMCLKernelId zero_VMAccelReturnStatus
  unfolding rpc_method_def rpc_method_axioms_def
  by (intro conjI xdr_codecs) (simp_all add: clean_VMAccelReturnStatus_def zero_VMAccelReturnStatus_def)

interpretation vmcl_dispatch_2: rpc_method xdr_VMCLDispatchOp ok_VMCLDispatchOp enc_VMCLDispatchOp clean_VMCLDispatchOp
  xdr_VMAccelReturnStatus ok_VMAccelReturnStatus enc_VMAccelReturnStatus clean_VMAccelReturnStatus zero_VMCLDispatchOp zero_VMAccelReturnStatus
  unfolding rpc_method_def rpc_method_axioms_def
  by (intro conjI xdr_codecs) (simp_all add: clean_VMAccelReturnStatus_def clean_VMCLDispatchOp_def clean_vec_def zero_VMAccelReturnStatus_def zero_VMCLDispatchOp_def)

subsection \<open>What the backend promises\<close>

definition ops_return :: "'s VMCLOps \<Rightarrow> bool" where
  "ops_return cl \<longleftrightarrow>
     returns (\<lambda>_. True) (\<lambda>_. True) (contextalloc_1 cl) \<and>
     returns (\<lambda>_. True) ok_VMAccelStatus (contextdestroy_1 cl) \<and>
     returns (\<lambda>_. True) (\<lambda>_. True) (surfacealloc_1 cl) \<and>
     returns (\<lambda>_. True) ok_VMAccelStatus (surfacedestroy_1 cl) \<and>
     returns (\<lambda>_. True) (\<lambda>_. True) (queuealloc_1 cl) \<and>
     returns (\<lambda>_. True) ok_VMAccelStatus (queuedestroy_1 cl) \<and>
     returns (\<lambda>_. True) ok_VMAccelStatus (queueflush_1 cl) \<and>
     returns ok_VMCLImageUploadOp ok_VMAccelStatus (imageupload_1 cl) \<and>
     returns ok_VMCLImageDownloadOp ok_VMAccelDownloadStatus (imagedownload_1 cl) \<and>
     returns (\<lambda>_. True) ok_VMAccelSurfaceMapStatus (surfacemap_1 cl) \<and>
     returns ok_VMCLSurfaceUnmapOp ok_VMAccelStatus (surfaceunmap_1 cl) \<and>
     returns (\<lambda>_. True) ok_VMAccelStatus (surfacecopy_1 cl) \<and>
     returns (\<lambda>_. True) ok_VMAccelStatus (imagefill_1 cl) \<and>
     returns (\<lambda>_. True) (\<lambda>_. True) (sampleralloc_1 cl) \<and>
     returns (\<lambda>_. True) ok_VMAccelStatus (samplerdestroy_1 cl) \<and>
     returns ok_VMCLKernelAllocateDesc (\<lambda>_. True) (kernelalloc_1 cl) \<and>
     returns (\<lambda>_. True) ok_VMAccelStatus (kerneldestroy_1 cl) \<and>
     returns ok_VMCLDispatchOp ok_VMAccelStatus (dispatch_1 cl)"

lemma ops_returnD:
  assumes "ops_return cl"
  shows "returns (\<lambda>_. True) (\<lambda>_. True) (contextalloc_1 cl)"
    and "returns (\<lambda>_. True) ok_VMAccelStatus (contextdestroy_1 cl)"
    and "returns (\<lambda>_. True) (\<lambda>_. True) (surfacealloc_1 cl)"
    and "returns (\<lambda>_. True) ok_VMAccelStatus (surfacedestroy_1 cl)"
    and "returns (\<lambda>_. True) (\<lambda>_. True) (queuealloc_1 cl)"
    and "returns (\<lambda>_. True) ok_VMAccelStatus (queuedestroy_1 cl)"
    and "returns (\<lambda>_. True) ok_VMAccelStatus (queueflush_1 cl)"
    and "returns ok_VMCLImageUploadOp ok_VMAccelStatus (imageupload_1 cl)"
    and "returns ok_VMCLImageDownloadOp ok_VMAccelDownloadStatus (imagedownload_1 cl)"
    and "returns (\<lambda>_. True) ok_VMAccelSurfaceMapStatus (surfacemap_1 cl)"
    and "returns ok_VMCLSurfaceUnmapOp ok_VMAccelStatus (surfaceunmap_1 cl)"
    and "returns (\<lambda>_. True) ok_VMAccelStatus (surfacecopy_1 cl)"
    and "returns (\<lambda>_. True) ok_VMAccelStatus (imagefill_1 cl)"
    and "returns (\<lambda>_. True) (\<lambda>_. True) (sampleralloc_1 cl)"
    and "returns (\<lambda>_. True) ok_VMAccelStatus (samplerdestroy_1 cl)"
    and "returns ok_VMCLKernelAllocateDesc (\<lambda>_. True) (kernelalloc_1 cl)"
    and "returns (\<lambda>_. True) ok_VMAccelStatus (kerneldestroy_1 cl)"
    and "returns ok_VMCLDispatchOp ok_VMAccelStatus (dispatch_1 cl)"
  using assms by (simp_all add: ops_return_def)

lemmas procedure_defs =
  vmcl_contextalloc_2_svc_def vmcl_contextdestroy_2_svc_def vmcl_surfacealloc_2_svc_def
  vmcl_surfacedestroy_2_svc_def vmcl_queuealloc_2_svc_def vmcl_queuedestroy_2_svc_def
  vmcl_queueflush_2_svc_def vmcl_imageupload_2_svc_def vmcl_imagedownload_2_svc_def
  vmcl_surfacemap_2_svc_def vmcl_surfaceunmap_2_svc_def vmcl_surfacecopy_2_svc_def
  vmcl_imagefill_2_svc_def vmcl_sampleralloc_2_svc_def vmcl_samplerdestroy_2_svc_def
  vmcl_kernelalloc_2_svc_def vmcl_kerneldestroy_2_svc_def vmcl_dispatch_2_svc_def

subsection \<open>Calls\<close>

abbreviation (input) both_modes :: build where
  "both_modes \<equiv> \<lparr>ENABLE_VMACCEL_LOCAL = True, ENABLE_VMACCEL_RPC = True\<rparr>"

lemmas vmcl_calls =
  vmcl_contextalloc_2.calls_procedureI vmcl_contextdestroy_2.calls_procedureI
  vmcl_surfacealloc_2.calls_procedureI vmcl_surfacedestroy_2.calls_procedureI
  vmcl_queuealloc_2.calls_procedureI vmcl_queuedestroy_2.calls_procedureI
  vmcl_imageupload_2.calls_procedureI vmcl_imagedownload_2.calls_procedureI
  vmcl_surfacemap_2.calls_procedureI vmcl_surfaceunmap_2.calls_procedureI
  vmcl_surfacecopy_2.calls_procedureI vmcl_imagefill_2.calls_procedureI
  vmcl_sampleralloc_2.calls_procedureI vmcl_samplerdestroy_2.calls_procedureI
  vmcl_kernelalloc_2.calls_procedureI vmcl_kerneldestroy_2.calls_procedureI
  vmcl_dispatch_2.calls_procedureI

text \<open>C5: Every stub of the compute service calls its procedure: in local mode the one of the
  process, and over a connection to the dispatch routine the one of the server, whose answer it
  returns unchanged.  A request longer than the transport takes returns \<^verbatim>\<open>NULL\<close> and changes
  nothing.\<close>

theorem vmcl_stubs_call:
  "calls_procedure (\<lambda>_. True) enc_VMCLContextAllocateDesc ok_VMCLContextAllocateReturnStatus enc_VMCLContextAllocateReturnStatus (vmcl_contextalloc_2_svc cl) (vmcl_contextalloc_2 both_modes cl) (vmcl_1 cl) \<and>
   calls_procedure (\<lambda>_. True) be32 ok_VMAccelReturnStatus enc_VMAccelReturnStatus (vmcl_contextdestroy_2_svc cl) (vmcl_contextdestroy_2 both_modes cl) (vmcl_1 cl) \<and>
   calls_procedure (\<lambda>_. True) enc_VMCLSurfaceAllocateDesc ok_VMAccelSurfaceAllocateReturnStatus enc_VMAccelSurfaceAllocateReturnStatus (vmcl_surfacealloc_2_svc cl) (vmcl_surfacealloc_2 both_modes cl) (vmcl_1 cl) \<and>
   calls_procedure (\<lambda>_. True) enc_VMCLSurfaceId ok_VMAccelReturnStatus enc_VMAccelReturnStatus (vmcl_surfacedestroy_2_svc cl) (vmcl_surfacedestroy_2 both_modes cl) (vmcl_1 cl) \<and>
   calls_procedure (\<lambda>_. True) enc_VMCLQueueAllocateDesc ok_VMAccelQueueReturnStatus enc_VMAccelQueueReturnStatus (vmcl_queuealloc_2_svc cl) (vmcl_queuealloc_2 both_modes cl) (vmcl_1 cl) \<and>
   calls_procedure (\<lambda>_. True) enc_VMCLQueueId ok_VMAccelReturnStatus enc_VMAccelReturnStatus (vmcl_queuedestroy_2_svc cl) (vmcl_queuedestroy_2 both_modes cl) (vmcl_1 cl) \<and>
   calls_procedure (\<lambda>_. True) enc_VMCLQueueId ok_VMAccelReturnStatus enc_VMAccelReturnStatus (vmcl_queueflush_2_svc cl) (vmcl_queueflush_2 both_modes cl) (vmcl_1 cl) \<and>
   calls_procedure ok_VMCLImageUploadOp enc_VMCLImageUploadOp ok_VMAccelReturnStatus enc_VMAccelReturnStatus (vmcl_imageupload_2_svc cl) (vmcl_imageupload_2 both_modes cl) (vmcl_1 cl) \<and>
   calls_procedure ok_VMCLImageDownloadOp enc_VMCLImageDownloadOp ok_VMAccelDownloadReturnStatus enc_VMAccelDownloadReturnStatus (vmcl_imagedownload_2_svc cl) (vmcl_imagedownload_2 both_modes cl) (vmcl_1 cl) \<and>
   calls_procedure (\<lambda>_. True) enc_VMCLSurfaceMapOp ok_VMAccelSurfaceMapReturnStatus enc_VMAccelSurfaceMapReturnStatus (vmcl_surfacemap_2_svc cl) (vmcl_surfacemap_2 both_modes cl) (vmcl_1 cl) \<and>
   calls_procedure ok_VMCLSurfaceUnmapOp enc_VMCLSurfaceUnmapOp ok_VMAccelReturnStatus enc_VMAccelReturnStatus (vmcl_surfaceunmap_2_svc cl) (vmcl_surfaceunmap_2 both_modes cl) (vmcl_1 cl) \<and>
   calls_procedure (\<lambda>_. True) enc_VMCLSurfaceCopyOp ok_VMAccelReturnStatus enc_VMAccelReturnStatus (vmcl_surfacecopy_2_svc cl) (vmcl_surfacecopy_2 both_modes cl) (vmcl_1 cl) \<and>
   calls_procedure (\<lambda>_. True) enc_VMCLImageFillOp ok_VMAccelReturnStatus enc_VMAccelReturnStatus (vmcl_imagefill_2_svc cl) (vmcl_imagefill_2 both_modes cl) (vmcl_1 cl) \<and>
   calls_procedure (\<lambda>_. True) enc_VMCLSamplerAllocateDesc ok_VMCLSamplerAllocateReturnStatus enc_VMCLSamplerAllocateReturnStatus (vmcl_sampleralloc_2_svc cl) (vmcl_sampleralloc_2 both_modes cl) (vmcl_1 cl) \<and>
   calls_procedure (\<lambda>_. True) enc_VMCLSamplerId ok_VMAccelReturnStatus enc_VMAccelReturnStatus (vmcl_samplerdestroy_2_svc cl) (vmcl_samplerdestroy_2 both_modes cl) (vmcl_1 cl) \<and>
   calls_procedure ok_VMCLKernelAllocateDesc enc_VMCLKernelAllocateDesc ok_VMCLKernelAllocateReturnStatus enc_VMCLKernelAllocateReturnStatus (vmcl_kernelalloc_2_svc cl) (vmcl_kernelalloc_2 both_modes cl) (vmcl_1 cl) \<and>
   calls_procedure (\<lambda>_. True) enc_VMCLKernelId ok_VMAccelReturnStatus enc_VMAccelReturnStatus (vmcl_kerneldestroy_2_svc cl) (vmcl_kerneldestroy_2 both_modes cl) (vmcl_1 cl) \<and>
   calls_procedure ok_VMCLDispatchOp enc_VMCLDispatchOp ok_VMAccelReturnStatus enc_VMAccelReturnStatus (vmcl_dispatch_2_svc cl) (vmcl_dispatch_2 both_modes cl) (vmcl_1 cl)"
  unfolding vmcl_contextalloc_2_def vmcl_contextdestroy_2_def vmcl_surfacealloc_2_def vmcl_surfacedestroy_2_def vmcl_queuealloc_2_def vmcl_queuedestroy_2_def vmcl_queueflush_2_def vmcl_imageupload_2_def vmcl_imagedownload_2_def vmcl_surfacemap_2_def vmcl_surfaceunmap_2_def vmcl_surfacecopy_2_def vmcl_imagefill_2_def vmcl_sampleralloc_2_def vmcl_samplerdestroy_2_def vmcl_kernelalloc_2_def vmcl_kerneldestroy_2_def vmcl_dispatch_2_def
  by (intro conjI; rule vmcl_calls; simp add: vmcl_1_def)


definition replies :: "(rpc_reply option \<times> 's) cres \<Rightarrow> 's \<Rightarrow> bool" where
  "replies x s \<longleftrightarrow> (\<exists>reply s'. x = Inr (Some reply, s') \<and> reply \<noteq> ProcUnavail \<and> (reply = GarbageArgs \<longrightarrow> s' = s))"

lemma u32_le_18:
  fixes p :: u32
  assumes "p \<le> 18"
  shows "p \<in> {0, 1, 2, 3, 4, 5, 6, 7, 8, 9, 10, 11, 12, 13, 14, 15, 16, 17, 18}"
proof -
  have "unat p \<in> set [0..<19]" using assms by (simp add: word_le_nat_alt)
  then have "of_nat (unat p) \<in> (of_nat :: nat \<Rightarrow> u32) ` set [0..<19]" by (rule imageI)
  then show ?thesis by (simp add: upt_rec)
qed

lemma vmcl_1_serves:
  assumes O: "ops_return cl" and p: "procnum \<le> 18"
  shows "replies (vmcl_1 cl procnum tp s) s"
proof -
  note O = ops_returnD [OF O]
  have "replies (vmcl_1 cl 0 tp s) s" by (simp add: replies_def vmcl_1_def)
  moreover
  have "replies (vmcl_1 cl VMCL_CONTEXTALLOC tp s) s"
    using vmcl_contextalloc_2.serve_returns' [OF O(1), where g = "\<lambda>ret. \<lparr>CLContextAllocateReturnStatus_errno = 0, CLContextAllocateReturnStatus_ret = ret\<rparr>"]
    by (simp add: replies_def vmcl_1_def vmcl_contextalloc_2_svc_def [abs_def] ok_VMCLContextAllocateReturnStatus_def)
  moreover
  have "replies (vmcl_1 cl VMCL_CONTEXTDESTROY tp s) s"
    using vmcl_contextdestroy_2.serve_returns' [OF O(2), where g = "\<lambda>ret. \<lparr>ReturnStatus_errno = 0, ReturnStatus_ret = ret\<rparr>"]
    by (simp add: replies_def vmcl_1_def vmcl_contextdestroy_2_svc_def [abs_def] ok_VMAccelReturnStatus_def)
  moreover
  have "replies (vmcl_1 cl VMCL_SURFACEALLOC tp s) s"
    using vmcl_surfacealloc_2.serve_returns' [OF O(3), where g = "\<lambda>ret. \<lparr>SurfaceAllocateReturnStatus_errno = 0, SurfaceAllocateReturnStatus_ret = ret\<rparr>"]
    by (simp add: replies_def vmcl_1_def vmcl_surfacealloc_2_svc_def [abs_def] ok_VMAccelSurfaceAllocateReturnStatus_def)
  moreover
  have "replies (vmcl_1 cl VMCL_SURFACEDESTROY tp s) s"
    using vmcl_surfacedestroy_2.serve_returns' [OF O(4), where g = "\<lambda>ret. \<lparr>ReturnStatus_errno = 0, ReturnStatus_ret = ret\<rparr>"]
    by (simp add: replies_def vmcl_1_def vmcl_surfacedestroy_2_svc_def [abs_def] ok_VMAccelReturnStatus_def)
  moreover
  have "replies (vmcl_1 cl VMCL_QUEUEALLOC tp s) s"
    using vmcl_queuealloc_2.serve_returns' [OF O(5), where g = "\<lambda>ret. \<lparr>QueueReturnStatus_errno = 0, QueueReturnStatus_ret = ret\<rparr>"]
    by (simp add: replies_def vmcl_1_def vmcl_queuealloc_2_svc_def [abs_def] ok_VMAccelQueueReturnStatus_def)
  moreover
  have "replies (vmcl_1 cl VMCL_QUEUEDESTROY tp s) s"
    using vmcl_queuedestroy_2.serve_returns' [OF O(6), where g = "\<lambda>ret. \<lparr>ReturnStatus_errno = 0, ReturnStatus_ret = ret\<rparr>"]
    by (simp add: replies_def vmcl_1_def vmcl_queuedestroy_2_svc_def [abs_def] ok_VMAccelReturnStatus_def)
  moreover
  have "replies (vmcl_1 cl VMCL_QUEUEFLUSH tp s) s"
    using vmcl_queuedestroy_2.serve_returns' [OF O(7), where g = "\<lambda>ret. \<lparr>ReturnStatus_errno = 0, ReturnStatus_ret = ret\<rparr>"]
    by (simp add: replies_def vmcl_1_def vmcl_queueflush_2_svc_def [abs_def] ok_VMAccelReturnStatus_def)
  moreover
  have "replies (vmcl_1 cl VMCL_IMAGEUPLOAD tp s) s"
    using vmcl_imageupload_2.serve_returns' [OF O(8), where g = "\<lambda>ret. \<lparr>ReturnStatus_errno = 0, ReturnStatus_ret = ret\<rparr>"]
    by (simp add: replies_def vmcl_1_def vmcl_imageupload_2_svc_def [abs_def] ok_VMAccelReturnStatus_def)
  moreover
  have "replies (vmcl_1 cl VMCL_IMAGEDOWNLOAD tp s) s"
    using vmcl_imagedownload_2.serve_returns' [OF O(9), where g = "\<lambda>ret. \<lparr>DownloadReturnStatus_errno = 0, DownloadReturnStatus_ret = ret\<rparr>"]
    by (simp add: replies_def vmcl_1_def vmcl_imagedownload_2_svc_def [abs_def] ok_VMAccelDownloadReturnStatus_def)
  moreover
  have "replies (vmcl_1 cl VMCL_SURFACEMAP tp s) s"
    using vmcl_surfacemap_2.serve_returns [OF O(10), where g = "\<lambda>ret. \<lparr>SurfaceMapReturnStatus_errno = 0, SurfaceMapReturnStatus_ret = ret\<rparr>" and c = "\<lparr>SurfaceMapReturnStatus_errno = 0, SurfaceMapReturnStatus_ret = Some (zero_VMAccelSurfaceMapStatus\<lparr>SurfaceMapStatus_status := VMACCEL_FAIL\<rparr>)\<rparr>" and p = "\<lambda>argp. SurfaceMapOp_mapFlags (CLSurfaceMapOp_op argp) AND VMACCEL_MAP_NO_FREE_PTR_FLAG \<noteq> 0"]
    by (simp add: replies_def vmcl_1_def vmcl_surfacemap_2_svc_def [abs_def] ok_VMAccelSurfaceMapReturnStatus_def ok_VMAccelSurfaceMapStatus_def zero_VMAccelSurfaceMapStatus_def ok_vec_def)
  moreover
  have "replies (vmcl_1 cl VMCL_SURFACEUNMAP tp s) s"
    using vmcl_surfaceunmap_2.serve_returns [OF O(11), where g = "\<lambda>ret. \<lparr>ReturnStatus_errno = 0, ReturnStatus_ret = ret\<rparr>" and c = "\<lparr>ReturnStatus_errno = 0, ReturnStatus_ret = Some (zero_VMAccelStatus\<lparr>Status_status := VMACCEL_FAIL\<rparr>)\<rparr>" and p = "\<lambda>argp. SurfaceUnmapOp_mapFlags (CLSurfaceUnmapOp_op argp) AND VMACCEL_MAP_NO_FREE_PTR_FLAG \<noteq> 0"]
    by (simp add: replies_def vmcl_1_def vmcl_surfaceunmap_2_svc_def [abs_def] ok_VMAccelReturnStatus_def ok_VMAccelStatus_def zero_VMAccelStatus_def ok_vec_def)
  moreover
  have "replies (vmcl_1 cl VMCL_SURFACECOPY tp s) s"
    using vmcl_surfacecopy_2.serve_returns' [OF O(12), where g = "\<lambda>ret. \<lparr>ReturnStatus_errno = 0, ReturnStatus_ret = ret\<rparr>"]
    by (simp add: replies_def vmcl_1_def vmcl_surfacecopy_2_svc_def [abs_def] ok_VMAccelReturnStatus_def)
  moreover
  have "replies (vmcl_1 cl VMCL_IMAGEFILL tp s) s"
    using vmcl_imagefill_2.serve_returns' [OF O(13), where g = "\<lambda>ret. \<lparr>ReturnStatus_errno = 0, ReturnStatus_ret = ret\<rparr>"]
    by (simp add: replies_def vmcl_1_def vmcl_imagefill_2_svc_def [abs_def] ok_VMAccelReturnStatus_def)
  moreover
  have "replies (vmcl_1 cl VMCL_SAMPLERALLOC tp s) s"
    using vmcl_sampleralloc_2.serve_returns' [OF O(14), where g = "\<lambda>ret. \<lparr>CLSamplerAllocateReturnStatus_errno = 0, CLSamplerAllocateReturnStatus_ret = ret\<rparr>"]
    by (simp add: replies_def vmcl_1_def vmcl_sampleralloc_2_svc_def [abs_def] ok_VMCLSamplerAllocateReturnStatus_def)
  moreover
  have "replies (vmcl_1 cl VMCL_SAMPLERDESTROY tp s) s"
    using vmcl_samplerdestroy_2.serve_returns' [OF O(15), where g = "\<lambda>ret. \<lparr>ReturnStatus_errno = 0, ReturnStatus_ret = ret\<rparr>"]
    by (simp add: replies_def vmcl_1_def vmcl_samplerdestroy_2_svc_def [abs_def] ok_VMAccelReturnStatus_def)
  moreover
  have "replies (vmcl_1 cl VMCL_KERNELALLOC tp s) s"
    using vmcl_kernelalloc_2.serve_returns' [OF O(16), where g = "\<lambda>ret. \<lparr>CLKernelAllocateReturnStatus_errno = 0, CLKernelAllocateReturnStatus_ret = ret\<rparr>"]
    by (simp add: replies_def vmcl_1_def vmcl_kernelalloc_2_svc_def [abs_def] ok_VMCLKernelAllocateReturnStatus_def)
  moreover
  have "replies (vmcl_1 cl VMCL_KERNELDESTROY tp s) s"
    using vmcl_kerneldestroy_2.serve_returns' [OF O(17), where g = "\<lambda>ret. \<lparr>ReturnStatus_errno = 0, ReturnStatus_ret = ret\<rparr>"]
    by (simp add: replies_def vmcl_1_def vmcl_kerneldestroy_2_svc_def [abs_def] ok_VMAccelReturnStatus_def)
  moreover
  have "replies (vmcl_1 cl VMCL_DISPATCH tp s) s"
    using vmcl_dispatch_2.serve_returns' [OF O(18), where g = "\<lambda>ret. \<lparr>ReturnStatus_errno = 0, ReturnStatus_ret = ret\<rparr>"]
    by (simp add: replies_def vmcl_1_def vmcl_dispatch_2_svc_def [abs_def] ok_VMAccelReturnStatus_def)
  ultimately show ?thesis using u32_le_18 [OF p] by (elim insertE) simp_all
qed


definition counting_ops :: "nat VMCLOps" where
  "counting_ops =
     \<lparr>poweron = \<lambda>arch index useDataStreaming s. Inr (Some zero_VMAccelAllocateStatus, Suc s),
      poweroff = \<lambda>s. Inr (Some zero_VMAccelStatus, Suc s),
      contextalloc_1 = \<lambda>argp s. Inr (Some zero_VMCLContextAllocateStatus, argp, Suc s),
      contextdestroy_1 = \<lambda>argp s. Inr (Some zero_VMAccelStatus, argp, Suc s),
      surfacealloc_1 = \<lambda>argp s. Inr (Some zero_VMAccelSurfaceAllocateStatus, argp, Suc s),
      surfacedestroy_1 = \<lambda>argp s. Inr (Some zero_VMAccelStatus, argp, Suc s),
      queuealloc_1 = \<lambda>argp s. Inr (Some zero_VMAccelQueueStatus, argp, Suc s),
      queuedestroy_1 = \<lambda>argp s. Inr (Some zero_VMAccelStatus, argp, Suc s),
      sampleralloc_1 = \<lambda>argp s. Inr (Some zero_VMCLSamplerAllocateStatus, argp, Suc s),
      samplerdestroy_1 = \<lambda>argp s. Inr (Some zero_VMAccelStatus, argp, Suc s),
      kernelalloc_1 = \<lambda>argp s. Inr (Some zero_VMCLKernelAllocateStatus, argp, Suc s),
      kerneldestroy_1 = \<lambda>argp s. Inr (Some zero_VMAccelStatus, argp, Suc s),
      queueflush_1 = \<lambda>argp s. Inr (Some zero_VMAccelStatus, argp, Suc s),
      imageupload_1 = \<lambda>argp s. Inr (Some zero_VMAccelStatus, argp, Suc s),
      imagedownload_1 = \<lambda>argp s. Inr (Some zero_VMAccelDownloadStatus, argp, Suc s),
      surfacemap_1 = \<lambda>argp s. Inr (Some zero_VMAccelSurfaceMapStatus, argp, Suc s),
      surfaceunmap_1 = \<lambda>argp s. Inr (Some zero_VMAccelStatus, argp, Suc s),
      surfacecopy_1 = \<lambda>argp s. Inr (Some zero_VMAccelStatus, argp, Suc s),
      imagefill_1 = \<lambda>argp s. Inr (Some zero_VMAccelStatus, argp, Suc s),
      dispatch_1 = \<lambda>argp s. Inr (Some zero_VMAccelStatus, argp, Suc s)\<rparr>"

lemma counting_ops_return: "ops_return counting_ops"
  by (simp add: ops_return_def counting_ops_def returns_def ok_VMAccelDownloadStatus_def ok_VMAccelStatus_def ok_VMAccelSurfaceMapStatus_def ok_vec_def zero_VMAccelDownloadStatus_def zero_VMAccelQueueStatus_def zero_VMAccelStatus_def zero_VMAccelSurfaceAllocateStatus_def zero_VMAccelSurfaceMapStatus_def zero_VMCLContextAllocateStatus_def zero_VMCLKernelAllocateStatus_def zero_VMCLSamplerAllocateStatus_def)


subsection \<open>The no-free flag\<close>

text \<open>C15: The flag that tells the backend not to free the caller's pointers never arrives over the
  network: the server behaves as one whose map and unmap operations abort when they see it.  In
  local mode they see it always.\<close>

theorem no_free_flag_guarded:
  "vmcl_1 cl procnum tp s = vmcl_1 (cl\<lparr>
       surfacemap_1 := (\<lambda>argp s. if SurfaceMapOp_mapFlags (CLSurfaceMapOp_op argp) AND VMACCEL_MAP_NO_FREE_PTR_FLAG \<noteq> 0
         then Inl AssertFailed else surfacemap_1 cl argp s),
       surfaceunmap_1 := (\<lambda>argp s. if SurfaceUnmapOp_mapFlags (CLSurfaceUnmapOp_op argp) AND VMACCEL_MAP_NO_FREE_PTR_FLAG \<noteq> 0
         then Inl AssertFailed else surfaceunmap_1 cl argp s)\<rparr>) procnum tp s \<and>
   vmcl_surfacemap_2 b cl mapArg None w = vmcl_surfacemap_2 b (cl\<lparr>
       surfacemap_1 := (\<lambda>argp s. if SurfaceMapOp_mapFlags (CLSurfaceMapOp_op argp) AND VMACCEL_MAP_NO_FREE_PTR_FLAG = 0
         then Inl AssertFailed else surfacemap_1 cl argp s)\<rparr>) mapArg None w \<and>
   vmcl_surfaceunmap_2 b cl unmapArg None w = vmcl_surfaceunmap_2 b (cl\<lparr>
       surfaceunmap_1 := (\<lambda>argp s. if SurfaceUnmapOp_mapFlags (CLSurfaceUnmapOp_op argp) AND VMACCEL_MAP_NO_FREE_PTR_FLAG = 0
         then Inl AssertFailed else surfaceunmap_1 cl argp s)\<rparr>) unmapArg None w"
proof (intro conjI)
  have flag: "((x OR 16) AND 16 :: u32) = 16" for x by (simp add: word_ao_absorbs)
  show "vmcl_surfacemap_2 b cl mapArg None w = vmcl_surfacemap_2 b (cl\<lparr>
       surfacemap_1 := (\<lambda>argp s. if SurfaceMapOp_mapFlags (CLSurfaceMapOp_op argp) AND VMACCEL_MAP_NO_FREE_PTR_FLAG = 0
         then Inl AssertFailed else surfacemap_1 cl argp s)\<rparr>) mapArg None w"
    by (simp add: vmcl_surfacemap_2_def stub_def vmcl_surfacemap_2_svc_def flag Let_def)
  show "vmcl_surfaceunmap_2 b cl unmapArg None w = vmcl_surfaceunmap_2 b (cl\<lparr>
       surfaceunmap_1 := (\<lambda>argp s. if SurfaceUnmapOp_mapFlags (CLSurfaceUnmapOp_op argp) AND VMACCEL_MAP_NO_FREE_PTR_FLAG = 0
         then Inl AssertFailed else surfaceunmap_1 cl argp s)\<rparr>) unmapArg None w"
    by (simp add: vmcl_surfaceunmap_2_def stub_def vmcl_surfaceunmap_2_svc_def flag Let_def)
qed (simp add: vmcl_1_def procedure_defs [abs_def] cong: if_cong)

end
