(* ===== verification/Vmwopencl.thy ===== *)
theory Vmwopencl
  imports Accel_Defs Opencl_Api Vmcl_Rpc Alloc_Types
begin

unbundle bit_operations_syntax

section \<open>The OpenCL backend: src/backends/vmwopencl/src/vmwopencl_ops.c\<close>

text \<open>
  The state of the backend is the file's static variables and the state of the OpenCL
  runtime.  An operation takes the OpenCL library \<open>cl\<close>, its argument and the state, and returns
  a pointer to its static result, the argument as it leaves it and the new state, or the way in
  which it aborts.  The static result of an operation that always clears it first is not part of
  the state; those of \<^verbatim>\<open>imageupload\<close> and \<^verbatim>\<open>imagedownload\<close> are, because their early returns do not
  clear them.

  The process has asserts on, streaming off (\<^verbatim>\<open>ENABLE_DATA_STREAMING\<close> is 0 unless the build
  sets it) and one thread that serves requests.  A mutex is therefore its type and the number of
  times that thread holds it: a recursive one can always be taken, a normal one (the zeroed state)
  waits for ever when it is held.  Unlocking one that is not held does nothing.

  \<open>calloc_ok k n\<close> says whether the \<open>k\<close>-th allocation of an operation finds \<open>n\<close> bytes.  Log lines,
  the build log and the dump to \<^verbatim>\<open>/tmp/server.spirv\<close> are left out.
\<close>

abbreviation (input) VMCL_MAX_SUBDEVICES :: nat where "VMCL_MAX_SUBDEVICES \<equiv> 32"
abbreviation (input) VMCL_MAX_CONTEXTS :: u32 where "VMCL_MAX_CONTEXTS \<equiv> 32"
abbreviation (input) VMCL_MAX_SURFACES :: u32 where "VMCL_MAX_SURFACES \<equiv> 32"
abbreviation (input) VMCL_MAX_QUEUES :: u32 where "VMCL_MAX_QUEUES \<equiv> 32"
abbreviation (input) VMCL_MAX_SAMPLERS :: u32 where "VMCL_MAX_SAMPLERS \<equiv> 32"
abbreviation (input) VMCL_MAX_KERNELS :: u32 where "VMCL_MAX_KERNELS \<equiv> 32"
abbreviation (input) VMCL_SPIRV_1_0_CAP :: u32 where "VMCL_SPIRV_1_0_CAP \<equiv> 4"
abbreviation (input) VMCL_SPIRV_1_1_CAP :: u32 where "VMCL_SPIRV_1_1_CAP \<equiv> 8"
abbreviation (input) VMCL_SPIRV_1_2_CAP :: u32 where "VMCL_SPIRV_1_2_CAP \<equiv> 16"
abbreviation (input) VMCL_OPENCL_C_1_0 :: u32 where "VMCL_OPENCL_C_1_0 \<equiv> 4"
abbreviation (input) VMCL_OPENCL_C_1_1 :: u32 where "VMCL_OPENCL_C_1_1 \<equiv> 7"
abbreviation (input) VMCL_OPENCL_C_1_2 :: u32 where "VMCL_OPENCL_C_1_2 \<equiv> 8"
abbreviation (input) VMCL_OPENCL_C_2_0 :: u32 where "VMCL_OPENCL_C_2_0 \<equiv> 9"
abbreviation (input) VMCL_SPIRV_1_0 :: u32 where "VMCL_SPIRV_1_0 \<equiv> 10"
abbreviation (input) VMCL_OPENCL_CPP_1_0 :: u32 where "VMCL_OPENCL_CPP_1_0 \<equiv> 11"
abbreviation (input) VMCL_SPIRV_1_1 :: u32 where "VMCL_SPIRV_1_1 \<equiv> 12"
abbreviation (input) VMCL_SPIRV_1_2 :: u32 where "VMCL_SPIRV_1_2 \<equiv> 13"

subsection \<open>State\<close>

record pthread_mutex =
  mutex_recursive :: bool
  mutex_count :: nat

record VMWOpenCLCaps =
  caps_deviceId :: u64
  caps_value :: "string \<Rightarrow> u64"
  caps_MAX_WORK_ITEM_SIZES :: "u64 list c_ptr"

record VMWOpenCLContext =
  context_context :: u64
  context_platformId :: u64
  context_deviceIds :: "u64 list"
  context_majorVersion :: int
  context_minorVersion :: int
  context_caps :: "nat option"

record VMWOpenCLMapping =
  mapping_ptr :: u64
  mapping_refCount :: u32

record VMWOpenCLSurfaceInstance =
  inst_mem :: u64
  inst_svm_ptr :: u64
  inst_generation :: u32
  inst_mapping :: VMWOpenCLMapping
  inst_mutex :: pthread_mutex

record VMWOpenCLSurface =
  surface_cid :: u32
  surface_desc :: VMAccelSurfaceDesc
  surface_inst :: "VMWOpenCLSurfaceInstance list"
  surface_mutex :: pthread_mutex

record VMWOpenCLQueue =
  queue_desc :: VMAccelQueueDesc
  queue_queue :: u64

record VMWOpenCLSampler =
  sampler_sampler :: u64

record VMWOpenCLKernel =
  kernel_program :: u64
  kernel_kernel :: u64

record 'd backend =
  runtime :: 'd
  caps :: "VMWOpenCLCaps list"
  contexts :: "VMWOpenCLContext list c_ptr"
  contextIds :: "IdentifierDB c_ptr"
  surfaces :: "VMWOpenCLSurface list c_ptr"
  surfaceIds :: "IdentifierDB c_ptr"
  queues :: "VMWOpenCLQueue list c_ptr"
  queueIds :: "IdentifierDB c_ptr"
  samplers :: "VMWOpenCLSampler list c_ptr"
  samplerIds :: "IdentifierDB c_ptr"
  kernels :: "VMWOpenCLKernel list c_ptr"
  kernelIds :: "IdentifierDB c_ptr"
  upload_result :: VMAccelStatus
  download_result :: VMAccelDownloadStatus

definition clDeviceTypes :: "u32 list" where
  "clDeviceTypes = [4, 8, 8, 2]"

text \<open>The width in bits and the name of each capability, in the order of \<^verbatim>\<open>vmwopencl_caps.h\<close>.\<close>

definition vmwopencl_caps :: "cl_build \<Rightarrow> (nat \<times> string) list" where
  "vmwopencl_caps b =
     [(64, ''DEVICE_TYPE''), (32, ''DEVICE_VENDOR_ID''), (32, ''DEVICE_MAX_COMPUTE_UNITS''),
      (32, ''DEVICE_MAX_WORK_ITEM_DIMENSIONS''), (64, ''DEVICE_MAX_WORK_GROUP_SIZE''),
      (32, ''DEVICE_MAX_CLOCK_FREQUENCY''), (32, ''DEVICE_ADDRESS_BITS''),
      (64, ''DEVICE_MAX_MEM_ALLOC_SIZE''), (32, ''DEVICE_IMAGE_SUPPORT''),
      (32, ''DEVICE_MAX_READ_IMAGE_ARGS''), (32, ''DEVICE_MAX_WRITE_IMAGE_ARGS''),
      (64, ''DEVICE_IMAGE2D_MAX_WIDTH''), (64, ''DEVICE_IMAGE2D_MAX_HEIGHT''),
      (64, ''DEVICE_IMAGE3D_MAX_WIDTH''), (64, ''DEVICE_IMAGE3D_MAX_HEIGHT''),
      (64, ''DEVICE_IMAGE3D_MAX_DEPTH''), (64, ''DEVICE_IMAGE_MAX_BUFFER_SIZE''),
      (64, ''DEVICE_IMAGE_MAX_ARRAY_SIZE''), (32, ''DEVICE_IMAGE_PITCH_ALIGNMENT''),
      (32, ''DEVICE_IMAGE_BASE_ADDRESS_ALIGNMENT''), (32, ''DEVICE_MAX_SAMPLERS''),
      (64, ''DEVICE_MAX_PARAMETER_SIZE''), (32, ''DEVICE_MEM_BASE_ADDR_ALIGN''),
      (64, ''DEVICE_SINGLE_FP_CONFIG''), (64, ''DEVICE_DOUBLE_FP_CONFIG''),
      (32, ''DEVICE_GLOBAL_MEM_CACHELINE_SIZE''), (64, ''DEVICE_GLOBAL_MEM_CACHE_SIZE''),
      (64, ''DEVICE_GLOBAL_MEM_SIZE''), (64, ''DEVICE_MAX_CONSTANT_BUFFER_SIZE''),
      (32, ''DEVICE_MAX_CONSTANT_ARGS''), (32, ''DEVICE_LOCAL_MEM_TYPE''), (64, ''DEVICE_LOCAL_MEM_SIZE''),
      (32, ''DEVICE_ERROR_CORRECTION_SUPPORT''), (32, ''DEVICE_ENDIAN_LITTLE''),
      (32, ''DEVICE_COMPILER_AVAILABLE''), (32, ''DEVICE_LINKER_AVAILABLE''),
      (64, ''DEVICE_EXECUTION_CAPABILITIES''), (32, ''DEVICE_PREFERRED_INTEROP_USER_SYNC''),
      (64, ''DEVICE_PARENT_DEVICE''), (32, ''DEVICE_PARTITION_MAX_SUB_DEVICES'')] @
     (if CL_VERSION_2_0 b then
     [(32, ''DEVICE_MAX_READ_WRITE_IMAGE_ARGS''), (32, ''DEVICE_MAX_PIPE_ARGS''),
      (32, ''DEVICE_PIPE_MAX_ACTIVE_RESERVATIONS''), (32, ''DEVICE_PIPE_MAX_PACKET_SIZE''),
      (64, ''DEVICE_MAX_GLOBAL_VARIABLE_SIZE''), (64, ''DEVICE_GLOBAL_VARIABLE_PREFERRED_TOTAL_SIZE''),
      (64, ''DEVICE_QUEUE_ON_HOST_PROPERTIES''), (64, ''DEVICE_QUEUE_ON_DEVICE_PROPERTIES''),
      (32, ''DEVICE_QUEUE_ON_DEVICE_PREFERRED_SIZE''), (32, ''DEVICE_QUEUE_ON_DEVICE_MAX_SIZE''),
      (32, ''DEVICE_MAX_ON_DEVICE_QUEUES''), (32, ''DEVICE_MAX_ON_DEVICE_EVENTS''),
      (32, ''DEVICE_PREFERRED_PLATFORM_ATOMIC_ALIGNMENT''),
      (32, ''DEVICE_PREFERRED_GLOBAL_ATOMIC_ALIGNMENT''), (32, ''DEVICE_PREFERRED_LOCAL_ATOMIC_ALIGNMENT''),
      (64, ''DEVICE_SVM_CAPABILITIES'')]
      else [])"

subsection \<open>Cleared objects\<close>

definition zero_mutex :: pthread_mutex where
  "zero_mutex = \<lparr>mutex_recursive = False, mutex_count = 0\<rparr>"

definition zero_VMWOpenCLCaps :: VMWOpenCLCaps where
  "zero_VMWOpenCLCaps = \<lparr>caps_deviceId = 0, caps_value = \<lambda>_. 0, caps_MAX_WORK_ITEM_SIZES = Null\<rparr>"

definition zero_VMWOpenCLContext :: VMWOpenCLContext where
  "zero_VMWOpenCLContext =
     \<lparr>context_context = 0, context_platformId = 0, context_deviceIds = replicate VMCL_MAX_SUBDEVICES 0,
      context_majorVersion = 0, context_minorVersion = 0, context_caps = None\<rparr>"

definition zero_VMWOpenCLSurfaceInstance :: VMWOpenCLSurfaceInstance where
  "zero_VMWOpenCLSurfaceInstance =
     \<lparr>inst_mem = 0, inst_svm_ptr = 0, inst_generation = 0,
      inst_mapping = \<lparr>mapping_ptr = 0, mapping_refCount = 0\<rparr>, inst_mutex = zero_mutex\<rparr>"

definition zero_VMWOpenCLSurface :: VMWOpenCLSurface where
  "zero_VMWOpenCLSurface =
     \<lparr>surface_cid = 0, surface_desc = zero_VMAccelSurfaceDesc,
      surface_inst = replicate VMACCEL_MAX_SURFACE_INSTANCE zero_VMWOpenCLSurfaceInstance,
      surface_mutex = zero_mutex\<rparr>"

definition zero_VMWOpenCLQueue :: VMWOpenCLQueue where
  "zero_VMWOpenCLQueue = \<lparr>queue_desc = zero_VMAccelQueueDesc, queue_queue = 0\<rparr>"

definition zero_VMWOpenCLSampler :: VMWOpenCLSampler where
  "zero_VMWOpenCLSampler = \<lparr>sampler_sampler = 0\<rparr>"

definition zero_VMWOpenCLKernel :: VMWOpenCLKernel where
  "zero_VMWOpenCLKernel = \<lparr>kernel_program = 0, kernel_kernel = 0\<rparr>"

text \<open>The static variables when the process starts.\<close>

definition initial_backend :: "'d \<Rightarrow> 'd backend" where
  "initial_backend d =
     \<lparr>runtime = d, caps = replicate 4 zero_VMWOpenCLCaps, contexts = Null, contextIds = Null,
      surfaces = Null, surfaceIds = Null, queues = Null, queueIds = Null, samplers = Null,
      samplerIds = Null, kernels = Null, kernelIds = Null, upload_result = zero_VMAccelStatus,
      download_result = zero_VMAccelDownloadStatus\<rparr>"

subsection \<open>Memory and locks\<close>

definition vec_at :: "'a c_vec \<Rightarrow> nat \<Rightarrow> 'a cres" where
  "vec_at v i = (case vec_val v of None \<Rightarrow> Inl NullPointer | Some xs \<Rightarrow> cread xs i)"

text \<open>An access of the OpenCL library to \<open>n\<close> bytes of a buffer of the process.\<close>

definition host_span :: "u32 \<Rightarrow> byte list option \<Rightarrow> unit cres" where
  "host_span n p =
     (case p of None \<Rightarrow> Inl NullPointer | Some bs \<Rightarrow> if unat n \<le> length bs then Inr () else Inl OutOfBounds)"

fun cmap :: "('a \<Rightarrow> 'b cres) \<Rightarrow> 'a list \<Rightarrow> 'b list cres" where
  "cmap f [] = Inr []"
| "cmap f (x # xs) = cbind (f x) (\<lambda>y. cbind (cmap f xs) (\<lambda>ys. Inr (y # ys)))"

definition mutex_lock :: "pthread_mutex \<Rightarrow> pthread_mutex cres" where
  "mutex_lock m =
     (if mutex_recursive m \<or> mutex_count m = 0 then Inr (m\<lparr>mutex_count := mutex_count m + 1\<rparr>) else Inl Spins)"

definition mutex_unlock :: "pthread_mutex \<Rightarrow> pthread_mutex" where
  "mutex_unlock m = m\<lparr>mutex_count := mutex_count m - 1\<rparr>"

definition recursive_mutex :: pthread_mutex where
  "recursive_mutex = \<lparr>mutex_recursive = True, mutex_count = 0\<rparr>"

definition get_surface :: "u32 \<Rightarrow> 'd backend \<Rightarrow> VMWOpenCLSurface cres" where
  "get_surface sid s = ptr_read (surfaces s) sid"

definition put_surface :: "u32 \<Rightarrow> VMWOpenCLSurface \<Rightarrow> 'd backend \<Rightarrow> 'd backend cres" where
  "put_surface sid x s = cbind (ptr_write (surfaces s) sid x) (\<lambda>p. Inr (s\<lparr>surfaces := p\<rparr>))"

definition get_inst :: "u32 \<Rightarrow> u32 \<Rightarrow> 'd backend \<Rightarrow> VMWOpenCLSurfaceInstance cres" where
  "get_inst sid inst s = cbind (get_surface sid s) (\<lambda>x. cread (surface_inst x) (unat inst))"

definition put_inst :: "u32 \<Rightarrow> u32 \<Rightarrow> VMWOpenCLSurfaceInstance \<Rightarrow> 'd backend \<Rightarrow> 'd backend cres" where
  "put_inst sid inst y s =
     cbind (get_surface sid s) (\<lambda>x.
     cbind (cwrite (surface_inst x) (unat inst) y) (\<lambda>ys. put_surface sid (x\<lparr>surface_inst := ys\<rparr>) s))"

definition lock_surface :: "u32 \<Rightarrow> 'd backend \<Rightarrow> 'd backend cres" where
  "lock_surface sid s =
     cbind (get_surface sid s) (\<lambda>x. cbind (mutex_lock (surface_mutex x)) (\<lambda>m. put_surface sid (x\<lparr>surface_mutex := m\<rparr>) s))"

definition unlock_surface :: "u32 \<Rightarrow> 'd backend \<Rightarrow> 'd backend cres" where
  "unlock_surface sid s =
     cbind (get_surface sid s) (\<lambda>x. put_surface sid (x\<lparr>surface_mutex := mutex_unlock (surface_mutex x)\<rparr>) s)"

definition lock_inst :: "u32 \<Rightarrow> u32 \<Rightarrow> 'd backend \<Rightarrow> 'd backend cres" where
  "lock_inst sid inst s =
     cbind (get_inst sid inst s) (\<lambda>y. cbind (mutex_lock (inst_mutex y)) (\<lambda>m. put_inst sid inst (y\<lparr>inst_mutex := m\<rparr>) s))"

definition unlock_inst :: "u32 \<Rightarrow> u32 \<Rightarrow> 'd backend \<Rightarrow> 'd backend cres" where
  "unlock_inst sid inst s =
     cbind (get_inst sid inst s) (\<lambda>y. put_inst sid inst (y\<lparr>inst_mutex := mutex_unlock (inst_mutex y)\<rparr>) s)"

text \<open>The pair of calls with which most operations open and close.\<close>

definition lock_both :: "u32 \<Rightarrow> u32 \<Rightarrow> 'd backend \<Rightarrow> 'd backend cres" where
  "lock_both sid inst s = cbind (lock_surface sid s) (lock_inst sid inst)"

definition unlock_both :: "u32 \<Rightarrow> u32 \<Rightarrow> 'd backend \<Rightarrow> 'd backend cres" where
  "unlock_both sid inst s = cbind (unlock_inst sid inst s) (unlock_surface sid)"

subsection \<open>Power on and off\<close>

definition vmwopencl_poweroff :: "'d backend \<Rightarrow> (VMAccelStatus option \<times> 'd backend) cres" where
  "vmwopencl_poweroff s =
     cbind (cmap (\<lambda>c. c_free (caps_MAX_WORK_ITEM_SIZES c)) (caps s)) (\<lambda>_.
     let s = s\<lparr>caps := replicate 4 zero_VMWOpenCLCaps\<rparr> in
     cbind (IdentifierDB_Free (contextIds s)) (\<lambda>p. let s = s\<lparr>contextIds := p\<rparr> in
     cbind (c_free (contexts s)) (\<lambda>p. let s = s\<lparr>contexts := p\<rparr> in
     cbind (IdentifierDB_Free (surfaceIds s)) (\<lambda>p. let s = s\<lparr>surfaceIds := p\<rparr> in
     cbind (c_free (surfaces s)) (\<lambda>p. let s = s\<lparr>surfaces := p\<rparr> in
     cbind (IdentifierDB_Free (queueIds s)) (\<lambda>p. let s = s\<lparr>queueIds := p\<rparr> in
     cbind (c_free (queues s)) (\<lambda>p. let s = s\<lparr>queues := p\<rparr> in
     cbind (IdentifierDB_Free (samplerIds s)) (\<lambda>p. let s = s\<lparr>samplerIds := p\<rparr> in
     cbind (c_free (samplers s)) (\<lambda>p. let s = s\<lparr>samplers := p\<rparr> in
     cbind (IdentifierDB_Free (kernelIds s)) (\<lambda>p. let s = s\<lparr>kernelIds := p\<rparr> in
     cbind (c_free (kernels s)) (\<lambda>p. let s = s\<lparr>kernels := p\<rparr> in
     Inr (Some zero_VMAccelStatus, s))))))))))))"

text \<open>One query per capability; the ones that fail keep their old value.\<close>

fun query_caps :: "'d cl_api \<Rightarrow> u64 \<Rightarrow> (nat \<times> string) list \<Rightarrow> (string \<Rightarrow> u64) \<Rightarrow> 'd \<Rightarrow> (string \<Rightarrow> u64) \<times> 'd" where
  "query_caps cl dev [] vals d = (vals, d)"
| "query_caps cl dev ((w, name) # cs) vals d =
     (let (errNum, val, d) = clGetDeviceInfo cl dev name d in
      query_caps cl dev cs (if errNum \<noteq> CL_SUCCESS then vals else vals(name := take_bit w val)) d)"

text \<open>The body of the loop over the platforms: \<open>None\<close> when it continues with the next one,
  \<open>Some False\<close> when the function returns a failure, \<open>Some True\<close> when the platform is taken.\<close>

definition poweron_platform :: "cl_build \<Rightarrow> 'd cl_api \<Rightarrow> (nat \<Rightarrow> nat \<Rightarrow> bool) \<Rightarrow> u32 \<Rightarrow> u64 \<Rightarrow> 'd backend \<Rightarrow>
    (bool option \<times> 'd backend) cres" where
  "poweron_platform b cl calloc_ok accelArch p s =
     cbind (cread clDeviceTypes (unat accelArch)) (\<lambda>ty.
     let (errNum, devs, d) = clGetDeviceIDs cl p ty 1 (runtime s); s = s\<lparr>runtime := d\<rparr> in
     if errNum \<noteq> CL_SUCCESS then Inr (None, s) else
     let deviceId = (case devs of [] \<Rightarrow> 0 | dev # _ \<Rightarrow> dev);
         (errNum, _, d) = clGetPlatformInfo cl p CL_PLATFORM_VERSION (runtime s); s = s\<lparr>runtime := d\<rparr> in
     if errNum \<noteq> CL_SUCCESS then Inr (Some False, s) else
     let (errNum, _, d) = clGetPlatformInfo cl p CL_PLATFORM_NAME (runtime s); s = s\<lparr>runtime := d\<rparr> in
     if errNum \<noteq> CL_SUCCESS then Inr (Some False, s) else
     let (errNum, _, d) = clGetPlatformInfo cl p CL_PLATFORM_VENDOR (runtime s); s = s\<lparr>runtime := d\<rparr> in
     if errNum \<noteq> CL_SUCCESS then Inr (Some False, s) else
     let (_, _, d) = clGetPlatformInfo cl p CL_PLATFORM_EXTENSIONS (runtime s); s = s\<lparr>runtime := d\<rparr> in
     cbind (cread (caps s) (unat accelArch)) (\<lambda>c.
     let s = s\<lparr>caps := (caps s)[unat accelArch := c\<lparr>caps_deviceId := deviceId\<rparr>]\<rparr>;
         (errNum, _, d) = clGetDeviceInfo cl deviceId ''DEVICE_NAME'' (runtime s); s = s\<lparr>runtime := d\<rparr> in
     if errNum \<noteq> CL_SUCCESS then Inr (None, s) else
     let (vals, d) = query_caps cl deviceId (vmwopencl_caps b) (caps_value c) (runtime s);
         dims = ucast (vals ''DEVICE_MAX_WORK_ITEM_DIMENSIONS'') :: u32;
         found = calloc_ok 0 (unat dims * 8);
         (errNum, sizes, d) = clGetDeviceSizes cl deviceId (if found then dims else 0) d;
         sizes = take (unat dims) sizes @ replicate (unat dims - length sizes) 0;
         c = c\<lparr>caps_deviceId := deviceId, caps_value := vals,
               caps_MAX_WORK_ITEM_SIZES := (if found then Live sizes else Null)\<rparr>;
         s = s\<lparr>runtime := d, caps := (caps s)[unat accelArch := c]\<rparr> in
     if errNum \<noteq> CL_SUCCESS then Inr (None, s)
     else if \<not> found \<and> dims \<noteq> 0 then Inl NullPointer
     else Inr (Some True, s)))"

fun poweron_loop :: "cl_build \<Rightarrow> 'd cl_api \<Rightarrow> (nat \<Rightarrow> nat \<Rightarrow> bool) \<Rightarrow> u32 \<Rightarrow> u64 list \<Rightarrow> nat list \<Rightarrow> 'd backend \<Rightarrow>
    (bool option \<times> 'd backend) cres" where
  "poweron_loop b cl calloc_ok accelArch platforms [] s = Inr (None, s)"
| "poweron_loop b cl calloc_ok accelArch platforms (i # is) s =
     cbind (cread platforms i) (\<lambda>p.
     cbind (poweron_platform b cl calloc_ok accelArch p s) (\<lambda>(r, s).
     if r = None then poweron_loop b cl calloc_ok accelArch platforms is s else Inr (r, s)))"

definition alloc_table :: "bool \<Rightarrow> 'a \<Rightarrow> u32 \<Rightarrow> 'a list c_ptr" where
  "alloc_table ok x n = (if ok then Live (replicate (unat n) x) else Null)"

definition alloc_tables :: "(nat \<Rightarrow> nat \<Rightarrow> bool) \<Rightarrow> 'd backend \<Rightarrow> 'd backend" where
  "alloc_tables calloc_ok s = s\<lparr>
     contexts := alloc_table (calloc_ok 1 (32 * 288)) zero_VMWOpenCLContext VMCL_MAX_CONTEXTS,
     contextIds := alloc_ids (calloc_ok 2) VMCL_MAX_CONTEXTS,
     surfaces := alloc_table (calloc_ok 3 (32 * 184)) zero_VMWOpenCLSurface VMCL_MAX_SURFACES,
     surfaceIds := alloc_ids (calloc_ok 4) VMCL_MAX_SURFACES,
     queues := alloc_table (calloc_ok 5 (32 * 16)) zero_VMWOpenCLQueue VMCL_MAX_QUEUES,
     queueIds := alloc_ids (calloc_ok 6) VMCL_MAX_QUEUES,
     samplers := alloc_table (calloc_ok 7 (32 * 8)) zero_VMWOpenCLSampler VMCL_MAX_SAMPLERS,
     samplerIds := alloc_ids (calloc_ok 8) VMCL_MAX_SAMPLERS,
     kernels := alloc_table (calloc_ok 9 (32 * 16)) zero_VMWOpenCLKernel VMCL_MAX_KERNELS,
     kernelIds := alloc_ids (calloc_ok 10) VMCL_MAX_KERNELS\<rparr>"

text \<open>The capacity the accelerator reports, from the capabilities of the device.\<close>

definition device_capacity :: "VMWOpenCLCaps \<Rightarrow> VMAccelWorkloadDesc" where
  "device_capacity c =
     (let cap32 = (\<lambda>n. ucast (caps_value c n) :: u32);
          megaFlops = cap32 ''DEVICE_MAX_COMPUTE_UNITS'' * cap32 ''DEVICE_MAX_CLOCK_FREQUENCY'';
          llcSizeKB = ucast (caps_value c ''DEVICE_GLOBAL_MEM_CACHE_SIZE'' div 1000) in
      \<lparr>WorkloadDesc_megaFlops = megaFlops, WorkloadDesc_megaOps = megaFlops,
       WorkloadDesc_llcSizeKB = llcSizeKB,
       WorkloadDesc_llcBandwidthMBSec = llcSizeKB * (cap32 ''DEVICE_MAX_CLOCK_FREQUENCY'' div 1000),
       WorkloadDesc_localMemSizeKB = ucast (caps_value c ''DEVICE_LOCAL_MEM_SIZE'' div 1000),
       WorkloadDesc_localMemBandwidthMBSec = 0,
       WorkloadDesc_nonLocalMemSizeKB = ucast (caps_value c ''DEVICE_GLOBAL_MEM_SIZE'' div 1000),
       WorkloadDesc_nonLocalMemBandwidthMBSec = 0, WorkloadDesc_interconnectBandwidthMBSec = 0\<rparr>)"

definition vmwopencl_poweron :: "cl_build \<Rightarrow> 'd cl_api \<Rightarrow> (nat \<Rightarrow> nat \<Rightarrow> bool) \<Rightarrow> u32 \<Rightarrow> u32 \<Rightarrow> u32 \<Rightarrow> 'd backend \<Rightarrow>
    (VMAccelAllocateStatus option \<times> 'd backend) cres" where
  "vmwopencl_poweron b cl calloc_ok accelArch accelIndex useDataStreaming s =
     (let fail = zero_VMAccelAllocateStatus\<lparr>AllocateStatus_status := VMACCEL_FAIL\<rparr>;
          (errNum, platforms, numPlatforms, d) = clGetPlatformIDs cl (runtime s); s = s\<lparr>runtime := d\<rparr> in
      if errNum \<noteq> CL_SUCCESS then Inr (Some fail, s) else
      cbind (poweron_loop b cl calloc_ok accelArch (take 16 platforms) [0..<unat numPlatforms] s) (\<lambda>(found, s).
      if found \<noteq> Some True then Inr (Some fail, s) else
      cbind (cread (caps s) (unat accelArch)) (\<lambda>c.
      let s = alloc_tables calloc_ok s;
          desc = zero_VMAccelDesc\<lparr>Desc_typeMask := VMACCEL_COMPUTE_ACCELERATOR_MASK, Desc_architecture := accelArch,
            Desc_caps := VMACCEL_SURFACEMAP, Desc_formatCaps := Vec 0 None, Desc_capacity := device_capacity c,
            Desc_maxContexts := VMCL_MAX_CONTEXTS, Desc_maxQueues := VMCL_MAX_QUEUES,
            Desc_maxSurfaces := VMCL_MAX_SURFACES, Desc_maxMappings := VMCL_MAX_SURFACES\<rparr>;
          result = zero_VMAccelAllocateStatus\<lparr>AllocateStatus_desc := desc\<rparr> in
      if contexts s = Null \<or> contextIds s = Null \<or> surfaces s = Null \<or> surfaceIds s = Null \<or>
         queues s = Null \<or> queueIds s = Null \<or> samplers s = Null \<or> samplerIds s = Null \<or>
         kernels s = Null \<or> kernelIds s = Null then
        cbind (vmwopencl_poweroff s) (\<lambda>(_, s). Inr (Some (result\<lparr>AllocateStatus_status := VMACCEL_FAIL\<rparr>), s))
      else Inr (Some (result\<lparr>AllocateStatus_status := VMACCEL_SUCCESS\<rparr>), s))))"

subsection \<open>Contexts\<close>

text \<open>The version the backend takes a platform's version string for.\<close>

definition platform_version :: "string \<Rightarrow> int \<times> int" where
  "platform_version v =
     (if strstr v ''OpenCL 1.2'' then (1, 2)
      else if strstr v ''OpenCL 2.0'' then (2, 0)
      else if strstr v ''OpenCL 2.'' then (2, 1)
      else if strstr v ''OpenCL 3.'' then (3, 0)
      else (3, 0))"

text \<open>The local variables of \<^verbatim>\<open>vmwopencl_contextalloc_1\<close> that its loops change.\<close>

record context_locals =
  cl_errNum :: u32
  cl_context :: u64
  cl_deviceIds :: "u64 list"
  cl_ctxCaps :: "nat option"

text \<open>The queries of the name and the bus of each device that was found; their results are only
  logged.\<close>

fun log_devices :: "'d cl_api \<Rightarrow> u64 list \<Rightarrow> 'd \<Rightarrow> 'd" where
  "log_devices cl [] d = d"
| "log_devices cl (dev # devs) d =
     (let (errNum, _, d) = clGetDeviceInfo cl dev ''DEVICE_NAME'' d in
      if errNum \<noteq> CL_SUCCESS then log_devices cl devs d
      else let (_, _, d) = clGetDeviceInfo cl dev ''DEVICE_PCI_BUS_ID_NV'' d in log_devices cl devs d)"

text \<open>The body of the loop over the kinds of device, and whether it breaks off.  \<open>deviceIds\<close> has
  32 entries: more sub-devices make the query write, or the loop over them read, behind its end.\<close>

definition select_device :: "'d cl_api \<Rightarrow> VMCLContextAllocateDesc \<Rightarrow> u64 \<Rightarrow> nat \<Rightarrow> context_locals \<Rightarrow> 'd \<Rightarrow>
    (bool \<times> context_locals \<times> 'd) cres" where
  "select_device cl argp p j l d =
     (let numSubDevices = max 1 (CLContextAllocateDesc_numSubDevices argp) in
      if CLContextAllocateDesc_selectionMask argp AND push_bit j 1 = 0 then Inr (False, l, d) else
      cbind (cread clDeviceTypes j) (\<lambda>ty.
      let (errNum, devs, d) = clGetDeviceIDs cl p ty numSubDevices d; l = l\<lparr>cl_errNum := errNum\<rparr> in
      if errNum \<noteq> CL_SUCCESS then Inr (False, l, d)
      else if length (cl_deviceIds l) < unat numSubDevices then Inl OutOfBounds else
      let devs = take (unat numSubDevices) devs;
          deviceIds = devs @ drop (length devs) (cl_deviceIds l);
          d = log_devices cl (take (unat numSubDevices) deviceIds) d;
          (errNum, context, d) = clCreateContext cl (take (unat numSubDevices) deviceIds) d;
          l = l\<lparr>cl_errNum := errNum, cl_context := context, cl_deviceIds := deviceIds\<rparr> in
      if errNum \<noteq> CL_SUCCESS then Inr (False, l, d)
      else if context \<noteq> 0 then Inr (True, l\<lparr>cl_ctxCaps := Some j\<rparr>, d)
      else Inr (False, l, d)))"

fun select_loop :: "'d cl_api \<Rightarrow> VMCLContextAllocateDesc \<Rightarrow> u64 \<Rightarrow> nat list \<Rightarrow> context_locals \<Rightarrow> 'd \<Rightarrow>
    (context_locals \<times> 'd) cres" where
  "select_loop cl argp p [] l d = Inr (l, d)"
| "select_loop cl argp p (j # js) l d =
     cbind (select_device cl argp p j l d) (\<lambda>(stop, l, d). if stop then Inr (l, d) else select_loop cl argp p js l d)"

text \<open>The body of the loop over the platforms: the capabilities collected so far, the platform and
  the version when it breaks off there, and the local variables.\<close>

definition try_platform :: "'d cl_api \<Rightarrow> VMCLContextAllocateDesc \<Rightarrow> u64 \<Rightarrow> u32 \<Rightarrow> context_locals \<Rightarrow> 'd \<Rightarrow>
    (u32 \<times> (u64 \<times> int \<times> int) option \<times> context_locals \<times> 'd) cres" where
  "try_platform cl argp p ccaps l d =
     (let (errNum, version, d) = clGetPlatformInfo cl p CL_PLATFORM_VERSION d; l = l\<lparr>cl_errNum := errNum\<rparr> in
      if errNum \<noteq> CL_SUCCESS then Inr (ccaps, None, l, d) else
      let (major, minor) = platform_version version; required = CLContextAllocateDesc_requiredCaps argp in
      if required AND VMCL_SPIRV_1_0_CAP \<noteq> 0 \<and> (major < 2 \<or> minor < 1) then Inr (ccaps, None, l, d) else
      let ccaps = ccaps OR VMCL_SPIRV_1_0_CAP in
      if (required AND VMCL_SPIRV_1_1_CAP \<noteq> 0 \<or> required AND VMCL_SPIRV_1_2_CAP \<noteq> 0) \<and> (major < 2 \<or> minor < 2) then
        Inr (ccaps, None, l, d) else
      let ccaps = ccaps OR (VMCL_SPIRV_1_1_CAP OR VMCL_SPIRV_1_2_CAP);
          (errNum, _, d) = clGetPlatformInfo cl p CL_PLATFORM_NAME d; l = l\<lparr>cl_errNum := errNum\<rparr> in
      if errNum \<noteq> CL_SUCCESS then Inr (ccaps, None, l, d) else
      cbind (select_loop cl argp p [0..<unat VMACCEL_SELECT_MAX] l d) (\<lambda>(l, d).
      Inr (ccaps, if cl_context l \<noteq> 0 then Some (p, major, minor) else None, l, d)))"

fun platform_loop :: "'d cl_api \<Rightarrow> VMCLContextAllocateDesc \<Rightarrow> u64 list \<Rightarrow> nat list \<Rightarrow> u32 \<Rightarrow> context_locals \<Rightarrow> 'd \<Rightarrow>
    (u32 \<times> (u64 \<times> int \<times> int) option \<times> context_locals \<times> 'd) cres" where
  "platform_loop cl argp platforms [] ccaps l d = Inr (ccaps, None, l, d)"
| "platform_loop cl argp platforms (i # is) ccaps l d =
     cbind (cread platforms i) (\<lambda>p.
     cbind (try_platform cl argp p ccaps l d) (\<lambda>(ccaps, stop, l, d).
     if stop = None then platform_loop cl argp platforms is ccaps l d else Inr (ccaps, stop, l, d)))"

definition vmwopencl_contextalloc_1 :: "'d cl_api \<Rightarrow> VMCLContextAllocateDesc \<Rightarrow> 'd backend \<Rightarrow>
    (VMCLContextAllocateStatus option \<times> VMCLContextAllocateDesc \<times> 'd backend) cres" where
  "vmwopencl_contextalloc_1 cl argp s =
     (let cid = CLContextAllocateDesc_clientId argp;
          refuse = (\<lambda>ccaps. \<lparr>CLContextAllocateStatus_status = VMACCEL_RESOURCE_UNAVAILABLE, CLContextAllocateStatus_caps = ccaps\<rparr>) in
      cbind (id_active (contextIds s) cid) (\<lambda>active.
      if active then Inr (Some (refuse 0), argp, s) else
      let (errNum, platforms, numPlatforms, d) = clGetPlatformIDs cl (runtime s); s = s\<lparr>runtime := d\<rparr> in
      if errNum \<noteq> CL_SUCCESS \<or> numPlatforms = 0 then Inr (Some (refuse 0), argp, s) else
      cbind (platform_loop cl argp (take 16 platforms) [0..<unat numPlatforms] 0
        \<lparr>cl_errNum = errNum, cl_context = 0, cl_deviceIds = replicate VMCL_MAX_SUBDEVICES 0, cl_ctxCaps = None\<rparr>
        (runtime s)) (\<lambda>(ccaps, stop, l, d).
      let s = s\<lparr>runtime := d\<rparr> in
      case stop of None \<Rightarrow> Inr (Some (refuse ccaps), argp, s)
      | Some (p, major, minor) \<Rightarrow>
        if cl_context l = 0 \<or> cl_errNum l \<noteq> CL_SUCCESS then Inr (Some (refuse ccaps), argp, s) else
        cbind (id_acquire (contextIds s) cid) (\<lambda>(acquired, p'). let s = s\<lparr>contextIds := p'\<rparr> in
        cbind (cassert acquired) (\<lambda>_.
        cbind (ptr_write (contexts s) cid
          \<lparr>context_context = cl_context l, context_platformId = p, context_deviceIds = cl_deviceIds l,
           context_majorVersion = major, context_minorVersion = minor, context_caps = cl_ctxCaps l\<rparr>) (\<lambda>q.
        Inr (Some \<lparr>CLContextAllocateStatus_status = VMACCEL_SUCCESS, CLContextAllocateStatus_caps = ccaps\<rparr>, argp,
          s\<lparr>contexts := q\<rparr>)))))))"

definition vmwopencl_contextdestroy_1 :: "'d cl_api \<Rightarrow> VMCLContextId \<Rightarrow> 'd backend \<Rightarrow>
    (VMAccelStatus option \<times> VMCLContextId \<times> 'd backend) cres" where
  "vmwopencl_contextdestroy_1 cl argp s =
     (let cid = argp in
      cbind (id_active (contextIds s) cid) (\<lambda>active.
      cbind (if active then
               cbind (ptr_read (contexts s) cid) (\<lambda>x.
               if context_context x \<noteq> 0 then
                 cbind (ptr_write (contexts s) cid (x\<lparr>context_context := 0\<rparr>)) (\<lambda>q.
                 Inr (s\<lparr>runtime := clReleaseContext cl (context_context x) (runtime s), contexts := q\<rparr>))
               else Inr s)
             else Inr s) (\<lambda>s.
      cbind (id_release (contextIds s) cid) (\<lambda>p. let s = s\<lparr>contextIds := p\<rparr> in
      cbind (id_db (contextIds s)) (\<lambda>db.
      cbind (if IdentifierDB_Count db = 0 then
               cbind (id_db (surfaceIds s)) (\<lambda>_. cbind (id_db (queueIds s)) (\<lambda>_.
               cbind (id_db (samplerIds s)) (\<lambda>_. cbind (id_db (kernelIds s)) (\<lambda>_. Inr ()))))
             else Inr ()) (\<lambda>_.
      Inr (Some zero_VMAccelStatus, argp, s)))))))"

subsection \<open>Surfaces\<close>

text \<open>One object per instance; when one cannot be made, those made before it are released, the
  latest first.\<close>

fun make_all :: "('d \<Rightarrow> u64 \<times> 'd) \<Rightarrow> (u64 \<Rightarrow> 'd \<Rightarrow> 'd) \<Rightarrow> nat \<Rightarrow> u64 list \<Rightarrow> 'd \<Rightarrow> u64 list option \<times> 'd" where
  "make_all mk rel 0 made d = (Some (rev made), d)"
| "make_all mk rel (Suc n) made d =
     (let (h, d) = mk d in
      if h = 0 then (None, fold rel made d) else make_all mk rel n (h # made) d)"

definition mem_flags :: "u32 \<Rightarrow> u32" where
  "mem_flags usage =
     (if usage = VMACCEL_SURFACE_USAGE_READONLY then CL_MEM_READ_ONLY
      else if usage = VMACCEL_SURFACE_USAGE_WRITEONLY then CL_MEM_WRITE_ONLY
      else if usage = VMACCEL_SURFACE_USAGE_READWRITE then CL_MEM_READ_WRITE else 0)"

definition new_instance :: "u64 \<Rightarrow> u64 \<Rightarrow> VMWOpenCLSurfaceInstance \<Rightarrow> VMWOpenCLSurfaceInstance" where
  "new_instance mem svm y =
     y\<lparr>inst_mem := mem, inst_svm_ptr := svm, inst_mapping := (inst_mapping y)\<lparr>mapping_refCount := 0\<rparr>,
       inst_mutex := recursive_mutex\<rparr>"

text \<open>Whether the surface is backed by shared virtual memory, and the objects that back it: \<open>None\<close>
  when there are none.\<close>

definition uses_svm :: "cl_build \<Rightarrow> VMAccelSurfaceDesc \<Rightarrow> VMWOpenCLContext \<Rightarrow> bool" where
  "uses_svm b desc cx \<longleftrightarrow>
     CL_VERSION_2_0 b \<and> SurfaceDesc_type desc = VMACCEL_SURFACE_BUFFER \<and>
     SurfaceDesc_pool desc = VMACCEL_SURFACE_POOL_SYSTEM_MEMORY \<and>
     2 \<le> context_majorVersion cx \<and> 0 \<le> context_minorVersion cx"

definition surface_objects :: "cl_build \<Rightarrow> 'd cl_api \<Rightarrow> VMAccelSurfaceDesc \<Rightarrow> VMWOpenCLContext \<Rightarrow> 'd \<Rightarrow>
    (u64 list option \<times> 'd) cres" where
  "surface_objects b cl desc cx d =
     (let context = context_context cx; flags = mem_flags (SurfaceDesc_usage desc); w = SurfaceDesc_width desc in
      if uses_svm b desc cx then
        Inr (make_all (clSVMAlloc cl context flags w) (clSVMFree cl context) VMACCEL_MAX_SURFACE_INSTANCE [] d)
      else if SurfaceDesc_type desc = VMACCEL_SURFACE_BUFFER then
        cbind (cassert (SurfaceDesc_format desc = VMACCEL_FORMAT_R8_TYPELESS)) (\<lambda>_.
        Inr (make_all (clCreateBuffer cl context flags w) (clReleaseMemObject cl) VMACCEL_MAX_SURFACE_INSTANCE [] d))
      else cbind (cassert (SurfaceDesc_usage desc = VMACCEL_SURFACE_USAGE_READWRITE)) (\<lambda>_. Inr (None, d)))"

text \<open>The last part of the function: the mutexes and the entry of the table.\<close>

definition surface_enter :: "u32 \<Rightarrow> u32 \<Rightarrow> VMAccelSurfaceDesc \<Rightarrow> u64 list \<Rightarrow> u64 list \<Rightarrow> 'd backend \<Rightarrow> 'd backend cres" where
  "surface_enter sid cid desc mem svm s =
     cbind (get_surface sid s) (\<lambda>x.
     cbind (put_surface sid (x\<lparr>surface_mutex := recursive_mutex\<rparr>) s) (\<lambda>s.
     cbind (id_acquire (surfaceIds s) sid) (\<lambda>(acquired, p). let s = s\<lparr>surfaceIds := p\<rparr> in
     cbind (cassert acquired) (\<lambda>_.
     cbind (lock_surface sid s) (\<lambda>s.
     cbind (get_surface sid s) (\<lambda>x.
     let ys = map (\<lambda>(m, v, y). new_instance m v y) (zip mem (zip svm (surface_inst x))) in
     cbind (put_surface sid (x\<lparr>surface_cid := cid, surface_desc := desc, surface_inst := ys\<rparr>) s) (\<lambda>s.
     unlock_surface sid s)))))))"

definition vmwopencl_surfacealloc_1 :: "cl_build \<Rightarrow> 'd cl_api \<Rightarrow> VMCLSurfaceAllocateDesc \<Rightarrow> 'd backend \<Rightarrow>
    (VMAccelSurfaceAllocateStatus option \<times> VMCLSurfaceAllocateDesc \<times> 'd backend) cres" where
  "vmwopencl_surfacealloc_1 b cl argp s =
     (let cid = CLSurfaceId_cid (CLSurfaceAllocateDesc_client argp);
          sid = SurfaceId_id (CLSurfaceId_accel (CLSurfaceAllocateDesc_client argp));
          desc = CLSurfaceAllocateDesc_desc argp; result = zero_VMAccelSurfaceAllocateStatus;
          no_mem = replicate VMACCEL_MAX_SURFACE_INSTANCE 0 in
      cbind (ptr_read (contexts s) cid) (\<lambda>cx.
      cbind (id_active (surfaceIds s) sid) (\<lambda>active.
      if active then Inr (Some (result\<lparr>SurfaceAllocateStatus_status := VMACCEL_RESOURCE_UNAVAILABLE\<rparr>), argp, s) else
      cbind (surface_objects b cl desc cx (runtime s)) (\<lambda>(made, d). let s = s\<lparr>runtime := d\<rparr> in
      case made of None \<Rightarrow> Inr (Some (result\<lparr>SurfaceAllocateStatus_status := VMACCEL_FAIL\<rparr>), argp, s)
      | Some hs \<Rightarrow>
        cbind (if uses_svm b desc cx then surface_enter sid cid desc no_mem hs s
               else surface_enter sid cid desc hs no_mem s) (\<lambda>s. Inr (Some result, argp, s))))))"

text \<open>One iteration of the loop over the instances of a surface that is destroyed.\<close>

definition destroy_instance :: "cl_build \<Rightarrow> 'd cl_api \<Rightarrow> u32 \<Rightarrow> u32 \<Rightarrow> 'd backend \<Rightarrow> 'd backend cres" where
  "destroy_instance b cl sid i s =
     cbind (lock_inst sid i s) (\<lambda>s.
     cbind (get_surface sid s) (\<lambda>x.
     cbind (get_inst sid i s) (\<lambda>y.
     cbind (if CL_VERSION_2_0 b \<and> inst_svm_ptr y \<noteq> 0 then
              cbind (ptr_read (contexts s) (surface_cid x)) (\<lambda>cx.
              Inr (s\<lparr>runtime := clSVMFree cl (context_context cx) (inst_svm_ptr y) (runtime s)\<rparr>))
            else Inr (s\<lparr>runtime := clReleaseMemObject cl (inst_mem y) (runtime s)\<rparr>)) (\<lambda>s.
     cbind (put_inst sid i (y\<lparr>inst_mem := 0\<rparr>) s) (unlock_inst sid i)))))"

fun destroy_instances :: "cl_build \<Rightarrow> 'd cl_api \<Rightarrow> u32 \<Rightarrow> nat list \<Rightarrow> 'd backend \<Rightarrow> 'd backend cres" where
  "destroy_instances b cl sid [] s = Inr s"
| "destroy_instances b cl sid (i # is) s =
     cbind (destroy_instance b cl sid (of_nat i) s) (destroy_instances b cl sid is)"

definition vmwopencl_surfacedestroy_1 :: "cl_build \<Rightarrow> 'd cl_api \<Rightarrow> VMCLSurfaceId \<Rightarrow> 'd backend \<Rightarrow>
    (VMAccelStatus option \<times> VMCLSurfaceId \<times> 'd backend) cres" where
  "vmwopencl_surfacedestroy_1 b cl argp s =
     (let sid = SurfaceId_id (CLSurfaceId_accel argp) in
      cbind (lock_surface sid s) (\<lambda>s.
      cbind (id_active (surfaceIds s) sid) (\<lambda>active.
      cbind (cassert active) (\<lambda>_.
      cbind (destroy_instances b cl sid [0..<VMACCEL_MAX_SURFACE_INSTANCE] s) (\<lambda>s.
      cbind (put_surface sid zero_VMWOpenCLSurface s) (\<lambda>s.
      cbind (unlock_surface sid s) (\<lambda>s.
      cbind (id_release (surfaceIds s) sid) (\<lambda>p.
      Inr (Some (zero_VMAccelStatus\<lparr>Status_status := VMACCEL_SUCCESS\<rparr>), argp, s\<lparr>surfaceIds := p\<rparr>)))))))))"

subsection \<open>Queues\<close>

definition vmwopencl_queuealloc_1 :: "'d cl_api \<Rightarrow> (nat \<Rightarrow> nat \<Rightarrow> bool) \<Rightarrow> VMCLQueueAllocateDesc \<Rightarrow> 'd backend \<Rightarrow>
    (VMAccelQueueStatus option \<times> VMCLQueueAllocateDesc \<times> 'd backend) cres" where
  "vmwopencl_queuealloc_1 cl calloc_ok argp s =
     (let cid = CLQueueId_cid (CLQueueAllocateDesc_client argp); qid = CLQueueId_id (CLQueueAllocateDesc_client argp);
          subDevice = CLQueueAllocateDesc_subDevice argp; result = zero_VMAccelQueueStatus;
          failed = result\<lparr>QueueStatus_status := VMACCEL_FAIL\<rparr> in
      cbind (ptr_read (contexts s) cid) (\<lambda>cx.
      let context = context_context cx in
      cbind (id_active (queueIds s) qid) (\<lambda>active.
      if active then Inr (Some (result\<lparr>QueueStatus_status := VMACCEL_RESOURCE_UNAVAILABLE\<rparr>), argp, s) else
      let (errNum, devs, d) = clGetContextInfo cl context (runtime s); s = s\<lparr>runtime := d\<rparr>; n = length devs in
      if errNum \<noteq> CL_SUCCESS then Inr (Some failed, argp, s) else
      if n = 0 then Inr (Some failed, argp, s) else
      let (errNum, devs, d) = clGetContextInfo cl context (runtime s); s = s\<lparr>runtime := d\<rparr>;
          devices = take n devs @ replicate (n - length devs) 0 in
      if errNum \<noteq> CL_SUCCESS \<or> n \<le> unat subDevice then Inr (Some failed, argp, s) else
      if \<not> calloc_ok 0 (n * 8) then Inl NullPointer else
      let (commandQueue, d) = clCreateCommandQueue cl context (devices ! unat subDevice) (runtime s); s = s\<lparr>runtime := d\<rparr> in
      if commandQueue = 0 then Inr (Some failed, argp, s) else
      cbind (id_acquire (queueIds s) qid) (\<lambda>(acquired, p). let s = s\<lparr>queueIds := p\<rparr> in
      cbind (cassert acquired) (\<lambda>_.
      cbind (ptr_write (queues s) qid \<lparr>queue_desc = CLQueueAllocateDesc_desc argp, queue_queue = commandQueue\<rparr>) (\<lambda>q.
      Inr (Some result, argp, s\<lparr>queues := q\<rparr>)))))))"

definition vmwopencl_queuedestroy_1 :: "'d cl_api \<Rightarrow> VMCLQueueId \<Rightarrow> 'd backend \<Rightarrow>
    (VMAccelStatus option \<times> VMCLQueueId \<times> 'd backend) cres" where
  "vmwopencl_queuedestroy_1 cl argp s =
     (let qid = CLQueueId_id argp in
      cbind (id_active (queueIds s) qid) (\<lambda>active.
      cbind (cassert active) (\<lambda>_.
      cbind (ptr_read (queues s) qid) (\<lambda>x.
      let s = s\<lparr>runtime := clReleaseCommandQueue cl (queue_queue x) (runtime s)\<rparr> in
      cbind (ptr_write (queues s) qid zero_VMWOpenCLQueue) (\<lambda>q. let s = s\<lparr>queues := q\<rparr> in
      cbind (id_release (queueIds s) qid) (\<lambda>p. Inr (Some zero_VMAccelStatus, argp, s\<lparr>queueIds := p\<rparr>)))))))"

definition vmwopencl_queueflush_1 :: "'d cl_api \<Rightarrow> VMCLQueueId \<Rightarrow> 'd backend \<Rightarrow>
    (VMAccelStatus option \<times> VMCLQueueId \<times> 'd backend) cres" where
  "vmwopencl_queueflush_1 cl argp s =
     cbind (ptr_read (queues s) (CLQueueId_id argp)) (\<lambda>x.
     let (errNum, d) = clFlush cl (queue_queue x) (runtime s); s = s\<lparr>runtime := d\<rparr> in
     Inr (Some (if errNum \<noteq> CL_SUCCESS then zero_VMAccelStatus\<lparr>Status_status := VMACCEL_FAIL\<rparr> else zero_VMAccelStatus),
       argp, s))"

subsection \<open>Transfers\<close>

abbreviation (input) status_of :: "u32 \<Rightarrow> VMAccelStatus" where
  "status_of c \<equiv> zero_VMAccelStatus\<lparr>Status_status := c\<rparr>"

definition vmwopencl_imageupload_1 :: "'d cl_api \<Rightarrow> VMCLImageUploadOp \<Rightarrow> 'd backend \<Rightarrow>
    (VMAccelStatus option \<times> VMCLImageUploadOp \<times> 'd backend) cres" where
  "vmwopencl_imageupload_1 cl argp s =
     (let img = CLSurfaceId_accel (CLImageUploadOp_img argp); cid = CLQueueId_cid (CLImageUploadOp_queue argp);
          sid = SurfaceId_id img; gen = SurfaceId_generation img; inst = SurfaceId_instance img;
          region = ImageTransferOp_imgRegion (CLImageUploadOp_op argp); ptr = vec_val (ImageTransferOp_ptr (CLImageUploadOp_op argp));
          sz = Coordinate3DUINT_x (SurfaceRegion_size region) in
      cbind (ptr_read (queues s) (CLQueueId_id (CLImageUploadOp_queue argp))) (\<lambda>q.
      cbind (lock_both sid inst s) (\<lambda>s.
      cbind (get_surface sid s) (\<lambda>x.
      cbind (get_inst sid inst s) (\<lambda>y.
      if gen < inst_generation y then
        let result = (upload_result s)\<lparr>Status_status := VMACCEL_SEMANTIC_ERROR\<rparr>; s = s\<lparr>upload_result := result\<rparr> in
        cbind (unlock_both sid inst s) (\<lambda>s. Inr (Some result, argp, s))
      else
        cbind (cassert (cid = CLSurfaceId_cid (CLImageUploadOp_img argp))) (\<lambda>_.
        cbind (cassert (SurfaceDesc_type (surface_desc x) = VMACCEL_SURFACE_BUFFER \<and> inst_svm_ptr y = 0)) (\<lambda>_.
        let (errNum, d) = clEnqueueWriteBuffer cl (queue_queue q) (inst_mem y) True
              (Coordinate3DUINT_x (SurfaceRegion_coord region)) sz ptr (runtime s); s = s\<lparr>runtime := d\<rparr> in
        cbind (if errNum \<noteq> CL_SUCCESS then Inr (status_of VMACCEL_FAIL, s)
               else cbind (host_span sz ptr) (\<lambda>_. cbind (put_inst sid inst (y\<lparr>inst_generation := gen\<rparr>) s) (\<lambda>s.
                 Inr (zero_VMAccelStatus, s)))) (\<lambda>(result, s).
        cbind (unlock_both sid inst (s\<lparr>upload_result := result\<rparr>)) (\<lambda>s. Inr (Some result, argp, s))))))))))"

text \<open>The destination of a read, which is the buffer of the argument or a new one, and what the
  read leaves in it.\<close>

definition download_buffer :: "(nat \<Rightarrow> nat \<Rightarrow> bool) \<Rightarrow> u32 \<Rightarrow> byte c_vec \<Rightarrow> byte list option" where
  "download_buffer calloc_ok sz ptr =
     (case vec_val ptr of None \<Rightarrow> if calloc_ok 0 (unat sz) then Some (replicate (unat sz) 0) else None
      | Some bs \<Rightarrow> Some bs)"

definition overwrite :: "byte list \<Rightarrow> byte list \<Rightarrow> byte list" where
  "overwrite bs ws = ws @ drop (length ws) bs"

definition vmwopencl_imagedownload_1 :: "'d cl_api \<Rightarrow> (nat \<Rightarrow> nat \<Rightarrow> bool) \<Rightarrow> VMCLImageDownloadOp \<Rightarrow> 'd backend \<Rightarrow>
    (VMAccelDownloadStatus option \<times> VMCLImageDownloadOp \<times> 'd backend) cres" where
  "vmwopencl_imagedownload_1 cl calloc_ok argp s =
     (let img = CLSurfaceId_accel (CLImageDownloadOp_img argp); cid = CLQueueId_cid (CLImageDownloadOp_queue argp);
          sid = SurfaceId_id img; gen = SurfaceId_generation img; inst = SurfaceId_instance img;
          opr = CLImageDownloadOp_op argp; region = ImageTransferOp_imgRegion opr;
          sz = Coordinate3DUINT_x (SurfaceRegion_size region) in
      cbind (ptr_read (queues s) (CLQueueId_id (CLImageDownloadOp_queue argp))) (\<lambda>q.
      cbind (lock_both sid inst s) (\<lambda>s.
      cbind (get_surface sid s) (\<lambda>x.
      cbind (get_inst sid inst s) (\<lambda>y.
      if inst_generation y \<noteq> gen then
        let result = (download_result s)\<lparr>DownloadStatus_status :=
              (if gen < inst_generation y then VMACCEL_SEMANTIC_ERROR else VMACCEL_RESOURCE_UNAVAILABLE)\<rparr>;
            s = s\<lparr>download_result := result\<rparr> in
        cbind (unlock_both sid inst s) (\<lambda>s. Inr (Some result, argp, s))
      else
        cbind (cassert (cid = CLSurfaceId_cid (CLImageDownloadOp_img argp))) (\<lambda>_.
        cbind (cassert (SurfaceDesc_type (surface_desc x) = VMACCEL_SURFACE_BUFFER \<and> inst_svm_ptr y = 0)) (\<lambda>_.
        let ptr = download_buffer calloc_ok sz (ImageTransferOp_ptr opr);
            blocking = (CLImageDownloadOp_mode argp = VMACCEL_SURFACE_READ_SYNCHRONOUS);
            (errNum, written, d) = clEnqueueReadBuffer cl (queue_queue q) (inst_mem y) blocking
              (Coordinate3DUINT_x (SurfaceRegion_coord region)) sz ptr (runtime s); s = s\<lparr>runtime := d\<rparr> in
        cbind (if errNum \<noteq> CL_SUCCESS then Inr (zero_VMAccelDownloadStatus\<lparr>DownloadStatus_status := VMACCEL_FAIL\<rparr>, argp)
               else cbind (host_span sz ptr) (\<lambda>_.
                 let bs = overwrite (the ptr) (take (unat sz) written);
                     argp = (if vec_val (ImageTransferOp_ptr opr) = None then argp else
                       argp\<lparr>CLImageDownloadOp_op := opr\<lparr>ImageTransferOp_ptr := Vec (vec_len (ImageTransferOp_ptr opr)) (Some bs)\<rparr>\<rparr>) in
                 Inr (zero_VMAccelDownloadStatus\<lparr>DownloadStatus_ptr := Vec sz (Some (take (unat sz) bs))\<rparr>, argp)))
          (\<lambda>(result, argp).
        cbind (unlock_surface sid (s\<lparr>download_result := result\<rparr>)) (\<lambda>s. Inr (Some result, argp, s))))))))))"

subsection \<open>Mappings\<close>

definition map_flags :: "u32 \<Rightarrow> u32" where
  "map_flags f =
     (if f AND VMACCEL_MAP_READ_FLAG \<noteq> 0 then CL_MAP_READ else 0) OR
     (if f AND VMACCEL_MAP_WRITE_FLAG \<noteq> 0 then CL_MAP_WRITE else 0) OR
     (if f AND VMACCEL_MAP_WRITE_DISCARD_FLAG \<noteq> 0 then CL_MAP_WRITE_INVALIDATE_REGION else 0)"

text \<open>The pointer the mapping gets: the one the first map makes, later the one it kept.  The
  pointer a result hands out is the memory behind it at that time.\<close>

definition map_pointer :: "'d cl_api \<Rightarrow> u64 \<Rightarrow> VMWOpenCLSurfaceInstance \<Rightarrow> VMAccelSurfaceMapOp \<Rightarrow> 'd \<Rightarrow> u32 \<times> u64 \<times> 'd" where
  "map_pointer cl queue y opr d =
     (let blocking = (SurfaceMapOp_mapFlags opr AND VMACCEL_MAP_ASYNC_FLAG = 0) in
      if mapping_refCount (inst_mapping y) = 1 then
        if inst_svm_ptr y \<noteq> 0 then
          let (errNum, d) = (if blocking then clFinish cl queue d else (CL_SUCCESS, d)) in (errNum, inst_svm_ptr y, d)
        else clEnqueueMapBuffer cl queue (inst_mem y) blocking (map_flags (SurfaceMapOp_mapFlags opr))
               (Coordinate3DUINT_x (SurfaceMapOp_coord opr)) (Coordinate2DUINT_x (SurfaceMapOp_size opr)) d
      else (CL_SUCCESS, mapping_ptr (inst_mapping y), d))"

definition host_vec :: "'d cl_api \<Rightarrow> u64 \<Rightarrow> u32 \<Rightarrow> 'd \<Rightarrow> byte c_vec" where
  "host_vec cl ptr n d = Vec n (if ptr = 0 then None else Some (host_read cl ptr n d))"

definition vmwopencl_surfacemap_1 :: "'d cl_api \<Rightarrow> VMCLSurfaceMapOp \<Rightarrow> 'd backend \<Rightarrow>
    (VMAccelSurfaceMapStatus option \<times> VMCLSurfaceMapOp \<times> 'd backend) cres" where
  "vmwopencl_surfacemap_1 cl argp s =
     (let opr = CLSurfaceMapOp_op argp; sid = SurfaceId_id (SurfaceMapOp_surf opr);
          gen = SurfaceId_generation (SurfaceMapOp_surf opr); inst = SurfaceId_instance (SurfaceMapOp_surf opr);
          result = zero_VMAccelSurfaceMapStatus in
      cbind (ptr_read (queues s) (CLQueueId_id (CLSurfaceMapOp_queue argp))) (\<lambda>q.
      cbind (lock_both sid inst s) (\<lambda>s.
      cbind (get_surface sid s) (\<lambda>x.
      cbind (get_inst sid inst s) (\<lambda>y.
      if gen < inst_generation y then
        cbind (unlock_both sid inst s) (\<lambda>s.
        Inr (Some (result\<lparr>SurfaceMapStatus_status := VMACCEL_SEMANTIC_ERROR\<rparr>), argp, s))
      else
        cbind (cassert (SurfaceDesc_type (surface_desc x) = VMACCEL_SURFACE_BUFFER)) (\<lambda>_.
        let y = y\<lparr>inst_mapping := (inst_mapping y)\<lparr>mapping_refCount := mapping_refCount (inst_mapping y) + 1\<rparr>\<rparr>;
            (errNum, ptr, d) = map_pointer cl (queue_queue q) y opr (runtime s); s = s\<lparr>runtime := d\<rparr>;
            sz = Coordinate2DUINT_x (SurfaceMapOp_size opr);
            (result, y) = (if errNum \<noteq> CL_SUCCESS then (result\<lparr>SurfaceMapStatus_status := VMACCEL_FAIL\<rparr>, y)
              else (result\<lparr>SurfaceMapStatus_ptr := host_vec cl ptr sz d\<rparr>,
                    y\<lparr>inst_mapping := (inst_mapping y)\<lparr>mapping_ptr := ptr\<rparr>\<rparr>)) in
        cbind (put_inst sid inst y s) (\<lambda>s.
        cbind (unlock_both sid inst s) (\<lambda>s. Inr (Some result, argp, s)))))))))"

text \<open>\<^verbatim>\<open>memcpy\<close> from the payload to a mapped pointer.\<close>

definition copy_to_mapping :: "'d cl_api \<Rightarrow> u64 \<Rightarrow> byte c_vec \<Rightarrow> 'd \<Rightarrow> 'd cres" where
  "copy_to_mapping cl ptr v d =
     (if vec_len v = 0 then Inr d
      else if ptr = 0 then Inl NullPointer
      else cbind (host_span (vec_len v) (vec_val v)) (\<lambda>_.
        case host_write cl ptr (take (unat (vec_len v)) (the (vec_val v))) d of
          None \<Rightarrow> Inl OutOfBounds | Some d \<Rightarrow> Inr d))"

definition vmwopencl_surfaceunmap_1 :: "'d cl_api \<Rightarrow> VMCLSurfaceUnmapOp \<Rightarrow> 'd backend \<Rightarrow>
    (VMAccelStatus option \<times> VMCLSurfaceUnmapOp \<times> 'd backend) cres" where
  "vmwopencl_surfaceunmap_1 cl argp s =
     (let opr = CLSurfaceUnmapOp_op argp; sid = SurfaceId_id (SurfaceUnmapOp_surf opr);
          gen = SurfaceId_generation (SurfaceUnmapOp_surf opr); inst = SurfaceId_instance (SurfaceUnmapOp_surf opr) in
      cbind (ptr_read (queues s) (CLQueueId_id (CLSurfaceUnmapOp_queue argp))) (\<lambda>q.
      cbind (lock_surface sid s) (\<lambda>s.
      cbind (get_surface sid s) (\<lambda>x.
      cbind (get_inst sid inst s) (\<lambda>y.
      let ptr = mapping_ptr (inst_mapping y) in
      cbind (copy_to_mapping cl ptr (SurfaceUnmapOp_ptr opr) (runtime s)) (\<lambda>d.
      let argp = (if SurfaceUnmapOp_mapFlags opr AND VMACCEL_MAP_NO_FREE_PTR_FLAG = 0
            then argp\<lparr>CLSurfaceUnmapOp_op := opr\<lparr>SurfaceUnmapOp_ptr := Vec 0 None\<rparr>\<rparr> else argp);
          refCount = mapping_refCount (inst_mapping y) - 1;
          (errNum, d) = (if refCount = 0 \<and> SurfaceDesc_type (surface_desc x) = VMACCEL_SURFACE_BUFFER \<and> inst_svm_ptr y = 0
            then clEnqueueUnmapMemObject cl (queue_queue q) (inst_mem y) ptr d else (CL_SUCCESS, d));
          y = y\<lparr>inst_mapping := \<lparr>mapping_ptr = (if refCount = 0 then 0 else ptr), mapping_refCount = refCount\<rparr>\<rparr>;
          (result, y) = (if errNum \<noteq> CL_SUCCESS then (status_of VMACCEL_FAIL, y)
            else (zero_VMAccelStatus, y\<lparr>inst_generation := gen\<rparr>)) in
      cbind (put_inst sid inst y (s\<lparr>runtime := d\<rparr>)) (\<lambda>s.
      cbind (unlock_both sid inst s) (\<lambda>s. Inr (Some result, argp, s)))))))))"

subsection \<open>Copies and fills\<close>

definition vmwopencl_surfacecopy_1 :: "'d cl_api \<Rightarrow> VMCLSurfaceCopyOp \<Rightarrow> 'd backend \<Rightarrow>
    (VMAccelStatus option \<times> VMCLSurfaceCopyOp \<times> 'd backend) cres" where
  "vmwopencl_surfacecopy_1 cl argp s =
     (let dst = CLSurfaceId_accel (CLSurfaceCopyOp_dst argp); src = CLSurfaceId_accel (CLSurfaceCopyOp_src argp);
          dstSid = SurfaceId_id dst; dstGen = SurfaceId_generation dst; dstInst = 0;
          srcSid = SurfaceId_id src; srcGen = SurfaceId_generation src; srcInst = 0;
          opr = CLSurfaceCopyOp_op argp;
          unlock = (\<lambda>s. cbind (unlock_inst dstSid dstInst s) (\<lambda>s. cbind (unlock_inst srcSid srcInst s) (\<lambda>s.
            cbind (unlock_surface dstSid s) (unlock_surface srcSid)))) in
      cbind (ptr_read (queues s) (CLQueueId_id (CLSurfaceCopyOp_queue argp))) (\<lambda>q.
      cbind (cassert (CLSurfaceId_cid (CLSurfaceCopyOp_dst argp) = CLSurfaceId_cid (CLSurfaceCopyOp_src argp))) (\<lambda>_.
      cbind (lock_surface srcSid s) (\<lambda>s. cbind (lock_surface dstSid s) (\<lambda>s.
      cbind (lock_inst srcSid srcInst s) (\<lambda>s. cbind (lock_inst dstSid dstInst s) (\<lambda>s.
      cbind (get_surface srcSid s) (\<lambda>xs. cbind (get_inst srcSid srcInst s) (\<lambda>ys.
      cbind (get_surface dstSid s) (\<lambda>xd. cbind (get_inst dstSid dstInst s) (\<lambda>yd.
      if inst_generation ys < srcGen then
        cbind (unlock s) (\<lambda>s. Inr (Some (status_of VMACCEL_RESOURCE_UNAVAILABLE), argp, s))
      else if srcGen < inst_generation ys \<or> dstGen < inst_generation yd then
        cbind (unlock s) (\<lambda>s. Inr (Some (status_of VMACCEL_SEMANTIC_ERROR), argp, s))
      else if inst_svm_ptr ys \<noteq> 0 \<or> inst_svm_ptr yd \<noteq> 0 then
        cbind (unlock s) (\<lambda>s. Inr (Some (status_of VMACCEL_FAIL), argp, s))
      else
        cbind (cassert (SurfaceDesc_type (surface_desc xd) = VMACCEL_SURFACE_BUFFER \<and>
          SurfaceDesc_type (surface_desc xs) = VMACCEL_SURFACE_BUFFER)) (\<lambda>_.
        let (errNum, d) = clEnqueueCopyBuffer cl (queue_queue q) (inst_mem ys) (inst_mem yd)
              (Coordinate3DUINT_x (SurfaceRegion_coord (SurfaceCopyOp_srcRegion opr)))
              (Coordinate3DUINT_x (SurfaceRegion_coord (SurfaceCopyOp_dstRegion opr)))
              (Coordinate3DUINT_x (SurfaceRegion_size (SurfaceCopyOp_dstRegion opr))) (runtime s) in
        cbind (unlock (s\<lparr>runtime := d\<rparr>)) (\<lambda>s.
        Inr (Some (if errNum \<noteq> CL_SUCCESS then status_of VMACCEL_FAIL else zero_VMAccelStatus), argp, s))))))))))))))"

definition vmwopencl_imagefill_1 :: "'d cl_api \<Rightarrow> VMCLImageFillOp \<Rightarrow> 'd backend \<Rightarrow>
    (VMAccelStatus option \<times> VMCLImageFillOp \<times> 'd backend) cres" where
  "vmwopencl_imagefill_1 cl argp s =
     (let img = CLSurfaceId_accel (CLImageFillOp_img argp); sid = SurfaceId_id img; gen = SurfaceId_generation img;
          inst = 0; opr = CLImageFillOp_op argp; region = ImageFillOp_dstRegion opr in
      cbind (ptr_read (queues s) (CLQueueId_id (CLImageFillOp_queue argp))) (\<lambda>q.
      cbind (lock_both sid inst s) (\<lambda>s.
      cbind (get_surface sid s) (\<lambda>x.
      cbind (get_inst sid inst s) (\<lambda>y.
      if inst_generation y < gen then
        cbind (unlock_both sid inst s) (\<lambda>s. Inr (Some (status_of VMACCEL_RESOURCE_UNAVAILABLE), argp, s))
      else if gen < inst_generation y then
        cbind (unlock_both sid inst s) (\<lambda>s. Inr (Some (status_of VMACCEL_SEMANTIC_ERROR), argp, s))
      else if inst_svm_ptr y \<noteq> 0 then
        cbind (unlock_both sid inst s) (\<lambda>s. Inr (Some (status_of VMACCEL_FAIL), argp, s))
      else
        cbind (cassert (SurfaceDesc_type (surface_desc x) = VMACCEL_SURFACE_BUFFER)) (\<lambda>_.
        let (errNum, d) = clEnqueueFillBuffer cl (queue_queue q) (inst_mem y) (ImageFillOp_u opr)
              (Coordinate3DUINT_x (SurfaceRegion_coord region)) (Coordinate3DUINT_x (SurfaceRegion_size region)) (runtime s);
            s = s\<lparr>runtime := d\<rparr> in
        cbind (if errNum \<noteq> CL_SUCCESS then Inr (status_of VMACCEL_FAIL, s)
               else cbind (put_inst sid inst (y\<lparr>inst_generation := gen\<rparr>) s) (\<lambda>s. Inr (zero_VMAccelStatus, s))) (\<lambda>(result, s).
        cbind (unlock_both sid inst s) (\<lambda>s. Inr (Some result, argp, s)))))))))"

subsection \<open>Samplers\<close>

definition vmwopencl_sampleralloc_1 :: "VMCLSamplerAllocateDesc \<Rightarrow> 'd backend \<Rightarrow>
    (VMCLSamplerAllocateStatus option \<times> VMCLSamplerAllocateDesc \<times> 'd backend) cres" where
  "vmwopencl_sampleralloc_1 argp s =
     cbind (cassert False) (\<lambda>_. Inr (Some \<lparr>CLSamplerAllocateStatus_status = VMACCEL_FAIL\<rparr>, argp, s))"

definition vmwopencl_samplerdestroy_1 :: "VMCLSamplerId \<Rightarrow> 'd backend \<Rightarrow>
    (VMAccelStatus option \<times> VMCLSamplerId \<times> 'd backend) cres" where
  "vmwopencl_samplerdestroy_1 argp s = cbind (cassert False) (\<lambda>_. Inr (Some (status_of VMACCEL_FAIL), argp, s))"

subsection \<open>Kernels\<close>

text \<open>The program of a kernel: from source or from an intermediate language, by the language it
  is written in, the version of the context and the version the backend is built for.\<close>

definition create_program :: "cl_build \<Rightarrow> 'd cl_api \<Rightarrow> VMWOpenCLContext \<Rightarrow> VMCLKernelAllocateDesc \<Rightarrow> 'd \<Rightarrow>
    (u32 \<times> u64 \<times> 'd) cres" where
  "create_program b cl cx argp d =
     (let lang = CLKernelAllocateDesc_language argp; src = CLKernelAllocateDesc_source argp;
          context = context_context cx; major = context_majorVersion cx; minor = context_minorVersion cx in
      if lang = VMCL_OPENCL_C_1_0 \<or> lang = VMCL_OPENCL_C_1_1 \<or> lang = VMCL_OPENCL_C_1_2 \<or>
         (CL_VERSION_2_0 b \<and> 2 \<le> major \<and> 2 \<le> minor \<and> lang = VMCL_OPENCL_C_2_0) then
        Inr (clCreateProgramWithSource cl context src d)
      else if CL_VERSION_2_2 b \<and> 2 \<le> major \<and> 2 \<le> minor \<and> lang = VMCL_OPENCL_CPP_1_0 then
        Inr (clCreateProgramWithSource cl context src d)
      else if CL_VERSION_2_2 b \<and> 2 \<le> major \<and> 2 \<le> minor \<and> (lang = VMCL_SPIRV_1_1 \<or> lang = VMCL_SPIRV_1_2) then
        Inr (clCreateProgramWithIL cl context src d)
      else if CL_VERSION_2_1 b \<and> 2 \<le> major \<and> 1 \<le> minor \<and> lang = VMCL_SPIRV_1_0 then
        Inr (clCreateProgramWithIL cl context src d)
      else Inl AssertFailed)"

definition vmwopencl_kernelalloc_1 :: "cl_build \<Rightarrow> 'd cl_api \<Rightarrow> VMCLKernelAllocateDesc \<Rightarrow> 'd backend \<Rightarrow>
    (VMCLKernelAllocateStatus option \<times> VMCLKernelAllocateDesc \<times> 'd backend) cres" where
  "vmwopencl_kernelalloc_1 b cl argp s =
     (let cid = CLKernelId_cid (CLKernelAllocateDesc_client argp); kid = CLKernelId_id (CLKernelAllocateDesc_client argp);
          failed = \<lparr>CLKernelAllocateStatus_status = VMACCEL_FAIL\<rparr> in
      cbind (ptr_read (contexts s) cid) (\<lambda>cx.
      cbind (cread (context_deviceIds cx) (unat (CLKernelAllocateDesc_subDevice argp))) (\<lambda>deviceId.
      cbind (id_active (kernelIds s) kid) (\<lambda>active.
      if active then Inr (Some \<lparr>CLKernelAllocateStatus_status = VMACCEL_RESOURCE_UNAVAILABLE\<rparr>, argp, s) else
      cbind (create_program b cl cx argp (runtime s)) (\<lambda>(errNum, program, d). let s = s\<lparr>runtime := d\<rparr> in
      if program = 0 \<or> errNum \<noteq> CL_SUCCESS then Inr (Some failed, argp, s) else
      let (errNum, d) = clBuildProgram cl program deviceId (runtime s) in
      if errNum \<noteq> CL_SUCCESS then Inr (Some failed, argp, s\<lparr>runtime := clReleaseProgram cl program d\<rparr>) else
      let (krn, d) = clCreateKernel cl program (CLKernelAllocateDesc_kernelName argp) d in
      if krn = 0 then Inr (Some failed, argp, s\<lparr>runtime := clReleaseProgram cl program d\<rparr>) else
      cbind (id_acquire (kernelIds s) kid) (\<lambda>(acquired, p). let s = s\<lparr>runtime := d, kernelIds := p\<rparr> in
      cbind (cassert acquired) (\<lambda>_.
      cbind (ptr_write (kernels s) kid \<lparr>kernel_program = program, kernel_kernel = krn\<rparr>) (\<lambda>q.
      Inr (Some \<lparr>CLKernelAllocateStatus_status = VMACCEL_SUCCESS\<rparr>, argp, s\<lparr>kernels := q\<rparr>)))))))))"

definition vmwopencl_kerneldestroy_1 :: "'d cl_api \<Rightarrow> VMCLKernelId \<Rightarrow> 'd backend \<Rightarrow>
    (VMAccelStatus option \<times> VMCLKernelId \<times> 'd backend) cres" where
  "vmwopencl_kerneldestroy_1 cl argp s =
     (let kid = CLKernelId_id argp in
      cbind (id_active (kernelIds s) kid) (\<lambda>active.
      if \<not> active then Inr (Some (status_of VMACCEL_SUCCESS), argp, s) else
      cbind (ptr_read (kernels s) kid) (\<lambda>x.
      let s = s\<lparr>runtime := clReleaseKernel cl (kernel_kernel x) (clReleaseProgram cl (kernel_program x) (runtime s))\<rparr> in
      cbind (ptr_write (kernels s) kid zero_VMWOpenCLKernel) (\<lambda>q. let s = s\<lparr>kernels := q\<rparr> in
      cbind (id_release (kernelIds s) kid) (\<lambda>p. Inr (Some (status_of VMACCEL_SUCCESS), argp, s\<lparr>kernelIds := p\<rparr>))))))"

subsection \<open>Dispatch\<close>

text \<open>One argument: \<open>Some c\<close> when the function leaves the loop with status \<open>c\<close>, with the locks of
  the argument held in either case.\<close>

definition dispatch_arg :: "cl_build \<Rightarrow> 'd cl_api \<Rightarrow> u64 \<Rightarrow> VMCLKernelArgDesc \<Rightarrow> 'd backend \<Rightarrow> (u32 option \<times> 'd backend) cres" where
  "dispatch_arg b cl krn a s =
     cbind (cassert (CLKernelArgDesc_type a = VMCL_ARG_SURFACE)) (\<lambda>_.
     let surf = CLKernelArgDesc_surf a; sid = SurfaceId_id surf; gen = SurfaceId_generation surf; inst = SurfaceId_instance surf in
     cbind (lock_both sid inst s) (\<lambda>s.
     cbind (get_inst sid inst s) (\<lambda>y.
     if inst_generation y \<noteq> gen then
       Inr (Some (if gen < inst_generation y then VMACCEL_SEMANTIC_ERROR else VMACCEL_RESOURCE_UNAVAILABLE), s)
     else
       let (errNum, d) =
         (if CL_VERSION_2_0 b \<and> inst_svm_ptr y \<noteq> 0 then
            let (errNum, d) = clSetKernelArgSVMPointer cl krn (CLKernelArgDesc_index a) (inst_svm_ptr y) (runtime s) in
            if errNum = CL_SUCCESS then clSetKernelExecInfo cl krn (inst_svm_ptr y) d else (errNum, d)
          else clSetKernelArg cl krn (CLKernelArgDesc_index a) (inst_mem y) (runtime s)) in
       Inr (if errNum \<noteq> CL_SUCCESS then Some VMACCEL_FAIL else None, s\<lparr>runtime := d\<rparr>))))"

function dispatch_loop :: "cl_build \<Rightarrow> 'd cl_api \<Rightarrow> u64 \<Rightarrow> VMCLKernelArgDesc c_vec \<Rightarrow> nat \<Rightarrow> 'd backend \<Rightarrow>
    (u32 option \<times> nat \<times> 'd backend) cres" where
  "dispatch_loop b cl krn args argIndex s =
     (if argIndex < unat (vec_len args) then
        cbind (vec_at args argIndex) (\<lambda>a.
        cbind (dispatch_arg b cl krn a s) (\<lambda>(c, s).
        if c = None then dispatch_loop b cl krn args (Suc argIndex) s else Inr (c, argIndex, s)))
      else Inr (None, argIndex, s))"
  by pat_completeness auto
termination
  by (relation "measure (\<lambda>(b, cl, krn, args, i, s). unat (vec_len args) - i)") auto

declare dispatch_loop.simps [simp del]

text \<open>The loop that unlocks the surfaces of the arguments below \<open>n\<close>, the last one first.\<close>

fun dispatch_cleanup :: "VMCLKernelArgDesc c_vec \<Rightarrow> nat \<Rightarrow> 'd backend \<Rightarrow> 'd backend cres" where
  "dispatch_cleanup args 0 s = Inr s"
| "dispatch_cleanup args (Suc n) s =
     cbind (vec_at args n) (\<lambda>a.
     cbind (if CLKernelArgDesc_type a = VMCL_ARG_SURFACE
            then unlock_both (SurfaceId_id (CLKernelArgDesc_surf a)) (SurfaceId_instance (CLKernelArgDesc_surf a)) s
            else Inr s)
       (dispatch_cleanup args n))"

text \<open>Where the cleanup starts: \<^verbatim>\<open>MIN(argIndex, args_len - 1)\<close>, compared as unsigned.\<close>

definition cleanup_index :: "nat \<Rightarrow> u32 \<Rightarrow> nat" where
  "cleanup_index argIndex args_len =
     (if of_nat argIndex < args_len - 1 then argIndex else unat (args_len - 1))"

text \<open>The sizes of the work, copied one dimension at a time.\<close>

definition work_item :: "VMCLDispatchOp \<Rightarrow> nat \<Rightarrow> (u32 \<times> u32 \<times> u32) cres" where
  "work_item argp i =
     cbind (vec_at (CLDispatchOp_globalWorkOffset argp) i) (\<lambda>off.
     cbind (vec_at (CLDispatchOp_globalWorkSize argp) i) (\<lambda>glob.
     cbind (vec_at (CLDispatchOp_localWorkSize argp) i) (\<lambda>loc. Inr (off, glob, loc))))"

definition dispatch_enqueue :: "'d cl_api \<Rightarrow> (nat \<Rightarrow> nat \<Rightarrow> bool) \<Rightarrow> u64 \<Rightarrow> u64 \<Rightarrow> VMCLDispatchOp \<Rightarrow> 'd backend \<Rightarrow>
    (u32 \<times> 'd backend) cres" where
  "dispatch_enqueue cl calloc_ok queue krn argp s =
     (let dim = CLDispatchOp_dimension argp; n = unat dim in
      cbind (cassert (dim \<le> CL_DEVICE_MAX_WORK_ITEM_DIMENSIONS)) (\<lambda>_.
      if n \<noteq> 0 \<and> \<not> (calloc_ok 0 (n * 8) \<and> calloc_ok 1 (n * 8) \<and> calloc_ok 2 (n * 8)) then Inl NullPointer else
      cbind (cmap (work_item argp) [0..<n]) (\<lambda>ws.
      let (errNum, d) = clEnqueueNDRangeKernel cl queue krn dim (map fst ws) (map (fst \<circ> snd) ws) (map (snd \<circ> snd) ws) (runtime s) in
      Inr (if errNum \<noteq> CL_SUCCESS then VMACCEL_FAIL else VMACCEL_SUCCESS, s\<lparr>runtime := d\<rparr>))))"

definition vmwopencl_dispatch_1 :: "cl_build \<Rightarrow> 'd cl_api \<Rightarrow> (nat \<Rightarrow> nat \<Rightarrow> bool) \<Rightarrow> VMCLDispatchOp \<Rightarrow> 'd backend \<Rightarrow>
    (VMAccelStatus option \<times> VMCLDispatchOp \<times> 'd backend) cres" where
  "vmwopencl_dispatch_1 b cl calloc_ok argp s =
     (let args = CLDispatchOp_args argp in
      cbind (ptr_read (queues s) (CLQueueId_id (CLDispatchOp_queue argp))) (\<lambda>q.
      cbind (ptr_read (kernels s) (CLKernelId_id (CLDispatchOp_kernel argp))) (\<lambda>k.
      cbind (dispatch_loop b cl (kernel_kernel k) args 0 s) (\<lambda>(c, argIndex, s).
      cbind (case c of Some c \<Rightarrow> Inr (c, s)
             | None \<Rightarrow> dispatch_enqueue cl calloc_ok (queue_queue q) (kernel_kernel k) argp s) (\<lambda>(c, s).
      cbind (dispatch_cleanup args (Suc (cleanup_index argIndex (vec_len args))) s) (\<lambda>s.
      Inr (Some (status_of c), argp, s)))))))"

subsection \<open>The operations table\<close>

definition vmwopenclOps :: "cl_build \<Rightarrow> 'd cl_api \<Rightarrow> (nat \<Rightarrow> nat \<Rightarrow> bool) \<Rightarrow> 'd backend VMCLOps" where
  "vmwopenclOps b cl calloc_ok =
     \<lparr>poweron = vmwopencl_poweron b cl calloc_ok,
      poweroff = vmwopencl_poweroff,
      contextalloc_1 = vmwopencl_contextalloc_1 cl,
      contextdestroy_1 = vmwopencl_contextdestroy_1 cl,
      surfacealloc_1 = vmwopencl_surfacealloc_1 b cl,
      surfacedestroy_1 = vmwopencl_surfacedestroy_1 b cl,
      queuealloc_1 = vmwopencl_queuealloc_1 cl calloc_ok,
      queuedestroy_1 = vmwopencl_queuedestroy_1 cl,
      sampleralloc_1 = vmwopencl_sampleralloc_1,
      samplerdestroy_1 = vmwopencl_samplerdestroy_1,
      kernelalloc_1 = vmwopencl_kernelalloc_1 b cl,
      kerneldestroy_1 = vmwopencl_kerneldestroy_1 cl,
      queueflush_1 = vmwopencl_queueflush_1 cl,
      imageupload_1 = vmwopencl_imageupload_1 cl,
      imagedownload_1 = vmwopencl_imagedownload_1 cl calloc_ok,
      surfacemap_1 = vmwopencl_surfacemap_1 cl,
      surfaceunmap_1 = vmwopencl_surfaceunmap_1 cl,
      surfacecopy_1 = vmwopencl_surfacecopy_1 cl,
      imagefill_1 = vmwopencl_imagefill_1 cl,
      dispatch_1 = vmwopencl_dispatch_1 b cl calloc_ok\<rparr>"

end
