(* ===== verification/Vmwopencl_Locks.thy ===== *)
theory Vmwopencl_Locks
  imports Vmwopencl
begin

section \<open>The backend without its locks\<close>

text \<open>
  The operations on a surface take the mutex of the surface and of the instance, work, and
  release them.  The lemmas here rewrite a run of such an operation to its effect on the
  table, given that the surface and the instance exist and that both mutexes can be taken.
\<close>

named_theorems surface_simps \<open>symbolic execution on the surface table\<close>

definition with_surface :: "u32 \<Rightarrow> VMWOpenCLSurface \<Rightarrow> 'd backend \<Rightarrow> 'd backend" where
  "with_surface sid x s = (case surfaces s of Live xs \<Rightarrow> s\<lparr>surfaces := Live (xs[unat sid := x])\<rparr> | _ \<Rightarrow> s)"

definition lockable :: "pthread_mutex \<Rightarrow> bool" where
  "lockable m \<longleftrightarrow> mutex_recursive m \<or> mutex_count m = 0"

definition locked :: "pthread_mutex \<Rightarrow> pthread_mutex" where
  "locked m = m\<lparr>mutex_count := mutex_count m + 1\<rparr>"

lemma mutex_lock_eq: "mutex_lock m = (if lockable m then Inr (locked m) else Inl Spins)"
  by (simp add: mutex_lock_def lockable_def locked_def)

lemma unlock_locked [simp]: "mutex_unlock (locked m) = m"
  by (simp add: mutex_unlock_def locked_def)

lemma lockable_locked [simp]: "mutex_recursive m \<Longrightarrow> lockable (locked m)"
  by (simp add: lockable_def locked_def)

lemma recursive_locked [simp]: "mutex_recursive (locked m) = mutex_recursive m" "mutex_recursive (mutex_unlock m) = mutex_recursive m"
  by (simp_all add: locked_def mutex_unlock_def)

lemma get_surface_eq_Inr:
  "get_surface sid s = Inr x \<longleftrightarrow> (\<exists>xs. surfaces s = Live xs \<and> unat sid < length xs \<and> xs ! unat sid = x)"
  by (auto simp: get_surface_def ptr_read_def cbind_eq_Inr deref_eq_Inr cread_eq_Inr)

lemma put_surface_eq [surface_simps]:
  "get_surface sid s = Inr x \<Longrightarrow> put_surface sid x' s = Inr (with_surface sid x' s)"
  by (auto simp: get_surface_eq_Inr put_surface_def ptr_write_def with_surface_def)

lemma get_with_surface [simp]:
  "get_surface sid s = Inr x \<Longrightarrow> get_surface sid (with_surface sid x' s) = Inr x'"
  by (auto simp: get_surface_eq_Inr with_surface_def)

lemma get_with_other [simp]:
  "sid \<noteq> sid' \<Longrightarrow> get_surface sid (with_surface sid' x' s) = get_surface sid s"
  by (cases "surfaces s") (simp_all add: with_surface_def get_surface_def ptr_read_def cread_def nth_list_update word_unat_eq_iff)

lemma with_with [simp]: "with_surface sid x (with_surface sid x' s) = with_surface sid x s"
  by (cases "surfaces s") (simp_all add: with_surface_def)

lemma with_with_other [simp]:
  "sid \<noteq> sid' \<Longrightarrow> with_surface sid x (with_surface sid' x' (with_surface sid x'' s)) = with_surface sid x (with_surface sid' x' s)"
  by (cases "surfaces s") (simp_all add: with_surface_def word_unat_eq_iff list_update_swap)

lemma with_same: "get_surface sid s = Inr x \<Longrightarrow> with_surface sid x s = s"
  by (auto simp: get_surface_eq_Inr with_surface_def)

lemma with_surface_fields [simp]:
  "runtime (with_surface sid x s) = runtime s" "caps (with_surface sid x s) = caps s"
  "contexts (with_surface sid x s) = contexts s" "contextIds (with_surface sid x s) = contextIds s"
  "surfaceIds (with_surface sid x s) = surfaceIds s" "queues (with_surface sid x s) = queues s"
  "queueIds (with_surface sid x s) = queueIds s" "samplers (with_surface sid x s) = samplers s"
  "samplerIds (with_surface sid x s) = samplerIds s" "kernels (with_surface sid x s) = kernels s"
  "kernelIds (with_surface sid x s) = kernelIds s" "upload_result (with_surface sid x s) = upload_result s"
  "download_result (with_surface sid x s) = download_result s"
  by (cases "surfaces s"; simp add: with_surface_def)+

lemma with_surface_update [simp]:
  "(with_surface sid x s)\<lparr>runtime := d\<rparr> = with_surface sid x (s\<lparr>runtime := d\<rparr>)"
  "(with_surface sid x s)\<lparr>upload_result := u\<rparr> = with_surface sid x (s\<lparr>upload_result := u\<rparr>)"
  "(with_surface sid x s)\<lparr>download_result := w\<rparr> = with_surface sid x (s\<lparr>download_result := w\<rparr>)"
  "(with_surface sid x s)\<lparr>surfaceIds := p\<rparr> = with_surface sid x (s\<lparr>surfaceIds := p\<rparr>)"
  by (cases "surfaces s"; simp add: with_surface_def)+

lemma get_surface_update [simp]:
  "get_surface sid (s\<lparr>runtime := d\<rparr>) = get_surface sid s"
  "get_surface sid (s\<lparr>upload_result := u\<rparr>) = get_surface sid s"
  "get_surface sid (s\<lparr>download_result := w\<rparr>) = get_surface sid s"
  "get_surface sid (s\<lparr>surfaceIds := p\<rparr>) = get_surface sid s"
  by (simp_all add: get_surface_def)

text \<open>The instance \<open>i\<close> of a surface replaced, and a surface with both locks held.\<close>

definition set_inst :: "u32 \<Rightarrow> VMWOpenCLSurfaceInstance \<Rightarrow> VMWOpenCLSurface \<Rightarrow> VMWOpenCLSurface" where
  "set_inst i y x = x\<lparr>surface_inst := (surface_inst x)[unat i := y]\<rparr>"

lemma set_inst_simps [simp]:
  "surface_mutex (set_inst i y x) = surface_mutex x" "surface_desc (set_inst i y x) = surface_desc x"
  "surface_cid (set_inst i y x) = surface_cid x" "length (surface_inst (set_inst i y x)) = length (surface_inst x)"
  "set_inst i y (set_inst i y' x) = set_inst i y x"
  "unat i < length (surface_inst x) \<Longrightarrow> surface_inst (set_inst i y x) ! unat i = y"
  "(set_inst i y x)\<lparr>surface_mutex := m\<rparr> = set_inst i y (x\<lparr>surface_mutex := m\<rparr>)"
  "set_inst i (surface_inst x ! unat i) x = x"
  by (simp_all add: set_inst_def)

definition has_inst :: "u32 \<Rightarrow> u32 \<Rightarrow> VMWOpenCLSurface \<Rightarrow> 'd backend \<Rightarrow> bool" where
  "has_inst sid i x s \<longleftrightarrow> get_surface sid s = Inr x \<and> unat i < length (surface_inst x)"

lemma has_instD: "has_inst sid i x s \<Longrightarrow> get_surface sid s = Inr x" "has_inst sid i x s \<Longrightarrow> unat i < length (surface_inst x)"
  by (simp_all add: has_inst_def)

lemma has_inst_with [simp]:
  "has_inst sid i x s \<Longrightarrow> length (surface_inst x') = length (surface_inst x) \<Longrightarrow> has_inst sid i x' (with_surface sid x' s)"
  by (simp add: has_inst_def)

lemma get_inst_eq [surface_simps]: "has_inst sid i x s \<Longrightarrow> get_inst sid i s = Inr (surface_inst x ! unat i)"
  by (simp add: has_inst_def get_inst_def)

lemma put_inst_eq [surface_simps]: "has_inst sid i x s \<Longrightarrow> put_inst sid i y s = Inr (with_surface sid (set_inst i y x) s)"
  by (simp add: has_inst_def put_inst_def put_surface_eq set_inst_def)

lemma get_inst_Inr: "get_inst sid i s = Inr y \<longleftrightarrow> (\<exists>x. has_inst sid i x s \<and> surface_inst x ! unat i = y)"
  by (auto simp: get_inst_def has_inst_def cbind_eq_Inr cread_eq_Inr)

text \<open>A surface whose locks can be taken, and the two lock operations on it.\<close>

definition ready :: "u32 \<Rightarrow> u32 \<Rightarrow> VMWOpenCLSurface \<Rightarrow> 'd backend \<Rightarrow> bool" where
  "ready sid i x s \<longleftrightarrow> has_inst sid i x s \<and> lockable (surface_mutex x) \<and> lockable (inst_mutex (surface_inst x ! unat i))"

definition both_locked :: "u32 \<Rightarrow> VMWOpenCLSurface \<Rightarrow> VMWOpenCLSurface" where
  "both_locked i x =
     (let y = surface_inst x ! unat i in set_inst i (y\<lparr>inst_mutex := locked (inst_mutex y)\<rparr>) (x\<lparr>surface_mutex := locked (surface_mutex x)\<rparr>))"

lemma both_locked_simps [simp]:
  "surface_desc (both_locked i x) = surface_desc x" "surface_cid (both_locked i x) = surface_cid x"
  "length (surface_inst (both_locked i x)) = length (surface_inst x)"
  by (simp_all add: both_locked_def Let_def)

lemma both_locked_inst:
  "unat i < length (surface_inst x) \<Longrightarrow> surface_inst (both_locked i x) ! unat i =
     (surface_inst x ! unat i)\<lparr>inst_mutex := locked (inst_mutex (surface_inst x ! unat i))\<rparr>"
  by (simp add: both_locked_def Let_def set_inst_def)

lemma lock_surface_eq:
  "get_surface sid s = Inr x \<Longrightarrow>
   lock_surface sid s = (if lockable (surface_mutex x) then Inr (with_surface sid (x\<lparr>surface_mutex := locked (surface_mutex x)\<rparr>) s) else Inl Spins)"
  by (simp add: lock_surface_def mutex_lock_eq put_surface_eq)

lemma unlock_surface_eq [surface_simps]:
  "get_surface sid s = Inr x \<Longrightarrow>
   unlock_surface sid s = Inr (with_surface sid (x\<lparr>surface_mutex := mutex_unlock (surface_mutex x)\<rparr>) s)"
  by (simp add: unlock_surface_def put_surface_eq)

lemma lock_inst_eq:
  "has_inst sid i x s \<Longrightarrow> lock_inst sid i s = (let y = surface_inst x ! unat i in
     if lockable (inst_mutex y) then Inr (with_surface sid (set_inst i (y\<lparr>inst_mutex := locked (inst_mutex y)\<rparr>) x) s) else Inl Spins)"
  by (simp add: lock_inst_def get_inst_eq mutex_lock_eq put_inst_eq Let_def)

lemma unlock_inst_eq [surface_simps]:
  "has_inst sid i x s \<Longrightarrow> unlock_inst sid i s = (let y = surface_inst x ! unat i in
     Inr (with_surface sid (set_inst i (y\<lparr>inst_mutex := mutex_unlock (inst_mutex y)\<rparr>) x) s))"
  by (simp add: unlock_inst_def get_inst_eq put_inst_eq Let_def)

lemma has_inst_mutex: "has_inst sid i x s \<Longrightarrow> has_inst sid i (x\<lparr>surface_mutex := m\<rparr>) (with_surface sid (x\<lparr>surface_mutex := m\<rparr>) s)"
  by simp

lemma lock_both_eq:
  assumes "ready sid i x s"
  shows "lock_both sid i s = Inr (with_surface sid (both_locked i x) s)"
proof -
  have h: "has_inst sid i x s" using assms by (simp add: ready_def)
  show ?thesis using assms h [THEN has_instD(1)]
    by (simp add: lock_both_def lock_surface_eq ready_def lock_inst_eq [OF has_inst_mutex [OF h]] both_locked_def Let_def)
qed

lemma lock_both_cases:
  assumes "lock_both sid i s = Inr s'"
  obtains x where "ready sid i x s" and "s' = with_surface sid (both_locked i x) s"
proof -
  obtain x where x: "get_surface sid s = Inr x" using assms by (cases "get_surface sid s") (simp_all add: lock_both_def lock_surface_def)
  let ?s = "with_surface sid (x\<lparr>surface_mutex := locked (surface_mutex x)\<rparr>) s"
  have l: "lockable (surface_mutex x)" "lock_inst sid i ?s = Inr s'"
    using assms x by (auto simp: lock_both_def lock_surface_eq split: if_splits)
  have "unat i < length (surface_inst x)"
  proof (rule ccontr)
    assume "\<not> ?thesis"
    then have "get_inst sid i ?s = Inl OutOfBounds" using x by (simp add: get_inst_def)
    with l(2) show False by (simp add: lock_inst_def)
  qed
  with x have h: "has_inst sid i x s" by (simp add: has_inst_def)
  with l have "ready sid i x s"
    by (auto simp: ready_def lock_inst_eq [OF has_inst_mutex [OF h]] Let_def split: if_splits)
  with lock_both_eq [OF this] assms that show ?thesis by simp
qed

lemma unlock_both_eq:
  assumes "has_inst sid i x s" and "y = surface_inst x ! unat i"
  shows "unlock_both sid i s = Inr (with_surface sid (set_inst i (y\<lparr>inst_mutex := mutex_unlock (inst_mutex y)\<rparr>)
    (x\<lparr>surface_mutex := mutex_unlock (surface_mutex x)\<rparr>)) s)"
proof -
  let ?x = "set_inst i (y\<lparr>inst_mutex := mutex_unlock (inst_mutex y)\<rparr>) x"
  have "get_surface sid (with_surface sid ?x s) = Inr ?x" using assms(1) by (simp add: has_inst_def)
  then show ?thesis using assms by (simp add: unlock_both_def unlock_inst_eq unlock_surface_eq Let_def)
qed

text \<open>The end of an operation: the instance it left behind, with the locks as they were before.\<close>

lemma unlock_both_update:
  assumes "ready sid i x s" and "inst_mutex y' = locked (inst_mutex (surface_inst x ! unat i))"
  shows "unlock_both sid i (with_surface sid (set_inst i y' (both_locked i x)) s) =
    Inr (with_surface sid (set_inst i (y'\<lparr>inst_mutex := inst_mutex (surface_inst x ! unat i)\<rparr>) x) s)"
proof -
  let ?x = "set_inst i y' (both_locked i x)"
  have h: "has_inst sid i x s" "unat i < length (surface_inst x)" using assms by (simp_all add: ready_def has_inst_def)
  then have "has_inst sid i ?x (with_surface sid ?x s)" by simp
  from unlock_both_eq [OF this refl] h assms(2) show ?thesis
    by (simp add: both_locked_def Let_def)
qed

lemma unlock_both_locked:
  assumes "ready sid i x s"
  shows "unlock_both sid i (with_surface sid (both_locked i x) s) = Inr s"
proof -
  have h: "unat i < length (surface_inst x)" using assms by (simp add: ready_def has_inst_def)
  let ?y = "surface_inst x ! unat i"
  have e: "set_inst i (?y\<lparr>inst_mutex := locked (inst_mutex ?y)\<rparr>) (both_locked i x) = both_locked i x"
    by (simp add: both_locked_def Let_def)
  have g: "get_surface sid s = Inr x" using assms by (simp add: ready_def has_inst_def)
  show ?thesis using unlock_both_update [OF assms, of "?y\<lparr>inst_mutex := locked (inst_mutex ?y)\<rparr>"] e with_same [OF g] by simp
qed

text \<open>The steps of an operation between the two.\<close>

lemma ready_update [simp]:
  "ready sid i x (s\<lparr>runtime := d\<rparr>) = ready sid i x s" "ready sid i x (s\<lparr>upload_result := u\<rparr>) = ready sid i x s"
  "ready sid i x (s\<lparr>download_result := w\<rparr>) = ready sid i x s"
  by (simp_all add: ready_def has_inst_def)

lemma readyD:
  assumes "ready sid i x s"
  shows "get_surface sid s = Inr x" and "unat i < length (surface_inst x)" and "has_inst sid i x s"
  using assms by (simp_all add: ready_def has_inst_def)

lemma locked_steps:
  assumes "ready sid i x s"
  shows "get_surface sid (with_surface sid (both_locked i x) s) = Inr (both_locked i x)"
    and "get_inst sid i (with_surface sid (both_locked i x) s) =
      Inr ((surface_inst x ! unat i)\<lparr>inst_mutex := locked (inst_mutex (surface_inst x ! unat i))\<rparr>)"
    and "put_inst sid i y (with_surface sid (both_locked i x) s) = Inr (with_surface sid (set_inst i y (both_locked i x)) s)"
proof -
  note r = readyD [OF assms]
  have h: "has_inst sid i (both_locked i x) (with_surface sid (both_locked i x) s)" using r(3) by simp
  show "get_surface sid (with_surface sid (both_locked i x) s) = Inr (both_locked i x)" using r(1) by simp
  show "get_inst sid i (with_surface sid (both_locked i x) s) =
      Inr ((surface_inst x ! unat i)\<lparr>inst_mutex := locked (inst_mutex (surface_inst x ! unat i))\<rparr>)"
    using get_inst_eq [OF h] r(2) by (simp add: both_locked_inst)
  show "put_inst sid i y (with_surface sid (both_locked i x) s) = Inr (with_surface sid (set_inst i y (both_locked i x)) s)"
    using put_inst_eq [OF h] by simp
qed

lemmas lock_simps = locked_steps unlock_both_update unlock_both_locked

text \<open>With only the lock of the surface held.\<close>

definition surface_locked :: "VMWOpenCLSurface \<Rightarrow> VMWOpenCLSurface" where
  "surface_locked x = x\<lparr>surface_mutex := locked (surface_mutex x)\<rparr>"

lemma surface_locked_simps [simp]:
  "surface_desc (surface_locked x) = surface_desc x" "surface_cid (surface_locked x) = surface_cid x"
  "surface_inst (surface_locked x) = surface_inst x" "surface_mutex (surface_locked x) = locked (surface_mutex x)"
  "(surface_locked x)\<lparr>surface_mutex := surface_mutex x\<rparr> = x"
  by (simp_all add: surface_locked_def)

lemma surface_locked_steps:
  assumes "has_inst sid i x s"
  shows "lockable (surface_mutex x) \<Longrightarrow> lock_surface sid s = Inr (with_surface sid (surface_locked x) s)"
    and "get_surface sid (with_surface sid (surface_locked x) s) = Inr (surface_locked x)"
    and "get_inst sid i (with_surface sid (surface_locked x) s) = Inr (surface_inst x ! unat i)"
    and "put_inst sid i y (with_surface sid (surface_locked x) s) = Inr (with_surface sid (set_inst i y (surface_locked x)) s)"
    and "unlock_both sid i (with_surface sid (set_inst i y (surface_locked x)) s) =
      Inr (with_surface sid (set_inst i (y\<lparr>inst_mutex := mutex_unlock (inst_mutex y)\<rparr>) x) s)"
    and "unlock_surface sid (with_surface sid (surface_locked x) s) = Inr s"
proof -
  note r = has_instD [OF assms]
  have h: "has_inst sid i (surface_locked x) (with_surface sid (surface_locked x) s)"
    and h': "has_inst sid i (set_inst i y (surface_locked x)) (with_surface sid (set_inst i y (surface_locked x)) s)" using assms by simp_all
  show "lockable (surface_mutex x) \<Longrightarrow> lock_surface sid s = Inr (with_surface sid (surface_locked x) s)"
    using r(1) by (simp add: lock_surface_eq surface_locked_def)
  show g: "get_surface sid (with_surface sid (surface_locked x) s) = Inr (surface_locked x)" using r(1) by simp
  show "get_inst sid i (with_surface sid (surface_locked x) s) = Inr (surface_inst x ! unat i)"
    using get_inst_eq [OF h] by simp
  show "put_inst sid i y (with_surface sid (surface_locked x) s) = Inr (with_surface sid (set_inst i y (surface_locked x)) s)"
    using put_inst_eq [OF h] by simp
  show "unlock_both sid i (with_surface sid (set_inst i y (surface_locked x)) s) =
      Inr (with_surface sid (set_inst i (y\<lparr>inst_mutex := mutex_unlock (inst_mutex y)\<rparr>) x) s)"
    using unlock_both_eq [OF h' refl] r(2) by simp
  show "unlock_surface sid (with_surface sid (surface_locked x) s) = Inr s"
    using unlock_surface_eq [OF g] with_same [OF r(1)] by simp
qed

text \<open>A surface whose mutexes are recursive, as those of every allocated surface are.\<close>

definition recursive :: "u32 \<Rightarrow> u32 \<Rightarrow> 'd backend \<Rightarrow> bool" where
  "recursive sid i s = (case get_surface sid s of Inl _ \<Rightarrow> False
     | Inr x \<Rightarrow> unat i < length (surface_inst x) \<and> mutex_recursive (surface_mutex x) \<and>
         mutex_recursive (inst_mutex (surface_inst x ! unat i)))"

lemma recursive_ready:
  assumes "recursive sid i s"
  obtains x where "ready sid i x s" and "mutex_recursive (surface_mutex x)" and "mutex_recursive (inst_mutex (surface_inst x ! unat i))"
  using assms by (auto simp: recursive_def ready_def has_inst_def lockable_def split: sum.splits)

end
