(* ===== verification/C_Post.thy ===== *)
theory C_Post
  imports Accel_Prelude
begin

section \<open>Post-conditions of C functions\<close>

text \<open>
  \<open>cpost P m\<close> says that a call that returns does so with a value that has \<open>P\<close>.  The rules follow the
  shape of a program, so that a proof runs through the code of an operation; \<open>keeps ok f\<close> says that
  the operation \<open>f\<close> keeps the invariant \<open>ok\<close> of the state it works on.
\<close>

definition cpost :: "('a \<Rightarrow> bool) \<Rightarrow> 'a cres \<Rightarrow> bool" where
  "cpost P m = (case m of Inl _ \<Rightarrow> True | Inr v \<Rightarrow> P v)"

lemma cpost_eq: "cpost P m \<longleftrightarrow> (\<forall>v. m = Inr v \<longrightarrow> P v)"
  by (cases m) (simp_all add: cpost_def)

lemma cpostD: "cpost P m \<Longrightarrow> m = Inr v \<Longrightarrow> P v"
  by (simp add: cpost_eq)

named_theorems cpost_intros \<open>post-conditions, by the shape of the program\<close>

lemma cpost_Inl [cpost_intros]: "cpost P (Inl e)"
  and cpost_Inr [cpost_intros]: "P v \<Longrightarrow> cpost P (Inr v)"
  and cpost_if [cpost_intros]: "(b \<Longrightarrow> cpost P m) \<Longrightarrow> (\<not> b \<Longrightarrow> cpost P n) \<Longrightarrow> cpost P (if b then m else n)"
  and cpost_prod [cpost_intros]: "(\<And>a b. p = (a, b) \<Longrightarrow> cpost P (f a b)) \<Longrightarrow> cpost P (case p of (a, b) \<Rightarrow> f a b)"
  and cpost_option [cpost_intros]: "(o' = None \<Longrightarrow> cpost P m) \<Longrightarrow> (\<And>x. o' = Some x \<Longrightarrow> cpost P (g x)) \<Longrightarrow>
    cpost P (case o' of None \<Rightarrow> m | Some x \<Rightarrow> g x)"
  by (auto simp: cpost_def split: prod.split option.split)

lemma cpost_bind: "cpost Q m \<Longrightarrow> (\<And>v. Q v \<Longrightarrow> cpost P (f v)) \<Longrightarrow> cpost P (cbind m f)"
  by (cases m) (simp_all add: cpost_def)

lemma cpost_bind_self [cpost_intros]: "(\<And>v. m = Inr v \<Longrightarrow> cpost P (f v)) \<Longrightarrow> cpost P (cbind m f)"
  by (cases m) (simp_all add: cpost_def)

lemma cpost_shape:
  "(b \<Longrightarrow> cpost P (cbind m f)) \<Longrightarrow> (\<not> b \<Longrightarrow> cpost P (cbind n f)) \<Longrightarrow> cpost P (cbind (if b then m else n) f)"
  "cpost P (cbind k (\<lambda>x. cbind (h x) f)) \<Longrightarrow> cpost P (cbind (cbind k h) f)"
  "cpost P (f v) \<Longrightarrow> cpost P (cbind (Inr v) f)" "cpost P (cbind (Inl e) f)"
  "cpost P (g a c) \<Longrightarrow> cpost P (case (a, c) of (x, y) \<Rightarrow> g x y)"
  "(\<And>x y. p = (x, y) \<Longrightarrow> cpost P (cbind (g' x y) f)) \<Longrightarrow> cpost P (cbind (case p of (x, y) \<Rightarrow> g' x y) f)"
  "(o' = None \<Longrightarrow> cpost P (cbind m f)) \<Longrightarrow> (\<And>x. o' = Some x \<Longrightarrow> cpost P (cbind (j x) f)) \<Longrightarrow>
    cpost P (cbind (case o' of None \<Rightarrow> m | Some x \<Rightarrow> j x) f)"
  by (auto simp: cbind_assoc cpost_Inl split: prod.split option.split)

definition keeps :: "('s \<Rightarrow> bool) \<Rightarrow> ('a \<Rightarrow> 's \<Rightarrow> ('r option \<times> 'a \<times> 's) cres) \<Rightarrow> bool" where
  "keeps ok f \<longleftrightarrow> (\<forall>argp s. ok s \<longrightarrow> cpost (\<lambda>(ret, argp, s'). ok s') (f argp s))"

lemma keepsD: "keeps ok f \<Longrightarrow> ok s \<Longrightarrow> f argp s = Inr (ret, argp', s') \<Longrightarrow> ok s'"
  unfolding keeps_def by (auto dest: cpostD)

end
