(* ===== verification/Vmwopencl_Inv.thy ===== *)
theory Vmwopencl_Inv
  imports Vmwopencl_Locks C_Post
begin

unbundle bit_operations_syntax

section \<open>The invariant of a powered-on backend\<close>

text \<open>
  While the backend is on, its tables have their 32 entries and its identifier databases are
  well formed, every surface has its one instance, every context a version the backend knows,
  and the mutexes of an allocated surface are recursive.
\<close>

definition context_ok :: "VMWOpenCLContext \<Rightarrow> bool" where
  "context_ok x \<longleftrightarrow> length (context_deviceIds x) = VMCL_MAX_SUBDEVICES \<and>
     (context_majorVersion x, context_minorVersion x) \<in> {(0, 0), (1, 2), (2, 0), (2, 1), (3, 0)}"

definition surface_ok :: "VMWOpenCLSurface \<Rightarrow> bool" where
  "surface_ok x \<longleftrightarrow> length (surface_inst x) = VMACCEL_MAX_SURFACE_INSTANCE"

definition table_ok :: "('a \<Rightarrow> bool) \<Rightarrow> 'a list c_ptr \<Rightarrow> bool" where
  "table_ok P p = (case p of Live xs \<Rightarrow> length xs = 32 \<and> (\<forall>x \<in> set xs. P x) | _ \<Rightarrow> False)"

definition ids_ok :: "IdentifierDB c_ptr \<Rightarrow> bool" where
  "ids_ok p = (case p of Live db \<Rightarrow> bounded_db db \<and> db_size db = 32 | _ \<Rightarrow> False)"

definition active :: "IdentifierDB c_ptr \<Rightarrow> u32 \<Rightarrow> bool" where
  "active p i = (case p of Live db \<Rightarrow> unat i \<in> ids db | _ \<Rightarrow> False)"

definition backend_ok :: "'d backend \<Rightarrow> bool" where
  "backend_ok s \<longleftrightarrow> length (caps s) = 4 \<and>
     table_ok context_ok (contexts s) \<and> ids_ok (contextIds s) \<and>
     table_ok surface_ok (surfaces s) \<and> ids_ok (surfaceIds s) \<and>
     table_ok (\<lambda>_. True) (queues s) \<and> ids_ok (queueIds s) \<and>
     table_ok (\<lambda>_. True) (samplers s) \<and> ids_ok (samplerIds s) \<and>
     table_ok (\<lambda>_. True) (kernels s) \<and> ids_ok (kernelIds s) \<and>
     (\<forall>sid. active (surfaceIds s) sid \<longrightarrow> recursive sid 0 s)"

subsection \<open>Tables and identifiers\<close>

lemma table_ok_update: "table_ok P p \<Longrightarrow> P v \<Longrightarrow> ptr_write p i v = Inr p' \<Longrightarrow> table_ok P p'"
  by (auto simp: table_ok_def ptr_write_def cbind_eq_Inr cwrite_eq_Inr split: c_ptr.splits dest!: set_update_memI subset_code(1) [THEN iffD1, OF set_update_subset_insert, rule_format])

lemma table_ok_read: "table_ok P p \<Longrightarrow> ptr_read p i = Inr v \<Longrightarrow> P v"
  by (auto simp: table_ok_def ptr_read_def cread_eq_Inr split: c_ptr.splits)

lemma ids_ok_acquire:
  assumes "ids_ok p" and "id_acquire p i = Inr (b, p')"
  shows "ids_ok p'" and "active p' j \<longleftrightarrow> active p j \<or> b \<and> j = i"
proof -
  obtain db where db: "p = Live db" "bounded_db db" "db_size db = 32" using assms(1) by (auto simp: ids_ok_def split: c_ptr.splits)
  have *: "ids_ok p' \<and> (active p' j \<longleftrightarrow> active p j \<or> b \<and> j = i)"
  proof (cases "unat i < 32 \<and> unat i \<notin> ids db")
    case True
    then obtain db' where db': "IdentifierDB_AcquireId db i = Inr (True, db')" "bounded_db db'"
      "ids db' = insert (unat i) (ids db)" "unat (db_size db') = unat (db_size db)"
      using bounded_ids.acquire_fresh [OF db(2), of i] db(3) by auto
    with assms(2) db(1) have "b" "p' = Live db'" by (simp_all add: C_Memory.id_acquire_def id_db_def)
    with db' db show ?thesis by (simp add: ids_ok_def active_def word_unat_eq_iff disj_commute)
  next
    case False
    with bounded_ids.acquire_refused [OF db(2), of i] db(3) have "IdentifierDB_AcquireId db i = Inr (False, db)" by auto
    with assms(2) db(1) have "\<not> b" "p' = p" by (simp_all add: C_Memory.id_acquire_def id_db_def)
    with assms(1) show ?thesis by simp
  qed
  then show "ids_ok p'" "active p' j \<longleftrightarrow> active p j \<or> b \<and> j = i" by auto
qed

lemma ids_ok_release:
  assumes "ids_ok p" and "id_release p i = Inr p'"
  shows "ids_ok p'" and "active p' j \<longleftrightarrow> active p j \<and> j \<noteq> i"
proof -
  obtain db where db: "p = Live db" "bounded_db db" "db_size db = 32" using assms(1) by (auto simp: ids_ok_def split: c_ptr.splits)
  have *: "ids_ok p' \<and> (active p' j \<longleftrightarrow> active p j \<and> j \<noteq> i)"
  proof (cases "unat i \<in> ids db")
    case True
    from bounded_ids.release_elem [OF db(2) this] obtain db' where db': "IdentifierDB_ReleaseId db i = Inr db'" "bounded_db db'"
      "ids db' = ids db - {unat i}" "unat (db_size db') = unat (db_size db)" by auto
    with assms(2) db(1) have "p' = Live db'" by (simp add: id_release_def id_db_def)
    with db' db show ?thesis by (simp add: ids_ok_def active_def word_unat_eq_iff)
  next
    case False
    show ?thesis
    proof (cases "unat i < 32")
      case True
      with False bounded_ids.release_unused [OF db(2), of i] db(3) assms(2) show ?thesis by (simp add: db(1) id_release_def id_db_def)
    next
      case out: False
      with bounded_ids.release_outside [of db i] db(3) have "IdentifierDB_ReleaseId db i = Inr db" by simp
      with assms(2) db(1) have "p' = p" by (simp add: id_release_def id_db_def)
      with assms(1) False db(1) show ?thesis by (auto simp: active_def)
    qed
  qed
  then show "ids_ok p'" "active p' j \<longleftrightarrow> active p j \<and> j \<noteq> i" by auto
qed

lemma active_eq: "ids_ok p \<Longrightarrow> id_active p i = Inr (active p i)"
  using bounded_ids.active_elems by (auto simp: ids_ok_def id_active_def id_db_def active_def split: c_ptr.splits)

subsection \<open>Updates that keep the invariant\<close>

lemma recursive_update [simp]:
  "recursive sid i (s\<lparr>runtime := d\<rparr>) = recursive sid i s" "recursive sid i (s\<lparr>upload_result := u\<rparr>) = recursive sid i s"
  "recursive sid i (s\<lparr>download_result := w\<rparr>) = recursive sid i s" "recursive sid i (s\<lparr>caps := c\<rparr>) = recursive sid i s"
  "recursive sid i (s\<lparr>contexts := cs\<rparr>) = recursive sid i s" "recursive sid i (s\<lparr>contextIds := p\<rparr>) = recursive sid i s"
  "recursive sid i (s\<lparr>queues := qs\<rparr>) = recursive sid i s" "recursive sid i (s\<lparr>queueIds := p\<rparr>) = recursive sid i s"
  "recursive sid i (s\<lparr>kernels := ks\<rparr>) = recursive sid i s" "recursive sid i (s\<lparr>kernelIds := p\<rparr>) = recursive sid i s"
  "recursive sid i (s\<lparr>surfaceIds := p\<rparr>) = recursive sid i s"
  by (simp_all add: recursive_def get_surface_def)

lemma backend_ok_update [simp]:
  "backend_ok (s\<lparr>runtime := d\<rparr>) = backend_ok s" "backend_ok (s\<lparr>upload_result := u\<rparr>) = backend_ok s"
  "backend_ok (s\<lparr>download_result := w\<rparr>) = backend_ok s"
  by (simp_all add: backend_ok_def)

lemma backend_ok_tables:
  assumes "backend_ok s"
  shows "table_ok context_ok cs \<Longrightarrow> backend_ok (s\<lparr>contexts := cs\<rparr>)" and "ids_ok p \<Longrightarrow> backend_ok (s\<lparr>contextIds := p\<rparr>)"
    and "table_ok (\<lambda>_. True) qs \<Longrightarrow> backend_ok (s\<lparr>queues := qs\<rparr>)" and "ids_ok p \<Longrightarrow> backend_ok (s\<lparr>queueIds := p\<rparr>)"
    and "table_ok (\<lambda>_. True) ks \<Longrightarrow> backend_ok (s\<lparr>kernels := ks\<rparr>)" and "ids_ok p \<Longrightarrow> backend_ok (s\<lparr>kernelIds := p\<rparr>)"
  using assms by (simp_all add: backend_ok_def)

lemma backend_okD:
  assumes "backend_ok s"
  shows "table_ok context_ok (contexts s)" and "ids_ok (contextIds s)" and "table_ok surface_ok (surfaces s)"
    and "ids_ok (surfaceIds s)" and "table_ok (\<lambda>_. True) (queues s)" and "ids_ok (queueIds s)"
    and "table_ok (\<lambda>_. True) (kernels s)" and "ids_ok (kernelIds s)"
    and "active (surfaceIds s) sid \<Longrightarrow> recursive sid 0 s" and "ids_ok (samplerIds s)"
  using assms by (simp_all add: backend_ok_def)

text \<open>Two surfaces with as many instances and the same kinds of mutex.\<close>

definition same_shape :: "VMWOpenCLSurface \<Rightarrow> VMWOpenCLSurface \<Rightarrow> bool" where
  "same_shape x x' \<longleftrightarrow> mutex_recursive (surface_mutex x') = mutex_recursive (surface_mutex x) \<and>
     map (mutex_recursive \<circ> inst_mutex) (surface_inst x') = map (mutex_recursive \<circ> inst_mutex) (surface_inst x)"

lemma backend_ok_surface:
  assumes "backend_ok s" and "get_surface sid s = Inr x" and "surface_ok x'"
    and "active (surfaceIds s) sid \<Longrightarrow> mutex_recursive (surface_mutex x') \<and> mutex_recursive (inst_mutex (surface_inst x' ! 0))"
  shows "backend_ok (with_surface sid x' s)"
proof -
  obtain xs where xs: "surfaces s = Live xs" "unat sid < length xs" "xs ! unat sid = x" "length xs = 32" "\<forall>x\<in>set xs. surface_ok x"
    using assms(1,2) by (auto simp: get_surface_eq_Inr backend_ok_def table_ok_def)
  have "table_ok surface_ok (surfaces (with_surface sid x' s))"
    using xs assms(3) by (auto simp: with_surface_def table_ok_def dest!: subsetD [OF set_update_subset_insert])
  moreover have "recursive sid' 0 (with_surface sid x' s)" if "active (surfaceIds s) sid'" for sid'
  proof (cases "sid' = sid")
    case True
    with that assms(2-4) show ?thesis by (simp add: recursive_def surface_ok_def)
  next
    case False
    with that assms(1) show ?thesis by (simp add: recursive_def backend_ok_def)
  qed
  ultimately show ?thesis using assms(1) by (simp add: backend_ok_def)
qed

lemma surface_ok_get: "backend_ok s \<Longrightarrow> get_surface sid s = Inr x \<Longrightarrow> surface_ok x"
  by (metis backend_okD(3) get_surface_def table_ok_read)

lemma backend_ok_same_shape:
  assumes "backend_ok s" and "get_surface sid s = Inr x" and "same_shape x x'"
  shows "backend_ok (with_surface sid x' s)"
proof (rule backend_ok_surface [OF assms(1,2)])
  have l: "length (surface_inst x') = length (surface_inst x)" using assms(3) by (metis same_shape_def length_map)
  have ok: "surface_ok x" by (rule surface_ok_get [OF assms(1,2)])
  then show "surface_ok x'" by (simp add: surface_ok_def l)
  assume "active (surfaceIds s) sid"
  from backend_okD(9) [OF assms(1) this] assms(2)
  have r: "mutex_recursive (surface_mutex x)" "mutex_recursive (inst_mutex (surface_inst x ! 0))" by (auto simp: recursive_def)
  have "map (mutex_recursive \<circ> inst_mutex) (surface_inst x') ! 0 = map (mutex_recursive \<circ> inst_mutex) (surface_inst x) ! 0"
    using assms(3) by (simp add: same_shape_def)
  then have "mutex_recursive (inst_mutex (surface_inst x' ! 0)) = mutex_recursive (inst_mutex (surface_inst x ! 0))"
    using ok l by (simp add: surface_ok_def)
  then show "mutex_recursive (surface_mutex x') \<and> mutex_recursive (inst_mutex (surface_inst x' ! 0))"
    using r assms(3) by (simp add: same_shape_def)
qed

lemma same_shape_set_inst:
  assumes "unat i < length (surface_inst x)" and "mutex_recursive (inst_mutex y) = mutex_recursive (inst_mutex (surface_inst x ! unat i))"
  shows "same_shape x (set_inst i y x)"
proof -
  have "(map (mutex_recursive \<circ> inst_mutex) (surface_inst x))[unat i := mutex_recursive (inst_mutex y)] =
      map (mutex_recursive \<circ> inst_mutex) (surface_inst x)"
    using assms by (intro list_update_same_conv [THEN iffD2]) simp_all
  then show ?thesis by (simp add: same_shape_def set_inst_def map_update)
qed

lemma put_inst_ok:
  assumes "backend_ok s" and "put_inst sid i y s = Inr s'" and "get_inst sid i s = Inr y0"
    and "mutex_recursive (inst_mutex y) = mutex_recursive (inst_mutex y0)"
  shows "backend_ok s'"
proof -
  obtain x where x: "has_inst sid i x s" "surface_inst x ! unat i = y0" using assms(3) by (auto simp: get_inst_Inr)
  with assms(2) have "s' = with_surface sid (set_inst i y x) s" by (simp add: put_inst_eq)
  with x assms(1,4) show ?thesis
    by (auto intro!: backend_ok_same_shape same_shape_set_inst simp: has_inst_def)
qed

lemma same_shape_mutex: "mutex_recursive m = mutex_recursive (surface_mutex x) \<Longrightarrow> same_shape x (x\<lparr>surface_mutex := m\<rparr>)"
  by (simp add: same_shape_def)

lemma lock_surface_ok: "backend_ok s \<Longrightarrow> lock_surface sid s = Inr s' \<Longrightarrow> backend_ok s'"
  by (cases "get_surface sid s")
    (auto simp: lock_surface_def mutex_lock_eq put_surface_eq split: if_splits intro!: backend_ok_same_shape same_shape_mutex)

lemma unlock_surface_ok: "backend_ok s \<Longrightarrow> unlock_surface sid s = Inr s' \<Longrightarrow> backend_ok s'"
  by (cases "get_surface sid s")
    (auto simp: unlock_surface_def put_surface_eq intro!: backend_ok_same_shape same_shape_mutex)

lemma lock_inst_ok: "backend_ok s \<Longrightarrow> lock_inst sid i s = Inr s' \<Longrightarrow> backend_ok s'"
  by (auto simp: lock_inst_def cbind_eq_Inr mutex_lock_eq split: if_splits elim!: put_inst_ok)

lemma unlock_inst_ok: "backend_ok s \<Longrightarrow> unlock_inst sid i s = Inr s' \<Longrightarrow> backend_ok s'"
  by (auto simp: unlock_inst_def cbind_eq_Inr elim!: put_inst_ok)

lemma lock_both_ok: "backend_ok s \<Longrightarrow> lock_both sid i s = Inr s' \<Longrightarrow> backend_ok s'"
  by (auto simp: lock_both_def cbind_eq_Inr intro: lock_surface_ok lock_inst_ok)

lemma unlock_both_ok: "backend_ok s \<Longrightarrow> unlock_both sid i s = Inr s' \<Longrightarrow> backend_ok s'"
  by (auto simp: unlock_both_def cbind_eq_Inr intro: unlock_surface_ok unlock_inst_ok)

subsection \<open>Every operation keeps it\<close>

lemma cpost_locks:
  assumes "backend_ok s" and "\<And>s'. backend_ok s' \<Longrightarrow> cpost P (f s')"
  shows "cpost P (cbind (lock_both sid i s) f)" and "cpost P (cbind (unlock_both sid i s) f)"
    and "cpost P (cbind (lock_surface sid s) f)" and "cpost P (cbind (unlock_surface sid s) f)"
    and "cpost P (cbind (lock_inst sid i s) f)" and "cpost P (cbind (unlock_inst sid i s) f)"
  using assms by (auto intro!: cpost_bind_self assms(2)
    intro: lock_both_ok unlock_both_ok lock_surface_ok unlock_surface_ok lock_inst_ok unlock_inst_ok)

lemma cpost_put_inst:
  assumes "get_inst sid i s0 = Inr y0" and "backend_ok s" and "get_inst sid i s = get_inst sid i s0"
    and "mutex_recursive (inst_mutex y) = mutex_recursive (inst_mutex y0)" and "\<And>s'. backend_ok s' \<Longrightarrow> cpost P (f s')"
  shows "cpost P (cbind (put_inst sid i y s) f)"
  using assms by (auto intro!: cpost_bind_self assms(5) elim: put_inst_ok)

lemma get_inst_update [simp]:
  "get_inst sid i (s\<lparr>runtime := d\<rparr>) = get_inst sid i s" "get_inst sid i (s\<lparr>upload_result := u\<rparr>) = get_inst sid i s"
  "get_inst sid i (s\<lparr>download_result := w\<rparr>) = get_inst sid i s"
  by (simp_all add: get_inst_def)

lemma imageupload_keeps: "keeps backend_ok (vmwopencl_imageupload_1 cl)"
  unfolding keeps_def vmwopencl_imageupload_1_def Let_def
  by (intro allI impI) (rule cpost_shape cpost_locks cpost_put_inst cpost_intros | assumption | simp; fail)+

lemma imagedownload_keeps: "keeps backend_ok (vmwopencl_imagedownload_1 cl calloc_ok)"
  unfolding keeps_def vmwopencl_imagedownload_1_def Let_def
  by (intro allI impI) (rule cpost_shape cpost_locks cpost_put_inst cpost_intros | assumption | simp; fail | auto split: if_splits; fail)+

lemma surfacemap_keeps: "keeps backend_ok (vmwopencl_surfacemap_1 cl)"
  unfolding keeps_def vmwopencl_surfacemap_1_def Let_def
  by (intro allI impI) (rule cpost_shape cpost_locks cpost_put_inst cpost_intros | assumption | simp; fail | auto split: if_splits; fail)+

lemma surfaceunmap_keeps: "keeps backend_ok (vmwopencl_surfaceunmap_1 cl)"
  unfolding keeps_def vmwopencl_surfaceunmap_1_def Let_def
  by (intro allI impI) (rule cpost_shape cpost_locks cpost_put_inst cpost_intros | assumption | simp; fail | auto split: if_splits; fail)+

lemma surfacecopy_keeps: "keeps backend_ok (vmwopencl_surfacecopy_1 cl)"
  unfolding keeps_def vmwopencl_surfacecopy_1_def Let_def
  by (intro allI impI) (rule cpost_shape cpost_locks cpost_put_inst cpost_intros | assumption | simp; fail | auto split: if_splits; fail)+

lemma imagefill_keeps: "keeps backend_ok (vmwopencl_imagefill_1 cl)"
  unfolding keeps_def vmwopencl_imagefill_1_def Let_def
  by (intro allI impI) (rule cpost_shape cpost_locks cpost_put_inst cpost_intros | assumption | simp; fail | auto split: if_splits; fail)+

lemma queueflush_keeps: "keeps backend_ok (vmwopencl_queueflush_1 cl)"
  unfolding keeps_def vmwopencl_queueflush_1_def Let_def
  by (intro allI impI) (rule cpost_shape cpost_locks cpost_put_inst cpost_intros | assumption | simp; fail | auto split: if_splits; fail)+

lemma sampleralloc_keeps: "keeps backend_ok (vmwopencl_sampleralloc_1)"
  unfolding keeps_def vmwopencl_sampleralloc_1_def cassert_simps cbind_Inl Let_def
  by (intro allI impI) (rule cpost_shape cpost_locks cpost_put_inst cpost_intros | assumption | simp; fail | auto split: if_splits; fail)+

lemma samplerdestroy_keeps: "keeps backend_ok (vmwopencl_samplerdestroy_1)"
  unfolding keeps_def vmwopencl_samplerdestroy_1_def cassert_simps cbind_Inl Let_def
  by (intro allI impI) (rule cpost_shape cpost_locks cpost_put_inst cpost_intros | assumption | simp; fail | auto split: if_splits; fail)+

text \<open>Identifiers and tables.\<close>

lemma cpost_contexts:
  assumes "backend_ok s"
  shows "(\<And>b p. backend_ok (s\<lparr>contextIds := p\<rparr>) \<Longrightarrow> cpost P (f (b, p))) \<Longrightarrow> cpost P (cbind (id_acquire (contextIds s) i) f)"
    and "(\<And>p. backend_ok (s\<lparr>contextIds := p\<rparr>) \<Longrightarrow> cpost P (g p)) \<Longrightarrow> cpost P (cbind (id_release (contextIds s) i) g)"
    and "context_ok v \<Longrightarrow> (\<And>q. backend_ok (s\<lparr>contexts := q\<rparr>) \<Longrightarrow> cpost P (h q)) \<Longrightarrow> cpost P (cbind (ptr_write (contexts s) i v) h)"
    and "(\<And>v. context_ok v \<Longrightarrow> cpost P (j v)) \<Longrightarrow> cpost P (cbind (ptr_read (contexts s) i) j)"
proof -
  note ok = backend_okD [OF assms] and keep = backend_ok_tables [OF assms]
  show "(\<And>b p. backend_ok (s\<lparr>contextIds := p\<rparr>) \<Longrightarrow> cpost P (f (b, p))) \<Longrightarrow> cpost P (cbind (id_acquire (contextIds s) i) f)"
    using ids_ok_acquire(1) [OF ok(2)] keep(2) by (intro cpost_bind_self) (metis surj_pair)
  show "(\<And>p. backend_ok (s\<lparr>contextIds := p\<rparr>) \<Longrightarrow> cpost P (g p)) \<Longrightarrow> cpost P (cbind (id_release (contextIds s) i) g)"
    using ids_ok_release(1) [OF ok(2)] keep(2) by (intro cpost_bind_self) metis
  show "context_ok v \<Longrightarrow> (\<And>q. backend_ok (s\<lparr>contexts := q\<rparr>) \<Longrightarrow> cpost P (h q)) \<Longrightarrow> cpost P (cbind (ptr_write (contexts s) i v) h)"
    using table_ok_update [OF ok(1)] keep(1) by (intro cpost_bind_self) metis
  show "(\<And>v. context_ok v \<Longrightarrow> cpost P (j v)) \<Longrightarrow> cpost P (cbind (ptr_read (contexts s) i) j)"
    using table_ok_read [OF ok(1)] by (intro cpost_bind_self) metis
qed

lemma cpost_queues:
  assumes "backend_ok s"
  shows "(\<And>b p. backend_ok (s\<lparr>queueIds := p\<rparr>) \<Longrightarrow> cpost P (f (b, p))) \<Longrightarrow> cpost P (cbind (id_acquire (queueIds s) i) f)"
    and "(\<And>p. backend_ok (s\<lparr>queueIds := p\<rparr>) \<Longrightarrow> cpost P (g p)) \<Longrightarrow> cpost P (cbind (id_release (queueIds s) i) g)"
    and "(\<And>q. backend_ok (s\<lparr>queues := q\<rparr>) \<Longrightarrow> cpost P (h q)) \<Longrightarrow> cpost P (cbind (ptr_write (queues s) i v) h)"
proof -
  note ok = backend_okD [OF assms] and keep = backend_ok_tables [OF assms]
  show "(\<And>b p. backend_ok (s\<lparr>queueIds := p\<rparr>) \<Longrightarrow> cpost P (f (b, p))) \<Longrightarrow> cpost P (cbind (id_acquire (queueIds s) i) f)"
    using ids_ok_acquire(1) [OF ok(6)] keep(4) by (intro cpost_bind_self) (metis surj_pair)
  show "(\<And>p. backend_ok (s\<lparr>queueIds := p\<rparr>) \<Longrightarrow> cpost P (g p)) \<Longrightarrow> cpost P (cbind (id_release (queueIds s) i) g)"
    using ids_ok_release(1) [OF ok(6)] keep(4) by (intro cpost_bind_self) metis
  show "(\<And>q. backend_ok (s\<lparr>queues := q\<rparr>) \<Longrightarrow> cpost P (h q)) \<Longrightarrow> cpost P (cbind (ptr_write (queues s) i v) h)"
    using table_ok_update [OF ok(5)] keep(3) by (intro cpost_bind_self) metis
qed

lemma cpost_kernels:
  assumes "backend_ok s"
  shows "(\<And>b p. backend_ok (s\<lparr>kernelIds := p\<rparr>) \<Longrightarrow> cpost P (f (b, p))) \<Longrightarrow> cpost P (cbind (id_acquire (kernelIds s) i) f)"
    and "(\<And>p. backend_ok (s\<lparr>kernelIds := p\<rparr>) \<Longrightarrow> cpost P (g p)) \<Longrightarrow> cpost P (cbind (id_release (kernelIds s) i) g)"
    and "(\<And>q. backend_ok (s\<lparr>kernels := q\<rparr>) \<Longrightarrow> cpost P (h q)) \<Longrightarrow> cpost P (cbind (ptr_write (kernels s) i v) h)"
proof -
  note ok = backend_okD [OF assms] and keep = backend_ok_tables [OF assms]
  show "(\<And>b p. backend_ok (s\<lparr>kernelIds := p\<rparr>) \<Longrightarrow> cpost P (f (b, p))) \<Longrightarrow> cpost P (cbind (id_acquire (kernelIds s) i) f)"
    using ids_ok_acquire(1) [OF ok(8)] keep(6) by (intro cpost_bind_self) (metis surj_pair)
  show "(\<And>p. backend_ok (s\<lparr>kernelIds := p\<rparr>) \<Longrightarrow> cpost P (g p)) \<Longrightarrow> cpost P (cbind (id_release (kernelIds s) i) g)"
    using ids_ok_release(1) [OF ok(8)] keep(6) by (intro cpost_bind_self) metis
  show "(\<And>q. backend_ok (s\<lparr>kernels := q\<rparr>) \<Longrightarrow> cpost P (h q)) \<Longrightarrow> cpost P (cbind (ptr_write (kernels s) i v) h)"
    using table_ok_update [OF ok(7)] keep(5) by (intro cpost_bind_self) metis
qed

lemma queuealloc_keeps: "keeps backend_ok (vmwopencl_queuealloc_1 cl calloc_ok)"
  unfolding keeps_def vmwopencl_queuealloc_1_def Let_def
  by (intro allI impI) (rule cpost_shape cpost_queues cpost_contexts(4) cpost_intros | assumption | simp; fail)+

lemma queuedestroy_keeps: "keeps backend_ok (vmwopencl_queuedestroy_1 cl)"
  unfolding keeps_def vmwopencl_queuedestroy_1_def Let_def
  by (intro allI impI) (rule cpost_shape cpost_queues cpost_intros | assumption | simp; fail)+

lemma kernelalloc_keeps: "keeps backend_ok (vmwopencl_kernelalloc_1 b cl)"
  unfolding keeps_def vmwopencl_kernelalloc_1_def Let_def
  by (intro allI impI) (rule cpost_shape cpost_kernels cpost_contexts(4) cpost_intros | assumption | simp; fail | simp add: backend_ok_def; fail)+

lemma kerneldestroy_keeps: "keeps backend_ok (vmwopencl_kerneldestroy_1 cl)"
  unfolding keeps_def vmwopencl_kerneldestroy_1_def Let_def
  by (intro allI impI) (rule cpost_shape cpost_kernels cpost_intros | assumption | simp; fail)+

lemma contextdestroy_keeps: "keeps backend_ok (vmwopencl_contextdestroy_1 cl)"
  unfolding keeps_def vmwopencl_contextdestroy_1_def Let_def
  by (intro allI impI) (rule cpost_shape cpost_contexts cpost_intros | assumption | simp; fail | simp add: backend_ok_def; fail | simp add: context_ok_def; fail)+

text \<open>Contexts: what the loops leave in the local variables.\<close>

lemma platform_version_known: "platform_version v = w \<Longrightarrow> w \<in> {(1, 2), (2, 0), (2, 1), (3, 0)}"
  by (drule sym) (simp add: platform_version_def)

lemma select_device_post:
  "length (cl_deviceIds l) = n \<Longrightarrow> cpost (\<lambda>(stop, l, d). length (cl_deviceIds l) = n) (select_device cl argp p j l d)"
  unfolding select_device_def Let_def
  by (rule cpost_shape cpost_intros | assumption | simp; fail | auto; fail)+

lemma select_loop_post:
  "length (cl_deviceIds l) = n \<Longrightarrow> cpost (\<lambda>(l, d). length (cl_deviceIds l) = n) (select_loop cl argp p js l d)"
proof (induction js arbitrary: l d n)
  case (Cons j js)
  show ?case
    by (simp, rule cpost_bind [OF select_device_post [OF Cons.prems]]) (auto intro!: cpost_intros Cons.IH)
qed (simp add: cpost_def)

lemma platform_loop_post:
  "length (cl_deviceIds l) = n \<Longrightarrow> cpost (\<lambda>(ccaps, stop, l, d). length (cl_deviceIds l) = n \<and>
     (case stop of None \<Rightarrow> True | Some (p, v) \<Rightarrow> v \<in> {(1, 2), (2, 0), (2, 1), (3, 0)})) (platform_loop cl argp ps is ccaps l d)"
proof (induction "is" arbitrary: ccaps l d n)
  case (Cons i "is")
  have *: "cpost (\<lambda>(ccaps, stop, l, d). length (cl_deviceIds l) = n \<and>
     (case stop of None \<Rightarrow> True | Some (p, v) \<Rightarrow> v \<in> {(1, 2), (2, 0), (2, 1), (3, 0)})) (try_platform cl argp p ccaps l d)" for p
    unfolding try_platform_def Let_def
    by (rule cpost_shape cpost_bind [OF select_loop_post] cpost_intros Cons.prems | simp add: Cons.prems; fail
        | auto dest!: platform_version_known; fail)+
  show ?case
    by (simp, rule cpost_bind_self, rule cpost_bind [OF *]) (auto intro!: cpost_intros Cons.IH)
qed (simp add: cpost_def)

lemma contextalloc_keeps: "keeps backend_ok (vmwopencl_contextalloc_1 cl)"
  unfolding keeps_def vmwopencl_contextalloc_1_def Let_def
  by (intro allI impI) (rule cpost_shape cpost_contexts(1-3) cpost_bind [OF platform_loop_post] cpost_intros | assumption
    | simp; fail | simp add: context_ok_def; fail | auto simp: context_ok_def; fail)+

text \<open>Surfaces: the mutexes are made recursive before the identifier is in use, and the identifier is
  released after they are cleared.\<close>

lemma backend_ok_surfaceIds:
  assumes "backend_ok s" and "ids_ok p" and "\<And>j. active p j \<Longrightarrow> active (surfaceIds s) j \<or> recursive j 0 s"
  shows "backend_ok (s\<lparr>surfaceIds := p\<rparr>)"
  using assms by (auto simp: backend_ok_def)

lemma make_all_length: "make_all mk rel n made d = (Some hs, d') \<Longrightarrow> length hs = n + length made"
  by (induction mk rel n made d rule: make_all.induct) (auto split: if_splits prod.splits)

definition entered :: "u32 \<Rightarrow> VMAccelSurfaceDesc \<Rightarrow> u64 list \<Rightarrow> u64 list \<Rightarrow> VMWOpenCLSurface \<Rightarrow> VMWOpenCLSurface" where
  "entered cid desc mem svm x = x\<lparr>surface_cid := cid, surface_desc := desc,
     surface_inst := map (\<lambda>(m, v, y). new_instance m v y) (zip mem (zip svm (surface_inst x))), surface_mutex := recursive_mutex\<rparr>"

lemma lockable_recursive [simp]: "lockable recursive_mutex"
  by (simp add: lockable_def recursive_mutex_def)

lemma surface_enter_cases:
  assumes "surface_enter sid cid desc mem svm s = Inr s'"
  obtains x p where "get_surface sid s = Inr x" and "id_acquire (surfaceIds s) sid = Inr (True, p)"
    and "s' = with_surface sid (entered cid desc mem svm x) (s\<lparr>surfaceIds := p\<rparr>)"
proof -
  obtain x where x: "get_surface sid s = Inr x" using assms by (cases "get_surface sid s") (simp_all add: surface_enter_def)
  let ?x = "x\<lparr>surface_mutex := recursive_mutex\<rparr>"
  obtain p where p: "id_acquire (surfaceIds s) sid = Inr (True, p)"
    using assms x by (auto simp: surface_enter_def put_surface_eq [OF x] cbind_eq_Inr cassert_eq_Inr Let_def)
  let ?s = "s\<lparr>surfaceIds := p\<rparr>"
  have g: "get_surface sid (with_surface sid z ?s) = Inr z" for z using x by simp
  from assms x p that show ?thesis
    by (simp add: surface_enter_def put_surface_eq [OF x] Let_def lock_surface_eq [OF g] put_surface_eq [OF g]
        unlock_surface_eq [OF g] entered_def)
qed

lemma surface_enter_ok:
  assumes "surface_enter sid cid desc mem svm s = Inr s'" and "backend_ok s" and "length mem = 1" and "length svm = 1"
  shows "backend_ok s'"
proof -
  obtain x p where x: "get_surface sid s = Inr x" and p: "id_acquire (surfaceIds s) sid = Inr (True, p)"
    and s': "s' = with_surface sid (entered cid desc mem svm x) (s\<lparr>surfaceIds := p\<rparr>)"
    using assms(1) by (rule surface_enter_cases)
  let ?x = "entered cid desc mem svm x" and ?s = "with_surface sid (entered cid desc mem svm x) s"
  have l: "length (surface_inst x) = 1" using surface_ok_get [OF assms(2) x] by (simp add: surface_ok_def)
  with assms(3,4) have n: "length (surface_inst ?x) = 1" by (simp add: entered_def)
  have r: "mutex_recursive (surface_mutex ?x)" "mutex_recursive (inst_mutex (surface_inst ?x ! 0))"
    using l assms(3,4) by (simp_all add: entered_def recursive_mutex_def new_instance_def)
  have "backend_ok ?s" using backend_ok_surface [OF assms(2) x] n r by (simp add: surface_ok_def)
  moreover have "recursive sid 0 ?s" using x n r by (simp add: recursive_def)
  ultimately have "backend_ok (?s\<lparr>surfaceIds := p\<rparr>)"
    using ids_ok_acquire [OF backend_okD(4) [OF assms(2)] p] by (intro backend_ok_surfaceIds) auto
  then show ?thesis by (simp add: s')
qed

lemma surface_objects_length: "surface_objects b cl desc cx d = Inr (Some hs, d') \<Longrightarrow> length hs = 1"
  by (auto simp: surface_objects_def Let_def cbind_eq_Inr split: if_splits prod.splits)

lemma surfacealloc_keeps: "keeps backend_ok (vmwopencl_surfacealloc_1 b cl)"
  unfolding keeps_def vmwopencl_surfacealloc_1_def Let_def
  by (intro allI impI) (rule cpost_shape cpost_intros | assumption | simp; fail
    | auto dest!: surface_objects_length elim: surface_enter_ok; fail)+

lemma cpost_unlocked: "backend_ok s \<Longrightarrow> cpost backend_ok (unlock_inst sid i s)" "backend_ok s \<Longrightarrow> cpost backend_ok (unlock_both sid i s)"
  by (auto simp: cpost_eq intro: unlock_inst_ok unlock_both_ok)

lemma destroy_instances_ok: "backend_ok s \<Longrightarrow> cpost backend_ok (destroy_instances b cl sid is s)"
proof (induction "is" arbitrary: s)
  case (Cons i "is")
  have "cpost backend_ok (destroy_instance b cl sid (of_nat i) s)"
    unfolding destroy_instance_def using Cons.prems
    by - (rule cpost_shape cpost_locks cpost_put_inst cpost_intros cpost_unlocked | assumption | simp; fail)+
  then show ?case by (simp, rule cpost_bind) (rule Cons.IH)
qed (simp add: cpost_def)

lemma destroyed_ok:
  assumes "backend_ok s" and "put_surface sid zero_VMWOpenCLSurface s = Inr s1" and "unlock_surface sid s1 = Inr s2"
    and "id_release (surfaceIds s2) sid = Inr p"
  shows "backend_ok (s2\<lparr>surfaceIds := p\<rparr>)"
proof -
  obtain x where x: "get_surface sid s = Inr x"
    using assms(2) by (auto simp: put_surface_def get_surface_def ptr_write_def ptr_read_def cbind_eq_Inr cwrite_eq_Inr cread_eq_Inr)
  have s1: "s1 = with_surface sid zero_VMWOpenCLSurface s" using assms(2) by (simp add: put_surface_eq [OF x])
  have g: "get_surface sid s1 = Inr zero_VMWOpenCLSurface" using x by (simp add: s1)
  have z: "zero_VMWOpenCLSurface\<lparr>surface_mutex := mutex_unlock zero_mutex\<rparr> = zero_VMWOpenCLSurface"
    by (simp add: zero_VMWOpenCLSurface_def mutex_unlock_def zero_mutex_def)
  have s2: "s2 = s1" using assms(3) unlock_surface_eq [OF g] z with_same [OF g] by (simp add: zero_VMWOpenCLSurface_def)
  have p: "ids_ok p" "\<not> active p sid" "\<And>j. active p j \<Longrightarrow> active (surfaceIds s) j"
    using ids_ok_release [OF backend_okD(4) [OF assms(1)], of sid p] assms(4) by (auto simp: s1 s2)
  have "backend_ok (s\<lparr>surfaceIds := p\<rparr>)" using p by (intro backend_ok_surfaceIds [OF assms(1)]) auto
  from backend_ok_surface [OF this, of sid x zero_VMWOpenCLSurface] x p(2) show ?thesis
    by (simp add: s1 s2 surface_ok_def zero_VMWOpenCLSurface_def)
qed

lemma surfacedestroy_keeps: "keeps backend_ok (vmwopencl_surfacedestroy_1 b cl)"
  unfolding keeps_def vmwopencl_surfacedestroy_1_def Let_def
  by (intro allI impI) (rule cpost_shape cpost_locks(3) cpost_bind [OF destroy_instances_ok] cpost_intros | assumption | simp; fail
    | auto elim: destroyed_ok; fail)+

text \<open>Dispatch.\<close>

lemma dispatch_arg_ok: "backend_ok s \<Longrightarrow> cpost (\<lambda>(c, s). backend_ok s) (dispatch_arg b cl k a s)"
  unfolding dispatch_arg_def Let_def
  by (rule cpost_shape cpost_locks cpost_intros | assumption | simp; fail)+

lemma dispatch_loop_ok: "backend_ok s \<Longrightarrow> cpost (\<lambda>(c, i, s). backend_ok s) (dispatch_loop b cl k args i s)"
proof (induction "unat (vec_len args) - i" arbitrary: i s rule: less_induct)
  case less
  show ?case
    by (subst dispatch_loop.simps)
      (rule cpost_shape cpost_bind [OF dispatch_arg_ok [OF less.prems]] cpost_intros less.hyps | simp add: less.prems; fail)+
qed

lemma dispatch_cleanup_ok: "backend_ok s \<Longrightarrow> cpost backend_ok (dispatch_cleanup args n s)"
proof (induction n arbitrary: s)
  case (Suc n)
  show ?case using Suc.prems by simp (rule cpost_shape cpost_locks cpost_intros | assumption | rule Suc.IH)+
qed (simp add: cpost_def)

lemma dispatch_enqueue_ok: "backend_ok s \<Longrightarrow> cpost (\<lambda>(c, s). backend_ok s) (dispatch_enqueue cl calloc_ok q k argp s)"
  unfolding dispatch_enqueue_def Let_def
  by (rule cpost_shape cpost_intros | assumption | simp; fail)+

lemma dispatch_keeps: "keeps backend_ok (vmwopencl_dispatch_1 b cl calloc_ok)"
  unfolding keeps_def vmwopencl_dispatch_1_def Let_def
  by (intro allI impI) (rule cpost_shape cpost_bind [OF dispatch_loop_ok] cpost_bind [OF dispatch_enqueue_ok]
    cpost_bind [OF dispatch_cleanup_ok] cpost_intros | assumption | simp; fail)+

end
