(* ===== verification/Vmwopencl_Ref.thy ===== *)
theory Vmwopencl_Ref
  imports Vmwopencl_Locks
begin

unbundle bit_operations_syntax

section \<open>Transfers and mappings, without locks\<close>

text \<open>
  What the operations on one surface do, written without the locks.  Each reference function is
  the operation on a surface \<open>x\<close> of the table; the lemmas say that the operation is its reference
  function when both locks can be taken, and that it aborts when they cannot.
\<close>

definition upload_ref :: "'d cl_api \<Rightarrow> VMCLImageUploadOp \<Rightarrow> VMWOpenCLQueue \<Rightarrow> VMWOpenCLSurface \<Rightarrow> 'd backend \<Rightarrow>
    (VMAccelStatus option \<times> VMCLImageUploadOp \<times> 'd backend) cres" where
  "upload_ref cl argp q x s =
     (let img = CLSurfaceId_accel (CLImageUploadOp_img argp); sid = SurfaceId_id img; gen = SurfaceId_generation img;
          inst = SurfaceId_instance img; y = surface_inst x ! unat inst;
          region = ImageTransferOp_imgRegion (CLImageUploadOp_op argp); ptr = vec_val (ImageTransferOp_ptr (CLImageUploadOp_op argp));
          sz = Coordinate3DUINT_x (SurfaceRegion_size region);
          (errNum, d) = clEnqueueWriteBuffer cl (queue_queue q) (inst_mem y) True
            (Coordinate3DUINT_x (SurfaceRegion_coord region)) sz ptr (runtime s) in
      if gen < inst_generation y then
        let result = (upload_result s)\<lparr>Status_status := VMACCEL_SEMANTIC_ERROR\<rparr> in
        Inr (Some result, argp, s\<lparr>upload_result := result\<rparr>)
      else if CLQueueId_cid (CLImageUploadOp_queue argp) \<noteq> CLSurfaceId_cid (CLImageUploadOp_img argp) \<or>
        SurfaceDesc_type (surface_desc x) \<noteq> VMACCEL_SURFACE_BUFFER \<or> inst_svm_ptr y \<noteq> 0 then Inl AssertFailed
      else if errNum \<noteq> CL_SUCCESS then
        Inr (Some (status_of VMACCEL_FAIL), argp, s\<lparr>runtime := d, upload_result := status_of VMACCEL_FAIL\<rparr>)
      else cbind (host_span sz ptr) (\<lambda>_. Inr (Some zero_VMAccelStatus, argp,
        with_surface sid (set_inst inst (y\<lparr>inst_generation := gen\<rparr>) x) (s\<lparr>runtime := d, upload_result := zero_VMAccelStatus\<rparr>))))"

lemma imageupload_eq:
  assumes q: "ptr_read (queues s) (CLQueueId_id (CLImageUploadOp_queue argp)) = Inr q"
    and r: "ready (SurfaceId_id (CLSurfaceId_accel (CLImageUploadOp_img argp)))
      (SurfaceId_instance (CLSurfaceId_accel (CLImageUploadOp_img argp))) x s"
  shows "vmwopencl_imageupload_1 cl argp s = upload_ref cl argp q x s"
  unfolding vmwopencl_imageupload_1_def upload_ref_def Let_def using r q
  by (simp add: lock_both_eq [OF r] lock_simps cassert_def cbind_assoc split: prod.split)

lemma imageupload_aborts:
  assumes "vmwopencl_imageupload_1 cl argp s = Inr r"
  obtains q x where "ptr_read (queues s) (CLQueueId_id (CLImageUploadOp_queue argp)) = Inr q"
    and "ready (SurfaceId_id (CLSurfaceId_accel (CLImageUploadOp_img argp)))
      (SurfaceId_instance (CLSurfaceId_accel (CLImageUploadOp_img argp))) x s"
proof -
  from assms obtain q s' where "ptr_read (queues s) (CLQueueId_id (CLImageUploadOp_queue argp)) = Inr q"
    and "lock_both (SurfaceId_id (CLSurfaceId_accel (CLImageUploadOp_img argp)))
      (SurfaceId_instance (CLSurfaceId_accel (CLImageUploadOp_img argp))) s = Inr s'"
    by (simp add: vmwopencl_imageupload_1_def Let_def cbind_eq_Inr) blast
  with that lock_both_cases show ?thesis by metis
qed

definition fill_ref :: "'d cl_api \<Rightarrow> VMCLImageFillOp \<Rightarrow> VMWOpenCLQueue \<Rightarrow> VMWOpenCLSurface \<Rightarrow> 'd backend \<Rightarrow>
    (VMAccelStatus option \<times> VMCLImageFillOp \<times> 'd backend) cres" where
  "fill_ref cl argp q x s =
     (let img = CLSurfaceId_accel (CLImageFillOp_img argp); sid = SurfaceId_id img; gen = SurfaceId_generation img;
          y = surface_inst x ! 0; opr = CLImageFillOp_op argp; region = ImageFillOp_dstRegion opr;
          (errNum, d) = clEnqueueFillBuffer cl (queue_queue q) (inst_mem y) (ImageFillOp_u opr)
              (Coordinate3DUINT_x (SurfaceRegion_coord region)) (Coordinate3DUINT_x (SurfaceRegion_size region)) (runtime s) in
      if inst_generation y < gen then Inr (Some (status_of VMACCEL_RESOURCE_UNAVAILABLE), argp, s)
      else if gen < inst_generation y then Inr (Some (status_of VMACCEL_SEMANTIC_ERROR), argp, s)
      else if inst_svm_ptr y \<noteq> 0 then Inr (Some (status_of VMACCEL_FAIL), argp, s)
      else if SurfaceDesc_type (surface_desc x) \<noteq> VMACCEL_SURFACE_BUFFER then Inl AssertFailed
      else Inr (Some (if errNum \<noteq> CL_SUCCESS then status_of VMACCEL_FAIL else zero_VMAccelStatus), argp, s\<lparr>runtime := d\<rparr>))"

lemma same_generation: "inst_generation y = g \<Longrightarrow> y\<lparr>inst_generation := g\<rparr> = y"
  by auto

lemma imagefill_eq:
  assumes q: "ptr_read (queues s) (CLQueueId_id (CLImageFillOp_queue argp)) = Inr q"
    and r: "ready (SurfaceId_id (CLSurfaceId_accel (CLImageFillOp_img argp))) 0 x s"
  shows "vmwopencl_imagefill_1 cl argp s = fill_ref cl argp q x s"
proof -
  have g: "get_surface (SurfaceId_id (CLSurfaceId_accel (CLImageFillOp_img argp))) (s\<lparr>runtime := d\<rparr>) = Inr x" for d
    using readyD(1) [OF r] by simp
  note [simp] = with_same [OF g]
  show ?thesis
    unfolding vmwopencl_imagefill_1_def fill_ref_def Let_def using r q
    by (auto simp: lock_both_eq [OF r] lock_simps cassert_def cbind_assoc same_generation set_inst_simps(8) [of 0, simplified] split: prod.split)
qed

definition map_ref :: "'d cl_api \<Rightarrow> VMCLSurfaceMapOp \<Rightarrow> VMWOpenCLQueue \<Rightarrow> VMWOpenCLSurface \<Rightarrow> 'd backend \<Rightarrow>
    (VMAccelSurfaceMapStatus option \<times> VMCLSurfaceMapOp \<times> 'd backend) cres" where
  "map_ref cl argp q x s =
     (let opr = CLSurfaceMapOp_op argp; sid = SurfaceId_id (SurfaceMapOp_surf opr);
          gen = SurfaceId_generation (SurfaceMapOp_surf opr); inst = SurfaceId_instance (SurfaceMapOp_surf opr);
          y = surface_inst x ! unat inst;
          y1 = y\<lparr>inst_mapping := (inst_mapping y)\<lparr>mapping_refCount := mapping_refCount (inst_mapping y) + 1\<rparr>\<rparr>;
          (errNum, ptr, d) = map_pointer cl (queue_queue q) y1 opr (runtime s) in
      if gen < inst_generation y then
        Inr (Some (zero_VMAccelSurfaceMapStatus\<lparr>SurfaceMapStatus_status := VMACCEL_SEMANTIC_ERROR\<rparr>), argp, s)
      else if SurfaceDesc_type (surface_desc x) \<noteq> VMACCEL_SURFACE_BUFFER then Inl AssertFailed
      else if errNum \<noteq> CL_SUCCESS then
        Inr (Some (zero_VMAccelSurfaceMapStatus\<lparr>SurfaceMapStatus_status := VMACCEL_FAIL\<rparr>), argp,
          with_surface sid (set_inst inst y1 x) (s\<lparr>runtime := d\<rparr>))
      else Inr (Some (zero_VMAccelSurfaceMapStatus\<lparr>SurfaceMapStatus_ptr := host_vec cl ptr (Coordinate2DUINT_x (SurfaceMapOp_size opr)) d\<rparr>), argp,
          with_surface sid (set_inst inst (y1\<lparr>inst_mapping := (inst_mapping y1)\<lparr>mapping_ptr := ptr\<rparr>\<rparr>) x) (s\<lparr>runtime := d\<rparr>)))"

lemma map_pointer_mutex [simp]: "map_pointer cl q (y\<lparr>inst_mutex := m, inst_mapping := p\<rparr>) opr d = map_pointer cl q (y\<lparr>inst_mapping := p\<rparr>) opr d"
  "map_pointer cl q (y\<lparr>inst_mapping := p, inst_mutex := m\<rparr>) opr d = map_pointer cl q (y\<lparr>inst_mapping := p\<rparr>) opr d"
  by (simp_all add: map_pointer_def Let_def)

lemma surfacemap_eq:
  assumes q: "ptr_read (queues s) (CLQueueId_id (CLSurfaceMapOp_queue argp)) = Inr q"
    and r: "ready (SurfaceId_id (SurfaceMapOp_surf (CLSurfaceMapOp_op argp)))
      (SurfaceId_instance (SurfaceMapOp_surf (CLSurfaceMapOp_op argp))) x s"
  shows "vmwopencl_surfacemap_1 cl argp s = map_ref cl argp q x s"
  unfolding vmwopencl_surfacemap_1_def map_ref_def Let_def using r q
  by (simp add: lock_both_eq [OF r] lock_simps cassert_def cbind_assoc split: prod.split)

text \<open>The success path of a download releases the surface only: the instance stays locked.\<close>

definition download_ref :: "'d cl_api \<Rightarrow> (nat \<Rightarrow> nat \<Rightarrow> bool) \<Rightarrow> VMCLImageDownloadOp \<Rightarrow> VMWOpenCLQueue \<Rightarrow> VMWOpenCLSurface \<Rightarrow> 'd backend \<Rightarrow>
    (VMAccelDownloadStatus option \<times> VMCLImageDownloadOp \<times> 'd backend) cres" where
  "download_ref cl calloc_ok argp q x s =
     (let img = CLSurfaceId_accel (CLImageDownloadOp_img argp); sid = SurfaceId_id img; gen = SurfaceId_generation img;
          inst = SurfaceId_instance img; y = surface_inst x ! unat inst;
          opr = CLImageDownloadOp_op argp; region = ImageTransferOp_imgRegion opr;
          sz = Coordinate3DUINT_x (SurfaceRegion_size region);
          ptr = download_buffer calloc_ok sz (ImageTransferOp_ptr opr);
          (errNum, written, d) = clEnqueueReadBuffer cl (queue_queue q) (inst_mem y)
            (CLImageDownloadOp_mode argp = VMACCEL_SURFACE_READ_SYNCHRONOUS)
            (Coordinate3DUINT_x (SurfaceRegion_coord region)) sz ptr (runtime s);
          leaked = (\<lambda>result. with_surface sid (set_inst inst (y\<lparr>inst_mutex := locked (inst_mutex y)\<rparr>) x)
            (s\<lparr>runtime := d, download_result := result\<rparr>)) in
      if inst_generation y \<noteq> gen then
        let result = (download_result s)\<lparr>DownloadStatus_status :=
              (if gen < inst_generation y then VMACCEL_SEMANTIC_ERROR else VMACCEL_RESOURCE_UNAVAILABLE)\<rparr> in
        Inr (Some result, argp, s\<lparr>download_result := result\<rparr>)
      else if CLQueueId_cid (CLImageDownloadOp_queue argp) \<noteq> CLSurfaceId_cid (CLImageDownloadOp_img argp) \<or>
        SurfaceDesc_type (surface_desc x) \<noteq> VMACCEL_SURFACE_BUFFER \<or> inst_svm_ptr y \<noteq> 0 then Inl AssertFailed
      else if errNum \<noteq> CL_SUCCESS then
        let result = zero_VMAccelDownloadStatus\<lparr>DownloadStatus_status := VMACCEL_FAIL\<rparr> in Inr (Some result, argp, leaked result)
      else cbind (host_span sz ptr) (\<lambda>_.
        let bs = overwrite (the ptr) (take (unat sz) written);
            result = zero_VMAccelDownloadStatus\<lparr>DownloadStatus_ptr := Vec sz (Some (take (unat sz) bs))\<rparr> in
        Inr (Some result, if vec_val (ImageTransferOp_ptr opr) = None then argp else
          argp\<lparr>CLImageDownloadOp_op := opr\<lparr>ImageTransferOp_ptr := Vec (vec_len (ImageTransferOp_ptr opr)) (Some bs)\<rparr>\<rparr>,
          leaked result)))"

lemma unlock_surface_leaks:
  assumes "ready sid i x s"
  shows "unlock_surface sid (with_surface sid (both_locked i x) s) =
    Inr (with_surface sid (set_inst i ((surface_inst x ! unat i)\<lparr>inst_mutex := locked (inst_mutex (surface_inst x ! unat i))\<rparr>) x) s)"
  using unlock_surface_eq [OF locked_steps(1) [OF assms]] by (simp add: both_locked_def Let_def)

lemma imagedownload_eq:
  assumes q: "ptr_read (queues s) (CLQueueId_id (CLImageDownloadOp_queue argp)) = Inr q"
    and r: "ready (SurfaceId_id (CLSurfaceId_accel (CLImageDownloadOp_img argp)))
      (SurfaceId_instance (CLSurfaceId_accel (CLImageDownloadOp_img argp))) x s"
  shows "vmwopencl_imagedownload_1 cl calloc_ok argp s = download_ref cl calloc_ok argp q x s"
  unfolding vmwopencl_imagedownload_1_def download_ref_def Let_def using r q
  by (simp add: lock_both_eq [OF r] lock_simps unlock_surface_leaks cassert_def cbind_assoc split: prod.split)

text \<open>An unmap takes the lock of the surface only and releases both.\<close>

definition unmap_ref :: "'d cl_api \<Rightarrow> VMCLSurfaceUnmapOp \<Rightarrow> VMWOpenCLQueue \<Rightarrow> VMWOpenCLSurface \<Rightarrow> 'd backend \<Rightarrow>
    (VMAccelStatus option \<times> VMCLSurfaceUnmapOp \<times> 'd backend) cres" where
  "unmap_ref cl argp q x s =
     (let opr = CLSurfaceUnmapOp_op argp; sid = SurfaceId_id (SurfaceUnmapOp_surf opr);
          gen = SurfaceId_generation (SurfaceUnmapOp_surf opr); inst = SurfaceId_instance (SurfaceUnmapOp_surf opr);
          y = surface_inst x ! unat inst; ptr = mapping_ptr (inst_mapping y) in
      cbind (copy_to_mapping cl ptr (SurfaceUnmapOp_ptr opr) (runtime s)) (\<lambda>d.
      let argp = (if SurfaceUnmapOp_mapFlags opr AND VMACCEL_MAP_NO_FREE_PTR_FLAG = 0
            then argp\<lparr>CLSurfaceUnmapOp_op := opr\<lparr>SurfaceUnmapOp_ptr := Vec 0 None\<rparr>\<rparr> else argp);
          refCount = mapping_refCount (inst_mapping y) - 1;
          (errNum, d) = (if refCount = 0 \<and> SurfaceDesc_type (surface_desc x) = VMACCEL_SURFACE_BUFFER \<and> inst_svm_ptr y = 0
            then clEnqueueUnmapMemObject cl (queue_queue q) (inst_mem y) ptr d else (CL_SUCCESS, d)) in
      Inr (Some (if errNum \<noteq> CL_SUCCESS then status_of VMACCEL_FAIL else zero_VMAccelStatus), argp,
        with_surface sid (set_inst inst
          (y\<lparr>inst_mapping := \<lparr>mapping_ptr = (if refCount = 0 then 0 else ptr), mapping_refCount = refCount\<rparr>,
             inst_generation := (if errNum \<noteq> CL_SUCCESS then inst_generation y else gen),
             inst_mutex := mutex_unlock (inst_mutex y)\<rparr>) x) (s\<lparr>runtime := d\<rparr>))))"

lemma has_inst_update [simp]:
  "has_inst sid i x (s\<lparr>runtime := d\<rparr>) = has_inst sid i x s"
  by (simp add: has_inst_def)

lemma surfaceunmap_eq:
  assumes q: "ptr_read (queues s) (CLQueueId_id (CLSurfaceUnmapOp_queue argp)) = Inr q"
    and h: "has_inst (SurfaceId_id (SurfaceUnmapOp_surf (CLSurfaceUnmapOp_op argp)))
      (SurfaceId_instance (SurfaceUnmapOp_surf (CLSurfaceUnmapOp_op argp))) x s"
    and l: "lockable (surface_mutex x)"
  shows "vmwopencl_surfaceunmap_1 cl argp s = unmap_ref cl argp q x s"
proof (cases "copy_to_mapping cl (mapping_ptr (inst_mapping (surface_inst x !
      unat (SurfaceId_instance (SurfaceUnmapOp_surf (CLSurfaceUnmapOp_op argp))))))
      (SurfaceUnmapOp_ptr (CLSurfaceUnmapOp_op argp)) (runtime s)")
  case (Inl e)
  then show ?thesis unfolding vmwopencl_surfaceunmap_1_def unmap_ref_def Let_def using h q l
    by (simp add: surface_locked_steps(1) [OF h l] surface_locked_steps(2-5))
next
  case (Inr d)
  then show ?thesis unfolding vmwopencl_surfaceunmap_1_def unmap_ref_def Let_def using h q l
    by (simp add: surface_locked_steps(1) [OF h l] surface_locked_steps(2-5) split: prod.split)
qed

end
