(* ===== verification/Vmcl_Server.thy ===== *)
theory Vmcl_Server
  imports Vmcl_Rpc C_Post
begin

section \<open>The compute server over a backend that keeps an invariant\<close>

text \<open>
  The contract between the server and a backend: an invariant of the backend's state that every
  operation of its table keeps when it returns.  Over such a backend the procedures and the
  dispatch routine keep it too, whatever requests arrive.
\<close>

locale vmcl_backend =
  fixes ops :: "'s VMCLOps" and ok :: "'s \<Rightarrow> bool"
  assumes contextalloc: "keeps ok (contextalloc_1 ops)"
    and contextdestroy: "keeps ok (contextdestroy_1 ops)"
    and surfacealloc: "keeps ok (surfacealloc_1 ops)"
    and surfacedestroy: "keeps ok (surfacedestroy_1 ops)"
    and queuealloc: "keeps ok (queuealloc_1 ops)"
    and queuedestroy: "keeps ok (queuedestroy_1 ops)"
    and queueflush: "keeps ok (queueflush_1 ops)"
    and imageupload: "keeps ok (imageupload_1 ops)"
    and imagedownload: "keeps ok (imagedownload_1 ops)"
    and surfacemap: "keeps ok (surfacemap_1 ops)"
    and surfaceunmap: "keeps ok (surfaceunmap_1 ops)"
    and surfacecopy: "keeps ok (surfacecopy_1 ops)"
    and imagefill: "keeps ok (imagefill_1 ops)"
    and sampleralloc: "keeps ok (sampleralloc_1 ops)"
    and samplerdestroy: "keeps ok (samplerdestroy_1 ops)"
    and kernelalloc: "keeps ok (kernelalloc_1 ops)"
    and kerneldestroy: "keeps ok (kerneldestroy_1 ops)"
    and dispatch: "keeps ok (dispatch_1 ops)"
begin

lemma procedure_keeps:
  assumes "keeps ok f"
  shows "keeps ok (\<lambda>argp s. cbind (f argp s) (\<lambda>(ret, argp, s). Inr (Some (g ret), argp, s)))"
  using assms unfolding keeps_def cpost_eq by (auto simp: cbind_eq_Inr)

lemma guarded_keeps:
  assumes "keeps ok f"
  shows "keeps ok (\<lambda>argp s. if p argp then Inr (Some c, argp, s) else f argp s)"
  using assms unfolding keeps_def cpost_eq by auto

lemma serve_keeps:
  assumes "keeps ok f" and "ok s"
  shows "cpost (\<lambda>(reply, s'). ok s') (serve xa za xr f tp s)"
proof -
  have "ok s'" if "f v s = Inr (ret, argp, s')" for v ret argp s' using keepsD [OF assms that] .
  with assms(2) show ?thesis by (auto simp: serve_def cpost_eq cbind_eq_Inr split: option.splits if_splits)
qed

lemma procedures_keep:
  "keeps ok (\<lambda>argp. vmcl_contextalloc_2_svc ops argp True)"
  "keeps ok (\<lambda>argp. vmcl_contextdestroy_2_svc ops argp True)"
  "keeps ok (\<lambda>argp. vmcl_surfacealloc_2_svc ops argp True)"
  "keeps ok (\<lambda>argp. vmcl_surfacedestroy_2_svc ops argp True)"
  "keeps ok (\<lambda>argp. vmcl_queuealloc_2_svc ops argp True)"
  "keeps ok (\<lambda>argp. vmcl_queuedestroy_2_svc ops argp True)"
  "keeps ok (\<lambda>argp. vmcl_queueflush_2_svc ops argp True)"
  "keeps ok (\<lambda>argp. vmcl_imageupload_2_svc ops argp True)"
  "keeps ok (\<lambda>argp. vmcl_imagedownload_2_svc ops argp True)"
  "keeps ok (\<lambda>argp. vmcl_surfacemap_2_svc ops argp True)"
  "keeps ok (\<lambda>argp. vmcl_surfaceunmap_2_svc ops argp True)"
  "keeps ok (\<lambda>argp. vmcl_surfacecopy_2_svc ops argp True)"
  "keeps ok (\<lambda>argp. vmcl_imagefill_2_svc ops argp True)"
  "keeps ok (\<lambda>argp. vmcl_sampleralloc_2_svc ops argp True)"
  "keeps ok (\<lambda>argp. vmcl_samplerdestroy_2_svc ops argp True)"
  "keeps ok (\<lambda>argp. vmcl_kernelalloc_2_svc ops argp True)"
  "keeps ok (\<lambda>argp. vmcl_kerneldestroy_2_svc ops argp True)"
  "keeps ok (\<lambda>argp. vmcl_dispatch_2_svc ops argp True)"
  unfolding procedure_defs
  by (simp_all only: not_True_eq_False if_False)
    (rule guarded_keeps procedure_keeps
      contextalloc contextdestroy surfacealloc surfacedestroy queuealloc queuedestroy queueflush imageupload imagedownload
      surfacemap surfaceunmap surfacecopy imagefill sampleralloc samplerdestroy kernelalloc kerneldestroy dispatch)+

text \<open>The dispatch routine, on any procedure number and any bytes.\<close>

lemma request_keeps:
  assumes "ok s"
  shows "cpost (\<lambda>(reply, s'). ok s') (vmcl_1 ops procnum tp s)"
  unfolding vmcl_1_def
  by (intro cpost_if) (rule serve_keeps cpost_Inr procedures_keep assms | simp add: assms; fail)+

end

text \<open>A server handles one request after the other.\<close>

fun svc_run :: "'s dispatcher \<Rightarrow> (u32 \<times> svcxprt) list \<Rightarrow> 's \<Rightarrow> (rpc_reply option list \<times> 's) cres" where
  "svc_run dispatch [] s = Inr ([], s)"
| "svc_run dispatch ((procnum, tp) # reqs) s =
     cbind (dispatch procnum tp s) (\<lambda>(reply, s).
     cbind (svc_run dispatch reqs s) (\<lambda>(rs, s). Inr (reply # rs, s)))"

context vmcl_backend
begin

lemma run_keeps: "svc_run (vmcl_1 ops) reqs s = Inr (rs, s') \<Longrightarrow> ok s \<Longrightarrow> ok s'"
proof (induction reqs arbitrary: s rs)
  case (Cons req reqs)
  obtain procnum tp where req: "req = (procnum, tp)" by force
  from Cons.prems(1) obtain reply s1 rs' where "vmcl_1 ops procnum tp s = Inr (reply, s1)"
    "svc_run (vmcl_1 ops) reqs s1 = Inr (rs', s')" by (auto simp: req cbind_eq_Inr)
  with Cons.IH cpostD [OF request_keeps [OF Cons.prems(2)]] show ?case by fastforce
qed simp

end

end
