(* ===== verification/Vmwopencl_Server.thy ===== *)
theory Vmwopencl_Server
  imports Vmwopencl_Inv Vmwopencl_Ref Vmcl_Server
begin

unbundle bit_operations_syntax

section \<open>The compute server with the OpenCL backend\<close>

text \<open>
  Power-on establishes the invariant of the backend, and the server keeps it whatever requests
  arrive: the operations table of the backend meets the contract of the server.
\<close>

interpretation opencl: vmcl_backend "vmwopenclOps b cl calloc_ok" backend_ok
  by unfold_locales (simp_all add: vmwopenclOps_def contextalloc_keeps contextdestroy_keeps surfacealloc_keeps
    surfacedestroy_keeps queuealloc_keeps queuedestroy_keeps queueflush_keeps imageupload_keeps imagedownload_keeps
    surfacemap_keeps surfaceunmap_keeps surfacecopy_keeps imagefill_keeps sampleralloc_keeps samplerdestroy_keeps
    kernelalloc_keeps kerneldestroy_keeps dispatch_keeps)

subsection \<open>Power-on\<close>

lemma poweron_platform_post:
  "length (caps s) = n \<Longrightarrow> cpost (\<lambda>(r, s). length (caps s) = n) (poweron_platform b cl calloc_ok arch p s)"
  unfolding poweron_platform_def Let_def
  by (rule cpost_shape cpost_intros | assumption | simp; fail)+

lemma poweron_loop_post:
  "length (caps s) = n \<Longrightarrow> cpost (\<lambda>(r, s). length (caps s) = n) (poweron_loop b cl calloc_ok arch ps is s)"
proof (induction "is" arbitrary: s n)
  case (Cons i "is")
  show ?case
    by (simp, rule cpost_bind_self, rule cpost_bind [OF poweron_platform_post [OF Cons.prems]]) (auto intro!: cpost_intros Cons.IH)
qed (simp add: cpost_def)

lemma alloc_ids_ok: "(\<And>n. ok n) \<Longrightarrow> ids_ok (alloc_ids ok 32) \<and> \<not> active (alloc_ids ok 32) i \<and> alloc_ids ok 32 \<noteq> Null"
proof -
  assume ok: "\<And>n. ok n"
  then obtain db where db: "IdentifierDB_Alloc ok 32 = Some db" by (simp add: IdentifierDB_Alloc_def Let_def)
  from Alloc_props [OF this ok] have "counted db" "ids db = {}" "db_size db = 32" by simp_all
  with db show ?thesis by (simp add: alloc_ids_def ids_ok_def active_def counted_def)
qed

lemma alloc_tables_ok:
  assumes "length (caps s) = 4" and "\<And>k n. calloc_ok k n"
  shows "backend_ok (alloc_tables calloc_ok s)"
proof -
  have *: "ids_ok (alloc_ids (calloc_ok k) 32)" "\<not> active (alloc_ids (calloc_ok k) 32) i" for k i
    using alloc_ids_ok [of "calloc_ok k" i, OF assms(2)] by simp_all
  show ?thesis using assms(1)
    by (simp add: * assms(2) backend_ok_def alloc_tables_def alloc_table_def table_ok_def context_ok_def surface_ok_def
      zero_VMWOpenCLContext_def zero_VMWOpenCLSurface_def)
qed

lemma alloc_tables_caps [simp]: "caps (alloc_tables calloc_ok s) = caps s"
  by (simp add: alloc_tables_def)

lemma poweroff_caps: "vmwopencl_poweroff s = Inr (r, s') \<Longrightarrow> length (caps s') = 4"
  by (auto simp: vmwopencl_poweroff_def Let_def cbind_eq_Inr)

lemma poweron_post:
  assumes "length (caps s) = 4" and "\<And>k n. calloc_ok k n"
  shows "cpost (\<lambda>(ret, s'). length (caps s') = 4 \<and>
    (\<forall>st. ret = Some st \<longrightarrow> AllocateStatus_status st = VMACCEL_SUCCESS \<longrightarrow> backend_ok s'))
    (vmwopencl_poweron b cl calloc_ok arch idx str s)"
  unfolding vmwopencl_poweron_def Let_def
  by (rule cpost_shape cpost_bind [OF poweron_loop_post] cpost_intros | simp add: assms; fail
    | auto simp: alloc_tables_ok assms dest: poweroff_caps; fail)+

end
