(* ===== verification/Opencl_Sim.thy ===== *)
theory Opencl_Sim
  imports Opencl_Api
begin

section \<open>A small OpenCL runtime\<close>

text \<open>
  An executable runtime with one platform, one device and buffers in memory.  It meets what the
  properties of the backend assume of an OpenCL library, and it is the runtime of their concrete
  instances.  The last field counts the kernels that were enqueued.
\<close>

record sim =
  sim_next :: u64
  sim_mem :: "u64 \<Rightarrow> byte list"
  sim_kernels :: nat

definition sim_start :: sim where
  "sim_start = \<lparr>sim_next = 100, sim_mem = \<lambda>_. [], sim_kernels = 0\<rparr>"

definition sim_fits :: "u64 \<Rightarrow> u32 \<Rightarrow> u32 \<Rightarrow> sim \<Rightarrow> bool" where
  "sim_fits m off n d \<longleftrightarrow> unat off + unat n \<le> length (sim_mem d m)"

definition sim_write :: "u64 \<Rightarrow> nat \<Rightarrow> byte list \<Rightarrow> sim \<Rightarrow> sim" where
  "sim_write m off bs d =
     d\<lparr>sim_mem := (sim_mem d)(m := take off (sim_mem d m) @ bs @ drop (off + length bs) (sim_mem d m))\<rparr>"

definition sim_read :: "u64 \<Rightarrow> nat \<Rightarrow> nat \<Rightarrow> sim \<Rightarrow> byte list" where
  "sim_read m off n d = take n (drop off (sim_mem d m))"

definition sim_alloc :: "u32 \<Rightarrow> sim \<Rightarrow> u64 \<times> sim" where
  "sim_alloc w d = (sim_next d, d\<lparr>sim_next := sim_next d + 1, sim_mem := (sim_mem d)(sim_next d := replicate (unat w) 0)\<rparr>)"

text \<open>The version of the platform and the value of every device query are parameters.\<close>

definition sim_cl :: "string \<Rightarrow> (string \<Rightarrow> u64) \<Rightarrow> sim cl_api" where
  "sim_cl version info =
     \<lparr>clGetPlatformIDs = \<lambda>d. (0, [1], 1, d),
      clGetPlatformInfo = \<lambda>p q d. (0, version, d),
      clGetDeviceIDs = \<lambda>p ty n d. (0, [7], d),
      clGetDeviceInfo = \<lambda>dev q d. (0, info q, d),
      clGetDeviceSizes = \<lambda>dev n d. (0, replicate (unat n) 64, d),
      clCreateContext = \<lambda>devs d. (0, 5, d),
      clReleaseContext = \<lambda>c d. d,
      clGetContextInfo = \<lambda>c d. (0, [7], d),
      clSVMAlloc = \<lambda>c fl w. sim_alloc w,
      clSVMFree = \<lambda>c p d. d,
      clCreateBuffer = \<lambda>c fl w. sim_alloc w,
      clReleaseMemObject = \<lambda>m d. d,
      clCreateCommandQueue = \<lambda>c dev d. (9, d),
      clReleaseCommandQueue = \<lambda>q d. d,
      clFlush = \<lambda>q d. (0, d),
      clFinish = \<lambda>q d. (0, d),
      clEnqueueWriteBuffer = \<lambda>q m bl off n p d.
        (case p of Some bs \<Rightarrow> if sim_fits m off n d then (0, sim_write m (unat off) (take (unat n) bs) d) else (1, d) | None \<Rightarrow> (1, d)),
      clEnqueueReadBuffer = \<lambda>q m bl off n p d.
        (if sim_fits m off n d \<and> p \<noteq> None then (0, sim_read m (unat off) (unat n) d, d) else (1, [], d)),
      clEnqueueMapBuffer = \<lambda>q m bl fl off n d. (if sim_fits m off n d then (0, m, d) else (1, 0, d)),
      clEnqueueUnmapMemObject = \<lambda>q m p d. (0, d),
      clEnqueueCopyBuffer = \<lambda>q src dst soff doff n d.
        (if sim_fits src soff n d \<and> sim_fits dst doff n d
         then (0, sim_write dst (unat doff) (sim_read src (unat soff) (unat n) d) d) else (1, d)),
      clEnqueueFillBuffer = \<lambda>q m u off n d.
        (if sim_fits m off n d then (0, sim_write m (unat off) (replicate (unat n) (ucast (ElementUINT4D_r u))) d) else (1, d)),
      clCreateProgramWithSource = \<lambda>c src d. (0, 11, d),
      clCreateProgramWithIL = \<lambda>c src d. (0, 12, d),
      clBuildProgram = \<lambda>p dev d. (0, d),
      clReleaseProgram = \<lambda>p d. d,
      clCreateKernel = \<lambda>p nm d. (13, d),
      clReleaseKernel = \<lambda>k d. d,
      clSetKernelArg = \<lambda>k i m d. (0, d),
      clSetKernelArgSVMPointer = \<lambda>k i p d. (0, d),
      clSetKernelExecInfo = \<lambda>k p d. (0, d),
      clEnqueueNDRangeKernel = \<lambda>q k dim off gl lc d. (0, d\<lparr>sim_kernels := sim_kernels d + 1\<rparr>),
      host_read = \<lambda>p n d. sim_read p 0 (unat n) d,
      host_write = \<lambda>p bs d. (if length bs \<le> length (sim_mem d p) then Some (sim_write p 0 bs d) else None)\<rparr>"

lemma sim_cl_simps [simp]:
  "clGetPlatformIDs (sim_cl version info) = (\<lambda>d. (0, [1], 1, d))"
  "clGetPlatformInfo (sim_cl version info) = (\<lambda>p q d. (0, version, d))"
  "clGetDeviceIDs (sim_cl version info) = (\<lambda>p ty n d. (0, [7], d))"
  "clGetDeviceInfo (sim_cl version info) = (\<lambda>dev q d. (0, info q, d))"
  "clGetDeviceSizes (sim_cl version info) = (\<lambda>dev n d. (0, replicate (unat n) 64, d))"
  "clCreateContext (sim_cl version info) = (\<lambda>devs d. (0, 5, d))"
  "clReleaseContext (sim_cl version info) = (\<lambda>c d. d)"
  "clGetContextInfo (sim_cl version info) = (\<lambda>c d. (0, [7], d))"
  "clSVMAlloc (sim_cl version info) = (\<lambda>c fl w. sim_alloc w)"
  "clSVMFree (sim_cl version info) = (\<lambda>c p d. d)"
  "clCreateBuffer (sim_cl version info) = (\<lambda>c fl w. sim_alloc w)"
  "clReleaseMemObject (sim_cl version info) = (\<lambda>m d. d)"
  "clCreateCommandQueue (sim_cl version info) = (\<lambda>c dev d. (9, d))"
  "clReleaseCommandQueue (sim_cl version info) = (\<lambda>q d. d)"
  "clFlush (sim_cl version info) = (\<lambda>q d. (0, d))"
  "clFinish (sim_cl version info) = (\<lambda>q d. (0, d))"
  "clEnqueueWriteBuffer (sim_cl version info) = (\<lambda>q m bl off n p d. (case p of Some bs \<Rightarrow> if sim_fits m off n d then (0, sim_write m (unat off) (take (unat n) bs) d) else (1, d) | None \<Rightarrow> (1, d)))"
  "clEnqueueReadBuffer (sim_cl version info) = (\<lambda>q m bl off n p d. (if sim_fits m off n d \<and> p \<noteq> None then (0, sim_read m (unat off) (unat n) d, d) else (1, [], d)))"
  "clEnqueueMapBuffer (sim_cl version info) = (\<lambda>q m bl fl off n d. (if sim_fits m off n d then (0, m, d) else (1, 0, d)))"
  "clEnqueueUnmapMemObject (sim_cl version info) = (\<lambda>q m p d. (0, d))"
  "clEnqueueCopyBuffer (sim_cl version info) = (\<lambda>q src dst soff doff n d. (if sim_fits src soff n d \<and> sim_fits dst doff n d then (0, sim_write dst (unat doff) (sim_read src (unat soff) (unat n) d) d) else (1, d)))"
  "clEnqueueFillBuffer (sim_cl version info) = (\<lambda>q m u off n d. (if sim_fits m off n d then (0, sim_write m (unat off) (replicate (unat n) (ucast (ElementUINT4D_r u))) d) else (1, d)))"
  "clCreateProgramWithSource (sim_cl version info) = (\<lambda>c src d. (0, 11, d))"
  "clCreateProgramWithIL (sim_cl version info) = (\<lambda>c src d. (0, 12, d))"
  "clBuildProgram (sim_cl version info) = (\<lambda>p dev d. (0, d))"
  "clReleaseProgram (sim_cl version info) = (\<lambda>p d. d)"
  "clCreateKernel (sim_cl version info) = (\<lambda>p nm d. (13, d))"
  "clReleaseKernel (sim_cl version info) = (\<lambda>k d. d)"
  "clSetKernelArg (sim_cl version info) = (\<lambda>k i m d. (0, d))"
  "clSetKernelArgSVMPointer (sim_cl version info) = (\<lambda>k i p d. (0, d))"
  "clSetKernelExecInfo (sim_cl version info) = (\<lambda>k p d. (0, d))"
  "clEnqueueNDRangeKernel (sim_cl version info) = (\<lambda>q k dim off gl lc d. (0, d\<lparr>sim_kernels := sim_kernels d + 1\<rparr>))"
  "host_read (sim_cl version info) = (\<lambda>p n d. sim_read p 0 (unat n) d)"
  "host_write (sim_cl version info) = (\<lambda>p bs d. (if length bs \<le> length (sim_mem d p) then Some (sim_write p 0 bs d) else None))"
  by (simp_all add: sim_cl_def)

text \<open>What OpenCL documents of a blocking write and a read of the same region right after it.\<close>

definition write_then_read :: "'d cl_api \<Rightarrow> bool" where
  "write_then_read cl \<longleftrightarrow> (\<forall>q m off n bs d d' dst w d''.
     unat n \<le> length bs \<longrightarrow> clEnqueueWriteBuffer cl q m True off n (Some bs) d = (CL_SUCCESS, d') \<longrightarrow>
     clEnqueueReadBuffer cl q m True off n (Some dst) d' = (CL_SUCCESS, w, d'') \<longrightarrow> w = take (unat n) bs)"

lemma sim_write_then_read: "write_then_read (sim_cl v info)"
  by (auto simp: write_then_read_def sim_fits_def sim_write_def sim_read_def split: if_splits)

end
