(* ===== verification/Vmwopencl_Example.thy ===== *)
theory Vmwopencl_Example
  imports Vmwopencl_Inv Opencl_Sim
begin

section \<open>A backend in use\<close>

text \<open>
  A concrete state over the small OpenCL runtime, concrete requests, and what the operations of
  the backend do with them.  The instances of the properties start here.
\<close>

subsection \<open>The state\<close>

text \<open>Context, queue, surface and kernel 0 are allocated; the surface is a buffer of 16 bytes at
  generation 7.\<close>

definition example_ids :: IdentifierDB where
  "example_ids = \<lparr>db_size = 32, db_numWords = 1, db_free = 31, db_bits = [1]\<rparr>"

definition example_surface :: VMWOpenCLSurface where
  "example_surface =
     \<lparr>surface_cid = 0, surface_desc = zero_VMAccelSurfaceDesc\<lparr>SurfaceDesc_type := 1, SurfaceDesc_width := 16\<rparr>,
      surface_inst = [zero_VMWOpenCLSurfaceInstance\<lparr>inst_mem := 50, inst_generation := 7, inst_mutex := recursive_mutex\<rparr>],
      surface_mutex = recursive_mutex\<rparr>"

definition example_backend :: "sim backend" where
  "example_backend = (initial_backend (sim_start\<lparr>sim_mem := (\<lambda>_. [])(50 := replicate 16 0)\<rparr>))
     \<lparr>contexts := Live (zero_VMWOpenCLContext\<lparr>context_context := 5, context_majorVersion := 1, context_minorVersion := 2\<rparr>
        # replicate 31 zero_VMWOpenCLContext), contextIds := Live example_ids,
      surfaces := Live (example_surface # replicate 31 zero_VMWOpenCLSurface), surfaceIds := Live example_ids,
      queues := Live (zero_VMWOpenCLQueue\<lparr>queue_queue := 9\<rparr> # replicate 31 zero_VMWOpenCLQueue), queueIds := Live example_ids,
      samplers := Live (replicate 32 zero_VMWOpenCLSampler), samplerIds := Live example_ids,
      kernels := Live (zero_VMWOpenCLKernel\<lparr>kernel_kernel := 13\<rparr> # replicate 31 zero_VMWOpenCLKernel), kernelIds := Live example_ids\<rparr>"

definition example_cl :: "sim cl_api" where
  "example_cl = sim_cl ''OpenCL 1.2'' (\<lambda>_. 4000)"

definition example_build :: cl_build where
  "example_build = \<lparr>CL_VERSION_2_0 = False, CL_VERSION_2_1 = False, CL_VERSION_2_2 = False\<rparr>"

abbreviation (input) calloc_finds :: "nat \<Rightarrow> nat \<Rightarrow> bool" where "calloc_finds \<equiv> \<lambda>_ _. True"

lemma ids_example [simp]: "ids example_ids = {0}"
  by (auto simp: ids_def word_ids_def example_ids_def bit_1_iff)

lemma active_example [simp]: "active (Live example_ids) i \<longleftrightarrow> i = 0"
  by (simp add: active_def unat_eq_0)

lemma ids_ok_example [simp]: "ids_ok (Live example_ids)"
  by (simp add: ids_ok_def bounded_db_def) (simp add: wf_db_def example_ids_def)

lemma example_tables [simp]:
  "runtime example_backend = sim_start\<lparr>sim_mem := (\<lambda>_. [])(50 := replicate 16 0)\<rparr>"
  "contextIds example_backend = Live example_ids" "surfaceIds example_backend = Live example_ids"
  "queueIds example_backend = Live example_ids" "kernelIds example_backend = Live example_ids"
  "ptr_read (queues example_backend) 0 = Inr (zero_VMWOpenCLQueue\<lparr>queue_queue := 9\<rparr>)"
  "ptr_read (kernels example_backend) 0 = Inr (zero_VMWOpenCLKernel\<lparr>kernel_kernel := 13\<rparr>)"
  "get_surface 0 example_backend = Inr example_surface" "get_surface 1 example_backend = Inr zero_VMWOpenCLSurface"
  by (simp_all add: example_backend_def initial_backend_def get_surface_def ptr_read_def)

lemma example_ok: "backend_ok example_backend"
  by (simp add: backend_ok_def recursive_def)
    (simp add: example_backend_def initial_backend_def table_ok_def context_ok_def
     surface_ok_def zero_VMWOpenCLContext_def zero_VMWOpenCLSurface_def example_surface_def recursive_mutex_def)

subsection \<open>Requests\<close>

definition example_kernel :: VMCLKernelAllocateDesc where
  "example_kernel = zero_VMCLKernelAllocateDesc
     \<lparr>CLKernelAllocateDesc_client := zero_VMCLKernelId\<lparr>CLKernelId_id := 1\<rparr>, CLKernelAllocateDesc_language := VMCL_OPENCL_C_2_0\<rparr>"

definition example_surface_id :: "u32 \<Rightarrow> u32 \<Rightarrow> VMCLSurfaceId" where
  "example_surface_id sid gen = zero_VMCLSurfaceId
     \<lparr>CLSurfaceId_accel := zero_VMAccelSurfaceId\<lparr>SurfaceId_id := sid, SurfaceId_generation := gen\<rparr>\<rparr>"

definition example_region :: VMAccelSurfaceRegion where
  "example_region = zero_VMAccelSurfaceRegion\<lparr>SurfaceRegion_coord := zero_VMAccelCoordinate3DUINT\<lparr>Coordinate3DUINT_x := 4\<rparr>,
     SurfaceRegion_size := zero_VMAccelCoordinate3DUINT\<lparr>Coordinate3DUINT_x := 2\<rparr>\<rparr>"

definition example_upload :: VMCLImageUploadOp where
  "example_upload = zero_VMCLImageUploadOp\<lparr>CLImageUploadOp_img := example_surface_id 0 8,
     CLImageUploadOp_op := zero_VMAccelImageTransferOp\<lparr>ImageTransferOp_imgRegion := example_region, ImageTransferOp_ptr := Vec 2 (Some [11, 22])\<rparr>\<rparr>"

definition example_download :: "u32 \<Rightarrow> VMCLImageDownloadOp" where
  "example_download gen = zero_VMCLImageDownloadOp\<lparr>CLImageDownloadOp_img := example_surface_id 0 gen,
     CLImageDownloadOp_op := zero_VMAccelImageTransferOp\<lparr>ImageTransferOp_imgRegion := example_region\<rparr>\<rparr>"

lemmas example_ops = example_surface_id_def example_region_def example_upload_def example_download_def
  zero_VMCLImageUploadOp_def zero_VMCLImageDownloadOp_def zero_VMAccelImageTransferOp_def zero_VMCLSurfaceId_def
  zero_VMAccelSurfaceId_def zero_VMCLQueueId_def zero_VMAccelSurfaceRegion_def zero_VMAccelCoordinate3DUINT_def

lemmas run_defs = lock_both_def lock_surface_def lock_inst_def unlock_both_def unlock_surface_def unlock_inst_def
  get_inst_def put_inst_def get_surface_def put_surface_def ptr_read_def ptr_write_def mutex_lock_def mutex_unlock_def
  example_backend_def initial_backend_def example_surface_def zero_VMWOpenCLSurfaceInstance_def recursive_mutex_def
  example_cl_def sim_start_def sim_fits_def sim_write_def sim_read_def host_span_def cassert_def Let_def

lemma example_upload_download:
  "\<exists>s1. vmwopencl_imageupload_1 example_cl example_upload example_backend = Inr (Some zero_VMAccelStatus, example_upload, s1) \<and>
     (\<exists>s2. vmwopencl_imagedownload_1 example_cl calloc_finds (example_download 8) s1 =
       Inr (Some (zero_VMAccelDownloadStatus\<lparr>DownloadStatus_ptr := Vec 2 (Some [11, 22])\<rparr>), example_download 8, s2))"
  by (simp add: vmwopencl_imageupload_1_def vmwopencl_imagedownload_1_def run_defs example_ops download_buffer_def overwrite_def)

lemma replicate_2: "replicate 2 x = [x, x]"
  by (simp add: numeral_2_eq_2)

lemma example_refused:
  "\<exists>s1. vmwopencl_imagedownload_1 example_cl calloc_finds (example_download 7) example_backend =
       Inr (Some (zero_VMAccelDownloadStatus\<lparr>DownloadStatus_ptr := Vec 2 (Some [0, 0])\<rparr>), example_download 7, s1) \<and>
     (\<exists>y. get_inst 0 0 s1 = Inr y \<and> inst_generation y = 7) \<and>
     (\<exists>r2 s2. vmwopencl_imagedownload_1 example_cl calloc_finds (example_download 9) s1 = Inr (Some r2, example_download 9, s2))"
  by (simp add: vmwopencl_imageupload_1_def vmwopencl_imagedownload_1_def run_defs example_ops download_buffer_def overwrite_def get_inst_def replicate_2)

definition example_world :: "sim backend svc_world" where
  "example_world = \<lparr>w_mutex = \<lambda>_. Unlocked, w_local = example_backend, w_remote = example_backend\<rparr>"

lemma example_messages:
  "ok_VMCLImageUploadOp example_upload" "ok_VMCLImageDownloadOp (example_download 8)"
  "length (enc_VMCLImageUploadOp example_upload) \<le> 400" "length (enc_VMCLImageDownloadOp (example_download 8)) \<le> 400"
  "length (enc_VMAccelReturnStatus \<lparr>ReturnStatus_errno = 0, ReturnStatus_ret = Some zero_VMAccelStatus\<rparr>) \<le> 400"
  "length (enc_VMAccelDownloadReturnStatus \<lparr>DownloadReturnStatus_errno = 0,
     DownloadReturnStatus_ret = Some (zero_VMAccelDownloadStatus\<lparr>DownloadStatus_ptr := Vec 2 (Some [11, 22])\<rparr>)\<rparr>) \<le> 400"
  by code_simp+

abbreviation (input) example_Ops :: "sim backend VMCLOps" where
  "example_Ops \<equiv> vmwopenclOps example_build example_cl calloc_finds"

lemma query_caps_sim: "\<exists>v. query_caps (sim_cl ver info) dev cs vals d = (v, d)"
  by (induction cs arbitrary: vals) auto

lemma example_poweron:
  "\<exists>st s. vmwopencl_poweron example_build example_cl calloc_finds 0 0 0 (initial_backend sim_start) = Inr (Some st, s) \<and> AllocateStatus_status st = VMACCEL_SUCCESS"
proof -
  obtain v where "query_caps example_cl 7 (vmwopencl_caps example_build) (\<lambda>_. 0) sim_start = (v, sim_start)"
    using query_caps_sim unfolding example_cl_def by blast
  note v = this [unfolded example_cl_def]
  show ?thesis
    by (simp add: upt_rec vmwopencl_poweron_def poweron_platform_def example_cl_def v clDeviceTypes_def cread_def Let_def initial_backend_def zero_VMWOpenCLCaps_def alloc_tables_def alloc_table_def alloc_ids_def IdentifierDB_Alloc_def)
qed
definition example_context :: VMCLContextAllocateDesc where
  "example_context = zero_VMCLContextAllocateDesc\<lparr>CLContextAllocateDesc_clientId := 1, CLContextAllocateDesc_selectionMask := 1\<rparr>"

lemma example_contextalloc:
  "\<exists>st s. vmwopencl_contextalloc_1 example_cl example_context example_backend = Inr (Some st, example_context, s) \<and>
     CLContextAllocateStatus_status st = VMACCEL_SUCCESS"
proof -
  have "\<exists>db'. id_acquire (Live example_ids) 1 = Inr (True, Live db')"
    using bounded_ids.acquire_fresh [of example_ids 1] ids_ok_example
    by (auto simp: ids_ok_def id_acquire_def id_db_def)
  then show ?thesis
    by (auto simp: vmwopencl_contextalloc_1_def example_context_def zero_VMCLContextAllocateDesc_def Let_def active_eq example_cl_def try_platform_def platform_version_def
      upt_rec select_device_def clDeviceTypes_def cread_def) (simp add: example_backend_def ptr_write_def)
qed

subsection \<open>A dispatch\<close>

definition example_arg :: VMCLKernelArgDesc where
  "example_arg = zero_VMCLKernelArgDesc\<lparr>CLKernelArgDesc_type := VMCL_ARG_SURFACE,
     CLKernelArgDesc_surf := zero_VMAccelSurfaceId\<lparr>SurfaceId_generation := 7\<rparr>\<rparr>"

definition example_dispatch :: "VMCLKernelArgDesc c_vec \<Rightarrow> VMCLDispatchOp" where
  "example_dispatch args = zero_VMCLDispatchOp\<lparr>CLDispatchOp_dimension := 1, CLDispatchOp_globalWorkOffset := Vec 1 (Some [0]),
     CLDispatchOp_globalWorkSize := Vec 1 (Some [64]), CLDispatchOp_localWorkSize := Vec 1 (Some [8]), CLDispatchOp_args := args\<rparr>"

lemmas dispatch_defs = example_dispatch_def example_arg_def zero_VMCLDispatchOp_def zero_VMCLKernelArgDesc_def zero_VMCLKernelId_def
  zero_VMAccelSurfaceId_def zero_VMCLQueueId_def

lemma example_dispatch_succeeds:
  "\<exists>s'. vmwopencl_dispatch_1 example_build example_cl calloc_finds (example_dispatch (Vec 2 (Some [example_arg, example_arg]))) example_backend =
     Inr (Some zero_VMAccelStatus, example_dispatch (Vec 2 (Some [example_arg, example_arg])), s')"
  by (simp add: vmwopencl_dispatch_1_def dispatch_loop.simps dispatch_arg_def dispatch_enqueue_def work_item_def vec_at_def cleanup_index_def
    run_defs dispatch_defs example_build_def zero_VMAccelStatus_def)

end
