(* ===== verification/Vmwopencl_Dispatch.thy ===== *)
theory Vmwopencl_Dispatch
  imports Vmwopencl_Example
begin

section \<open>Dispatch\<close>

text \<open>
  The argument loop of a dispatch takes the locks of one surface after the other, possibly of the
  same one several times, and the cleanup loop releases them in the opposite order.  The lemmas
  relate the two loops, and say which generations the loop has seen.
\<close>

subsection \<open>The cleanup undoes the argument loop\<close>

definition unwinds :: "VMCLKernelArgDesc c_vec \<Rightarrow> nat \<Rightarrow> 'd backend \<Rightarrow> 'd backend \<Rightarrow> bool" where
  "unwinds args n s s0 \<longleftrightarrow> (\<forall>d. dispatch_cleanup args n (s\<lparr>runtime := d\<rparr>) = Inr (s0\<lparr>runtime := d\<rparr>))"

lemma unwinds_0: "unwinds args 0 s s"
  by (simp add: unwinds_def)

lemma dispatch_arg_cases:
  assumes "dispatch_arg b cl k a s = Inr (c, s1)"
  obtains x d where "ready (SurfaceId_id (CLKernelArgDesc_surf a)) (SurfaceId_instance (CLKernelArgDesc_surf a)) x s"
    and "CLKernelArgDesc_type a = VMCL_ARG_SURFACE"
    and "s1 = with_surface (SurfaceId_id (CLKernelArgDesc_surf a)) (both_locked (SurfaceId_instance (CLKernelArgDesc_surf a)) x) (s\<lparr>runtime := d\<rparr>)"
    and "c = None \<Longrightarrow> inst_generation (surface_inst x ! unat (SurfaceId_instance (CLKernelArgDesc_surf a))) = SurfaceId_generation (CLKernelArgDesc_surf a)"
    and "c \<noteq> Some VMACCEL_SUCCESS"
proof -
  let ?sid = "SurfaceId_id (CLKernelArgDesc_surf a)" and ?i = "SurfaceId_instance (CLKernelArgDesc_surf a)"
  have ty: "CLKernelArgDesc_type a = VMCL_ARG_SURFACE" using assms by (auto simp: dispatch_arg_def cbind_eq_Inr cassert_eq_Inr)
  obtain s' where l: "lock_both ?sid ?i s = Inr s'" using assms by (auto simp: dispatch_arg_def cbind_eq_Inr Let_def)
  then obtain x where x: "ready ?sid ?i x s" "s' = with_surface ?sid (both_locked ?i x) s" by (rule lock_both_cases)
  let ?y = "surface_inst x ! unat ?i"
  have g: "get_inst ?sid ?i s' = Inr (?y\<lparr>inst_mutex := locked (inst_mutex ?y)\<rparr>)" by (simp add: x(2) locked_steps(2) [OF x(1)])
  have rt: "runtime s' = runtime s" by (simp add: x(2))
  have s1: "\<exists>d. s1 = s'\<lparr>runtime := d\<rparr> \<and> (c = None \<longrightarrow> inst_generation ?y = SurfaceId_generation (CLKernelArgDesc_surf a)) \<and> c \<noteq> Some 0"
  proof (cases "inst_generation ?y = SurfaceId_generation (CLKernelArgDesc_surf a)")
    case True
    with assms ty l g show ?thesis by (auto simp: dispatch_arg_def Let_def split: prod.splits if_splits)
  next
    case False
    have "s' = s'\<lparr>runtime := runtime s'\<rparr>" by simp
    with False assms ty l g show ?thesis by (auto simp: dispatch_arg_def Let_def split: if_splits intro: exI [of _ "runtime s'"])
  qed
  with x that ty show ?thesis by auto
qed

lemma unwinds_step:
  assumes "unwinds args n s s0" and "vec_at args n = Inr a" and "dispatch_arg b cl k a s = Inr (c, s1)"
  shows "unwinds args (Suc n) s1 s0"
proof -
  obtain x d where x: "ready (SurfaceId_id (CLKernelArgDesc_surf a)) (SurfaceId_instance (CLKernelArgDesc_surf a)) x s"
    and ty: "CLKernelArgDesc_type a = VMCL_ARG_SURFACE"
    and s1: "s1 = with_surface (SurfaceId_id (CLKernelArgDesc_surf a)) (both_locked (SurfaceId_instance (CLKernelArgDesc_surf a)) x) (s\<lparr>runtime := d\<rparr>)"
    using assms(3) by (rule dispatch_arg_cases)
  have "dispatch_cleanup args (Suc n) (s1\<lparr>runtime := d'\<rparr>) = Inr (s0\<lparr>runtime := d'\<rparr>)" for d'
  proof -
    have "ready (SurfaceId_id (CLKernelArgDesc_surf a)) (SurfaceId_instance (CLKernelArgDesc_surf a)) x (s\<lparr>runtime := d'\<rparr>)" using x by simp
    from unlock_both_locked [OF this] assms(1,2) ty show ?thesis by (simp add: s1 unwinds_def)
  qed
  then show ?thesis by (simp add: unwinds_def)
qed

lemma dispatch_loop_unwinds:
  assumes "dispatch_loop b cl k args i s = Inr (c, j, s1)" and "unwinds args i s s0" and "i \<le> unat (vec_len args)"
  shows "case c of None \<Rightarrow> j = unat (vec_len args) \<and> unwinds args j s1 s0
    | Some e \<Rightarrow> j < unat (vec_len args) \<and> unwinds args (Suc j) s1 s0 \<and> e \<noteq> VMACCEL_SUCCESS"
  using assms
proof (induction "unat (vec_len args) - i" arbitrary: i s rule: less_induct)
  case less
  show ?case
  proof (cases "i < unat (vec_len args)")
    case True
    with less.prems(1) obtain a c' s' where a: "vec_at args i = Inr a" "dispatch_arg b cl k a s = Inr (c', s')"
      and r: "(if c' = None then dispatch_loop b cl k args (Suc i) s' else Inr (c', i, s')) = Inr (c, j, s1)"
      by (subst (asm) dispatch_loop.simps) (auto simp: cbind_eq_Inr)
    have u: "unwinds args (Suc i) s' s0" by (rule unwinds_step [OF less.prems(2) a])
    have c': "c' \<noteq> Some 0" using dispatch_arg_cases [OF a(2)] by blast
    show ?thesis
    proof (cases c')
      case None
      with less.hyps [of "Suc i" s'] r u True show ?thesis by simp
    next
      case (Some e)
      with r u True c' show ?thesis by auto
    qed
  next
    case False
    with less.prems show ?thesis by (subst (asm) dispatch_loop.simps) auto
  qed
qed

lemma cleanup_index_less: "j < unat n \<Longrightarrow> cleanup_index j n = j"
proof -
  assume j: "j < unat n"
  then have n: "n \<noteq> 0" by auto
  then have "unat (n - 1) = unat n - 1" by (simp add: unat_minus_one)
  moreover have "unat (of_nat j :: u32) = j" using j by (intro le_unat_uoi [of j n]) simp
  ultimately show ?thesis using j by (auto simp: cleanup_index_def word_less_nat_alt)
qed

lemma cleanup_index_all: "n \<noteq> 0 \<Longrightarrow> Suc (cleanup_index (unat n) n) = unat n"
proof -
  assume n: "n \<noteq> 0"
  then have "unat (n - 1) = unat n - 1" "0 < unat n" by (simp_all add: unat_minus_one unat_gt_0)
  then show ?thesis by (auto simp: cleanup_index_def word_less_nat_alt)
qed

lemma dispatch_enqueue_state:
  assumes "dispatch_enqueue cl calloc_ok q k argp s = Inr (c, s1)"
  obtains d where "s1 = s\<lparr>runtime := d\<rparr>"
proof -
  have "cpost (\<lambda>(c, s1). \<exists>d. s1 = s\<lparr>runtime := d\<rparr>) (dispatch_enqueue cl calloc_ok q k argp s)"
    unfolding dispatch_enqueue_def Let_def by (rule cpost_shape cpost_intros | auto; fail)+
  with assms that show ?thesis by (auto dest: cpostD)
qed

text \<open>A dispatch that returns leaves everything but the runtime as it found it.\<close>

lemma dispatch_restores:
  assumes "vmwopencl_dispatch_1 b cl calloc_ok argp s = Inr (st, argp', s')" and n: "vec_len (CLDispatchOp_args argp) \<noteq> 0"
  shows "argp' = argp" and "\<exists>d. s' = s\<lparr>runtime := d\<rparr>"
proof -
  let ?args = "CLDispatchOp_args argp" and ?n = "unat (vec_len (CLDispatchOp_args argp))"
  from assms(1) obtain q :: VMWOpenCLQueue and k :: VMWOpenCLKernel and c j s1 c' s2 where l: "dispatch_loop b cl (kernel_kernel k) ?args 0 s = Inr (c, j, s1)"
    and e: "(case c of Some c \<Rightarrow> Inr (c, s1) | None \<Rightarrow> dispatch_enqueue cl calloc_ok (queue_queue q) (kernel_kernel k) argp s1) = Inr (c', s2)"
    and u: "dispatch_cleanup ?args (Suc (cleanup_index j (vec_len ?args))) s2 = Inr s'" and a: "argp' = argp"
    by (auto simp: vmwopencl_dispatch_1_def Let_def cbind_eq_Inr simp del: dispatch_cleanup.simps)
  show "argp' = argp" by (rule a)
  obtain d where d: "s2 = s1\<lparr>runtime := d\<rparr>"
    using e by (cases c) (auto intro: that [of "runtime s1"] elim: dispatch_enqueue_state)
  note w = dispatch_loop_unwinds [OF l unwinds_0]
  show "\<exists>d. s' = s\<lparr>runtime := d\<rparr>"
  proof (cases c)
    case (Some e)
    with w u d show ?thesis by (auto simp: cleanup_index_less unwinds_def simp del: dispatch_cleanup.simps)
  next
    case None
    with w have j: "j = ?n" "unwinds ?args ?n s1 s" by auto
    with u d n show ?thesis by (auto simp: cleanup_index_all unwinds_def simp del: dispatch_cleanup.simps)
  qed
qed

subsection \<open>The generations the loop has seen\<close>

definition generation :: "u32 \<Rightarrow> u32 \<Rightarrow> 'd backend \<Rightarrow> u32 cres" where
  "generation sid i s = cbind (get_inst sid i s) (\<lambda>y. Inr (inst_generation y))"

text \<open>An argument names the generation its surface has.\<close>

definition current :: "VMCLKernelArgDesc \<Rightarrow> 'd backend \<Rightarrow> bool" where
  "current a s \<longleftrightarrow> (let surf = CLKernelArgDesc_surf a in
     generation (SurfaceId_id surf) (SurfaceId_instance surf) s = Inr (SurfaceId_generation surf))"

lemma generation_locked:
  assumes "ready sid i x s"
  shows "generation sid' i' (with_surface sid (both_locked i x) (s\<lparr>runtime := d\<rparr>)) = generation sid' i' s"
proof (cases "sid' = sid")
  case False
  then show ?thesis by (simp add: generation_def get_inst_def)
next
  case True
  note r = readyD [OF assms]
  have "inst_generation (surface_inst (both_locked i x) ! unat i') = inst_generation (surface_inst x ! unat i')"
    if "unat i' < length (surface_inst x)"
    using that by (cases "unat i' = unat i") (simp_all add: both_locked_def Let_def set_inst_def)
  with True r(1) show ?thesis by (simp add: generation_def get_inst_def cread_def)
qed

lemma dispatch_arg_generation:
  assumes "dispatch_arg b cl k a s = Inr (c, s1)"
  shows "generation sid i s1 = generation sid i s" and "c = None \<Longrightarrow> current a s"
proof -
  obtain x d where x: "ready (SurfaceId_id (CLKernelArgDesc_surf a)) (SurfaceId_instance (CLKernelArgDesc_surf a)) x s"
    and s1: "s1 = with_surface (SurfaceId_id (CLKernelArgDesc_surf a)) (both_locked (SurfaceId_instance (CLKernelArgDesc_surf a)) x) (s\<lparr>runtime := d\<rparr>)"
    and c: "c = None \<Longrightarrow> inst_generation (surface_inst x ! unat (SurfaceId_instance (CLKernelArgDesc_surf a))) = SurfaceId_generation (CLKernelArgDesc_surf a)"
    using assms by (rule dispatch_arg_cases) blast
  show "generation sid i s1 = generation sid i s" unfolding s1 by (rule generation_locked [OF x])
  show "c = None \<Longrightarrow> current a s" using c get_inst_eq [OF readyD(3) [OF x]] by (simp add: current_def Let_def generation_def)
qed

lemma current_same: "(\<And>sid i. generation sid i s1 = generation sid i s) \<Longrightarrow> current a s1 = current a s"
  by (simp add: current_def Let_def)

lemma dispatch_loop_current:
  assumes "dispatch_loop b cl k args i s = Inr (None, j, s1)" and "i \<le> n" and "n < unat (vec_len args)"
  shows "\<exists>a. vec_at args n = Inr a \<and> CLKernelArgDesc_type a = VMCL_ARG_SURFACE \<and> current a s"
  using assms
proof (induction "unat (vec_len args) - i" arbitrary: i s rule: less_induct)
  case less
  from less.prems have i: "i < unat (vec_len args)" by simp
  with less.prems(1) obtain a s' where a: "vec_at args i = Inr a" "dispatch_arg b cl k a s = Inr (None, s')"
    and r: "dispatch_loop b cl k args (Suc i) s' = Inr (None, j, s1)"
    by (subst (asm) dispatch_loop.simps) (auto simp: cbind_eq_Inr split: if_splits)
  note g = dispatch_arg_generation [OF a(2)]
  show ?case
  proof (cases "n = i")
    case True
    have "CLKernelArgDesc_type a = VMCL_ARG_SURFACE" using a(2) by (rule dispatch_arg_cases)
    with True a(1) g(2) show ?thesis by blast
  next
    case False
    then have "Suc i \<le> n" using less.prems(2) by simp
    from less.hyps [OF _ r this less.prems(3)] i g(1) show ?thesis using current_same [of s' s] by fastforce
  qed
qed

lemma dispatch_loop_enqueue [simp]:
  "dispatch_loop b (cl\<lparr>clEnqueueNDRangeKernel := f\<rparr>) k args i s = dispatch_loop b cl k args i s"
proof (induction "unat (vec_len args) - i" arbitrary: i s rule: less_induct)
  case less
  have "dispatch_arg b (cl\<lparr>clEnqueueNDRangeKernel := f\<rparr>) k a s = dispatch_arg b cl k a s" for a
    by (simp add: dispatch_arg_def Let_def cong: if_cong)
  then show ?case
    by (subst (1 2) dispatch_loop.simps) (auto intro!: cbind_cong less.hyps)
qed

subsection \<open>Properties\<close>

text \<open>C8: A dispatch that reports success was given arguments that all name the generation their
  surfaces have.  When one of them does not, the call is the same whatever
  \<^verbatim>\<open>clEnqueueNDRangeKernel\<close> does: the kernel is not enqueued.  In every case in which the call returns,
  it changes nothing but the OpenCL runtime: all locks it took, repeated ones included, are released.\<close>

theorem dispatch_exact_generations:
  assumes "vec_len (CLDispatchOp_args argp) \<noteq> 0"
  shows "(\<forall>st argp' s' n. vmwopencl_dispatch_1 b cl calloc_ok argp s = Inr (Some st, argp', s') \<and>
        Status_status st = VMACCEL_SUCCESS \<and> n < unat (vec_len (CLDispatchOp_args argp)) \<longrightarrow>
        (\<exists>a. vec_at (CLDispatchOp_args argp) n = Inr a \<and> CLKernelArgDesc_type a = VMCL_ARG_SURFACE \<and> current a s)) \<and>
    (\<forall>n a f. n < unat (vec_len (CLDispatchOp_args argp)) \<and> vec_at (CLDispatchOp_args argp) n = Inr a \<and> \<not> current a s \<longrightarrow>
        vmwopencl_dispatch_1 b (cl\<lparr>clEnqueueNDRangeKernel := f\<rparr>) calloc_ok argp s = vmwopencl_dispatch_1 b cl calloc_ok argp s) \<and>
    (\<forall>ret argp' s'. vmwopencl_dispatch_1 b cl calloc_ok argp s = Inr (ret, argp', s') \<longrightarrow> (\<exists>d. s' = s\<lparr>runtime := d\<rparr>))"
proof (intro conjI allI impI)
  fix st argp' s' n
  let ?args = "CLDispatchOp_args argp"
  assume "vmwopencl_dispatch_1 b cl calloc_ok argp s = Inr (Some st, argp', s') \<and>
    Status_status st = VMACCEL_SUCCESS \<and> n < unat (vec_len ?args)"
  then have n: "n < unat (vec_len ?args)" and st: "Status_status st = 0"
    and r: "vmwopencl_dispatch_1 b cl calloc_ok argp s = Inr (Some st, argp', s')" by simp_all
  obtain q :: VMWOpenCLQueue and k :: VMWOpenCLKernel and c j s1 c' s2 where l: "dispatch_loop b cl (kernel_kernel k) ?args 0 s = Inr (c, j, s1)"
    and e: "(case c of Some c \<Rightarrow> Inr (c, s1) | None \<Rightarrow> dispatch_enqueue cl calloc_ok (queue_queue q) (kernel_kernel k) argp s1) = Inr (c', s2)"
    and c: "st = status_of c'"
    using r by (auto simp: vmwopencl_dispatch_1_def Let_def cbind_eq_Inr simp del: dispatch_cleanup.simps)
  have "c' = 0" using c st by simp
  then have "c = None" using dispatch_loop_unwinds [OF l unwinds_0] e by (cases c) auto
  with dispatch_loop_current [of b cl "kernel_kernel k" ?args 0 s j s1 n] l n
  show "\<exists>a. vec_at ?args n = Inr a \<and> CLKernelArgDesc_type a = VMCL_ARG_SURFACE \<and> current a s" by simp
next
  fix n a f
  let ?args = "CLDispatchOp_args argp"
  assume a: "n < unat (vec_len ?args) \<and> vec_at ?args n = Inr a \<and> \<not> current a s"
  have "dispatch_loop b cl k ?args 0 s \<noteq> Inr (None, j, s1)" for k j s1
    using dispatch_loop_current [of b cl k ?args 0 s j s1 n] a by auto
  then show "vmwopencl_dispatch_1 b (cl\<lparr>clEnqueueNDRangeKernel := f\<rparr>) calloc_ok argp s = vmwopencl_dispatch_1 b cl calloc_ok argp s"
    unfolding vmwopencl_dispatch_1_def Let_def
    by (auto intro!: cbind_cong simp del: dispatch_cleanup.simps split: option.split)
next
  fix ret argp' s'
  show "vmwopencl_dispatch_1 b cl calloc_ok argp s = Inr (ret, argp', s') \<Longrightarrow> \<exists>d. s' = s\<lparr>runtime := d\<rparr>"
    using dispatch_restores(2) assms by blast
qed

theorem dispatch_exact_generations_witness:
  "\<exists>s'. vmwopencl_dispatch_1 example_build example_cl calloc_finds (example_dispatch (Vec 2 (Some [example_arg, example_arg]))) example_backend =
     Inr (Some zero_VMAccelStatus, example_dispatch (Vec 2 (Some [example_arg, example_arg])), s') \<and>
     current example_arg example_backend \<and> (\<exists>d. s' = example_backend\<lparr>runtime := d\<rparr>)"
proof -
  let ?op = "example_dispatch (Vec 2 (Some [example_arg, example_arg]))"
  have args: "CLDispatchOp_args ?op = Vec 2 (Some [example_arg, example_arg])" by (simp add: example_dispatch_def)
  then have "vec_len (CLDispatchOp_args ?op) \<noteq> 0" by simp
  note d = dispatch_exact_generations [OF this, of example_build example_cl calloc_finds example_backend]
  obtain s' where s': "vmwopencl_dispatch_1 example_build example_cl calloc_finds ?op example_backend = Inr (Some zero_VMAccelStatus, ?op, s')"
    using example_dispatch_succeeds by blast
  have "Status_status zero_VMAccelStatus = VMACCEL_SUCCESS" "0 < unat (vec_len (CLDispatchOp_args ?op))" by (simp_all add: args zero_VMAccelStatus_def)
  with s' conjunct1 [OF d] obtain a where "vec_at (CLDispatchOp_args ?op) 0 = Inr a" "current a example_backend" by blast
  moreover have "\<exists>d. s' = example_backend\<lparr>runtime := d\<rparr>" using d s' by blast
  ultimately show ?thesis using s' by (simp add: args vec_at_def)
qed

text \<open>C32: A dispatch of a kernel without arguments never returns: once the kernel is enqueued, the
  server reads through a \<^verbatim>\<open>NULL\<close> pointer.  With an argument count of 0 the cleanup starts at index 0,
  because the comparison in \<^verbatim>\<open>MIN(argIndex, args_len - 1)\<close> is unsigned, and the empty array has no
  memory.\<close>

theorem dispatch_without_arguments_aborts:
  assumes "CLDispatchOp_args argp = Vec 0 None"
  shows "(\<exists>e. vmwopencl_dispatch_1 b cl calloc_ok argp s = Inl e) \<and>
    (\<forall>q k c s1. ptr_read (queues s) (CLQueueId_id (CLDispatchOp_queue argp)) = Inr q \<and>
      ptr_read (kernels s) (CLKernelId_id (CLDispatchOp_kernel argp)) = Inr k \<and>
      dispatch_enqueue cl calloc_ok (queue_queue q) (kernel_kernel k) argp s = Inr (c, s1) \<longrightarrow>
      vmwopencl_dispatch_1 b cl calloc_ok argp s = Inl NullPointer)"
proof -
  have l: "dispatch_loop b cl k (Vec 0 None) 0 s = Inr (None, 0, s)" for k by (subst dispatch_loop.simps) simp
  have u: "dispatch_cleanup (Vec 0 None) (Suc (cleanup_index 0 0)) s2 = Inl NullPointer" for s2 :: "'a backend"
    by (simp add: cleanup_index_def vec_at_def)
  have *: "vmwopencl_dispatch_1 b cl calloc_ok argp s = cbind (ptr_read (queues s) (CLQueueId_id (CLDispatchOp_queue argp))) (\<lambda>q.
      cbind (ptr_read (kernels s) (CLKernelId_id (CLDispatchOp_kernel argp))) (\<lambda>k.
      cbind (dispatch_enqueue cl calloc_ok (queue_queue q) (kernel_kernel k) argp s) (\<lambda>(c, s). Inl NullPointer)))"
    unfolding vmwopencl_dispatch_1_def Let_def assms by (simp add: l u del: dispatch_cleanup.simps cong: prod.case_cong)
  then show ?thesis by (auto simp: cbind_def split: sum.split)
qed

theorem dispatch_without_arguments_aborts_witness:
  "vmwopencl_dispatch_1 example_build example_cl calloc_finds (example_dispatch (Vec 0 None)) example_backend = Inl NullPointer"
proof -
  have "\<exists>c s1. dispatch_enqueue example_cl calloc_finds 9 13 (example_dispatch (Vec 0 None)) example_backend = Inr (c, s1)"
    by (simp add: dispatch_enqueue_def work_item_def vec_at_def run_defs dispatch_defs)
  with dispatch_without_arguments_aborts [of "example_dispatch (Vec 0 None)" example_build example_cl calloc_finds example_backend]
  show ?thesis by (auto simp: dispatch_defs zero_VMWOpenCLQueue_def zero_VMWOpenCLKernel_def)
qed

end
