(* ===== verification/Vmwopencl_Props.thy ===== *)
theory Vmwopencl_Props
  imports Vmwopencl_Server Vmwopencl_Dispatch
begin

unbundle bit_operations_syntax

section \<open>Properties of the OpenCL backend\<close>

text \<open>
  What the backend promises its clients, and where it does not keep the promise its interface
  makes.  The concrete instances use the small OpenCL runtime.
\<close>

subsection \<open>The invariant\<close>

lemma vmwopenclOps_simps [simp]:
  "poweron (vmwopenclOps b cl calloc_ok) = vmwopencl_poweron b cl calloc_ok"
  "imageupload_1 (vmwopenclOps b cl calloc_ok) = vmwopencl_imageupload_1 cl"
  "imagedownload_1 (vmwopenclOps b cl calloc_ok) = vmwopencl_imagedownload_1 cl calloc_ok"
  by (simp_all add: vmwopenclOps_def)

lemma poweron_svc_ok:
  assumes "vmcl_poweron_loop (vmwopenclOps b cl calloc_ok) str is ret sv = Inr (Some st, sv')" and "length (caps (cl_state sv)) = 4"
    and "\<And>k n. calloc_ok k n" and "ret = Some st \<Longrightarrow> AllocateStatus_status st \<noteq> VMACCEL_SUCCESS"
    and "AllocateStatus_status st = VMACCEL_SUCCESS"
  shows "backend_ok (cl_state sv')"
  using assms(1,2,4)
proof (induction "is" arbitrary: ret sv)
  case Nil
  with assms(5) show ?case by simp
next
  case (Cons i "is")
  from Cons.prems(1) obtain r s where p: "vmwopencl_poweron b cl calloc_ok i 0 str (cl_state sv) = Inr (Some r, s)"
    and c: "(if AllocateStatus_status r = VMACCEL_SUCCESS then Inr (Some r, sv\<lparr>cl_state := s, clRefCount := clRefCount (sv\<lparr>cl_state := s\<rparr>) + 1\<rparr>)
      else vmcl_poweron_loop (vmwopenclOps b cl calloc_ok) str is (Some r) (sv\<lparr>cl_state := s\<rparr>)) = Inr (Some st, sv')"
    by (auto simp: cbind_eq_Inr Let_def split: option.splits)
  from cpostD [OF poweron_post [OF Cons.prems(2) assms(3)] p]
  have s: "length (caps s) = 4" "AllocateStatus_status r = VMACCEL_SUCCESS \<Longrightarrow> backend_ok s" by auto
  show ?case
  proof (cases "AllocateStatus_status r = VMACCEL_SUCCESS")
    case True
    with c s show ?thesis by auto
  next
    case False
    with c have "vmcl_poweron_loop (vmwopenclOps b cl calloc_ok) str is (Some r) (sv\<lparr>cl_state := s\<rparr>) = Inr (Some st, sv')" by simp
    from Cons.IH [OF this] s(1) False show ?thesis by auto
  qed
qed

text \<open>C6: After the compute service has powered on successfully, whatever requests arrive in whatever
  order and with whatever bytes, as long as the server has not aborted its backend is well formed:
  tables of 32 entries, identifier databases within their bounds, one instance per surface,
  recursive mutexes on every allocated surface, and contexts of version 1.2, 2.0, 2.1 or 3.0 only.\<close>

theorem server_keeps_backend_ok:
  assumes "\<forall>k n. calloc_ok k n"
    and "vmcl_poweron_svc (vmwopenclOps b cl calloc_ok) str \<lparr>clRefCount = 0, cl_state = initial_backend d\<rparr> = Inr (Some st, sv)"
    and "AllocateStatus_status st = VMACCEL_SUCCESS"
    and "svc_run (vmcl_1 (vmwopenclOps b cl calloc_ok)) reqs (cl_state sv) = Inr (rs, s)"
  shows "backend_ok s"
proof -
  have "backend_ok (cl_state sv)"
    using assms(2) unfolding vmcl_poweron_svc_def
    by (rule poweron_svc_ok) (use assms(1,3) in \<open>simp_all add: initial_backend_def\<close>)
  with opencl.run_keeps [OF assms(4)] show ?thesis .
qed

theorem server_keeps_backend_ok_witness:
  "\<exists>st sv rs s. vmcl_poweron_svc example_Ops 0 \<lparr>clRefCount = 0, cl_state = initial_backend sim_start\<rparr> = Inr (Some st, sv) \<and>
     svc_run (vmcl_1 example_Ops) [(99, \<lparr>tp_in = [], tp_room = 0, tp_handy = []\<rparr>)] (cl_state sv) = Inr (rs, s) \<and> backend_ok s"
proof -
  obtain st s where "vmwopencl_poweron example_build example_cl calloc_finds 0 0 0 (initial_backend sim_start) = Inr (Some st, s)"
    and ok: "AllocateStatus_status st = VMACCEL_SUCCESS" using example_poweron by blast
  then obtain sv where on: "vmcl_poweron_svc example_Ops 0 \<lparr>clRefCount = 0, cl_state = initial_backend sim_start\<rparr> = Inr (Some st, sv)"
    by (simp add: vmcl_poweron_svc_def upt_rec Let_def)
  have run: "\<exists>rs. svc_run (vmcl_1 example_Ops) [(99, \<lparr>tp_in = [], tp_room = 0, tp_handy = []\<rparr>)] (cl_state sv) = Inr (rs, cl_state sv)"
    by (simp add: vmcl_1_def)
  then obtain rs where run: "svc_run (vmcl_1 example_Ops) [(99, \<lparr>tp_in = [], tp_room = 0, tp_handy = []\<rparr>)] (cl_state sv) = Inr (rs, cl_state sv)" ..
  from server_keeps_backend_ok [OF _ on ok run] on run show ?thesis by auto
qed

subsection \<open>Refusals\<close>

text \<open>C18: The four allocation operations refuse an identifier that is in use: the status is
  \<^verbatim>\<open>VMACCEL_RESOURCE_UNAVAILABLE\<close> and nothing changes.\<close>

theorem allocation_refuses_used_ids:
  assumes "backend_ok s"
  shows "(\<forall>argp. active (contextIds s) (CLContextAllocateDesc_clientId argp) \<longrightarrow>
      (\<exists>st. vmwopencl_contextalloc_1 cl argp s = Inr (Some st, argp, s) \<and> CLContextAllocateStatus_status st = VMACCEL_RESOURCE_UNAVAILABLE)) \<and>
    (\<forall>argp. active (surfaceIds s) (SurfaceId_id (CLSurfaceId_accel (CLSurfaceAllocateDesc_client argp))) \<and>
        unat (CLSurfaceId_cid (CLSurfaceAllocateDesc_client argp)) < 32 \<longrightarrow>
      (\<exists>st. vmwopencl_surfacealloc_1 b cl argp s = Inr (Some st, argp, s) \<and> SurfaceAllocateStatus_status st = VMACCEL_RESOURCE_UNAVAILABLE)) \<and>
    (\<forall>argp. active (queueIds s) (CLQueueId_id (CLQueueAllocateDesc_client argp)) \<and>
        unat (CLQueueId_cid (CLQueueAllocateDesc_client argp)) < 32 \<longrightarrow>
      (\<exists>st. vmwopencl_queuealloc_1 cl calloc_ok argp s = Inr (Some st, argp, s) \<and> QueueStatus_status st = VMACCEL_RESOURCE_UNAVAILABLE)) \<and>
    (\<forall>argp. active (kernelIds s) (CLKernelId_id (CLKernelAllocateDesc_client argp)) \<and>
        unat (CLKernelId_cid (CLKernelAllocateDesc_client argp)) < 32 \<and> unat (CLKernelAllocateDesc_subDevice argp) < 32 \<longrightarrow>
      (\<exists>st. vmwopencl_kernelalloc_1 b cl argp s = Inr (Some st, argp, s) \<and> CLKernelAllocateStatus_status st = VMACCEL_RESOURCE_UNAVAILABLE))"
proof -
  obtain cs where cs: "contexts s = Live cs" "length cs = 32" "\<forall>c\<in>set cs. context_ok c"
    using backend_okD(1) [OF assms] by (auto simp: table_ok_def split: c_ptr.splits)
  have read: "ptr_read (contexts s) cid = Inr (cs ! unat cid)" if "unat cid < 32" for cid
    using that cs by (simp add: ptr_read_def)
  have dev: "cread (context_deviceIds (cs ! i)) j = Inr (context_deviceIds (cs ! i) ! j)" if "i < 32" "j < 32" for i j
    using that cs by (simp add: context_ok_def)
  show ?thesis
    using active_eq [OF backend_okD(2) [OF assms]] active_eq [OF backend_okD(4) [OF assms]]
      active_eq [OF backend_okD(6) [OF assms]] active_eq [OF backend_okD(8) [OF assms]]
    by (simp add: vmwopencl_contextalloc_1_def vmwopencl_surfacealloc_1_def vmwopencl_queuealloc_1_def
        vmwopencl_kernelalloc_1_def Let_def read dev)
qed

theorem allocation_refuses_used_ids_witness:
  "backend_ok example_backend \<and>
   (\<exists>st. vmwopencl_contextalloc_1 example_cl zero_VMCLContextAllocateDesc example_backend = Inr (Some st, zero_VMCLContextAllocateDesc, example_backend) \<and>
     CLContextAllocateStatus_status st = VMACCEL_RESOURCE_UNAVAILABLE)"
  using allocation_refuses_used_ids [OF example_ok, of example_cl example_build calloc_finds] example_ok
  by (simp add: zero_VMCLContextAllocateDesc_def)

subsection \<open>Kernels and versions\<close>

text \<open>C34: A request for a kernel in OpenCL C 2.0, in OpenCL C++, or in SPIR-V 1.1 or 1.2 aborts the
  server, whatever the platform is: those languages are tied to a minor version of at least 2, and
  no context has one with a major version of at least 2.\<close>

theorem newer_kernel_languages_abort:
  assumes "backend_ok s" and "unat (CLKernelId_cid (CLKernelAllocateDesc_client argp)) < 32"
    and "unat (CLKernelAllocateDesc_subDevice argp) < 32" and "\<not> active (kernelIds s) (CLKernelId_id (CLKernelAllocateDesc_client argp))"
    and "CLKernelAllocateDesc_language argp \<in> {VMCL_OPENCL_C_2_0, VMCL_OPENCL_CPP_1_0, VMCL_SPIRV_1_1, VMCL_SPIRV_1_2}"
  shows "vmwopencl_kernelalloc_1 b cl argp s = Inl AssertFailed"
proof -
  obtain cx where cx: "ptr_read (contexts s) (CLKernelId_cid (CLKernelAllocateDesc_client argp)) = Inr cx" "context_ok cx"
    using backend_okD(1) [OF assms(1)] assms(2) by (auto simp: table_ok_def ptr_read_def split: c_ptr.splits)
  have "\<not> (2 \<le> context_majorVersion cx \<and> 2 \<le> context_minorVersion cx)" using cx(2) by (auto simp: context_ok_def)
  moreover have "CLKernelAllocateDesc_language argp \<notin> {VMCL_OPENCL_C_1_0, VMCL_OPENCL_C_1_1, VMCL_OPENCL_C_1_2, VMCL_SPIRV_1_0}"
    using assms(5) by (elim insertE emptyE) simp_all
  ultimately have "create_program b cl cx argp d = Inl AssertFailed" for d by (auto simp: create_program_def Let_def)
  with cx assms(3,4) active_eq [OF backend_okD(8) [OF assms(1)]] show ?thesis
    by (simp add: vmwopencl_kernelalloc_1_def Let_def context_ok_def)
qed

theorem newer_kernel_languages_abort_witness:
  "vmwopencl_kernelalloc_1 example_build example_cl example_kernel example_backend = Inl AssertFailed"
  by (rule newer_kernel_languages_abort [OF example_ok])
    (simp_all add: example_kernel_def zero_VMCLKernelAllocateDesc_def zero_VMCLKernelId_def)

lemma try_platform_caps:
  "cpost (\<lambda>(ccaps, stop, l, d). stop \<noteq> None \<longrightarrow> ccaps AND 28 = 28) (try_platform cl argp p ccaps l d)"
proof -
  have "(c OR 28) AND 28 = (28 :: u32)" for c
    by (rule bit_word_eqI) (simp only: bit_and_iff bit_or_iff, blast)
  then have w: "((c OR 4) OR (8 OR 16)) AND 28 = (28 :: u32)" for c by (simp add: or.assoc)
  show ?thesis unfolding try_platform_def Let_def
    by (rule cpost_shape cpost_intros | simp only: w prod.case simp_thms | simp; fail)+
qed

lemma platform_loop_caps:
  "cpost (\<lambda>(ccaps, stop, l, d). stop \<noteq> None \<longrightarrow> ccaps AND 28 = 28) (platform_loop cl argp ps is ccaps l d)"
proof (induction "is" arbitrary: ccaps l d)
  case (Cons i "is")
  show ?case
    by (simp only: platform_loop.simps, rule cpost_bind_self, rule cpost_bind [OF try_platform_caps]) (rule cpost_intros Cons.IH | auto; fail)+
qed (simp add: cpost_def)

text \<open>C35: The capabilities a new context reports contain SPIR-V 1.0, 1.1 and 1.2, whatever the version
  of its platform is: they are added when the caller does not require them, not when the platform
  has them.\<close>

theorem contexts_report_spirv:
  assumes "vmwopencl_contextalloc_1 cl argp s = Inr (Some st, argp', s')"
    and "CLContextAllocateStatus_status st = VMACCEL_SUCCESS"
  shows "CLContextAllocateStatus_caps st AND (VMCL_SPIRV_1_0_CAP OR VMCL_SPIRV_1_1_CAP OR VMCL_SPIRV_1_2_CAP) =
    VMCL_SPIRV_1_0_CAP OR VMCL_SPIRV_1_1_CAP OR VMCL_SPIRV_1_2_CAP"
proof -
  have "cpost (\<lambda>(ret, argp', s'). \<forall>st. ret = Some st \<and> CLContextAllocateStatus_status st = VMACCEL_SUCCESS \<longrightarrow>
      CLContextAllocateStatus_caps st AND 28 = 28) (vmwopencl_contextalloc_1 cl argp s)"
    unfolding vmwopencl_contextalloc_1_def Let_def
    by (rule cpost_shape cpost_bind [OF platform_loop_caps] cpost_intros | assumption | simp; fail | auto; fail)+
  from cpostD [OF this assms(1)] assms(2) show ?thesis by simp
qed

theorem contexts_report_spirv_witness:
  "\<exists>st s. vmwopencl_contextalloc_1 example_cl example_context example_backend = Inr (Some st, example_context, s) \<and>
     CLContextAllocateStatus_caps st AND (VMCL_SPIRV_1_0_CAP OR VMCL_SPIRV_1_1_CAP OR VMCL_SPIRV_1_2_CAP) =
       VMCL_SPIRV_1_0_CAP OR VMCL_SPIRV_1_1_CAP OR VMCL_SPIRV_1_2_CAP"
proof -
  obtain st s where 1: "vmwopencl_contextalloc_1 example_cl example_context example_backend = Inr (Some st, example_context, s)"
    and 2: "CLContextAllocateStatus_status st = VMACCEL_SUCCESS" using example_contextalloc by blast
  from contexts_report_spirv [OF 1 2] 1 show ?thesis by blast
qed

subsection \<open>Locks\<close>

lemma allocated_ready:
  assumes "backend_ok s" and "active (surfaceIds s) sid"
  obtains x where "ready sid 0 x s"
  using recursive_ready [OF backend_okD(9) [OF assms]] by blast

lemma queue_read:
  assumes "backend_ok s" and "unat qid < 32"
  obtains q where "ptr_read (queues s) qid = Inr q"
  using backend_okD(5) [OF assms(1)] assms(2) by (auto simp: table_ok_def ptr_read_def split: c_ptr.splits)



subsection \<open>Uploads and downloads\<close>

lemma imagedownload_returns:
  assumes "vmwopencl_imagedownload_1 cl calloc_ok argp s = Inr r"
  obtains q x where "ptr_read (queues s) (CLQueueId_id (CLImageDownloadOp_queue argp)) = Inr q"
    and "ready (SurfaceId_id (CLSurfaceId_accel (CLImageDownloadOp_img argp)))
      (SurfaceId_instance (CLSurfaceId_accel (CLImageDownloadOp_img argp))) x s"
proof -
  from assms obtain q s' where "ptr_read (queues s) (CLQueueId_id (CLImageDownloadOp_queue argp)) = Inr q"
    and "lock_both (SurfaceId_id (CLSurfaceId_accel (CLImageDownloadOp_img argp)))
      (SurfaceId_instance (CLSurfaceId_accel (CLImageDownloadOp_img argp))) s = Inr s'"
    by (simp add: vmwopencl_imagedownload_1_def Let_def cbind_eq_Inr) blast
  with that lock_both_cases show ?thesis by metis
qed

lemma host_span_ok: "host_span n p = Inr u \<Longrightarrow> \<exists>bs. p = Some bs \<and> unat n \<le> length bs"
  by (auto simp: host_span_def split: option.splits if_splits)

lemma upload_succeeds:
  assumes "vmwopencl_imageupload_1 cl up s = Inr (Some st, up', s1)" and "Status_status st = VMACCEL_SUCCESS"
  obtains q x bs d where "ptr_read (queues s) (CLQueueId_id (CLImageUploadOp_queue up)) = Inr q"
    and "ready (SurfaceId_id (CLSurfaceId_accel (CLImageUploadOp_img up))) (SurfaceId_instance (CLSurfaceId_accel (CLImageUploadOp_img up))) x s"
    and "vec_val (ImageTransferOp_ptr (CLImageUploadOp_op up)) = Some bs"
    and "unat (Coordinate3DUINT_x (SurfaceRegion_size (ImageTransferOp_imgRegion (CLImageUploadOp_op up)))) \<le> length bs"
    and "clEnqueueWriteBuffer cl (queue_queue q) (inst_mem (surface_inst x ! unat (SurfaceId_instance (CLSurfaceId_accel (CLImageUploadOp_img up))))) True
      (Coordinate3DUINT_x (SurfaceRegion_coord (ImageTransferOp_imgRegion (CLImageUploadOp_op up))))
      (Coordinate3DUINT_x (SurfaceRegion_size (ImageTransferOp_imgRegion (CLImageUploadOp_op up)))) (Some bs) (runtime s) = (CL_SUCCESS, d)"
    and "s1 = with_surface (SurfaceId_id (CLSurfaceId_accel (CLImageUploadOp_img up)))
      (set_inst (SurfaceId_instance (CLSurfaceId_accel (CLImageUploadOp_img up)))
        ((surface_inst x ! unat (SurfaceId_instance (CLSurfaceId_accel (CLImageUploadOp_img up))))
          \<lparr>inst_generation := SurfaceId_generation (CLSurfaceId_accel (CLImageUploadOp_img up))\<rparr>) x)
      (s\<lparr>runtime := d, upload_result := zero_VMAccelStatus\<rparr>)"
    and "st = zero_VMAccelStatus" and "up' = up"
proof -
  obtain q x where q: "ptr_read (queues s) (CLQueueId_id (CLImageUploadOp_queue up)) = Inr q"
    and x: "ready (SurfaceId_id (CLSurfaceId_accel (CLImageUploadOp_img up))) (SurfaceId_instance (CLSurfaceId_accel (CLImageUploadOp_img up))) x s"
    using assms(1) by (rule imageupload_aborts)
  have "upload_ref cl up q x s = Inr (Some st, up', s1)" using assms(1) by (simp add: imageupload_eq [OF q x])
  with assms(2) q x show ?thesis
    unfolding upload_ref_def Let_def
    by (auto split: prod.splits if_splits simp: cbind_eq_Inr dest!: host_span_ok intro: that)
qed

lemma download_ref_success:
  assumes "download_ref cl calloc_ok dn q x s = Inr (Some ds, dn', s2)" and "DownloadStatus_status ds = VMACCEL_SUCCESS"
  obtains bs written d where
    "clEnqueueReadBuffer cl (queue_queue q) (inst_mem (surface_inst x ! unat (SurfaceId_instance (CLSurfaceId_accel (CLImageDownloadOp_img dn)))))
      (CLImageDownloadOp_mode dn = VMACCEL_SURFACE_READ_SYNCHRONOUS)
      (Coordinate3DUINT_x (SurfaceRegion_coord (ImageTransferOp_imgRegion (CLImageDownloadOp_op dn))))
      (Coordinate3DUINT_x (SurfaceRegion_size (ImageTransferOp_imgRegion (CLImageDownloadOp_op dn)))) (Some bs) (runtime s) = (CL_SUCCESS, written, d)"
    and "ds = zero_VMAccelDownloadStatus\<lparr>DownloadStatus_ptr :=
      (let sz = Coordinate3DUINT_x (SurfaceRegion_size (ImageTransferOp_imgRegion (CLImageDownloadOp_op dn)))
       in Vec sz (Some (take (unat sz) (overwrite bs (take (unat sz) written)))))\<rparr>"
    and "vec_val (ImageTransferOp_ptr (CLImageDownloadOp_op dn)) = None \<Longrightarrow> dn' = dn"
  using assms unfolding download_ref_def Let_def
  by (auto split: prod.splits if_splits simp: cbind_eq_Inr dest!: host_span_ok)

lemma upload_then_download:
  assumes "write_then_read cl"
    and "vmwopencl_imageupload_1 cl up s = Inr (Some st, up', s1)" and "Status_status st = VMACCEL_SUCCESS"
    and "vmwopencl_imagedownload_1 cl calloc_ok dn s1 = Inr (Some ds, dn', s2)" and "DownloadStatus_status ds = VMACCEL_SUCCESS"
    and "CLImageDownloadOp_img dn = CLImageUploadOp_img up" and "CLImageDownloadOp_queue dn = CLImageUploadOp_queue up"
    and "ImageTransferOp_imgRegion (CLImageDownloadOp_op dn) = ImageTransferOp_imgRegion (CLImageUploadOp_op up)"
    and "CLImageDownloadOp_mode dn = VMACCEL_SURFACE_READ_SYNCHRONOUS"
  shows "\<exists>bs. vec_val (ImageTransferOp_ptr (CLImageUploadOp_op up)) = Some bs \<and>
    unat (Coordinate3DUINT_x (SurfaceRegion_size (ImageTransferOp_imgRegion (CLImageUploadOp_op up)))) \<le> length bs \<and>
    ds = zero_VMAccelDownloadStatus\<lparr>DownloadStatus_ptr :=
      (let sz = Coordinate3DUINT_x (SurfaceRegion_size (ImageTransferOp_imgRegion (CLImageUploadOp_op up)))
       in Vec sz (Some (take (unat sz) bs)))\<rparr>"
    and "vec_val (ImageTransferOp_ptr (CLImageDownloadOp_op dn)) = None \<Longrightarrow> dn' = dn"
proof -
  let ?img = "CLSurfaceId_accel (CLImageUploadOp_img up)" and ?region = "ImageTransferOp_imgRegion (CLImageUploadOp_op up)"
  let ?sid = "SurfaceId_id ?img" and ?i = "SurfaceId_instance ?img" and ?n = "Coordinate3DUINT_x (SurfaceRegion_size ?region)"
  obtain q x bs d where q: "ptr_read (queues s) (CLQueueId_id (CLImageUploadOp_queue up)) = Inr q" and x: "ready ?sid ?i x s"
    and bs: "vec_val (ImageTransferOp_ptr (CLImageUploadOp_op up)) = Some bs" "unat ?n \<le> length bs"
    and w: "clEnqueueWriteBuffer cl (queue_queue q) (inst_mem (surface_inst x ! unat ?i)) True
      (Coordinate3DUINT_x (SurfaceRegion_coord ?region)) ?n (Some bs) (runtime s) = (CL_SUCCESS, d)"
    and s1: "s1 = with_surface ?sid (set_inst ?i ((surface_inst x ! unat ?i)\<lparr>inst_generation := SurfaceId_generation ?img\<rparr>) x)
      (s\<lparr>runtime := d, upload_result := zero_VMAccelStatus\<rparr>)"
    using assms(2,3) by (rule upload_succeeds)
  let ?x = "set_inst ?i ((surface_inst x ! unat ?i)\<lparr>inst_generation := SurfaceId_generation ?img\<rparr>) x"
  note r = readyD [OF x]
  obtain q1 x1 where q1: "ptr_read (queues s1) (CLQueueId_id (CLImageDownloadOp_queue dn)) = Inr q1" and x1: "ready ?sid ?i x1 s1"
    using assms(4) assms(6) by (elim imagedownload_returns) simp
  have qq: "q1 = q" using q q1 assms(7) by (simp add: s1)
  have xx: "x1 = ?x" using readyD(1) [OF x1] r(1) by (simp add: s1)
  have rt: "runtime s1 = d" by (simp add: s1)
  have "download_ref cl calloc_ok dn q ?x s1 = Inr (Some ds, dn', s2)"
    using assms(4) imagedownload_eq [of s1 dn q1 x1 cl calloc_ok] q1 x1 assms(6) by (simp add: qq xx)
  then obtain dst w' d' where rd: "clEnqueueReadBuffer cl (queue_queue q) (inst_mem (surface_inst x ! unat ?i)) True
      (Coordinate3DUINT_x (SurfaceRegion_coord ?region)) ?n (Some dst) d = (CL_SUCCESS, w', d')"
    and ds: "ds = zero_VMAccelDownloadStatus\<lparr>DownloadStatus_ptr := Vec ?n (Some (take (unat ?n) (overwrite dst (take (unat ?n) w'))))\<rparr>"
    and dn: "vec_val (ImageTransferOp_ptr (CLImageDownloadOp_op dn)) = None \<Longrightarrow> dn' = dn"
    using assms(5) r(2) by (elim download_ref_success) (simp_all add: assms(6,8,9) rt Let_def)
  have "w' = take (unat ?n) bs" using assms(1) bs(2) w rd unfolding write_then_read_def by blast
  with bs ds show "\<exists>bs. vec_val (ImageTransferOp_ptr (CLImageUploadOp_op up)) = Some bs \<and> unat ?n \<le> length bs \<and>
      ds = zero_VMAccelDownloadStatus\<lparr>DownloadStatus_ptr := (let sz = ?n in Vec sz (Some (take (unat sz) bs)))\<rparr>"
    by (simp add: overwrite_def Let_def)
  show "vec_val (ImageTransferOp_ptr (CLImageDownloadOp_op dn)) = None \<Longrightarrow> dn' = dn" by (rule dn)
qed

lemma calls_procedure_remote:
  assumes "calls_procedure oka enca okr encr svc call dispatch" and "\<forall>l. w_mutex w l = Unlocked" and "oka v" and "length (enca v) \<le> room"
    and "svc v True (w_remote w) = Inr (Some r, v', s')" and "oka v'" and "okr r" and "length (encr r) \<le> reply_room"
  shows "call v (Some (connect room reply_room h h' dispatch)) w = Inr (Some r, v, w\<lparr>w_remote := s'\<rparr>)"
  using assms unfolding calls_procedure_def by blast

lemma upload_calls:
  "calls_procedure ok_VMCLImageUploadOp enc_VMCLImageUploadOp ok_VMAccelReturnStatus enc_VMAccelReturnStatus
     (vmcl_imageupload_2_svc ops) (vmcl_imageupload_2 both_modes ops) (vmcl_1 ops)"
  "calls_procedure ok_VMCLImageDownloadOp enc_VMCLImageDownloadOp ok_VMAccelDownloadReturnStatus enc_VMAccelDownloadReturnStatus
     (vmcl_imagedownload_2_svc ops) (vmcl_imagedownload_2 both_modes ops) (vmcl_1 ops)"
  unfolding vmcl_imageupload_2_def vmcl_imagedownload_2_def by (rule vmcl_calls; simp add: vmcl_1_def)+



lemma download_ref_result: "cpost (\<lambda>(ret, argp, s'). ret = Some (download_result s')) (download_ref cl calloc_ok dn q x s)"
  unfolding download_ref_def Let_def by (rule cpost_shape cpost_intros | simp; fail)+



subsection \<open>Generations\<close>

lemma generation_with_surface:
  "has_inst sid i x s \<Longrightarrow> unat i < length (surface_inst x') \<Longrightarrow>
   generation sid i (with_surface sid x' s) = Inr (inst_generation (surface_inst x' ! unat i))"
  by (simp add: generation_def get_inst_def has_inst_def)

lemma surfacealloc_enters:
  assumes "vmwopencl_surfacealloc_1 b cl al s = Inr (Some st, al', s')" and "SurfaceAllocateStatus_status st = VMACCEL_SUCCESS"
  obtains d mem svm where "length mem = 1" and "length svm = 1"
    and "surface_enter (SurfaceId_id (CLSurfaceId_accel (CLSurfaceAllocateDesc_client al))) (CLSurfaceId_cid (CLSurfaceAllocateDesc_client al))
      (CLSurfaceAllocateDesc_desc al) mem svm (s\<lparr>runtime := d\<rparr>) = Inr s'"
proof -
  let ?enter = "\<lambda>d mem svm s'. surface_enter (SurfaceId_id (CLSurfaceId_accel (CLSurfaceAllocateDesc_client al)))
    (CLSurfaceId_cid (CLSurfaceAllocateDesc_client al)) (CLSurfaceAllocateDesc_desc al) mem svm (s\<lparr>runtime := d\<rparr>) = Inr s'"
  have fin: "\<exists>d mem. length mem = Suc 0 \<and> (\<exists>svm. length svm = Suc 0 \<and> ?enter d mem svm s1)"
    if "surface_objects b cl desc cx d0 = Inr (Some hs, d)" and "?enter d [0] hs s1 \<or> ?enter d hs [0] s1" for hs d s1 desc cx d0
  proof -
    have "length hs = Suc 0" "length [0 :: u64] = Suc 0" using surface_objects_length [OF that(1)] by simp_all
    with that(2) show ?thesis by blast
  qed
  note fin1 = fin [OF _ disjI1] and fin2 = fin [OF _ disjI2]
  have "cpost (\<lambda>(ret, al', s'). \<forall>st. ret = Some st \<and> SurfaceAllocateStatus_status st = VMACCEL_SUCCESS \<longrightarrow>
      (\<exists>d mem svm. length mem = 1 \<and> length svm = 1 \<and> ?enter d mem svm s')) (vmwopencl_surfacealloc_1 b cl al s)"
    unfolding vmwopencl_surfacealloc_1_def Let_def
    by (rule cpost_shape cpost_intros | simp; fail | (auto intro: fin1 fin2)[1])+
  from cpostD [OF this assms(1)] assms(2) that show ?thesis by auto
qed

text \<open>C33: A surface that is allocated need not start at generation 0.  An empty unmap of an identifier
  that is not in use succeeds and stores the generation it names, and the allocation of that
  identifier keeps it, so that uploads with a smaller generation are refused.\<close>

theorem unmap_of_free_surface_sets_generation:
  assumes "backend_ok s" and "get_surface sid s = Inr zero_VMWOpenCLSurface" and "unat (CLQueueId_id (CLSurfaceUnmapOp_queue um)) < 32"
    and "SurfaceUnmapOp_surf (CLSurfaceUnmapOp_op um) = surf" and "SurfaceId_id surf = sid" and "SurfaceId_instance surf = 0"
    and "SurfaceUnmapOp_ptr (CLSurfaceUnmapOp_op um) = Vec 0 None"
  shows "\<exists>um' s1. vmwopencl_surfaceunmap_1 cl um s = Inr (Some zero_VMAccelStatus, um', s1) \<and>
    (\<forall>al st al' s2. vmwopencl_surfacealloc_1 b cl al s1 = Inr (Some st, al', s2) \<and> SurfaceAllocateStatus_status st = VMACCEL_SUCCESS \<and>
       SurfaceId_id (CLSurfaceId_accel (CLSurfaceAllocateDesc_client al)) = sid \<longrightarrow>
       generation sid 0 s2 = Inr (SurfaceId_generation surf))"
proof -
  let ?x = "zero_VMWOpenCLSurface"
  obtain q where q: "ptr_read (queues s) (CLQueueId_id (CLSurfaceUnmapOp_queue um)) = Inr q" using assms(1,3) by (rule queue_read)
  have h: "has_inst sid 0 ?x s" using assms(2) by (simp add: has_inst_def zero_VMWOpenCLSurface_def)
  have l: "lockable (surface_mutex ?x)" by (simp add: lockable_def zero_VMWOpenCLSurface_def zero_mutex_def)
  let ?y = "(surface_inst ?x ! 0)\<lparr>inst_mapping := \<lparr>mapping_ptr = 0, mapping_refCount = - 1\<rparr>, inst_generation := SurfaceId_generation surf\<rparr>"
  let ?s1 = "with_surface sid (set_inst 0 ?y ?x) s"
  have um: "\<exists>um'. vmwopencl_surfaceunmap_1 cl um s = Inr (Some zero_VMAccelStatus, um', ?s1)"
    using surfaceunmap_eq [of s um q ?x cl] q h l assms(4-7)
    by (simp add: unmap_ref_def Let_def copy_to_mapping_def zero_VMWOpenCLSurface_def zero_VMWOpenCLSurfaceInstance_def zero_mutex_def mutex_unlock_def)
  have "generation sid 0 s2 = Inr (SurfaceId_generation surf)"
    if al: "vmwopencl_surfacealloc_1 b cl al ?s1 = Inr (Some st, al', s2)" "SurfaceAllocateStatus_status st = VMACCEL_SUCCESS"
      "SurfaceId_id (CLSurfaceId_accel (CLSurfaceAllocateDesc_client al)) = sid" for al st al' s2
  proof -
    obtain d mem svm where e: "length mem = 1" "length svm = 1"
      "surface_enter sid (CLSurfaceId_cid (CLSurfaceAllocateDesc_client al)) (CLSurfaceAllocateDesc_desc al) mem svm (?s1\<lparr>runtime := d\<rparr>) = Inr s2"
      using surfacealloc_enters [OF al(1,2), unfolded al(3)] by blast
    obtain x p where x: "get_surface sid (?s1\<lparr>runtime := d\<rparr>) = Inr x"
      and s2: "s2 = with_surface sid (entered (CLSurfaceId_cid (CLSurfaceAllocateDesc_client al)) (CLSurfaceAllocateDesc_desc al) mem svm x)
        (?s1\<lparr>runtime := d, surfaceIds := p\<rparr>)"
      using e(3) by (rule surface_enter_cases) auto
    have "x = set_inst 0 ?y ?x" using x assms(2) by simp
    with e(1,2) assms(2) show ?thesis
      by (simp add: s2 generation_def get_inst_def entered_def new_instance_def set_inst_def zero_VMWOpenCLSurface_def)
  qed
  with um show ?thesis by blast
qed

theorem unmap_of_free_surface_sets_generation_witness:
  "\<exists>um' s1. vmwopencl_surfaceunmap_1 example_cl
     (zero_VMCLSurfaceUnmapOp\<lparr>CLSurfaceUnmapOp_op := zero_VMAccelSurfaceUnmapOp\<lparr>SurfaceUnmapOp_surf := zero_VMAccelSurfaceId\<lparr>SurfaceId_id := 1, SurfaceId_generation := 99\<rparr>\<rparr>\<rparr>)
     example_backend = Inr (Some zero_VMAccelStatus, um', s1) \<and>
    (\<forall>al st al' s2. vmwopencl_surfacealloc_1 example_build example_cl al s1 = Inr (Some st, al', s2) \<and> SurfaceAllocateStatus_status st = VMACCEL_SUCCESS \<and>
       SurfaceId_id (CLSurfaceId_accel (CLSurfaceAllocateDesc_client al)) = 1 \<longrightarrow> generation 1 0 s2 = Inr 99)"
  using unmap_of_free_surface_sets_generation [OF example_ok, of 1
    "zero_VMCLSurfaceUnmapOp\<lparr>CLSurfaceUnmapOp_op := zero_VMAccelSurfaceUnmapOp\<lparr>SurfaceUnmapOp_surf := zero_VMAccelSurfaceId\<lparr>SurfaceId_id := 1, SurfaceId_generation := 99\<rparr>\<rparr>\<rparr>"
    "zero_VMAccelSurfaceId\<lparr>SurfaceId_id := 1, SurfaceId_generation := 99\<rparr>" example_cl example_build]
  by (simp add: zero_VMCLSurfaceUnmapOp_def zero_VMAccelSurfaceUnmapOp_def zero_VMAccelSurfaceId_def zero_VMCLQueueId_def)

subsection \<open>Reported capacity\<close>

lemma ucast_div_1000:
  fixes v :: u64
  shows "unat (ucast (v div 1000) :: u32) = unat v div 1000 mod 2 ^ 32"
  by (simp add: unsigned_ucast_eq take_bit_eq_mod unat_div)



end
