(* ===== verification/Spec2Isabelle.thy ===== *)
theory Spec2Isabelle
  imports Manager_Rpc Vmwopencl_Props
begin

section \<open>Verification of vmaccel\<close>

text \<open>
  vmaccel offers accelerators (GPUs, FPGAs, CPUs) to programs on other hosts.  A manager keeps
  the accelerators that registered with it and lends parts of them; an accelerator runs a compute
  service, \<^verbatim>\<open>VMCL\<close>, whose requests a backend carries out with the OpenCL library of the host; a
  program reaches both through remote procedure calls, or, in local mode, calls the procedures of
  the compute service in its own process.

  \<^bold>\<open>The parts, and the theories that model them.\<close>  Names of definitions are those of the C and C++
  code; a \<^verbatim>\<open>struct\<close> or class is a record, a \<^verbatim>\<open>uint32\<close> a 32-bit word.

  \<^item> \<^emph>\<open>Prelude.\<close>  \<open>Accel_Prelude\<close> has the machine types, the type \<open>'a cres\<close> of a call that may
    fail to return (a failed \<^verbatim>\<open>assert\<close>, an access out of bounds, a null or dangling pointer, a
    wait that never ends, \<^verbatim>\<open>exit\<close>) and the lemmas on words and lists that the components share.
    \<open>C_Post\<close> has the rules by which invariants of such calls are proved along the code.

  \<^item> \<^emph>\<open>Utilities\<close> (\<^verbatim>\<open>src/common/src/vmaccel_utils.c\<close>).  \<open>Bit_Mask\<close>: the halving searches of a mask.
    \<open>Identifier_DB\<close>: the bitmap of identifiers, all operations.  The locales \<open>id_set\<close>, \<open>id_alloc\<close>
    and \<open>id_acquire\<close> are its two disciplines of use, as a bounded set; both are interpreted on the
    operations of the bitmap.  The lemmas: each operation is the operation on the set of
    identifiers in use, range operations take and release exactly their range, and where the
    counter of free identifiers and the bitmap part.

  \<^item> \<^emph>\<open>Wire protocol\<close> (\<^verbatim>\<open>src/common/inc/vmaccel_rpc.h\<close>, \<^verbatim>\<open>vmcl_rpc.h\<close> and the two
    \<^verbatim>\<open>*_rpc_xdr.c\<close>).  \<open>Xdr_Runtime\<close> models the \<^verbatim>\<open>xdr(3)\<close> primitives, \<open>Rpc_Types\<close> and \<open>Vmcl_Types\<close> the
    messages, \<open>Accel_Xdr\<close> and \<open>Vmcl_Xdr\<close> the 93 procedures with their encode, decode, free and
    inline branches.  \<open>Xdr_Codec\<close> has the contract, the locale \<open>xdr_codec\<close>, assembled from
    \<open>xdr_encoder\<close>, \<open>xdr_decoder\<close> and \<open>xdr_freer\<close>, and the rules that compose it; every message
    type is an interpretation.  The lemmas: exact encoding, round trips, refusal of truncated input, safety on
    arbitrary bytes, complete release of memory.

  \<^item> \<^emph>\<open>Remote procedure calls\<close> (\<^verbatim>\<open>*_clnt.c\<close>, \<^verbatim>\<open>*_svc.c\<close>, \<^verbatim>\<open>*_server.c\<close> of
    \<^verbatim>\<open>src/accelerators/vmaccel/src\<close> and \<^verbatim>\<open>src/accelerators/vmcl/src\<close>, and \<^verbatim>\<open>src/common/inc/vmcl_ops.h\<close>).
    \<open>Rpc_Runtime\<close> models what the stubs and the dispatch routines use of \<^verbatim>\<open>rpc(3)\<close> and of mutexes; the
    locale \<open>rpc_method\<close> puts two codecs together to one remote call.  \<open>Accel_Rpc\<close>, \<open>Vmcl_Rpc\<close> and
    \<open>Manager_Rpc\<close> are the three programs: stubs, dispatch routine and procedures.  The lemmas: a stub
    gives the answer of its procedure in local mode and over a connection, releases its mutex on
    every path, and the dispatch routine replies to whatever arrives.

  \<^item> \<^emph>\<open>Allocator and manager\<close> (\<^verbatim>\<open>src/common/inc/vmaccel_allocator.hpp\<close>, \<^verbatim>\<open>vmaccel_types_*.hpp\<close>,
    \<^verbatim>\<open>src/accelerators/vmaccel/src/vmaccel_manager.cpp\<close>).  \<open>Std_Multiset\<close> is the search tree of the
    C++ library, with its rebalancing as a parameter; \<open>Alloc_Types\<close> has the object types,
    \<open>Allocator\<close> the class, \<open>Manager\<close> the manager with its self-test at power-on.  \<open>Allocator_Inv\<close>
    states what an object type has to provide (locale \<open>alloc_type\<close>, extended by
    \<open>alloc_single\<close>) and proves the accounts of the allocator from it; \<open>Alloc_Instances\<close>
    interprets the locales on the two types the manager uses.  The lemmas: capacity is neither lost nor created in any
    reachable state, the outcome of each operation on every branch, and that a request that fits is
    granted.

  \<^item> \<^emph>\<open>OpenCL backend\<close> (\<^verbatim>\<open>src/backends/vmwopencl/src/vmwopencl_ops.c\<close>, \<^verbatim>\<open>vmwopencl_caps.h\<close>).
    \<open>Opencl_Api\<close> is the OpenCL library as a record of functions, a parameter of everything that
    follows; \<open>Opencl_Sim\<close> is one executable such library, for concrete instances.  \<open>Vmwopencl\<close> has the 20 operations
    over the static variables of the file.  \<open>Vmwopencl_Locks\<close> and \<open>Vmwopencl_Ref\<close> reduce the operations on a surface to
    functions without locks, \<open>Vmwopencl_Inv\<close> proves the invariant of the tables,
    \<open>Vmwopencl_Dispatch\<close> follows the argument loop of a kernel dispatch and its cleanup.
    \<open>Vmcl_Server\<close> is the contract of the compute service with a backend (locale \<open>vmcl_backend\<close>),
    \<open>Vmwopencl_Server\<close> its interpretation on the backend, and \<open>Vmwopencl_Props\<close> the composition: client stub,
    connection, dispatch routine, backend.

  \<^bold>\<open>State and effects.\<close>  An operation takes the state it can change and returns it; static results that the
    code does not clear are part of the state.  What a function leaves uninitialised, and the outcome of
    every allocation of memory, are parameters.  A mutex that is taken twice by its owner without
    being recursive is a wait that never ends.  One request is handled at a time, as the servers do.

  \<^bold>\<open>Recursion and bounds.\<close>  Every loop is a function that Isabelle proves total; no definition has
    fuel.  The loops over identifiers end because the index grows to the size of the
    database, the loops of the allocator recurse over the tree or a list, the decode of an array over its
    count.  The tables of the backend have 32 entries, as in the code.  The reverse traversal of a
    dispatch's arguments is over the index it stopped at.

  \<^bold>\<open>What is assumed.\<close>  Each hypothesis is in the statement that needs it: that the rebalancing of a
    search tree keeps the sequence of its elements; that an OpenCL read returns what an OpenCL write
    put there; that a message fits the transport.  Each property with a hypothesis is
    followed by an instance where it holds.

  \<^bold>\<open>Not modelled.\<close>
  \<^item> The data streams of \<^verbatim>\<open>vmaccel_stream.c\<close>: the threads and sockets that carry surface contents beside
    the remote calls.
  \<^item> The C++ client library (\<^verbatim>\<open>vmaccel.hpp\<close>, \<^verbatim>\<open>vmaccel_compute.hpp\<close>): templates over the client
    stubs, which are modelled.
  \<^item> The \<^verbatim>\<open>main\<close> functions of the servers, which open transports and read arguments, the log and
    statistics macros, and the registration helper, which enumerates network interfaces.
  \<^item> The callback service, whose procedures are empty, the sources of an older manager that no build
    file names, and the shader compiler service, a wrapper of a library that is not part of the sources.
  \<^item> Command line clients, examples and tests: they use the parts above.
  \<^item> Floating point: the protocol moves floats as bit patterns and nothing computes with them.
  \<^item> Interleavings of threads inside one server: the servers handle one request at a time.
\<close>

end
